(* ===== verification/Prelude.thy ===== *)
theory Prelude
  imports Main "HOL-Library.Word"
begin

text \<open>
  The shared base of the development: Go strings and integers printed in decimal, Go's
  error values, and the programs in which every handler of the two controllers is written.

  A handler is a function from a state to an outcome and a new state. The state is a record
  whose field \<open>calls\<close> lists, in order, every call the handler has made to the outside world
  (the API server, a MongoDB server, the event recorder); what the world answers is a
  parameter that may depend on the whole list of earlier calls. An outcome is a value, a Go
  panic, or the end of the process (\<open>klog.Fatalf\<close>); a Go \<open>error\<close> is an ordinary value
  (\<open>Inl\<close> of a sum).

  Three ways to reason: \<open>wp\<close> computes what must hold before a program for a postcondition to
  hold after it, \<open>keeps\<close> is its special case for invariants, \<open>emits\<close> says that every call a program makes satisfies a predicate. Their
  rules are collected in \<open>wp_simps\<close>, \<open>keeps_intros\<close> and \<open>emits_intros\<close>.
\<close>

named_theorems wp_simps "weakest preconditions of the program combinators"
named_theorems emits_intros "rules that bound the calls a program makes"
named_theorems keeps_intros "rules for invariants of programs"

section \<open>Strings\<close>

text \<open>Go's \<open>strings.Join\<close>, \<open>HasPrefix\<close>, \<open>IndexRune\<close> and \<open>LastIndex\<close> (of a one-byte separator).\<close>

fun str_join :: "string \<Rightarrow> string list \<Rightarrow> string" where
  "str_join sep [] = []"
| "str_join sep [x] = x"
| "str_join sep (x # y # xs) = x @ sep @ str_join sep (y # xs)"

fun has_prefix :: "string \<Rightarrow> string \<Rightarrow> bool" where
  "has_prefix xs [] = True"
| "has_prefix [] (y # ys) = False"
| "has_prefix (x # xs) (y # ys) = (x = y \<and> has_prefix xs ys)"

fun index_of :: "char \<Rightarrow> string \<Rightarrow> nat option" where
  "index_of c [] = None"
| "index_of c (x # xs) = (if x = c then Some 0 else map_option Suc (index_of c xs))"

fun last_index_of :: "char \<Rightarrow> string \<Rightarrow> nat option" where
  "last_index_of c [] = None"
| "last_index_of c (x # xs) =
     (case last_index_of c xs of
        Some i \<Rightarrow> Some (Suc i)
      | None \<Rightarrow> if x = c then Some 0 else None)"

lemma has_prefix_append: "has_prefix xs ys \<longleftrightarrow> (\<exists>zs. xs = ys @ zs)"
  by (induction xs ys rule: has_prefix.induct) auto

lemma last_index_of_None: "last_index_of c xs = None \<longleftrightarrow> c \<notin> set xs"
  by (induction xs) (auto split: option.splits)

lemma last_index_of_append_single [simp]:
  "c \<notin> set ys \<Longrightarrow> last_index_of c (xs @ c # ys) = Some (length xs)"
proof (induction xs)
  case Nil
  then have "last_index_of c ys = None" by (simp add: last_index_of_None)
  then show ?case by simp
next
  case (Cons x xs)
  then show ?case by simp
qed

lemma last_index_of_bound: "last_index_of c xs = Some i \<Longrightarrow> i < length xs"
  by (induction xs arbitrary: i) (auto split: option.splits if_splits)

text \<open>Decimal printing (\<open>%v\<close> and \<open>%d\<close> of an integer, \<open>strconv.Itoa\<close>).\<close>

definition digit_char :: "nat \<Rightarrow> char" where
  "digit_char d = ''0123456789'' ! d"

fun nat_digits :: "nat \<Rightarrow> string" where
  "nat_digits n =
     (if n < 10 then [digit_char n] else nat_digits (n div 10) @ [digit_char (n mod 10)])"

declare nat_digits.simps [simp del]

lemma nat_digits_small [simp]: "n < 10 \<Longrightarrow> nat_digits n = [digit_char n]"
  by (subst nat_digits.simps) simp

lemma nat_digits_large:
  "10 \<le> n \<Longrightarrow> nat_digits n = nat_digits (n div 10) @ [digit_char (n mod 10)]"
  by (subst nat_digits.simps) simp

definition itoa :: "int \<Rightarrow> string" where
  "itoa i = (if i < 0 then ''-'' @ nat_digits (nat (- i)) else nat_digits (nat i))"

lemma digit_char_inj:
  assumes "a < 10" "b < 10" "digit_char a = digit_char b"
  shows "a = b"
proof -
  have "distinct ''0123456789''" by simp
  with assms show ?thesis
    using nth_eq_iff_index_eq [of "''0123456789''" a b] by (simp add: digit_char_def)
qed

lemma digit_char_not_sep: "d < 10 \<Longrightarrow> digit_char d \<noteq> CHR ''-'' \<and> digit_char d \<noteq> CHR ''.''"
proof -
  assume "d < 10"
  then have "digit_char d \<in> set ''0123456789''"
    unfolding digit_char_def by (intro nth_mem) simp
  then show ?thesis by auto
qed

lemma nat_digits_chars: "c \<in> set (nat_digits n) \<Longrightarrow> \<exists>d < 10. c = digit_char d"
proof (induction n rule: nat_digits.induct)
  case (1 n)
  show ?case
  proof (cases "n < 10")
    case True
    with "1.prems" show ?thesis by auto
  next
    case False
    with "1.prems" consider "c \<in> set (nat_digits (n div 10))" | "c = digit_char (n mod 10)"
      by (auto simp: nat_digits_large)
    then show ?thesis
    proof cases
      case 1
      with False "1.IH" show ?thesis by simp
    next
      case 2
      then show ?thesis by (intro exI [of _ "n mod 10"]) simp
    qed
  qed
qed

lemma nat_digits_no_sep: "CHR ''-'' \<notin> set (nat_digits n)" "CHR ''.'' \<notin> set (nat_digits n)"
  using nat_digits_chars digit_char_not_sep by metis+

lemma nat_digits_nonempty [simp]: "nat_digits n \<noteq> []"
  by (cases "n < 10") (auto simp: nat_digits_large)

lemma nat_digits_single: "nat_digits n = [c] \<Longrightarrow> n < 10 \<and> c = digit_char n"
  by (cases "n < 10") (auto simp: nat_digits_large)

lemma nat_digits_inj: "nat_digits m = nat_digits n \<Longrightarrow> m = n"
proof (induction m arbitrary: n rule: nat_digits.induct)
  case (1 m)
  show ?case
  proof (cases "m < 10")
    case True
    with "1.prems" have "nat_digits n = [digit_char m]" by simp
    then have "n < 10 \<and> digit_char m = digit_char n" by (rule nat_digits_single)
    with True show ?thesis by (auto intro: digit_char_inj)
  next
    case False
    have "10 \<le> n"
    proof (rule ccontr)
      assume "\<not> 10 \<le> n"
      with "1.prems" have "nat_digits m = [digit_char n]" by simp
      with False show False using nat_digits_single by blast
    qed
    with False "1.prems" have eq: "nat_digits (m div 10) = nat_digits (n div 10)"
      and last: "digit_char (m mod 10) = digit_char (n mod 10)"
      by (auto simp: nat_digits_large)
    from False eq have "m div 10 = n div 10" using "1.IH" by blast
    moreover from last have "m mod 10 = n mod 10" by (intro digit_char_inj) auto
    ultimately show ?thesis by (metis div_mult_mod_eq)
  qed
qed

lemma itoa_inj: "0 \<le> i \<Longrightarrow> 0 \<le> j \<Longrightarrow> itoa i = itoa j \<Longrightarrow> i = j"
  by (auto simp: itoa_def dest!: nat_digits_inj)

lemma itoa_no_sep: "0 \<le> i \<Longrightarrow> CHR ''-'' \<notin> set (itoa i)" "0 \<le> i \<Longrightarrow> CHR ''.'' \<notin> set (itoa i)"
  by (simp_all add: itoa_def nat_digits_no_sep)

section \<open>Errors and outcomes\<close>

text \<open>
  A Go \<open>error\<close>. \<open>NotFound\<close> and \<open>AlreadyExists\<close> are the API errors that the code tells apart
  with \<open>kerr.IsNotFound\<close> and \<open>kerr.IsAlreadyExists\<close>; \<open>StsNotReady\<close> is the sentinel
  \<open>ErrStsNotReady\<close>, compared by identity; every other error is \<open>Err\<close> of its text.
\<close>

datatype gerr = NotFound string | AlreadyExists string | StsNotReady | Err string

fun error_text :: "gerr \<Rightarrow> string" where
  "error_text (NotFound m) = m"
| "error_text (AlreadyExists m) = m"
| "error_text StsNotReady = ''statefulSet is not updated yet''"
| "error_text (Err m) = m"

fun is_not_found :: "gerr \<Rightarrow> bool" where
  "is_not_found (NotFound m) = True"
| "is_not_found e = False"

fun is_already_exists :: "gerr \<Rightarrow> bool" where
  "is_already_exists (AlreadyExists m) = True"
| "is_already_exists e = False"

datatype crash = Panic string | Fatal string

datatype 'a outcome = Done 'a | Crash crash

section \<open>Programs\<close>

type_synonym ('s, 'a) prog = "'s \<Rightarrow> 'a outcome \<times> 's"

definition ret :: "'a \<Rightarrow> ('s, 'a) prog" where
  "ret a s = (Done a, s)"

definition bnd :: "('s, 'a) prog \<Rightarrow> ('a \<Rightarrow> ('s, 'b) prog) \<Rightarrow> ('s, 'b) prog" where
  "bnd m f s = (case m s of (Done a, t) \<Rightarrow> f a t | (Crash k, t) \<Rightarrow> (Crash k, t))"

text \<open>Go's \<open>x, err := m(); if err != nil { return err }; ...\<close>\<close>

definition bndE :: "('s, 'e + 'a) prog \<Rightarrow> ('a \<Rightarrow> ('s, 'e + 'b) prog) \<Rightarrow> ('s, 'e + 'b) prog" where
  "bndE m f = bnd m (\<lambda>r. case r of Inl e \<Rightarrow> ret (Inl e) | Inr a \<Rightarrow> f a)"

definition panic :: "string \<Rightarrow> ('s, 'a) prog" where
  "panic msg s = (Crash (Panic msg), s)"

definition fatal :: "string \<Rightarrow> ('s, 'a) prog" where
  "fatal msg s = (Crash (Fatal msg), s)"

definition gets :: "('s \<Rightarrow> 'a) \<Rightarrow> ('s, 'a) prog" where
  "gets f s = (Done (f s), s)"

definition update :: "('s \<Rightarrow> 's) \<Rightarrow> ('s, unit) prog" where
  "update f s = (Done (), f s)"

text \<open>Reading through a pointer: \<open>None\<close> is nil.\<close>

definition deref :: "'a option \<Rightarrow> ('s, 'a) prog" where
  "deref p = (case p of None \<Rightarrow> panic ''nil pointer dereference'' | Some a \<Rightarrow> ret a)"

text \<open>
  \<open>defer d\<close>: \<open>d\<close> runs when \<open>m\<close> has returned and when \<open>m\<close> panics, and not when the
  process ends (\<open>os.Exit\<close> runs no deferred call).
\<close>

definition with_defer :: "('s, 'a) prog \<Rightarrow> ('s, unit) prog \<Rightarrow> ('s, 'a) prog" where
  "with_defer m d s =
     (case m s of
        (Crash (Fatal msg), t) \<Rightarrow> (Crash (Fatal msg), t)
      | (r, t) \<Rightarrow> (case d t of (Done u, t') \<Rightarrow> (r, t') | (Crash k, t') \<Rightarrow> (Crash k, t')))"

text \<open>A \<open>for\<close> loop whose body returns an error ends with the first error.\<close>

fun for_each :: "'a list \<Rightarrow> ('a \<Rightarrow> ('s, 'e + unit) prog) \<Rightarrow> ('s, 'e + unit) prog" where
  "for_each [] f = ret (Inr ())"
| "for_each (x # xs) f = bndE (f x) (\<lambda>_. for_each xs f)"

text \<open>The same loop with an accumulator.\<close>

fun for_fold :: "'a list \<Rightarrow> 'b \<Rightarrow> ('b \<Rightarrow> 'a \<Rightarrow> ('s, 'e + 'b) prog) \<Rightarrow> ('s, 'e + 'b) prog" where
  "for_fold [] acc f = ret (Inr acc)"
| "for_fold (x # xs) acc f = bndE (f acc x) (\<lambda>acc'. for_fold xs acc' f)"

text \<open>\<open>for i := int32(0); i < n; i++\<close>: the values of \<open>i\<close> (none when \<open>n\<close> is not positive).\<close>

definition int_range :: "int \<Rightarrow> int list" where
  "int_range n = map int [0..<nat n]"

lemma set_int_range [simp]: "i \<in> set (int_range n) \<longleftrightarrow> 0 \<le> i \<and> i < n"
proof
  assume "0 \<le> i \<and> i < n"
  then have "nat i \<in> {0..<nat n}" and "i = int (nat i)" by auto
  then show "i \<in> set (int_range n)" unfolding int_range_def by (metis image_eqI set_map set_upt)
qed (auto simp: int_range_def)

lemma distinct_int_range [simp]: "distinct (int_range n)"
  by (simp add: int_range_def distinct_map)

lemma length_int_range [simp]: "length (int_range n) = nat n"
  by (simp add: int_range_def)

section \<open>The record of calls\<close>

record 'c trace =
  calls :: "'c list"

text \<open>
  One call to the outside: \<open>answer\<close> is what the world replies after the calls made so far,
  and the call is appended to the record.
\<close>

definition perform :: "('c list \<Rightarrow> 'r) \<Rightarrow> 'c \<Rightarrow> (('c, 'x) trace_scheme, 'r) prog" where
  "perform answer c s = (Done (answer (calls s)), s\<lparr>calls := calls s @ [c]\<rparr>)"

section \<open>Weakest preconditions\<close>

definition wp :: "('s, 'a) prog \<Rightarrow> ('a \<Rightarrow> 's \<Rightarrow> bool) \<Rightarrow> (crash \<Rightarrow> 's \<Rightarrow> bool) \<Rightarrow> 's \<Rightarrow> bool" where
  "wp m Q C s = (case m s of (Done a, t) \<Rightarrow> Q a t | (Crash k, t) \<Rightarrow> C k t)"

lemma wp_ret [wp_simps]: "wp (ret a) Q C s = Q a s"
  by (simp add: wp_def ret_def)

lemma wp_bnd [wp_simps]: "wp (bnd m f) Q C s = wp m (\<lambda>a. wp (f a) Q C) C s"
  by (simp add: wp_def bnd_def split: prod.splits outcome.splits)

lemma wp_bndE [wp_simps]:
  "wp (bndE m f) Q C s = wp m (\<lambda>r t. case r of Inl e \<Rightarrow> Q (Inl e) t | Inr a \<Rightarrow> wp (f a) Q C t) C s"
  unfolding bndE_def wp_bnd
  by (rule arg_cong [where f = "\<lambda>X. wp m X C s"]) (auto simp: fun_eq_iff wp_ret split: sum.split)

lemma wp_panic [wp_simps]: "wp (panic msg) Q C s = C (Panic msg) s"
  by (simp add: wp_def panic_def)

lemma wp_fatal [wp_simps]: "wp (fatal msg) Q C s = C (Fatal msg) s"
  by (simp add: wp_def fatal_def)

lemma wp_gets [wp_simps]: "wp (gets f) Q C s = Q (f s) s"
  by (simp add: wp_def gets_def)

lemma wp_update [wp_simps]: "wp (update f) Q C s = Q () (f s)"
  by (simp add: wp_def update_def)

lemma wp_deref [wp_simps]:
  "wp (deref p) Q C s =
     (case p of None \<Rightarrow> C (Panic ''nil pointer dereference'') s | Some a \<Rightarrow> Q a s)"
  by (simp add: deref_def wp_ret wp_panic split: option.split)

lemma wp_perform [wp_simps]:
  "wp (perform ans c) Q C s = Q (ans (calls s)) (s\<lparr>calls := calls s @ [c]\<rparr>)"
  by (simp add: wp_def perform_def)

lemma wp_with_defer [wp_simps]:
  "wp (with_defer m d) Q C s =
     wp m (\<lambda>a. wp d (\<lambda>_. Q a) C)
          (\<lambda>k t. case k of Panic msg \<Rightarrow> wp d (\<lambda>_. C k) C t | Fatal msg \<Rightarrow> C k t) s"
  by (simp add: wp_def with_defer_def split: prod.splits outcome.splits crash.splits)

lemma wp_if [wp_simps]: "wp (if b then m else n) Q C s = (if b then wp m Q C s else wp n Q C s)"
  by simp

lemma wp_sum [wp_simps]:
  "wp (case r of Inl e \<Rightarrow> f e | Inr a \<Rightarrow> g a) Q C s =
     (case r of Inl e \<Rightarrow> wp (f e) Q C s | Inr a \<Rightarrow> wp (g a) Q C s)"
  by (simp split: sum.split)

lemma wp_option [wp_simps]:
  "wp (case r of None \<Rightarrow> m | Some a \<Rightarrow> g a) Q C s =
     (case r of None \<Rightarrow> wp m Q C s | Some a \<Rightarrow> wp (g a) Q C s)"
  by (simp split: option.split)

lemma wp_prod [wp_simps]:
  "wp (case r of (a, b) \<Rightarrow> f a b) Q C s = (case r of (a, b) \<Rightarrow> wp (f a b) Q C s)"
  by (simp split: prod.split)

lemma wp_let [wp_simps]: "wp (Let v f) Q C s = wp (f v) Q C s"
  by simp

lemma wp_conseq:
  assumes "wp m Q C s"
    and "\<And>a t. Q a t \<Longrightarrow> Q' a t"
    and "\<And>k t. C k t \<Longrightarrow> C' k t"
  shows "wp m Q' C' s"
  using assms by (auto simp: wp_def split: prod.splits outcome.splits)

lemma wp_run: "m s = (Done a, t) \<Longrightarrow> wp m Q C s \<Longrightarrow> Q a t"
  by (simp add: wp_def)

lemma wp_conj:
  "wp m Q C s \<Longrightarrow> wp m R D s \<Longrightarrow> wp m (\<lambda>a t. Q a t \<and> R a t) (\<lambda>k t. C k t \<and> D k t) s"
  by (auto simp: wp_def split: prod.splits outcome.splits)

section \<open>Invariants\<close>

text \<open>\<open>keeps I m\<close>: \<open>m\<close> keeps \<open>I\<close>, also when it panics or ends the process.\<close>

definition keeps :: "('s \<Rightarrow> bool) \<Rightarrow> ('s, 'a) prog \<Rightarrow> bool" where
  "keeps I m \<longleftrightarrow> (\<forall>s. I s \<longrightarrow> wp m (\<lambda>_. I) (\<lambda>_. I) s)"

lemma keepsD: "keeps I m \<Longrightarrow> I s \<Longrightarrow> m s = (r, t) \<Longrightarrow> I t"
  by (cases r) (force simp: keeps_def wp_def)+

lemma keepsI: "(\<And>s. I s \<Longrightarrow> wp m (\<lambda>_. I) (\<lambda>_. I) s) \<Longrightarrow> keeps I m"
  by (simp add: keeps_def)

text \<open>The rules for composing the two: a step with its own postcondition, then an invariant.\<close>

lemma wp_bndE_then:
  assumes "wp m (\<lambda>r t. J t \<and> (\<forall>a. r = Inr a \<longrightarrow> I a t)) C s"
    and "\<And>a t. I a t \<Longrightarrow> wp (f a) Q C t"
    and "\<And>e t. J t \<Longrightarrow> Q (Inl e) t"
  shows "wp (bndE m f) Q C s"
  unfolding wp_bndE
  by (rule wp_conseq [OF assms(1)]) (auto simp: assms(2,3) split: sum.split)

lemma wp_keeps:
  assumes "keeps I m" and "I s" and "\<And>r t. I t \<Longrightarrow> Q r t" and "\<And>k t. I t \<Longrightarrow> C k t"
  shows "wp m Q C s"
  using assms by (auto simp: keeps_def intro: wp_conseq)

lemma keeps_ret [keeps_intros]: "keeps I (ret a)"
  by (simp add: keeps_def wp_ret)

lemma keeps_panic [keeps_intros]: "keeps I (panic msg)"
  by (simp add: keeps_def wp_panic)

lemma keeps_fatal [keeps_intros]: "keeps I (fatal msg)"
  by (simp add: keeps_def wp_fatal)

lemma keeps_gets [keeps_intros]: "keeps I (gets f)"
  by (simp add: keeps_def wp_gets)

lemma keeps_deref [keeps_intros]: "keeps I (deref p)"
  by (simp add: keeps_def wp_deref split: option.split)

lemma keeps_deref_then:
  "(\<And>a. p = Some a \<Longrightarrow> keeps I (f a)) \<Longrightarrow> keeps I (bnd (deref p) f)"
  by (cases p) (simp_all add: keeps_def wp_bnd wp_deref)

lemma keeps_update [keeps_intros]: "(\<And>s. I s \<Longrightarrow> I (f s)) \<Longrightarrow> keeps I (update f)"
  by (simp add: keeps_def wp_update)

lemma keeps_perform [keeps_intros]:
  "(\<And>s. I s \<Longrightarrow> I (s\<lparr>calls := calls s @ [c]\<rparr>)) \<Longrightarrow> keeps I (perform ans c)"
  by (simp add: keeps_def wp_perform)

lemma keeps_bnd [keeps_intros]:
  "keeps I m \<Longrightarrow> (\<And>a. keeps I (f a)) \<Longrightarrow> keeps I (bnd m f)"
  unfolding keeps_def wp_bnd by (blast intro: wp_conseq)

lemma keeps_bnd_gets: "(\<And>s. I s \<Longrightarrow> keeps I (f (g s))) \<Longrightarrow> keeps I (bnd (gets g) f)"
  by (simp add: keeps_def wp_bnd wp_gets)

lemma keeps_bndE_perform:
  "(\<And>s. I s \<Longrightarrow> I (s\<lparr>calls := calls s @ [c]\<rparr>)) \<Longrightarrow>
   (\<And>s a. I s \<Longrightarrow> ans (calls s) = Inr a \<Longrightarrow> keeps I (f a)) \<Longrightarrow>
   keeps I (bndE (perform ans c) f)"
  by (fastforce simp: keeps_def wp_bndE wp_perform split: sum.split)

lemma keeps_sum [keeps_intros]:
  "(\<And>e. r = Inl e \<Longrightarrow> keeps I (f e)) \<Longrightarrow> (\<And>a. r = Inr a \<Longrightarrow> keeps I (g a)) \<Longrightarrow>
   keeps I (case r of Inl e \<Rightarrow> f e | Inr a \<Rightarrow> g a)"
  by (simp split: sum.split)

lemma keeps_option [keeps_intros]:
  "(r = None \<Longrightarrow> keeps I m) \<Longrightarrow> (\<And>a. r = Some a \<Longrightarrow> keeps I (g a)) \<Longrightarrow>
   keeps I (case r of None \<Rightarrow> m | Some a \<Rightarrow> g a)"
  by (simp split: option.split)

lemma keeps_prod [keeps_intros]:
  "(\<And>a b. r = (a, b) \<Longrightarrow> keeps I (f a b)) \<Longrightarrow> keeps I (case r of (a, b) \<Rightarrow> f a b)"
  by (simp split: prod.split)

lemma keeps_if [keeps_intros]:
  "(b \<Longrightarrow> keeps I m) \<Longrightarrow> (\<not> b \<Longrightarrow> keeps I n) \<Longrightarrow> keeps I (if b then m else n)"
  by simp

lemma keeps_let [keeps_intros]: "keeps I (f v) \<Longrightarrow> keeps I (Let v f)"
  by simp

lemma keeps_bndE [keeps_intros]:
  "keeps I m \<Longrightarrow> (\<And>a. keeps I (f a)) \<Longrightarrow> keeps I (bndE m f)"
  unfolding bndE_def by (intro keeps_bnd keeps_sum keeps_ret)

lemma keeps_with_defer [keeps_intros]:
  assumes "keeps I m" and "keeps I d"
  shows "keeps I (with_defer m d)"
proof (rule keepsI)
  fix s
  assume "I s"
  with assms have "wp m (\<lambda>_. I) (\<lambda>_. I) s" by (simp add: keeps_def)
  then show "wp (with_defer m d) (\<lambda>_. I) (\<lambda>_. I) s"
    unfolding wp_with_defer
    by (rule wp_conseq) (use assms(2) in \<open>simp_all add: keeps_def split: crash.split\<close>)
qed

lemma keeps_for_each [keeps_intros]:
  "(\<And>x. x \<in> set xs \<Longrightarrow> keeps I (f x)) \<Longrightarrow> keeps I (for_each xs f)"
  by (induction xs) (auto intro!: keeps_ret keeps_bndE)

lemma keeps_for_fold [keeps_intros]:
  "(\<And>acc x. x \<in> set xs \<Longrightarrow> keeps I (f acc x)) \<Longrightarrow> keeps I (for_fold xs acc f)"
  by (induction xs arbitrary: acc) (auto intro!: keeps_ret keeps_bndE)

section \<open>Programs that leave an invariant once\<close>

text \<open>
  \<open>leads I J m\<close>: started in \<open>I\<close>, \<open>m\<close> ends in the weaker \<open>J\<close>, however it ends. A program keeps
  \<open>I\<close> up to the one step that leaves it, and \<open>J\<close> after it.
\<close>

definition leads :: "('s \<Rightarrow> bool) \<Rightarrow> ('s \<Rightarrow> bool) \<Rightarrow> ('s, 'a) prog \<Rightarrow> bool" where
  "leads I J m \<longleftrightarrow> (\<forall>s. I s \<longrightarrow> wp m (\<lambda>_. J) (\<lambda>_. J) s)"

lemma leads_keeps: "keeps I m \<Longrightarrow> (\<And>s. I s \<Longrightarrow> J s) \<Longrightarrow> leads I J m"
  unfolding leads_def by (blast intro: wp_keeps)

lemma leads_bnd:
  "keeps I m \<Longrightarrow> (\<And>a. leads I J (f a)) \<Longrightarrow> (\<And>s. I s \<Longrightarrow> J s) \<Longrightarrow> leads I J (bnd m f)"
  unfolding leads_def wp_bnd by (intro allI impI, rule wp_keeps [of I m]) blast+

lemma leads_bnd_gets:
  "(\<And>s. I s \<Longrightarrow> leads I J (f (g s))) \<Longrightarrow> leads I J (bnd (gets g) f)"
  by (simp add: leads_def wp_bnd wp_gets)

lemma leads_then: "leads I J m \<Longrightarrow> (\<And>a. keeps J (f a)) \<Longrightarrow> leads I J (bnd m f)"
  unfolding leads_def wp_bnd keeps_def by (blast intro: wp_conseq)

lemma leads_bndE:
  assumes "keeps I m" and "\<And>a. leads I J (f a)" and "\<And>s. I s \<Longrightarrow> J s"
  shows "leads I J (bndE m f)"
  unfolding bndE_def
proof (rule leads_bnd [OF assms(1) _ assms(3)])
  fix r
  show "leads I J (case r of Inl e \<Rightarrow> ret (Inl e) | Inr a \<Rightarrow> f a)"
    using assms(2,3) by (cases r) (simp_all add: leads_keeps keeps_ret)
qed

lemma leads_thenE: "leads I J m \<Longrightarrow> (\<And>a. keeps J (f a)) \<Longrightarrow> leads I J (bndE m f)"
  unfolding bndE_def by (rule leads_then) (auto intro: keeps_sum keeps_ret)

lemma leads_if: "(b \<Longrightarrow> leads I J m) \<Longrightarrow> (\<not> b \<Longrightarrow> leads I J n) \<Longrightarrow> leads I J (if b then m else n)"
  by simp

lemma leads_sum:
  "(\<And>e. r = Inl e \<Longrightarrow> leads I J (f e)) \<Longrightarrow> (\<And>a. r = Inr a \<Longrightarrow> leads I J (g a)) \<Longrightarrow>
   leads I J (case r of Inl e \<Rightarrow> f e | Inr a \<Rightarrow> g a)"
  by (simp split: sum.split)

section \<open>The calls a program makes\<close>

definition emits :: "('c \<Rightarrow> bool) \<Rightarrow> (('c, 'x) trace_scheme, 'a) prog \<Rightarrow> bool" where
  "emits P m \<longleftrightarrow> (\<forall>s. \<exists>cs. calls (snd (m s)) = calls s @ cs \<and> (\<forall>c \<in> set cs. P c))"

lemma emitsD:
  "emits P m \<Longrightarrow> m s = (r, t) \<Longrightarrow> \<exists>cs. calls t = calls s @ cs \<and> (\<forall>c \<in> set cs. P c)"
  by (metis emits_def snd_conv)

lemma emits_mono: "emits P m \<Longrightarrow> (\<And>c. P c \<Longrightarrow> Q c) \<Longrightarrow> emits Q m"
  unfolding emits_def by meson

lemma emits_ret [emits_intros]: "emits P (ret a)"
  by (simp add: emits_def ret_def)

lemma emits_panic [emits_intros]: "emits P (panic msg)"
  by (simp add: emits_def panic_def)

lemma emits_fatal [emits_intros]: "emits P (fatal msg)"
  by (simp add: emits_def fatal_def)

lemma emits_gets [emits_intros]: "emits P (gets f)"
  by (simp add: emits_def gets_def)

lemma emits_deref [emits_intros]: "emits P (deref p)"
  by (auto simp: deref_def intro: emits_ret emits_panic split: option.split)

lemma emits_deref_then:
  "(\<And>a. p = Some a \<Longrightarrow> emits P (f a)) \<Longrightarrow> emits P (bnd (deref p) f)"
  by (cases p) (simp_all add: emits_def deref_def bnd_def panic_def ret_def)

lemma emits_update [emits_intros]: "(\<And>s. calls (f s) = calls s) \<Longrightarrow> emits P (update f)"
  by (simp add: emits_def update_def)

lemma emits_perform [emits_intros]: "P c \<Longrightarrow> emits P (perform ans c)"
  by (simp add: emits_def perform_def)

lemma emits_bnd [emits_intros]:
  assumes "emits P m" and "\<And>a. emits P (f a)"
  shows "emits P (bnd m f)"
  unfolding emits_def
proof
  fix s
  obtain r t where m: "m s = (r, t)" by fastforce
  from assms(1) m obtain cs where cs: "calls t = calls s @ cs" "\<forall>c \<in> set cs. P c"
    using emitsD by blast
  show "\<exists>cs. calls (snd (bnd m f s)) = calls s @ cs \<and> (\<forall>c \<in> set cs. P c)"
  proof (cases r)
    case (Crash k)
    with m cs show ?thesis by (simp add: bnd_def)
  next
    case (Done a)
    obtain ds where "calls (snd (f a t)) = calls t @ ds" "\<forall>c \<in> set ds. P c"
      using assms(2) unfolding emits_def by blast
    with m cs Done show ?thesis by (intro exI [of _ "cs @ ds"]) (auto simp: bnd_def)
  qed
qed

lemma emits_sum [emits_intros]:
  "(\<And>e. r = Inl e \<Longrightarrow> emits P (f e)) \<Longrightarrow> (\<And>a. r = Inr a \<Longrightarrow> emits P (g a)) \<Longrightarrow>
   emits P (case r of Inl e \<Rightarrow> f e | Inr a \<Rightarrow> g a)"
  by (simp split: sum.split)

lemma emits_option [emits_intros]:
  "(r = None \<Longrightarrow> emits P m) \<Longrightarrow> (\<And>a. r = Some a \<Longrightarrow> emits P (g a)) \<Longrightarrow>
   emits P (case r of None \<Rightarrow> m | Some a \<Rightarrow> g a)"
  by (simp split: option.split)

lemma emits_prod [emits_intros]:
  "(\<And>a b. r = (a, b) \<Longrightarrow> emits P (f a b)) \<Longrightarrow> emits P (case r of (a, b) \<Rightarrow> f a b)"
  by (simp split: prod.split)

lemma emits_if [emits_intros]:
  "(b \<Longrightarrow> emits P m) \<Longrightarrow> (\<not> b \<Longrightarrow> emits P n) \<Longrightarrow> emits P (if b then m else n)"
  by simp

lemma emits_let [emits_intros]: "emits P (f v) \<Longrightarrow> emits P (Let v f)"
  by simp

lemma emits_bndE [emits_intros]:
  "emits P m \<Longrightarrow> (\<And>a. emits P (f a)) \<Longrightarrow> emits P (bndE m f)"
  unfolding bndE_def by (intro emits_bnd emits_sum emits_ret)

lemma emits_with_defer [emits_intros]:
  assumes "emits P m" and "emits P d"
  shows "emits P (with_defer m d)"
  unfolding emits_def
proof
  fix s
  obtain r t where m: "m s = (r, t)" by fastforce
  from assms(1) m obtain cs where cs: "calls t = calls s @ cs" "\<forall>c \<in> set cs. P c"
    using emitsD by blast
  obtain r' t' where d: "d t = (r', t')" by fastforce
  from assms(2) d obtain ds where ds: "calls t' = calls t @ ds" "\<forall>c \<in> set ds. P c"
    using emitsD by blast
  show "\<exists>cs. calls (snd (with_defer m d s)) = calls s @ cs \<and> (\<forall>c \<in> set cs. P c)"
  proof (cases "\<exists>msg. r = Crash (Fatal msg)")
    case True
    with m cs show ?thesis by (auto simp: with_defer_def)
  next
    case False
    with m d cs ds show ?thesis
      by (intro exI [of _ "cs @ ds"])
        (auto simp: with_defer_def split: outcome.splits crash.splits)
  qed
qed

lemma emits_for_each [emits_intros]:
  "(\<And>x. x \<in> set xs \<Longrightarrow> emits P (f x)) \<Longrightarrow> emits P (for_each xs f)"
  by (induction xs) (auto intro!: emits_ret emits_bndE)

lemma emits_for_fold [emits_intros]:
  "(\<And>acc x. x \<in> set xs \<Longrightarrow> emits P (f acc x)) \<Longrightarrow> emits P (for_fold xs acc f)"
  by (induction xs arbitrary: acc) (auto intro!: emits_ret emits_bndE)

section \<open>Conditions on every call\<close>

text \<open>\<open>trace_ok P cs\<close>: every call of \<open>cs\<close> is allowed by the calls before it.\<close>

definition trace_ok :: "('c list \<Rightarrow> 'c \<Rightarrow> bool) \<Rightarrow> 'c list \<Rightarrow> bool" where
  "trace_ok P cs \<longleftrightarrow> (\<forall>i < length cs. P (take i cs) (cs ! i))"

lemma trace_ok_Nil [simp]: "trace_ok P []"
  by (simp add: trace_ok_def)

lemma trace_ok_snoc: "trace_ok P (cs @ [c]) \<longleftrightarrow> trace_ok P cs \<and> P cs c"
  by (auto simp: trace_ok_def nth_append less_Suc_eq)

fun ok_after :: "('c list \<Rightarrow> 'c \<Rightarrow> bool) \<Rightarrow> 'c list \<Rightarrow> 'c list \<Rightarrow> bool" where
  "ok_after P h [] = True"
| "ok_after P h (c # cs) = (P h c \<and> ok_after P (h @ [c]) cs)"

lemma trace_ok_append [simp]: "trace_ok P (cs @ ds) \<longleftrightarrow> trace_ok P cs \<and> ok_after P cs ds"
proof (induction ds arbitrary: cs)
  case (Cons d ds)
  have "trace_ok P (cs @ d # ds) \<longleftrightarrow> trace_ok P ((cs @ [d]) @ ds)" by simp
  also have "\<dots> \<longleftrightarrow> trace_ok P (cs @ [d]) \<and> ok_after P (cs @ [d]) ds" by (rule Cons.IH)
  finally show ?case by (simp add: trace_ok_snoc)
qed simp

lemma ok_after_all: "(\<And>c h. c \<in> set ds \<Longrightarrow> P h c) \<Longrightarrow> ok_after P cs ds"
  by (induction ds arbitrary: cs) auto

lemma trace_okD: "trace_ok P cs \<Longrightarrow> cs = h @ c # h' \<Longrightarrow> P h c"
  unfolding trace_ok_def by (auto dest!: spec [of _ "length h"])

lemma trace_ok_mono: "trace_ok P cs \<Longrightarrow> (\<And>h c. P h c \<Longrightarrow> Q h c) \<Longrightarrow> trace_ok Q cs"
  by (simp add: trace_ok_def)

text \<open>A program whose calls are allowed anywhere keeps the condition.\<close>

lemma keeps_trace_ok:
  assumes "emits Q m" and "\<And>c h. Q c \<Longrightarrow> P h c"
  shows "keeps (\<lambda>s. trace_ok P (calls s)) m"
proof (rule keepsI)
  fix s :: "('a, 'b) trace_scheme"
  assume ok: "trace_ok P (calls s)"
  obtain r t where m: "m s = (r, t)" by fastforce
  with assms(1) obtain cs where "calls t = calls s @ cs" "\<forall>c \<in> set cs. Q c"
    using emitsD by blast
  with assms(2) ok have "trace_ok P (calls t)" by (auto intro: ok_after_all)
  with m show "wp m (\<lambda>_ t. trace_ok P (calls t)) (\<lambda>_ t. trace_ok P (calls t)) s"
    by (cases r) (simp_all add: wp_def)
qed

end
