(* ===== verification/Objects.thy ===== *)
theory Objects
  imports Prelude
begin

text \<open>
  The parts of the Kubernetes API machinery that every object shares: names, object
  metadata, owner references and finalizers, with the library operations on them that the
  two controllers call (vendored \<open>k8s.io/apimachinery\<close> and \<open>kmodules.xyz/client-go/core/v1\<close>).

  The lists that are keyed by a field of their elements (owner references by UID, conditions
  by type, environment variables, volumes and volume mounts by name) all follow one
  discipline: the first element with the key is replaced, and a new key is appended. The
  locale \<open>keyed_upsert\<close> states it once and proves what its clients need.
\<close>

section \<open>Objects and their metadata\<close>

text \<open>
  \<open>raw\<close> is a part of an API object that the code copies or merges without looking inside: a
  scalar or slice, printed, or a struct with the fields that are set. A nil pointer and a
  zero scalar are \<open>absent\<close>; a pointer to a struct with no field set is \<open>Node []\<close>.
\<close>

datatype raw = Leaf string | Node "(string \<times> raw) list"

definition absent :: raw where "absent = Leaf ''''"

type_synonym time = nat

text \<open>A namespace and a name (\<open>types.NamespacedName\<close>, \<open>ObjectReference\<close>).\<close>

type_synonym nsname = "string \<times> string"

record owner_ref =
  or_apiVersion :: string
  or_kind :: string
  or_name :: string
  or_uid :: string
  or_controller :: "bool option"
  or_blockOwnerDeletion :: "bool option"

record object_meta =
  om_name :: string
  om_namespace :: string
  om_uid :: string
  om_generation :: "64 word"
  om_labels :: "string \<rightharpoonup> string"
  om_annotations :: "string \<rightharpoonup> string"
  om_finalizers :: "string list"
  om_ownerReferences :: "owner_ref list"
  om_deletionTimestamp :: "time option"

definition meta_of :: "string \<Rightarrow> string \<Rightarrow> object_meta" where
  "meta_of ns name =
     \<lparr>om_name = name, om_namespace = ns, om_uid = '''', om_generation = 0, om_labels = Map.empty,
      om_annotations = Map.empty, om_finalizers = [], om_ownerReferences = [],
      om_deletionTimestamp = None\<rparr>"

definition key_of :: "object_meta \<Rightarrow> nsname" where
  "key_of m = (om_namespace m, om_name m)"

definition NewControllerRef :: "object_meta \<Rightarrow> string \<Rightarrow> string \<Rightarrow> owner_ref" where
  "NewControllerRef owner apiVersion kind =
     \<lparr>or_apiVersion = apiVersion, or_kind = kind, or_name = om_name owner, or_uid = om_uid owner,
      or_controller = Some True, or_blockOwnerDeletion = Some True\<rparr>"

section \<open>Lists keyed by a field\<close>

text \<open>Merging \<open>new\<close> into the first element with its key, or appending it.\<close>

fun upsert_by :: "('a \<Rightarrow> 'k) \<Rightarrow> ('a \<Rightarrow> 'a \<Rightarrow> 'a) \<Rightarrow> 'a \<Rightarrow> 'a list \<Rightarrow> 'a list" where
  "upsert_by key merge new [] = [new]"
| "upsert_by key merge new (x # xs) =
     (if key x = key new then merge x new # xs else x # upsert_by key merge new xs)"

fun find_by :: "('a \<Rightarrow> 'k) \<Rightarrow> 'k \<Rightarrow> 'a list \<Rightarrow> 'a option" where
  "find_by key k [] = None"
| "find_by key k (x # xs) = (if key x = k then Some x else find_by key k xs)"

lemma find_by_key: "find_by key k xs = Some x \<Longrightarrow> key x = k \<and> x \<in> set xs"
  by (induction xs) (auto split: if_splits)

lemma find_by_None: "find_by key k xs = None \<longleftrightarrow> k \<notin> key ` set xs"
  by (induction xs) auto

lemma find_by_distinct:
  "distinct (map key xs) \<Longrightarrow> x \<in> set xs \<Longrightarrow> find_by key (key x) xs = Some x"
  by (induction xs) force+

text \<open>
  The contract of an upsert on a keyed list: afterwards the key is found with the merged
  element, every other key is found as before, and the keys are the old ones in their old
  order, with the new key at the end if it was not there.
\<close>

locale keyed_upsert =
  fixes key :: "'a \<Rightarrow> 'k"
    and merge :: "'a \<Rightarrow> 'a \<Rightarrow> 'a"
    and upsert :: "'a \<Rightarrow> 'a list \<Rightarrow> 'a list"
  assumes find_same:
      "find_by key (key x) (upsert x xs) =
         Some (case find_by key (key x) xs of None \<Rightarrow> x | Some y \<Rightarrow> merge y x)"
    and find_other: "k \<noteq> key x \<Longrightarrow> find_by key k (upsert x xs) = find_by key k xs"
    and keys: "map key (upsert x xs) =
         (if key x \<in> key ` set xs then map key xs else map key xs @ [key x])"
begin

definition upserts :: "'a list \<Rightarrow> 'a list \<Rightarrow> 'a list" where
  "upserts news xs = fold upsert news xs"

lemma upserts_Nil: "upserts [] xs = xs"
  by (simp add: upserts_def)

lemma upserts_Cons: "upserts (x # news) xs = upserts news (upsert x xs)"
  by (simp add: upserts_def)

lemma key_present: "key x \<in> key ` set (upsert x xs)"
  by (metis find_by_None find_same option.distinct(1))

lemma key_set: "key ` set (upsert x xs) = insert (key x) (key ` set xs)"
proof -
  have "set (map key (upsert x xs)) = insert (key x) (set (map key xs))"
    unfolding keys by auto
  then show ?thesis by simp
qed

lemma keeps_distinct: "distinct (map key xs) \<Longrightarrow> distinct (map key (upsert x xs))"
  unfolding keys by auto

lemma length_upsert:
  "length (upsert x xs) = (if key x \<in> key ` set xs then length xs else Suc (length xs))"
proof -
  have "length (map key (upsert x xs)) =
      (if key x \<in> key ` set xs then length xs else Suc (length xs))"
    unfolding keys by simp
  then show ?thesis by simp
qed

lemma upserts_key_set: "key ` set (upserts news xs) = key ` set news \<union> key ` set xs"
  by (induction news arbitrary: xs) (auto simp: upserts_Nil upserts_Cons key_set)

lemma upserts_keeps_distinct: "distinct (map key xs) \<Longrightarrow> distinct (map key (upserts news xs))"
  by (induction news arbitrary: xs) (auto simp: upserts_Nil upserts_Cons keeps_distinct)

lemma upserts_find_other:
  "k \<notin> key ` set news \<Longrightarrow> find_by key k (upserts news xs) = find_by key k xs"
  by (induction news arbitrary: xs) (auto simp: upserts_Nil upserts_Cons find_other)

end

lemma keyed_upsert_by:
  assumes "\<And>y x. key y = key x \<Longrightarrow> key (merge y x) = key x"
  shows "keyed_upsert key merge (upsert_by key merge)"
proof
  fix x :: 'a and xs k
  show "find_by key (key x) (upsert_by key merge x xs) =
      Some (case find_by key (key x) xs of None \<Rightarrow> x | Some y \<Rightarrow> merge y x)"
    by (induction xs) (auto simp: assms)
  show "k \<noteq> key x \<Longrightarrow> find_by key k (upsert_by key merge x xs) = find_by key k xs"
    by (induction xs) (auto simp: assms)
  show "map key (upsert_by key merge x xs) =
      (if key x \<in> key ` set xs then map key xs else map key xs @ [key x])"
    by (induction xs) (auto simp: assms)
qed

section \<open>Owner references\<close>

definition EnsureOwnerReference :: "object_meta \<Rightarrow> owner_ref \<Rightarrow> object_meta" where
  "EnsureOwnerReference dependent owner =
     dependent\<lparr>om_ownerReferences :=
       upsert_by or_uid (\<lambda>old new. new) owner (om_ownerReferences dependent)\<rparr>"

text \<open>\<open>IsOwnedBy\<close>: is the owner referenced, and is that reference a controller reference.\<close>

fun owned_in :: "string \<Rightarrow> owner_ref list \<Rightarrow> bool \<times> bool" where
  "owned_in uid [] = (False, False)"
| "owned_in uid (r # refs) =
     (if or_uid r = uid then (True, or_controller r = Some True) else owned_in uid refs)"

definition IsOwnedBy :: "object_meta \<Rightarrow> object_meta \<Rightarrow> bool \<times> bool" where
  "IsOwnedBy dependent owner = owned_in (om_uid owner) (om_ownerReferences dependent)"

interpretation owner_refs: keyed_upsert or_uid "\<lambda>old new. new"
    "upsert_by or_uid (\<lambda>old new. new)"
  by (rule keyed_upsert_by) simp

lemma owned_in_find:
  "owned_in uid refs =
     (case find_by or_uid uid refs of
        None \<Rightarrow> (False, False)
      | Some r \<Rightarrow> (True, or_controller r = Some True))"
  by (induction refs) auto

lemma EnsureOwnerReference_owned:
  "IsOwnedBy (EnsureOwnerReference dep (NewControllerRef owner av k)) owner = (True, True)"
  using owner_refs.find_same [of "NewControllerRef owner av k" "om_ownerReferences dep"]
  by (auto simp: IsOwnedBy_def EnsureOwnerReference_def owned_in_find NewControllerRef_def
      split: option.splits)

lemma EnsureOwnerReference_other:
  "om_uid other \<noteq> or_uid ref \<Longrightarrow>
   IsOwnedBy (EnsureOwnerReference dep ref) other = IsOwnedBy dep other"
  by (simp add: IsOwnedBy_def EnsureOwnerReference_def owned_in_find owner_refs.find_other)

lemma EnsureOwnerReference_key [simp]: "key_of (EnsureOwnerReference m ref) = key_of m"
  by (simp add: key_of_def EnsureOwnerReference_def)

lemma EnsureOwnerReference_fields [simp]:
  "om_name (EnsureOwnerReference m ref) = om_name m"
  "om_namespace (EnsureOwnerReference m ref) = om_namespace m"
  "om_labels (EnsureOwnerReference m ref) = om_labels m"
  "om_annotations (EnsureOwnerReference m ref) = om_annotations m"
  "om_finalizers (EnsureOwnerReference m ref) = om_finalizers m"
  "om_uid (EnsureOwnerReference m ref) = om_uid m"
  by (simp_all add: EnsureOwnerReference_def)

text \<open>\<open>RemoveOwnerReference\<close>: only the first reference with the UID goes.\<close>

fun remove_ref :: "string \<Rightarrow> owner_ref list \<Rightarrow> owner_ref list" where
  "remove_ref uid [] = []"
| "remove_ref uid (r # refs) = (if or_uid r = uid then refs else r # remove_ref uid refs)"

definition RemoveOwnerReference :: "object_meta \<Rightarrow> object_meta \<Rightarrow> object_meta" where
  "RemoveOwnerReference dependent owner =
     dependent\<lparr>om_ownerReferences := remove_ref (om_uid owner) (om_ownerReferences dependent)\<rparr>"

lemma remove_ref_other:
  "k \<noteq> uid \<Longrightarrow> find_by or_uid k (remove_ref uid refs) = find_by or_uid k refs"
  by (induction refs) auto

lemma remove_ref_distinct:
  "distinct (map or_uid refs) \<Longrightarrow> find_by or_uid uid (remove_ref uid refs) = None"
  by (induction refs) (auto simp: find_by_None)

section \<open>Finalizers\<close>

definition AddFinalizer :: "object_meta \<Rightarrow> string \<Rightarrow> object_meta" where
  "AddFinalizer m f =
     (if f \<in> set (om_finalizers m) then m
      else m\<lparr>om_finalizers := om_finalizers m @ [f]\<rparr>)"

definition HasFinalizer :: "object_meta \<Rightarrow> string \<Rightarrow> bool" where
  "HasFinalizer m f \<longleftrightarrow> f \<in> set (om_finalizers m)"

definition RemoveFinalizer :: "object_meta \<Rightarrow> string \<Rightarrow> object_meta" where
  "RemoveFinalizer m f = m\<lparr>om_finalizers := [g \<leftarrow> om_finalizers m. g \<noteq> f]\<rparr>"

lemma HasFinalizer_Add [simp]: "HasFinalizer (AddFinalizer m f) g \<longleftrightarrow> g = f \<or> HasFinalizer m g"
  by (auto simp: HasFinalizer_def AddFinalizer_def)

lemma HasFinalizer_Remove [simp]:
  "HasFinalizer (RemoveFinalizer m f) g \<longleftrightarrow> g \<noteq> f \<and> HasFinalizer m g"
  by (auto simp: HasFinalizer_def RemoveFinalizer_def)

lemma finalizer_fields [simp]:
  "om_name (AddFinalizer m f) = om_name m" "om_name (RemoveFinalizer m f) = om_name m"
  "om_namespace (AddFinalizer m f) = om_namespace m"
  "om_namespace (RemoveFinalizer m f) = om_namespace m"
  "om_uid (AddFinalizer m f) = om_uid m" "om_uid (RemoveFinalizer m f) = om_uid m"
  "om_deletionTimestamp (AddFinalizer m f) = om_deletionTimestamp m"
  "om_deletionTimestamp (RemoveFinalizer m f) = om_deletionTimestamp m"
  by (simp_all add: AddFinalizer_def RemoveFinalizer_def)

section \<open>Label maps\<close>

text \<open>\<open>meta_util.OverwriteKeys\<close>: the second map wins.\<close>

definition OverwriteKeys :: "(string \<rightharpoonup> string) \<Rightarrow> (string \<rightharpoonup> string) \<Rightarrow> (string \<rightharpoonup> string)" where
  "OverwriteKeys base override = base ++ override"

end
