(* ===== verification/Conditions.thy ===== *)
theory Conditions
  imports Objects
begin

text \<open>
  Status conditions (vendored \<open>kmodules.xyz/client-go/api/v1/conditions.go\<close>): the list both
  controllers keep in the status of their objects, and on which every phase is computed.
  \<open>observedGeneration\<close> is Go's \<open>int64\<close>, compared as a signed number.

  \<open>SetCondition\<close> is shown to be an upsert keyed by the condition's type, whose merge drops an
  update based on an older generation; its lemmas are those of \<open>keyed_upsert\<close>.
\<close>

record condition =
  cond_type :: string
  cond_status :: string
  cond_gen :: "64 word"
  cond_time :: time
  cond_reason :: string
  cond_message :: string

definition ConditionTrue :: string where "ConditionTrue = ''True''"
definition ConditionFalse :: string where "ConditionFalse = ''False''"
definition ConditionUnknown :: string where "ConditionUnknown = ''Unknown''"

lemma status_distinct [simp]:
  "ConditionTrue \<noteq> ConditionFalse" "ConditionFalse \<noteq> ConditionTrue"
  "ConditionTrue \<noteq> ConditionUnknown" "ConditionUnknown \<noteq> ConditionTrue"
  "ConditionFalse \<noteq> ConditionUnknown" "ConditionUnknown \<noteq> ConditionFalse"
  by (simp_all add: ConditionTrue_def ConditionFalse_def ConditionUnknown_def)

definition ConditionAvailable :: string where "ConditionAvailable = ''Available''"
definition ConditionRequestApproved :: string where "ConditionRequestApproved = ''Approved''"

fun HasCondition :: "condition list \<Rightarrow> string \<Rightarrow> bool" where
  "HasCondition [] typ = False"
| "HasCondition (c # cs) typ = (if cond_type c = typ then True else HasCondition cs typ)"

fun GetCondition :: "condition list \<Rightarrow> string \<Rightarrow> (nat \<times> condition) option" where
  "GetCondition [] typ = None"
| "GetCondition (c # cs) typ =
     (if cond_type c = typ then Some (0, c)
      else map_option (\<lambda>(i, d). (Suc i, d)) (GetCondition cs typ))"

fun IsConditionTrue :: "condition list \<Rightarrow> string \<Rightarrow> bool" where
  "IsConditionTrue [] typ = False"
| "IsConditionTrue (c # cs) typ =
     (if cond_type c = typ \<and> cond_status c = ConditionTrue then True else IsConditionTrue cs typ)"

definition SetCondition :: "time \<Rightarrow> condition list \<Rightarrow> condition \<Rightarrow> condition list" where
  "SetCondition now cs new =
     (case GetCondition cs (cond_type new) of
        None \<Rightarrow> cs @ [new\<lparr>cond_time := now\<rparr>]
      | Some (idx, cur) \<Rightarrow>
          if cond_status cur = cond_status new \<and> cond_reason cur = cond_reason new \<and>
             cond_message cur = cond_message new \<and> cond_gen cur = cond_gen new
          then cs
          else if sint (cond_gen cur) \<le> sint (cond_gen new)
          then cs[idx := new\<lparr>cond_time := now\<rparr>]
          else cs)"

fun RemoveCondition :: "condition list \<Rightarrow> string \<Rightarrow> condition list" where
  "RemoveCondition [] typ = []"
| "RemoveCondition (c # cs) typ = (if cond_type c = typ then cs else c # RemoveCondition cs typ)"

section \<open>The list as a keyed list\<close>

text \<open>What becomes of a condition that is set again.\<close>

definition merge_condition :: "condition \<Rightarrow> condition \<Rightarrow> condition" where
  "merge_condition cur new =
     (if cond_status cur = cond_status new \<and> cond_reason cur = cond_reason new \<and>
         cond_message cur = cond_message new \<and> cond_gen cur = cond_gen new
      then cur
      else if sint (cond_gen cur) \<le> sint (cond_gen new) then new else cur)"

interpretation conds: keyed_upsert cond_type merge_condition "upsert_by cond_type merge_condition"
  by (rule keyed_upsert_by) (simp add: merge_condition_def)

lemma HasCondition_find: "HasCondition cs typ \<longleftrightarrow> find_by cond_type typ cs \<noteq> None"
  by (induction cs) auto

lemma GetCondition_find: "map_option snd (GetCondition cs typ) = find_by cond_type typ cs"
  by (induction cs) (auto simp: map_option_case split: option.splits)

lemma SetCondition_upsert:
  "SetCondition now cs new = upsert_by cond_type merge_condition (new\<lparr>cond_time := now\<rparr>) cs"
proof (induction cs)
  case Nil
  then show ?case by (simp add: SetCondition_def)
next
  case (Cons c cs)
  then show ?case
    by (auto simp: SetCondition_def merge_condition_def split: option.splits)
qed

text \<open>Without duplicate types the two readings of a condition agree.\<close>

definition distinct_types :: "condition list \<Rightarrow> bool" where
  "distinct_types cs = distinct (map cond_type cs)"

lemma IsConditionTrue_find:
  "distinct_types cs \<Longrightarrow>
   IsConditionTrue cs typ \<longleftrightarrow>
     (\<exists>c. find_by cond_type typ cs = Some c \<and> cond_status c = ConditionTrue)"
proof (induction cs)
  case (Cons c cs)
  have "cond_type c = typ \<Longrightarrow> \<not> IsConditionTrue cs typ"
  proof -
    assume "cond_type c = typ"
    with Cons.prems have "typ \<notin> cond_type ` set cs" by (simp add: distinct_types_def)
    then show "\<not> IsConditionTrue cs typ" by (induction cs) auto
  qed
  with Cons show ?case by (auto simp: distinct_types_def)
qed (simp add: distinct_types_def)

lemma IsConditionTrue_Has: "IsConditionTrue cs typ \<Longrightarrow> HasCondition cs typ"
  by (induction cs) (auto split: if_splits)

lemma SetCondition_distinct:
  "distinct_types cs \<Longrightarrow> distinct_types (SetCondition now cs new)"
  unfolding distinct_types_def SetCondition_upsert by (rule conds.keeps_distinct)

lemma SetCondition_types:
  "cond_type ` set (SetCondition now cs new) = insert (cond_type new) (cond_type ` set cs)"
  unfolding SetCondition_upsert by (simp add: conds.key_set)

lemma SetCondition_Has [simp]:
  "HasCondition (SetCondition now cs new) typ \<longleftrightarrow> typ = cond_type new \<or> HasCondition cs typ"
  using SetCondition_types [of now cs new] by (auto simp: HasCondition_find find_by_None)

lemma SetCondition_other:
  "typ \<noteq> cond_type new \<Longrightarrow>
   find_by cond_type typ (SetCondition now cs new) = find_by cond_type typ cs"
  unfolding SetCondition_upsert by (rule conds.find_other) simp

lemma SetCondition_same:
  "find_by cond_type (cond_type new) (SetCondition now cs new) =
     Some (case find_by cond_type (cond_type new) cs of
             None \<Rightarrow> new\<lparr>cond_time := now\<rparr>
           | Some cur \<Rightarrow> merge_condition cur (new\<lparr>cond_time := now\<rparr>))"
  using conds.find_same [of "new\<lparr>cond_time := now\<rparr>" cs] by (simp add: SetCondition_upsert)

lemma IsConditionTrue_other:
  "typ \<noteq> cond_type new \<Longrightarrow>
   IsConditionTrue (SetCondition now cs new) typ = IsConditionTrue cs typ"
  unfolding SetCondition_upsert
  by (induction cs) (auto simp: merge_condition_def)

text \<open>An update from a generation at least as new decides the status.\<close>

lemma SetCondition_effective:
  assumes "\<And>cur. find_by cond_type (cond_type new) cs = Some cur \<Longrightarrow>
      sint (cond_gen cur) \<le> sint (cond_gen new)"
    and "find_by cond_type (cond_type new) (SetCondition now cs new) = Some c"
  shows "cond_status c = cond_status new \<and> cond_reason c = cond_reason new \<and>
    cond_message c = cond_message new \<and> cond_gen c = cond_gen new"
  using assms SetCondition_same [of new now cs]
  by (auto simp: merge_condition_def split: option.splits if_splits)

text \<open>An update from an older generation is dropped.\<close>

lemma SetCondition_stale:
  assumes "find_by cond_type (cond_type new) cs = Some cur"
    and "sint (cond_gen new) < sint (cond_gen cur)"
  shows "SetCondition now cs new = cs"
  using assms unfolding SetCondition_upsert
  by (induction cs) (auto simp: merge_condition_def)

lemma RemoveCondition_other:
  "k \<noteq> typ \<Longrightarrow> find_by cond_type k (RemoveCondition cs typ) = find_by cond_type k cs"
  by (induction cs) auto

lemma RemoveCondition_gone:
  "distinct_types cs \<Longrightarrow> \<not> HasCondition (RemoveCondition cs typ) typ"
  unfolding HasCondition_find distinct_types_def by (induction cs) (auto simp: find_by_None)

end
