(* ===== verification/PodSpec.thy ===== *)
theory PodSpec
  imports Objects
begin

text \<open>
  Pod specifications and the library operations that build them: \<open>mergo.Merge\<close> with
  \<open>WithOverride\<close>, the upserts of \<open>kmodules.xyz/client-go/core/v1\<close> on environment variables,
  volumes, volume mounts and containers, and \<open>meta.UpsertArgumentList\<close>. All of this code is
  vendored; both controllers build their workloads with it.

  Every upsert is an instance of \<open>keyed_upsert\<close>, whose lemmas hold of it by interpretation.
\<close>

section \<open>mergo\<close>

text \<open>
  A source value overrides when it is set, structs are merged field by field, and an absent
  source leaves the destination alone.
\<close>

fun put_field :: "string \<Rightarrow> raw \<Rightarrow> (string \<times> raw) list \<Rightarrow> (string \<times> raw) list" where
  "put_field k v [] = [(k, v)]"
| "put_field k v ((l, w) # fs) = (if l = k then (l, v) # fs else (l, w) # put_field k v fs)"

function (sequential) mergo :: "raw \<Rightarrow> raw \<Rightarrow> raw"
  and mergo_fields :: "(string \<times> raw) list \<Rightarrow> (string \<times> raw) list \<Rightarrow> (string \<times> raw) list" where
  "mergo d (Leaf s) = (if s = '''' then d else Leaf s)"
| "mergo (Leaf d) (Node ss) = Node ss"
| "mergo (Node ds) (Node ss) = Node (mergo_fields ds ss)"
| "mergo_fields ds [] = ds"
| "mergo_fields ds ((k, s) # ss) =
     mergo_fields
       (case map_of ds k of None \<Rightarrow> put_field k s ds | Some d \<Rightarrow> put_field k (mergo d s) ds) ss"
  by pat_completeness auto
termination
  by (relation "measure (\<lambda>x. case x of Inl (d, s) \<Rightarrow> size s
      | Inr (ds, ss) \<Rightarrow> size_list (size_prod (\<lambda>_. 0) size) ss)") auto

lemma mergo_absent [simp]: "mergo d absent = d"
  by (simp add: absent_def)

text \<open>A string field: the empty string is its zero value.\<close>

definition merge_string :: "string \<Rightarrow> string \<Rightarrow> string" where
  "merge_string dst src = (if src = '''' then dst else src)"

lemma merge_string_same [simp]: "merge_string s s = s"
  by (simp add: merge_string_def)

section \<open>Pod parts\<close>

datatype env_source =
    FieldRef (fr_apiVersion: string) (fr_fieldPath: string)
  | SecretKeyRef (sk_name: string) (sk_key: string)
  | OtherSource raw

record env_var =
  ev_name :: string
  ev_value :: string
  ev_valueFrom :: "env_source option"

record volume_mount =
  vm_name :: string
  vm_mountPath :: string
  vm_subPath :: string

text \<open>The volume sources the code builds: a secret, an empty directory; the rest is \<open>raw\<close>.\<close>

definition SecretVolumeSource :: "string \<Rightarrow> raw" where
  "SecretVolumeSource name = Node [(''secret'', Node [(''secretName'', Leaf name)])]"

definition EmptyDirVolumeSource :: raw where
  "EmptyDirVolumeSource = Node [(''emptyDir'', Node [])]"

record volume =
  vol_name :: string
  vol_source :: raw

record container =
  c_name :: string
  c_image :: string
  c_imagePullPolicy :: string
  c_command :: "string list"
  c_args :: "string list"
  c_env :: "env_var list"
  c_volumeMounts :: "volume_mount list"
  c_ports :: raw
  c_resources :: raw
  c_livenessProbe :: raw
  c_readinessProbe :: raw
  c_lifecycle :: raw
  c_securityContext :: raw
  c_rest :: raw

definition new_container :: "string \<Rightarrow> container" where
  "new_container name =
     \<lparr>c_name = name, c_image = '''', c_imagePullPolicy = '''', c_command = [], c_args = [],
      c_env = [], c_volumeMounts = [], c_ports = absent, c_resources = absent,
      c_livenessProbe = absent, c_readinessProbe = absent, c_lifecycle = absent,
      c_securityContext = absent, c_rest = absent\<rparr>"

text \<open>
  The pod template of the API user (\<open>ofst.PodTemplateSpec\<close>). The fields of \<open>pt_scheduling\<close>
  are the scheduling and host settings that the code copies one by one into the pod.
\<close>

record pod_scheduling =
  ps_nodeSelector :: raw
  ps_affinity :: raw
  ps_schedulerName :: string
  ps_tolerations :: raw
  ps_imagePullSecrets :: raw
  ps_priorityClassName :: string
  ps_priority :: raw
  ps_hostNetwork :: bool
  ps_hostPID :: bool
  ps_hostIPC :: bool
  ps_shareProcessNamespace :: "bool option"
  ps_securityContext :: raw
  ps_dnsPolicy :: string
  ps_dnsConfig :: raw

record pod_template =
  pt_annotations :: "string \<rightharpoonup> string"
  pt_controllerAnnotations :: "string \<rightharpoonup> string"
  pt_controllerLabels :: "string \<rightharpoonup> string"
  pt_labels :: "string \<rightharpoonup> string"
  pt_serviceAccountName :: string
  pt_args :: "string list"
  pt_env :: "env_var list"
  pt_resources :: raw
  pt_livenessProbe :: raw
  pt_readinessProbe :: raw
  pt_lifecycle :: raw
  pt_containerSecurityContext :: raw
  pt_initContainers :: "container list"
  pt_scheduling :: pod_scheduling

section \<open>The upserts\<close>

text \<open>An environment variable from a field gets the field's default API version.\<close>

definition default_field_ref :: "env_var \<Rightarrow> env_var" where
  "default_field_ref env =
     (case ev_valueFrom env of
        Some (FieldRef av path) \<Rightarrow>
          if av = '''' then env\<lparr>ev_valueFrom := Some (FieldRef ''v1'' path)\<rparr> else env
      | _ \<Rightarrow> env)"

definition UpsertEnvVars :: "env_var list \<Rightarrow> env_var list \<Rightarrow> env_var list" where
  "UpsertEnvVars vars nv =
     fold (\<lambda>env. upsert_by ev_name (\<lambda>old new. new) (default_field_ref env)) nv vars"

definition UpsertVolumeMount :: "volume_mount list \<Rightarrow> volume_mount list \<Rightarrow> volume_mount list" where
  "UpsertVolumeMount mounts nv = fold (upsert_by vm_name (\<lambda>old new. new)) nv mounts"

definition merge_volume :: "volume \<Rightarrow> volume \<Rightarrow> volume" where
  "merge_volume dst src =
     \<lparr>vol_name = merge_string (vol_name dst) (vol_name src),
      vol_source = mergo (vol_source dst) (vol_source src)\<rparr>"

definition UpsertVolume :: "volume list \<Rightarrow> volume list \<Rightarrow> volume list" where
  "UpsertVolume volumes nv = fold (upsert_by vol_name merge_volume) nv volumes"

text \<open>
  A container is merged, but its command, arguments, variables and mounts are those of the
  new one even when they are empty.
\<close>

definition merge_container :: "container \<Rightarrow> container \<Rightarrow> container" where
  "merge_container dst src =
     \<lparr>c_name = merge_string (c_name dst) (c_name src),
      c_image = merge_string (c_image dst) (c_image src),
      c_imagePullPolicy = merge_string (c_imagePullPolicy dst) (c_imagePullPolicy src),
      c_command = c_command src, c_args = c_args src,
      c_env = map default_field_ref (c_env src), c_volumeMounts = c_volumeMounts src,
      c_ports = mergo (c_ports dst) (c_ports src),
      c_resources = mergo (c_resources dst) (c_resources src),
      c_livenessProbe = mergo (c_livenessProbe dst) (c_livenessProbe src),
      c_readinessProbe = mergo (c_readinessProbe dst) (c_readinessProbe src),
      c_lifecycle = mergo (c_lifecycle dst) (c_lifecycle src),
      c_securityContext = mergo (c_securityContext dst) (c_securityContext src),
      c_rest = mergo (c_rest dst) (c_rest src)\<rparr>"

definition UpsertContainer :: "container list \<Rightarrow> container \<Rightarrow> container list" where
  "UpsertContainer cs c = upsert_by c_name merge_container c cs"

definition UpsertContainers :: "container list \<Rightarrow> container list \<Rightarrow> container list" where
  "UpsertContainers cs addons = fold (upsert_by c_name merge_container) addons cs"

interpretation env_vars: keyed_upsert ev_name "\<lambda>old new. new" "upsert_by ev_name (\<lambda>old new. new)"
  by (rule keyed_upsert_by) simp

interpretation mounts: keyed_upsert vm_name "\<lambda>old new. new" "upsert_by vm_name (\<lambda>old new. new)"
  by (rule keyed_upsert_by) simp

interpretation volumes: keyed_upsert vol_name merge_volume "upsert_by vol_name merge_volume"
  by (rule keyed_upsert_by) (simp add: merge_volume_def)

interpretation containers: keyed_upsert c_name merge_container "upsert_by c_name merge_container"
  by (rule keyed_upsert_by) (simp add: merge_container_def)

lemma default_field_ref_name [simp]: "ev_name (default_field_ref env) = ev_name env"
  by (simp add: default_field_ref_def split: option.split env_source.split)

lemma UpsertEnvVars_upserts:
  "UpsertEnvVars vars nv = env_vars.upserts (map default_field_ref nv) vars"
  by (simp add: UpsertEnvVars_def env_vars.upserts_def fold_map comp_def)

lemma UpsertVolumeMount_upserts: "UpsertVolumeMount ms nv = mounts.upserts nv ms"
  by (simp add: UpsertVolumeMount_def mounts.upserts_def)

lemma UpsertVolume_upserts: "UpsertVolume vs nv = volumes.upserts nv vs"
  by (simp add: UpsertVolume_def volumes.upserts_def)

lemma UpsertContainers_upserts: "UpsertContainers cs nv = containers.upserts nv cs"
  by (simp add: UpsertContainers_def containers.upserts_def)

section \<open>Volume claims\<close>

text \<open>
  The specification of a volume claim: the access modes, the storage class and the requested
  resources are looked into, the rest is \<open>raw\<close>.
\<close>

record pvc_spec =
  pvc_accessModes :: "string list"
  pvc_storageClassName :: "string option"
  pvc_requests :: "string \<rightharpoonup> string"
  pvc_rest :: raw

record volume_claim =
  vc_name :: string
  vc_labels :: "string \<rightharpoonup> string"
  vc_annotations :: "string \<rightharpoonup> string"
  vc_spec :: pvc_spec

text \<open>\<open>mergo\<close> on the specifications: a slice or a pointer that is set overrides, maps are joined.\<close>

definition merge_pvc_spec :: "pvc_spec \<Rightarrow> pvc_spec \<Rightarrow> pvc_spec" where
  "merge_pvc_spec dst src =
     \<lparr>pvc_accessModes = (if pvc_accessModes src = [] then pvc_accessModes dst else pvc_accessModes src),
      pvc_storageClassName =
        (case (pvc_storageClassName dst, pvc_storageClassName src) of
           (d, None) \<Rightarrow> d
         | (None, Some c) \<Rightarrow> Some c
         | (Some d, Some c) \<Rightarrow> Some (merge_string d c)),
      pvc_requests = pvc_requests dst ++ pvc_requests src,
      pvc_rest = mergo (pvc_rest dst) (pvc_rest src)\<rparr>"

text \<open>A claim with the same name keeps its name; its labels and annotations are replaced.\<close>

definition merge_claim :: "volume_claim \<Rightarrow> volume_claim \<Rightarrow> volume_claim" where
  "merge_claim dst src =
     dst\<lparr>vc_labels := vc_labels src, vc_annotations := vc_annotations src,
       vc_spec := merge_pvc_spec (vc_spec dst) (vc_spec src)\<rparr>"

definition UpsertVolumeClaim :: "volume_claim list \<Rightarrow> volume_claim \<Rightarrow> volume_claim list" where
  "UpsertVolumeClaim claims c = upsert_by vc_name merge_claim c claims"

interpretation claims: keyed_upsert vc_name merge_claim "upsert_by vc_name merge_claim"
  by (rule keyed_upsert_by) (simp add: merge_claim_def)

section \<open>Argument lists\<close>

text \<open>The flag of \<open>--flag=value\<close>; any other argument has none.\<close>

definition flag_of :: "string \<Rightarrow> string option" where
  "flag_of arg =
     (if has_prefix arg ''--''
      then map_option (\<lambda>i. take i arg) (index_of (CHR ''='') arg)
      else None)"

text \<open>\<open>baseMap\<close>: the last position at which the base list has a flag.\<close>

fun base_map :: "nat \<Rightarrow> string list \<Rightarrow> (string \<rightharpoonup> nat) \<Rightarrow> (string \<rightharpoonup> nat)" where
  "base_map i [] m = m"
| "base_map i (arg # args) m =
     base_map (Suc i) args (case flag_of arg of None \<Rightarrow> m | Some f \<Rightarrow> m(f \<mapsto> i))"

fun override_args ::
  "(string \<rightharpoonup> nat) \<Rightarrow> string set \<Rightarrow> string list \<Rightarrow> string list \<Rightarrow> string list" where
  "override_args base protected [] out = out"
| "override_args base protected (arg # args) out =
     override_args base protected args
       (case flag_of arg of
          None \<Rightarrow> out @ [arg]
        | Some f \<Rightarrow>
            if f \<in> protected then out
            else (case base f of None \<Rightarrow> out @ [arg] | Some i \<Rightarrow> out[i := arg]))"

definition UpsertArgumentList :: "string list \<Rightarrow> string list \<Rightarrow> string list \<Rightarrow> string list" where
  "UpsertArgumentList baseArgs overrideArgs protectedFlags =
     override_args (base_map 0 baseArgs Map.empty) (set protectedFlags) overrideArgs baseArgs"

text \<open>Arguments that are not \<open>--flag=value\<close> are appended; the base list is kept before them.\<close>

lemma override_args_plain:
  "(\<And>arg. arg \<in> set args \<Longrightarrow> flag_of arg = None) \<Longrightarrow>
   override_args base protected args out = out @ args"
  by (induction args arbitrary: out) auto

lemma UpsertArgumentList_plain:
  "(\<And>arg. arg \<in> set over \<Longrightarrow> flag_of arg = None) \<Longrightarrow>
   UpsertArgumentList base over protected = base @ over"
  by (simp add: UpsertArgumentList_def override_args_plain)

lemma override_args_length: "length out \<le> length (override_args base protected args out)"
proof (induction args arbitrary: out)
  case (Cons arg args)
  show ?case
    using Cons.IH [of "case flag_of arg of None \<Rightarrow> out @ [arg] | Some f \<Rightarrow>
        if f \<in> protected then out
        else (case base f of None \<Rightarrow> out @ [arg] | Some i \<Rightarrow> out[i := arg])"]
    by (auto split: option.splits if_splits)
qed simp

end
