(* ===== verification/MongoDB.thy ===== *)
theory MongoDB
  imports Conditions PodSpec
begin

text \<open>
  The \<open>MongoDB\<close> resource of KubeDB (vendored \<open>kubedb.dev/apimachinery/apis/kubedb/v1alpha2\<close>):
  its specification and status, the constants the two controllers use, and the names, labels
  and host lists computed from it (\<open>mongodb_helpers.go\<close>).

  The lemmas show that the names are usable as keys: distinct shards have distinct node
  names, distinct members of a replica set have distinct host names.
\<close>

section \<open>The resource\<close>

text \<open>The \<open>int32\<close> counts are integers; loops over them run up to the count.\<close>

record mongodb_node =
  mn_replicas :: int
  mn_prefix :: string
  mn_configSecret :: "string option"
  mn_podTemplate :: pod_template

record shard_topology =
  st_shards :: int
  st_shard :: mongodb_node
  st_shardStorage :: "pvc_spec option"
  st_configServer :: mongodb_node
  st_configServerStorage :: "pvc_spec option"
  st_mongos :: mongodb_node

record mongodb_init =
  mi_initialized :: bool
  mi_waitForInitialRestore :: bool
  mi_script :: "raw option"

record x509_subject =
  xs_organizations :: "string list"
  xs_organizationalUnits :: "string list"
  xs_rest :: raw

record certificate_spec =
  cs_alias :: string
  cs_secretName :: string
  cs_subject :: "x509_subject option"
  cs_rest :: raw

record tls_config =
  tls_issuerRef :: "raw option"
  tls_certificates :: "certificate_spec list"

record exporter_spec =
  ex_port :: int
  ex_args :: "string list"
  ex_env :: "env_var list"
  ex_resources :: raw
  ex_securityContext :: raw

record agent_spec =
  ag_agent :: string
  ag_prometheus :: "exporter_spec option"

text \<open>
  A service template of the API user (\<open>NamedServiceTemplateSpec\<close>). Its labels and session
  affinity settings are never read.
\<close>

record template_port =
  tp_name :: string
  tp_port :: int
  tp_nodePort :: int

record service_template =
  stt_alias :: string
  stt_annotations :: "string \<rightharpoonup> string"
  stt_ports :: "template_port list"
  stt_clusterIP :: string
  stt_serviceType :: string
  stt_externalIPs :: "string list"
  stt_loadBalancerIP :: string
  stt_loadBalancerSourceRanges :: "string list"
  stt_externalTrafficPolicy :: string
  stt_healthCheckNodePort :: int

record mongodb =
  mg_meta :: object_meta
  mg_version :: string
  mg_replicas :: "int option"
  mg_replicaSet :: "string option"
  mg_shardTopology :: "shard_topology option"
  mg_storageType :: string
  mg_storage :: "pvc_spec option"
  mg_authSecret :: "string option"
  mg_clusterAuthMode :: string
  mg_sslMode :: string
  mg_init :: "mongodb_init option"
  mg_monitor :: "agent_spec option"
  mg_configSecret :: "string option"
  mg_podTemplate :: "pod_template option"
  mg_serviceTemplates :: "service_template list"
  mg_tls :: "tls_config option"
  mg_keyFileSecret :: "string option"
  mg_halted :: bool
  mg_terminationPolicy :: string
  mg_storageEngine :: string
  mg_phase :: string
  mg_observedGeneration :: "64 word"
  mg_conditions :: "condition list"
  mg_coordinatorResources :: raw
  mg_coordinatorSecurityContext :: raw

abbreviation mg_name :: "mongodb \<Rightarrow> string" where "mg_name m \<equiv> om_name (mg_meta m)"
abbreviation mg_namespace :: "mongodb \<Rightarrow> string" where "mg_namespace m \<equiv> om_namespace (mg_meta m)"
abbreviation mg_uid :: "mongodb \<Rightarrow> string" where "mg_uid m \<equiv> om_uid (mg_meta m)"
abbreviation mg_generation :: "mongodb \<Rightarrow> 64 word" where
  "mg_generation m \<equiv> om_generation (mg_meta m)"

text \<open>The zero value of the Go struct: what an empty \<open>api.MongoDB{}\<close> holds.\<close>

definition empty_mongodb :: mongodb where
  "empty_mongodb =
     \<lparr>mg_meta = meta_of '''' '''', mg_version = '''', mg_replicas = None, mg_replicaSet = None,
      mg_shardTopology = None, mg_storageType = '''', mg_storage = None, mg_authSecret = None,
      mg_clusterAuthMode = '''', mg_sslMode = '''', mg_init = None, mg_monitor = None,
      mg_configSecret = None, mg_podTemplate = None, mg_serviceTemplates = [], mg_tls = None,
      mg_keyFileSecret = None, mg_halted = False, mg_terminationPolicy = '''',
      mg_storageEngine = '''', mg_phase = '''', mg_observedGeneration = 0, mg_conditions = [],
      mg_coordinatorResources = absent, mg_coordinatorSecurityContext = absent\<rparr>"

section \<open>Constants\<close>

definition GroupName :: string where "GroupName = ''kubedb.com''"
definition ResourceKindMongoDB :: string where "ResourceKindMongoDB = ''MongoDB''"
definition ResourceKindStatefulSet :: string where "ResourceKindStatefulSet = ''StatefulSet''"
definition MongoDBFinalizer :: string where "MongoDBFinalizer = ''kubedb.com''"

definition DatabaseProvisioningStarted :: string where
  "DatabaseProvisioningStarted = ''ProvisioningStarted''"
definition DatabaseProvisioned :: string where "DatabaseProvisioned = ''Provisioned''"
definition DatabaseDataRestored :: string where "DatabaseDataRestored = ''DataRestored''"
definition DatabaseReplicaReady :: string where "DatabaseReplicaReady = ''ReplicaReady''"
definition DatabaseAcceptingConnection :: string where
  "DatabaseAcceptingConnection = ''AcceptingConnection''"
definition DatabaseReady :: string where "DatabaseReady = ''Ready''"
definition DatabasePaused :: string where "DatabasePaused = ''Paused''"
definition DatabaseHalted :: string where "DatabaseHalted = ''Halted''"

lemmas database_condition_defs =
  DatabaseProvisioningStarted_def DatabaseProvisioned_def DatabaseDataRestored_def
  DatabaseReplicaReady_def DatabaseAcceptingConnection_def DatabaseReady_def
  DatabasePaused_def DatabaseHalted_def

definition DatabasePhaseReady :: string where "DatabasePhaseReady = ''Ready''"
definition DatabasePhaseHalted :: string where "DatabasePhaseHalted = ''Halted''"

definition TerminationPolicyHalt :: string where "TerminationPolicyHalt = ''Halt''"
definition TerminationPolicyDelete :: string where "TerminationPolicyDelete = ''Delete''"
definition TerminationPolicyWipeOut :: string where "TerminationPolicyWipeOut = ''WipeOut''"

definition SSLModeDisabled :: string where "SSLModeDisabled = ''disabled''"
definition SSLModeAllowSSL :: string where "SSLModeAllowSSL = ''allowSSL''"
definition SSLModePreferSSL :: string where "SSLModePreferSSL = ''preferSSL''"
definition SSLModeRequireSSL :: string where "SSLModeRequireSSL = ''requireSSL''"

definition ClusterAuthModeKeyFile :: string where "ClusterAuthModeKeyFile = ''keyFile''"
definition ClusterAuthModeSendKeyFile :: string where "ClusterAuthModeSendKeyFile = ''sendKeyFile''"
definition ClusterAuthModeSendX509 :: string where "ClusterAuthModeSendX509 = ''sendX509''"
definition ClusterAuthModeX509 :: string where "ClusterAuthModeX509 = ''x509''"

definition MongoDBServerCert :: string where "MongoDBServerCert = ''server''"
definition MongoDBClientCert :: string where "MongoDBClientCert = ''client''"
definition MongoDBMetricsExporterCert :: string where
  "MongoDBMetricsExporterCert = ''metrics-exporter''"

definition TLSCACertFileName :: string where "TLSCACertFileName = ''ca.crt''"
definition MongoPemFileName :: string where "MongoPemFileName = ''mongo.pem''"
definition MongoClientFileName :: string where "MongoClientFileName = ''client.pem''"
definition MongoCertDirectory :: string where "MongoCertDirectory = ''/var/run/mongodb/tls''"

definition MongoDBDatabasePort :: string where "MongoDBDatabasePort = ''27017''"

section \<open>Names\<close>

definition OffshootName :: "mongodb \<Rightarrow> string" where
  "OffshootName m = mg_name m"

definition ServiceName :: "mongodb \<Rightarrow> string" where
  "ServiceName m = OffshootName m"

definition ShardCommonNodeName :: "mongodb \<Rightarrow> string" where
  "ShardCommonNodeName m =
     (case mg_shardTopology m of
        None \<Rightarrow> ''''
      | Some t \<Rightarrow> mn_prefix (st_shard t) @ OffshootName m @ ''-shard'')"

definition ShardNodeName :: "mongodb \<Rightarrow> int \<Rightarrow> string" where
  "ShardNodeName m i =
     (case mg_shardTopology m of None \<Rightarrow> '''' | Some t \<Rightarrow> ShardCommonNodeName m @ itoa i)"

definition ConfigSvrNodeName :: "mongodb \<Rightarrow> string" where
  "ConfigSvrNodeName m =
     (case mg_shardTopology m of
        None \<Rightarrow> ''''
      | Some t \<Rightarrow> mn_prefix (st_configServer t) @ OffshootName m @ ''-configsvr'')"

definition MongosNodeName :: "mongodb \<Rightarrow> string" where
  "MongosNodeName m =
     (case mg_shardTopology m of
        None \<Rightarrow> ''''
      | Some t \<Rightarrow> mn_prefix (st_mongos t) @ OffshootName m @ ''-mongos'')"

definition RepSetName :: "mongodb \<Rightarrow> string" where
  "RepSetName m = (case mg_replicaSet m of None \<Rightarrow> '''' | Some name \<Rightarrow> name)"

definition ShardRepSetName :: "mongodb \<Rightarrow> int \<Rightarrow> string" where
  "ShardRepSetName m i =
     (case mg_shardTopology m of
        None \<Rightarrow> ''shard'' @ itoa i
      | Some t \<Rightarrow>
          if mn_prefix (st_shard t) \<noteq> '''' then mn_prefix (st_shard t) @ itoa i
          else ''shard'' @ itoa i)"

definition ConfigSvrRepSetName :: "mongodb \<Rightarrow> string" where
  "ConfigSvrRepSetName m =
     (case mg_shardTopology m of
        None \<Rightarrow> ''cnfRepSet''
      | Some t \<Rightarrow>
          if mn_prefix (st_configServer t) \<noteq> '''' then mn_prefix (st_configServer t)
          else ''cnfRepSet'')"

text \<open>The governing service of a StatefulSet; the empty name makes the code panic (\<open>None\<close>).\<close>

definition GoverningServiceName :: "string \<Rightarrow> string option" where
  "GoverningServiceName name = (if name = '''' then None else Some (name @ ''-pods''))"

text \<open>The hosts of \<open>n\<close> pods; a negative count panics in \<open>make\<close>.\<close>

definition pod_hosts :: "string \<Rightarrow> string \<Rightarrow> string \<Rightarrow> int \<Rightarrow> string list option" where
  "pod_hosts node ns suffix n =
     (if n < 0 then None
      else if n = 0 then Some []
      else map_option
        (\<lambda>gov. map (\<lambda>i. node @ ''-'' @ itoa i @ ''.'' @ gov @ ''.'' @ ns @ ''.svc'' @ suffix)
          (int_range n))
        (GoverningServiceName node))"

definition Hosts :: "mongodb \<Rightarrow> string list option" where
  "Hosts m =
     (case GoverningServiceName (OffshootName m) of
        None \<Rightarrow> None
      | Some gov \<Rightarrow>
          if mg_replicaSet m \<noteq> None
          then (case mg_replicas m of
                  None \<Rightarrow> None
                | Some n \<Rightarrow> pod_hosts (mg_name m) (mg_namespace m) '''' n)
          else Some [mg_name m @ ''-0.'' @ gov @ ''.'' @ mg_namespace m @ ''.svc''])"

definition HostAddress :: "mongodb \<Rightarrow> string option" where
  "HostAddress m =
     (if mg_replicaSet m \<noteq> None
      then map_option (\<lambda>hs. RepSetName m @ ''/'' @ str_join '','' hs) (Hosts m)
      else Some (ServiceName m))"

definition ShardHosts :: "mongodb \<Rightarrow> int \<Rightarrow> string list option" where
  "ShardHosts m i =
     (case mg_shardTopology m of
        None \<Rightarrow> Some []
      | Some t \<Rightarrow>
          pod_hosts (ShardNodeName m i) (mg_namespace m) ('':'' @ MongoDBDatabasePort)
            (mn_replicas (st_shard t)))"

definition ShardDSN :: "mongodb \<Rightarrow> int \<Rightarrow> string option" where
  "ShardDSN m i =
     (case mg_shardTopology m of
        None \<Rightarrow> Some ''''
      | Some t \<Rightarrow>
          map_option (\<lambda>hs. ShardRepSetName m i @ ''/'' @ str_join '','' hs) (ShardHosts m i))"

definition ConfigSvrHosts :: "mongodb \<Rightarrow> string list option" where
  "ConfigSvrHosts m =
     (case mg_shardTopology m of
        None \<Rightarrow> Some []
      | Some t \<Rightarrow>
          pod_hosts (ConfigSvrNodeName m) (mg_namespace m) ('':'' @ MongoDBDatabasePort)
            (mn_replicas (st_configServer t)))"

definition ConfigSvrDSN :: "mongodb \<Rightarrow> string option" where
  "ConfigSvrDSN m =
     (case mg_shardTopology m of
        None \<Rightarrow> Some ''''
      | Some t \<Rightarrow>
          map_option (\<lambda>hs. ConfigSvrRepSetName m @ ''/'' @ str_join '','' hs) (ConfigSvrHosts m))"

definition MongosHosts :: "mongodb \<Rightarrow> string list option" where
  "MongosHosts m =
     (case mg_shardTopology m of
        None \<Rightarrow> Some []
      | Some t \<Rightarrow>
          pod_hosts (MongosNodeName m) (mg_namespace m) ('':'' @ MongoDBDatabasePort)
            (mn_replicas (st_mongos t)))"

lemma ShardNodeName_inj:
  assumes "mg_shardTopology m \<noteq> None" "0 \<le> i" "0 \<le> j" "ShardNodeName m i = ShardNodeName m j"
  shows "i = j"
  using assms by (auto simp: ShardNodeName_def dest: itoa_inj)

lemma ShardRepSetName_inj:
  "0 \<le> i \<Longrightarrow> 0 \<le> j \<Longrightarrow> ShardRepSetName m i = ShardRepSetName m j \<Longrightarrow> i = j"
  by (auto simp: ShardRepSetName_def split: option.splits if_splits dest: itoa_inj)

text \<open>Up to the first dot a host name determines the pod.\<close>

lemma before_dot_inj:
  "CHR ''.'' \<notin> set xs \<Longrightarrow> CHR ''.'' \<notin> set ys \<Longrightarrow> xs @ CHR ''.'' # us = ys @ CHR ''.'' # vs \<Longrightarrow>
   xs = ys"
proof (induction xs arbitrary: ys)
  case Nil
  then show ?case by (cases ys) auto
next
  case (Cons x xs)
  then show ?case by (cases ys) auto
qed

lemma pod_hosts_distinct: "pod_hosts node ns suffix n = Some hs \<Longrightarrow> distinct hs"
proof -
  have inj: "inj_on (\<lambda>i. node @ ''-'' @ itoa i @ ''.'' @ rest) {i. 0 \<le> i}" for rest
  proof (rule inj_onI)
    fix i j :: int
    assume ij: "i \<in> {i. 0 \<le> i}" "j \<in> {i. 0 \<le> i}"
      and eq: "node @ ''-'' @ itoa i @ ''.'' @ rest = node @ ''-'' @ itoa j @ ''.'' @ rest"
    from eq have "itoa i @ CHR ''.'' # rest = itoa j @ CHR ''.'' # rest" by simp
    then have "itoa i = itoa j"
      using ij by (intro before_dot_inj [of "itoa i" "itoa j" rest rest] itoa_no_sep) simp_all
    with ij show "i = j" by (intro itoa_inj) simp_all
  qed
  have all: "distinct (map (\<lambda>i. node @ ''-'' @ itoa i @ ''.'' @ rest) (int_range n))" for rest
    using inj_on_subset [OF inj, of "set (int_range n)" rest]
    by (simp add: distinct_map subset_iff)
  assume "pod_hosts node ns suffix n = Some hs"
  then consider "hs = []"
    | gov where "hs = map (\<lambda>i. node @ ''-'' @ itoa i @ ''.'' @ gov @ ''.'' @ ns @ ''.svc'' @ suffix)
        (int_range n)"
    by (auto simp: pod_hosts_def split: if_splits)
  then show ?thesis
  proof cases
    case 2
    with all [of "gov @ ''.'' @ ns @ ''.svc'' @ suffix"] show ?thesis by blast
  qed simp
qed

lemma pod_hosts_length: "pod_hosts node ns suffix n = Some hs \<Longrightarrow> int (length hs) = n"
  by (auto simp: pod_hosts_def split: if_splits)

section \<open>Labels\<close>

definition NameLabelKey :: string where "NameLabelKey = ''app.kubernetes.io/name''"
definition VersionLabelKey :: string where "VersionLabelKey = ''app.kubernetes.io/version''"
definition InstanceLabelKey :: string where "InstanceLabelKey = ''app.kubernetes.io/instance''"
definition ManagedByLabelKey :: string where "ManagedByLabelKey = ''app.kubernetes.io/managed-by''"
definition ComponentLabelKey :: string where "ComponentLabelKey = ''app.kubernetes.io/component''"

lemmas label_key_defs = NameLabelKey_def VersionLabelKey_def InstanceLabelKey_def
  ManagedByLabelKey_def ComponentLabelKey_def

text \<open>
  \<open>FilterKeys\<close>: a label of the second map is taken over unless its key is on the black list
  or lies in the domain. (A key with no \<open>/\<close> has index -1 in the code.)
\<close>

definition label_propagates :: "string \<Rightarrow> string \<Rightarrow> bool" where
  "label_propagates domain k \<longleftrightarrow>
     k \<notin> {NameLabelKey, VersionLabelKey, InstanceLabelKey, ManagedByLabelKey} \<and>
     (case index_of (CHR ''/'') k of
        None \<Rightarrow> True
      | Some idx \<Rightarrow>
          idx < length domain \<or>
          idx = length domain \<and> take idx k \<noteq> domain \<or>
          idx > length domain \<and>
            take (length domain + 1) (drop (idx - length domain - 1) k) \<noteq> CHR ''.'' # domain)"

definition FilterKeys ::
  "string \<Rightarrow> (string \<rightharpoonup> string) \<Rightarrow> (string \<rightharpoonup> string) \<Rightarrow> (string \<rightharpoonup> string)" where
  "FilterKeys domain out inp = out ++ (\<lambda>k. if label_propagates domain k then inp k else None)"

definition OffshootSelectors :: "mongodb \<Rightarrow> (string \<rightharpoonup> string)" where
  "OffshootSelectors m =
     [NameLabelKey \<mapsto> ''mongodbs.kubedb.com'', InstanceLabelKey \<mapsto> mg_name m,
      ManagedByLabelKey \<mapsto> GroupName]"

definition ShardSelectors :: "mongodb \<Rightarrow> int \<Rightarrow> (string \<rightharpoonup> string)" where
  "ShardSelectors m i =
     OverwriteKeys (OffshootSelectors m) [''mongodb.kubedb.com/node.shard'' \<mapsto> ShardNodeName m i]"

definition ConfigSvrSelectors :: "mongodb \<Rightarrow> (string \<rightharpoonup> string)" where
  "ConfigSvrSelectors m =
     OverwriteKeys (OffshootSelectors m) [''mongodb.kubedb.com/node.config'' \<mapsto> ConfigSvrNodeName m]"

definition MongosSelectors :: "mongodb \<Rightarrow> (string \<rightharpoonup> string)" where
  "MongosSelectors m =
     OverwriteKeys (OffshootSelectors m) [''mongodb.kubedb.com/node.mongos'' \<mapsto> MongosNodeName m]"

definition OffshootLabels :: "mongodb \<Rightarrow> (string \<rightharpoonup> string)" where
  "OffshootLabels m =
     FilterKeys GroupName ((OffshootSelectors m)(ComponentLabelKey \<mapsto> ''database''))
       (om_labels (mg_meta m))"

definition ShardLabels :: "mongodb \<Rightarrow> int \<Rightarrow> (string \<rightharpoonup> string)" where
  "ShardLabels m i = FilterKeys GroupName (OffshootLabels m) (ShardSelectors m i)"

definition ConfigSvrLabels :: "mongodb \<Rightarrow> (string \<rightharpoonup> string)" where
  "ConfigSvrLabels m = FilterKeys GroupName (OffshootLabels m) (ConfigSvrSelectors m)"

definition MongosLabels :: "mongodb \<Rightarrow> (string \<rightharpoonup> string)" where
  "MongosLabels m = FilterKeys GroupName (OffshootLabels m) (MongosSelectors m)"

section \<open>Secrets and certificates\<close>

definition GetPersistentSecrets :: "mongodb \<Rightarrow> string list" where
  "GetPersistentSecrets m =
     (case mg_authSecret m of None \<Rightarrow> [] | Some s \<Rightarrow> [s]) @
     (case mg_keyFileSecret m of None \<Rightarrow> [] | Some s \<Rightarrow> [s])"

definition KeyFileRequired :: "mongodb \<Rightarrow> bool" where
  "KeyFileRequired m \<longleftrightarrow>
     mg_clusterAuthMode m = ClusterAuthModeKeyFile \<or>
     mg_clusterAuthMode m = ClusterAuthModeSendKeyFile \<or>
     mg_clusterAuthMode m = ClusterAuthModeSendX509"

text \<open>\<open>NameWithSuffix\<close> with the default length 63, and \<open>strings.Trim(s, "-")\<close>.\<close>

definition trim_dash :: "string \<Rightarrow> string" where
  "trim_dash s =
     rev (dropWhile (\<lambda>c. c = CHR ''-'') (rev (dropWhile (\<lambda>c. c = CHR ''-'') s)))"

definition NameWithSuffix :: "string \<Rightarrow> string \<Rightarrow> string" where
  "NameWithSuffix name suffix =
     (if 63 \<le> length suffix then trim_dash (drop (length suffix - 63) suffix)
      else trim_dash (take (63 - length suffix - 1) name @ ''-'' @ suffix))"

definition CertificateName :: "mongodb \<Rightarrow> string \<Rightarrow> string \<Rightarrow> string option" where
  "CertificateName m alias stsName =
     (if mg_shardTopology m \<noteq> None \<and> alias = MongoDBServerCert
      then if stsName = '''' then None else Some (NameWithSuffix stsName (alias @ ''-cert''))
      else Some (NameWithSuffix (mg_name m) (alias @ ''-cert'')))"

definition GetCertificateSecretName :: "certificate_spec list \<Rightarrow> string \<Rightarrow> string option" where
  "GetCertificateSecretName cs alias =
     (case find_by cs_alias alias cs of
        None \<Rightarrow> None
      | Some c \<Rightarrow> if cs_secretName c = '''' then None else Some (cs_secretName c))"

text \<open>\<open>None\<close> is a panic: no StatefulSet name, or \<open>spec.tls\<close> is nil.\<close>

definition GetCertSecretName :: "mongodb \<Rightarrow> string \<Rightarrow> string \<Rightarrow> string option" where
  "GetCertSecretName m alias stsName =
     (if mg_shardTopology m \<noteq> None \<and> alias = MongoDBServerCert
      then CertificateName m alias stsName
      else case mg_tls m of
             None \<Rightarrow> None
           | Some tls \<Rightarrow>
               (case GetCertificateSecretName (tls_certificates tls) alias of
                  Some name \<Rightarrow> Some name
                | None \<Rightarrow> CertificateName m alias stsName))"

definition ConfigSecretName :: "mongodb \<Rightarrow> string \<Rightarrow> string" where
  "ConfigSecretName m nodeType =
     mg_name m @ (if nodeType \<noteq> '''' then ''-'' @ nodeType else '''') @ ''-config''"

definition empty_service_template :: service_template where
  "empty_service_template =
     \<lparr>stt_alias = '''', stt_annotations = Map.empty, stt_ports = [], stt_clusterIP = '''',
      stt_serviceType = '''', stt_externalIPs = [], stt_loadBalancerIP = '''',
      stt_loadBalancerSourceRanges = [], stt_externalTrafficPolicy = '''',
      stt_healthCheckNodePort = 0\<rparr>"

definition GetServiceTemplate :: "service_template list \<Rightarrow> string \<Rightarrow> service_template" where
  "GetServiceTemplate templates alias =
     (case find_by stt_alias alias templates of None \<Rightarrow> empty_service_template | Some t \<Rightarrow> t)"

end
