(* ===== verification/Resources.thy ===== *)
theory Resources
  imports MongoDB
begin

text \<open>
  Resources both controllers read or write: secrets, service accounts, role subjects,
  application bindings, jobs and the catalog entry of a MongoDB version. A record has the
  fields the code uses; a field the code never looks into is \<open>raw\<close>.
\<close>

record secret =
  sec_meta :: object_meta
  sec_type :: string
  sec_data :: "string \<rightharpoonup> string"

record rbac_subject =
  rs_kind :: string
  rs_name :: string
  rs_namespace :: string

record service_account =
  sa_meta :: object_meta

record app_service =
  as_scheme :: string
  as_name :: string
  as_port :: int
  as_query :: string

record app_binding =
  ab_meta :: object_meta
  ab_type :: string
  ab_version :: string
  ab_service :: "app_service option"
  ab_insecureSkipTLSVerify :: bool
  ab_caBundle :: string
  ab_secret :: "string option"
  ab_parameters :: raw
  ab_secretTransforms :: raw

record job_condition =
  jc_type :: string
  jc_status :: string

record job =
  jb_meta :: object_meta
  jb_volumes :: "volume list"
  jb_serviceAccountName :: string
  jb_scheduling :: pod_scheduling
  jb_containers :: "container list"
  jb_restartPolicy :: string
  jb_backoffLimit :: "int option"
  jb_conditions :: "job_condition list"
  jb_completionTime :: "time option"

text \<open>\<open>mv_stash\<close> is the whole backup addon; \<open>mv_restoreTask\<close> the name of its restore task.\<close>

record mongodb_version =
  mv_version :: string
  mv_dbImage :: string
  mv_exporterImage :: string
  mv_initContainerImage :: string
  mv_replicationModeDetectorImage :: string
  mv_podSecurityPolicyName :: string
  mv_deprecated :: bool
  mv_restoreTask :: string
  mv_stash :: raw

section \<open>Versions\<close>

text \<open>
  A parsed semantic version (\<open>Masterminds/semver\<close>; the parser is a parameter of the model),
  compared with a release: a pre-release comes before the release of the same number.
\<close>

record semver =
  sv_major :: nat
  sv_minor :: nat
  sv_patch :: nat
  sv_pre :: string

definition semver_number :: "semver \<Rightarrow> nat \<times> nat \<times> nat" where
  "semver_number v = (sv_major v, sv_minor v, sv_patch v)"

fun triple_less :: "nat \<times> nat \<times> nat \<Rightarrow> nat \<times> nat \<times> nat \<Rightarrow> bool" where
  "triple_less (a, b, c) (x, y, z) \<longleftrightarrow> a < x \<or> a = x \<and> (b < y \<or> b = y \<and> c < z)"

definition LessThan :: "semver \<Rightarrow> nat \<times> nat \<times> nat \<Rightarrow> bool" where
  "LessThan v release \<longleftrightarrow>
     triple_less (semver_number v) release \<or> semver_number v = release \<and> sv_pre v \<noteq> ''''"

definition EqualVersion :: "semver \<Rightarrow> nat \<times> nat \<times> nat \<Rightarrow> bool" where
  "EqualVersion v release \<longleftrightarrow> semver_number v = release \<and> sv_pre v = ''''"

text \<open>\<open>breakingVer\<close> and \<open>exceptionVer\<close>: where the TLS flags of the mongo tools changed.\<close>

definition breakingVer :: "nat \<times> nat \<times> nat" where "breakingVer = (4, 1, 0)"
definition exceptionVer :: "nat \<times> nat \<times> nat" where "exceptionVer = (4, 1, 4)"

lemma exception_not_less: "EqualVersion v exceptionVer \<Longrightarrow> \<not> LessThan v breakingVer"
  by (auto simp: EqualVersion_def LessThan_def exceptionVer_def breakingVer_def)

end
