(* ===== verification/SchemaTypes.thy ===== *)
theory SchemaTypes
  imports Resources
begin

text \<open>
  The data of the schema manager: the \<open>MongoDBDatabase\<close> resource
  (\<open>mongodbdatabase_types.go\<close>), the constants of \<open>types.go\<close>, the names and the condition
  setter of \<open>mongodbdatabase_helpers.go\<close>, and the Vault and Stash resources the
  controller creates or watches, with the fields it reads and writes.

  Constants of Go modules that are not in the repository (\<open>kubevault.dev\<close>,
  \<open>stash.appscode.dev\<close>, the schema API group) are the fields of \<open>ext_names\<close>.

  The lemmas: \<open>MongoDBDatabase_SetCondition\<close> takes effect whenever the stored generation is
  not the last one of an \<open>int64\<close>, keeps the condition types distinct and touches no other
  condition.
\<close>

section \<open>Constants of \<open>types.go\<close>\<close>

text \<open>The deletion policies of the schema.\<close>

definition DeletionPolicyDelete :: string where "DeletionPolicyDelete = ''Delete''"
definition DeletionPolicyDoNotDelete :: string where
  "DeletionPolicyDoNotDelete = ''DoNotDelete''"

text \<open>The phases.\<close>

definition SchemaDatabasePhaseWaiting :: string where "SchemaDatabasePhaseWaiting = ''waiting''"
definition SchemaDatabasePhaseProcessing :: string where
  "SchemaDatabasePhaseProcessing = ''Processing''"
definition SchemaDatabasePhaseRunning :: string where "SchemaDatabasePhaseRunning = ''Running''"
definition SchemaDatabasePhaseIgnored :: string where "SchemaDatabasePhaseIgnored = ''Ignored''"
definition SchemaDatabasePhaseSucceeded :: string where
  "SchemaDatabasePhaseSucceeded = ''Succeeded''"
definition SchemaDatabasePhaseFailed :: string where "SchemaDatabasePhaseFailed = ''Failed''"

text \<open>The condition types.\<close>

definition SchemaDatabaseConditionDBReady :: string where
  "SchemaDatabaseConditionDBReady = ''DatabaseReady''"
definition SchemaDatabaseConditionVaultReady :: string where
  "SchemaDatabaseConditionVaultReady = ''VaultReady''"
definition SchemaDatabaseConditionSecretEngineReady :: string where
  "SchemaDatabaseConditionSecretEngineReady = ''SecretEngineReady''"
definition SchemaDatabaseConditionSecretAccessRequestReady :: string where
  "SchemaDatabaseConditionSecretAccessRequestReady = ''SecretAccessRequestReady''"
definition SchemaDatabaseConditionJobCompleted :: string where
  "SchemaDatabaseConditionJobCompleted = ''JobCompleted''"
definition SchemaDatabaseConditionMongoDBRoleReady :: string where
  "SchemaDatabaseConditionMongoDBRoleReady = ''MongoDBRoleReady''"
definition SchemaDatabaseConditionPostgresRoleReady :: string where
  "SchemaDatabaseConditionPostgresRoleReady = ''PostgresRoleReady''"
definition SchemaDatabaseConditionMysqlRoleReady :: string where
  "SchemaDatabaseConditionMysqlRoleReady = ''MysqlRoleReady''"
definition SchemaDatabaseConditionMariaDBRoleReady :: string where
  "SchemaDatabaseConditionMariaDBRoleReady = ''MariaDBRoleReady''"
definition SchemaDatabaseConditionRepositoryFound :: string where
  "SchemaDatabaseConditionRepositoryFound = ''RepositoryFound''"
definition SchemaDatabaseConditionAppbindingFound :: string where
  "SchemaDatabaseConditionAppbindingFound = ''AppbindingFound''"
definition SchemaDatabaseConditionRestoreSession :: string where
  "SchemaDatabaseConditionRestoreSession = ''RestoreSession''"

text \<open>The reasons of a condition.\<close>

definition SchemaDatabaseReasonDBReady :: string where
  "SchemaDatabaseReasonDBReady = ''CheckDBIsReady''"
definition SchemaDatabaseReasonVaultReady :: string where
  "SchemaDatabaseReasonVaultReady = ''CheckVaultIsReady''"
definition SchemaDatabaseReasonSecretEngineReady :: string where
  "SchemaDatabaseReasonSecretEngineReady = ''CheckSecretEngineIsReady''"
definition SchemaDatabaseReasonSecretAccessRequestReady :: string where
  "SchemaDatabaseReasonSecretAccessRequestReady = ''CheckSecretAccessRequestIsReady''"
definition SchemaDatabaseReasonJobCompleted :: string where
  "SchemaDatabaseReasonJobCompleted = ''CheckJobIsCompleted''"
definition SchemaDatabaseReasonMongoDBRoleReady :: string where
  "SchemaDatabaseReasonMongoDBRoleReady = ''CheckMongoDBRoleIsReady''"
definition SchemaDatabaseReasonPostgresRoleReady :: string where
  "SchemaDatabaseReasonPostgresRoleReady = ''CheckPostgresRoleIsReady''"
definition SchemaDatabaseReasonMysqlRoleReady :: string where
  "SchemaDatabaseReasonMysqlRoleReady = ''CheckMysqlRoleIsReady''"
definition SchemaDatabaseReasonMariaDbRoleReady :: string where
  "SchemaDatabaseReasonMariaDbRoleReady = ''CheckMariaDBRoleIsReady''"
definition SchemaDatabaseReasonRepositoryFound :: string where
  "SchemaDatabaseReasonRepositoryFound = ''RepositoryIsFound''"
definition SchemaDatabaseReasonAppbindingFound :: string where
  "SchemaDatabaseReasonAppbindingFound = ''AppbindingIsFound''"
definition SchemaDatabaseReasonRestoreSessionSucceed :: string where
  "SchemaDatabaseReasonRestoreSessionSucceed = ''RestoreSessionIsSucceeded''"
definition SchemaDatabaseReasonRestoreSessionSFailed :: string where
  "SchemaDatabaseReasonRestoreSessionSFailed = ''RestoreSessionIsFailed''"
definition SchemaDatabaseAutoApprovalReason :: string where
  "SchemaDatabaseAutoApprovalReason = ''ApprovedBySchemaManager''"

text \<open>The phases of a secret engine.\<close>

definition SecretEnginePhaseSuccess :: string where "SecretEnginePhaseSuccess = ''Success''"
definition SecretEnginePhaseProcessing :: string where
  "SecretEnginePhaseProcessing = ''Processing''"

lemmas phase_defs =
  SchemaDatabasePhaseWaiting_def SchemaDatabasePhaseProcessing_def
  SchemaDatabasePhaseRunning_def SchemaDatabasePhaseIgnored_def
  SchemaDatabasePhaseSucceeded_def SchemaDatabasePhaseFailed_def

lemmas schema_condition_defs =
  SchemaDatabaseConditionDBReady_def SchemaDatabaseConditionVaultReady_def
  SchemaDatabaseConditionSecretEngineReady_def
  SchemaDatabaseConditionSecretAccessRequestReady_def SchemaDatabaseConditionJobCompleted_def
  SchemaDatabaseConditionMongoDBRoleReady_def SchemaDatabaseConditionPostgresRoleReady_def
  SchemaDatabaseConditionMysqlRoleReady_def SchemaDatabaseConditionMariaDBRoleReady_def
  SchemaDatabaseConditionRepositoryFound_def SchemaDatabaseConditionAppbindingFound_def
  SchemaDatabaseConditionRestoreSession_def

lemmas schema_reason_defs =
  SchemaDatabaseReasonDBReady_def SchemaDatabaseReasonVaultReady_def
  SchemaDatabaseReasonSecretEngineReady_def SchemaDatabaseReasonSecretAccessRequestReady_def
  SchemaDatabaseReasonJobCompleted_def SchemaDatabaseReasonMongoDBRoleReady_def
  SchemaDatabaseReasonPostgresRoleReady_def SchemaDatabaseReasonMysqlRoleReady_def
  SchemaDatabaseReasonMariaDbRoleReady_def SchemaDatabaseReasonRepositoryFound_def
  SchemaDatabaseReasonAppbindingFound_def SchemaDatabaseReasonRestoreSessionSucceed_def
  SchemaDatabaseReasonRestoreSessionSFailed_def

text \<open>The constants are pairwise distinct, in either order.\<close>

lemma phases_distinct:
  "distinct [SchemaDatabasePhaseWaiting, SchemaDatabasePhaseProcessing, SchemaDatabasePhaseRunning, 
    SchemaDatabasePhaseIgnored, SchemaDatabasePhaseSucceeded, SchemaDatabasePhaseFailed]"
  "distinct [SchemaDatabasePhaseFailed, SchemaDatabasePhaseSucceeded, SchemaDatabasePhaseIgnored, 
    SchemaDatabasePhaseRunning, SchemaDatabasePhaseProcessing, SchemaDatabasePhaseWaiting]"
  by (simp_all add: phase_defs)

lemmas phases_neq [simp] = phases_distinct [simplified]

lemma schema_conditions_distinct:
  "distinct [SchemaDatabaseConditionDBReady, SchemaDatabaseConditionVaultReady, 
    SchemaDatabaseConditionSecretEngineReady, 
    SchemaDatabaseConditionSecretAccessRequestReady, SchemaDatabaseConditionJobCompleted, 
    SchemaDatabaseConditionMongoDBRoleReady, SchemaDatabaseConditionPostgresRoleReady, 
    SchemaDatabaseConditionMysqlRoleReady, SchemaDatabaseConditionMariaDBRoleReady, 
    SchemaDatabaseConditionRepositoryFound, SchemaDatabaseConditionAppbindingFound, 
    SchemaDatabaseConditionRestoreSession]"
  "distinct [SchemaDatabaseConditionRestoreSession, SchemaDatabaseConditionAppbindingFound, 
    SchemaDatabaseConditionRepositoryFound, SchemaDatabaseConditionMariaDBRoleReady, 
    SchemaDatabaseConditionMysqlRoleReady, SchemaDatabaseConditionPostgresRoleReady, 
    SchemaDatabaseConditionMongoDBRoleReady, SchemaDatabaseConditionJobCompleted, 
    SchemaDatabaseConditionSecretAccessRequestReady, 
    SchemaDatabaseConditionSecretEngineReady, SchemaDatabaseConditionVaultReady, 
    SchemaDatabaseConditionDBReady]"
  by (simp_all add: schema_condition_defs)

lemmas schema_conditions_neq [simp] = schema_conditions_distinct [simplified]

lemma restore_reasons_distinct:
  "distinct [SchemaDatabaseReasonRestoreSessionSucceed, SchemaDatabaseReasonRestoreSessionSFailed]"
  "distinct [SchemaDatabaseReasonRestoreSessionSFailed, SchemaDatabaseReasonRestoreSessionSucceed]"
  by (simp_all add: schema_reason_defs)

lemmas restore_reasons_neq [simp] = restore_reasons_distinct [simplified]

lemma phases_nonempty [simp]:
  "SchemaDatabasePhaseWaiting \<noteq> ''''"
  "SchemaDatabasePhaseProcessing \<noteq> ''''"
  "SchemaDatabasePhaseRunning \<noteq> ''''"
  "SchemaDatabasePhaseIgnored \<noteq> ''''"
  "SchemaDatabasePhaseSucceeded \<noteq> ''''"
  "SchemaDatabasePhaseFailed \<noteq> ''''"
  "'''' \<noteq> SchemaDatabasePhaseIgnored"
  by (simp_all add: phase_defs)

section \<open>The MongoDBDatabase resource\<close>

record restore_ref =
  rr_repository :: nsname
  rr_snapshot :: string

record script_source =
  scr_path :: string
  scr_volumeSource :: raw

record schema_init =
  si_initialized :: bool
  si_script :: "script_source option"
  si_podTemplate :: "pod_template option"

record schema_subject =
  sub_kind :: string
  sub_name :: string
  sub_namespace :: string

record schema_db =
  sd_meta :: object_meta
  sd_databaseRef :: nsname
  sd_vaultRef :: nsname
  sd_databaseName :: string
  sd_subjects :: "schema_subject list"
  sd_init :: "schema_init option"
  sd_restore :: "restore_ref option"
  sd_deletionPolicy :: string
  sd_autoApproval :: bool
  sd_phase :: string
  sd_conditions :: "condition list"

abbreviation sd_name :: "schema_db \<Rightarrow> string" where "sd_name db \<equiv> om_name (sd_meta db)"
abbreviation sd_namespace :: "schema_db \<Rightarrow> string" where
  "sd_namespace db \<equiv> om_namespace (sd_meta db)"

definition empty_schema_db :: schema_db where
  "empty_schema_db =
     \<lparr>sd_meta = meta_of '''' '''', sd_databaseRef = ('''', ''''), sd_vaultRef = ('''', ''''),
      sd_databaseName = '''', sd_subjects = [], sd_init = None, sd_restore = None,
      sd_deletionPolicy = '''', sd_autoApproval = False, sd_phase = '''', sd_conditions = []\<rparr>"

section \<open>Names\<close>

definition ResourceKindMongoDBDatabase :: string where
  "ResourceKindMongoDBDatabase = ''MongoDBDatabase''"
definition InitScriptName :: string where "InitScriptName = ''init.js''"
definition MongoInitScriptPath :: string where "MongoInitScriptPath = ''/init-scripts''"
definition MongoPrefix :: string where "MongoPrefix = ''-mongo''"
definition MongoDatabaseNameForEntry :: string where "MongoDatabaseNameForEntry = ''kubedb-system''"
definition MongoCollectionNameForEntry :: string where "MongoCollectionNameForEntry = ''databases''"

definition GetMongoInitVolumeNameForPod :: "schema_db \<Rightarrow> string" where
  "GetMongoInitVolumeNameForPod db = sd_name db @ ''-init-volume''"

definition GetMongoInitJobName :: "schema_db \<Rightarrow> string" where
  "GetMongoInitJobName db = sd_name db @ ''-init-job''"

definition GetMongoInitContainerNameForPod :: "schema_db \<Rightarrow> string" where
  "GetMongoInitContainerNameForPod db = sd_name db @ ''-init-container''"

definition GetMongoRestoreSessionName :: "schema_db \<Rightarrow> string" where
  "GetMongoRestoreSessionName db = sd_name db @ ''-restore-session''"

definition GetMongoAdminRoleName :: "schema_db \<Rightarrow> string" where
  "GetMongoAdminRoleName db = sd_name db @ MongoPrefix @ ''-admin-role''"

definition GetMongoAdminSecretAccessRequestName :: "schema_db \<Rightarrow> string" where
  "GetMongoAdminSecretAccessRequestName db =
     sd_name db @ MongoPrefix @ ''-admin-secret-access-req''"

definition GetMongoAdminServiceAccountName :: "schema_db \<Rightarrow> string" where
  "GetMongoAdminServiceAccountName db = sd_name db @ MongoPrefix @ ''-admin-service-account''"

definition GetMongoSecretEngineName :: "schema_db \<Rightarrow> string" where
  "GetMongoSecretEngineName db = sd_name db @ MongoPrefix @ ''-secret-engine''"

definition GetAuthSecretName :: "string \<Rightarrow> string" where
  "GetAuthSecretName dbServerName = dbServerName @ ''-auth''"

section \<open>Setting a condition\<close>

text \<open>The generation counts the status changes of the condition, from 1.\<close>

fun next_generation :: "string \<Rightarrow> string \<Rightarrow> 64 word \<Rightarrow> condition list \<Rightarrow> 64 word" where
  "next_generation typ sts gen [] = gen"
| "next_generation typ sts gen (c # cs) =
     next_generation typ sts
       (if cond_type c = typ
        then (if cond_status c \<noteq> sts then cond_gen c + 1 else cond_gen c)
        else gen) cs"

definition new_condition :: "string \<Rightarrow> string \<Rightarrow> string \<Rightarrow> 64 word \<Rightarrow> string \<Rightarrow> condition" where
  "new_condition typ sts reason gen msg =
     \<lparr>cond_type = typ, cond_status = sts, cond_gen = gen, cond_time = 0, cond_reason = reason,
      cond_message = msg\<rparr>"

definition MongoDBDatabase_SetCondition ::
  "time \<Rightarrow> string \<Rightarrow> string \<Rightarrow> string \<Rightarrow> string \<Rightarrow> schema_db \<Rightarrow> schema_db" where
  "MongoDBDatabase_SetCondition now typ sts reason msg db =
     db\<lparr>sd_conditions := SetCondition now (sd_conditions db)
       (new_condition typ sts reason (next_generation typ sts 1 (sd_conditions db)) msg)\<rparr>"

lemma new_condition_fields [simp]:
  "cond_type (new_condition typ sts reason gen msg) = typ"
  "cond_status (new_condition typ sts reason gen msg) = sts"
  "cond_gen (new_condition typ sts reason gen msg) = gen"
  "cond_reason (new_condition typ sts reason gen msg) = reason"
  "cond_message (new_condition typ sts reason gen msg) = msg"
  by (simp_all add: new_condition_def)

lemma next_generation_absent:
  "find_by cond_type typ cs = None \<Longrightarrow> next_generation typ sts gen cs = gen"
  by (induction cs arbitrary: gen) (auto split: if_splits)

lemma next_generation_find:
  "distinct_types cs \<Longrightarrow> find_by cond_type typ cs = Some c \<Longrightarrow>
   next_generation typ sts gen cs = (if cond_status c \<noteq> sts then cond_gen c + 1 else cond_gen c)"
proof (induction cs arbitrary: gen)
  case (Cons d cs)
  show ?case
  proof (cases "cond_type d = typ")
    case True
    with Cons.prems have "c = d" and "find_by cond_type typ cs = None"
      by (auto simp: find_by_None distinct_types_def)
    with True show ?thesis by (simp add: next_generation_absent)
  next
    case False
    with Cons show ?thesis by (simp add: distinct_types_def)
  qed
qed simp

text \<open>The generation can be counted up once more.\<close>

definition gen_room :: "64 word \<Rightarrow> bool" where
  "gen_room g \<longleftrightarrow> sint g < 2 ^ 63 - 1"

lemma sint_succ: "gen_room g \<Longrightarrow> sint (g + 1) = sint g + 1"
  using sint_ge [of g]
  by (simp add: gen_room_def sint_word_ariths(1) signed_take_bit_int_eq_self)

lemma MongoDBDatabase_SetCondition_find:
  assumes "distinct_types (sd_conditions db)"
    and "\<And>c. find_by cond_type typ (sd_conditions db) = Some c \<Longrightarrow> gen_room (cond_gen c)"
  shows "\<exists>c. find_by cond_type typ
      (sd_conditions (MongoDBDatabase_SetCondition now typ sts reason msg db)) = Some c \<and>
    cond_status c = sts \<and> cond_reason c = reason \<and> cond_message c = msg \<and>
    cond_gen c = next_generation typ sts 1 (sd_conditions db)"
proof -
  let ?gen = "next_generation typ sts 1 (sd_conditions db)"
  let ?new = "new_condition typ sts reason ?gen msg"
  let ?cs = "SetCondition now (sd_conditions db) ?new"
  have newer: "sint (cond_gen cur) \<le> sint (cond_gen ?new)"
    if "find_by cond_type typ (sd_conditions db) = Some cur" for cur
    using that assms by (simp add: next_generation_find sint_succ)
  obtain c where c: "find_by cond_type typ ?cs = Some c"
    using SetCondition_same [of ?new now "sd_conditions db"] by auto
  with newer have "cond_status c = cond_status ?new \<and> cond_reason c = cond_reason ?new \<and>
      cond_message c = cond_message ?new \<and> cond_gen c = cond_gen ?new"
    by (intro SetCondition_effective [where cs = "sd_conditions db" and now = now]) simp_all
  with c show ?thesis by (simp add: MongoDBDatabase_SetCondition_def)
qed

lemma MongoDBDatabase_SetCondition_other:
  "typ' \<noteq> typ \<Longrightarrow>
   find_by cond_type typ' (sd_conditions (MongoDBDatabase_SetCondition now typ sts reason msg db)) =
     find_by cond_type typ' (sd_conditions db)"
  by (simp add: MongoDBDatabase_SetCondition_def SetCondition_other)

lemma MongoDBDatabase_SetCondition_true_other:
  "typ' \<noteq> typ \<Longrightarrow>
   IsConditionTrue (sd_conditions (MongoDBDatabase_SetCondition now typ sts reason msg db)) typ' =
     IsConditionTrue (sd_conditions db) typ'"
  by (simp add: MongoDBDatabase_SetCondition_def IsConditionTrue_other)

lemma MongoDBDatabase_SetCondition_distinct:
  "distinct_types (sd_conditions db) \<Longrightarrow>
   distinct_types (sd_conditions (MongoDBDatabase_SetCondition now typ sts reason msg db))"
  by (simp add: MongoDBDatabase_SetCondition_def SetCondition_distinct)

lemma MongoDBDatabase_SetCondition_fields [simp]:
  "sd_meta (MongoDBDatabase_SetCondition now typ sts reason msg db) = sd_meta db"
  "sd_databaseRef (MongoDBDatabase_SetCondition now typ sts reason msg db) = sd_databaseRef db"
  "sd_vaultRef (MongoDBDatabase_SetCondition now typ sts reason msg db) = sd_vaultRef db"
  "sd_databaseName (MongoDBDatabase_SetCondition now typ sts reason msg db) = sd_databaseName db"
  "sd_init (MongoDBDatabase_SetCondition now typ sts reason msg db) = sd_init db"
  "sd_restore (MongoDBDatabase_SetCondition now typ sts reason msg db) = sd_restore db"
  "sd_deletionPolicy (MongoDBDatabase_SetCondition now typ sts reason msg db) =
     sd_deletionPolicy db"
  "sd_autoApproval (MongoDBDatabase_SetCondition now typ sts reason msg db) = sd_autoApproval db"
  "sd_phase (MongoDBDatabase_SetCondition now typ sts reason msg db) = sd_phase db"
  by (simp_all add: MongoDBDatabase_SetCondition_def)

section \<open>Foreign resources\<close>

record ext_names =
  k_AllReplicasAreReady :: string
  k_VaultServerAcceptingConnection :: string
  k_VaultServerInitialized :: string
  k_VaultServerUnsealed :: string
  k_VaultServerPhaseReady :: string
  k_RolePhaseSuccess :: string
  k_RequestStatusPhaseApproved :: string
  k_RestoreSucceeded :: string
  k_RestoreFailed :: string
  k_DefaultMongoDBDatabasePlugin :: string
  k_ResourceKindMongoDBRole :: string
  k_SchemaGroup :: string
  k_SchemaGroupVersion :: string

record vault_server =
  vs_meta :: object_meta
  vs_phase :: string
  vs_conditions :: "condition list"

record mongodb_configuration =
  mc_databaseRef :: nsname
  mc_pluginName :: string
  mc_rest :: raw

record secret_engine =
  se_meta :: object_meta
  se_vaultRef :: nsname
  se_mongodb :: "mongodb_configuration option"
  se_phase :: string
  se_conditions :: "condition list"

record mongodb_role =
  mr_meta :: object_meta
  mr_secretEngineRef :: string
  mr_creationStatements :: "string list"
  mr_revocationStatements :: "string list"
  mr_phase :: string
  mr_conditions :: "condition list"

record secret_access_request =
  sar_meta :: object_meta
  sar_roleRefKind :: string
  sar_roleRefName :: string
  sar_subjects :: "rbac_subject list"
  sar_phase :: string
  sar_secret :: "nsname option"
  sar_conditions :: "condition list"

record repository =
  rep_meta :: object_meta
  rep_storageSecretName :: string
  rep_rest :: raw

record restore_target =
  rt_apiVersion :: string
  rt_kind :: string
  rt_name :: string
  rt_snapshots :: "string list list"

record restore_session =
  res_meta :: object_meta
  res_taskName :: string
  res_target :: "restore_target option"
  res_repository :: string
  res_phase :: string

end
