(* ===== verification/SchemaPhase.thy ===== *)
theory SchemaPhase
  imports SchemaTypes
begin

text \<open>
  The decisions of the schema manager (\<open>helpers.go\<close>): the readiness checks on the resources
  it depends on, and the phase of a \<open>MongoDBDatabase\<close> as a function of its conditions.

  The phase is shown to be that of a list of milestones: the first group of conditions that
  are not all true decides it. From this follow the bounds on the phase (never
  \<open>Ignored\<close>), what \<open>Succeeded\<close> implies, and that setting a condition to true never moves the
  phase backwards.
\<close>

definition IsJobConditionTrue :: "job_condition list \<Rightarrow> string \<Rightarrow> bool" where
  "IsJobConditionTrue cs typ \<longleftrightarrow>
     list_ex (\<lambda>c. jc_type c = typ \<and> jc_status c = ConditionTrue) cs"

definition ContainsString :: "string list \<Rightarrow> string \<Rightarrow> bool" where
  "ContainsString xs s \<longleftrightarrow> list_ex (\<lambda>item. item = s) xs"

definition CheckVaultConditions :: "ext_names \<Rightarrow> vault_server \<Rightarrow> bool" where
  "CheckVaultConditions K vault \<longleftrightarrow>
     IsConditionTrue (vs_conditions vault) (k_AllReplicasAreReady K) \<and>
     IsConditionTrue (vs_conditions vault) (k_VaultServerAcceptingConnection K) \<and>
     IsConditionTrue (vs_conditions vault) (k_VaultServerInitialized K) \<and>
     IsConditionTrue (vs_conditions vault) (k_VaultServerUnsealed K)"

definition CheckMongoDBConditions :: "mongodb \<Rightarrow> bool" where
  "CheckMongoDBConditions mongo \<longleftrightarrow>
     IsConditionTrue (mg_conditions mongo) DatabaseAcceptingConnection \<and>
     IsConditionTrue (mg_conditions mongo) DatabaseReady \<and>
     IsConditionTrue (mg_conditions mongo) DatabaseProvisioned"

definition CheckSecretEngineConditions :: "secret_engine \<Rightarrow> bool" where
  "CheckSecretEngineConditions se \<longleftrightarrow> IsConditionTrue (se_conditions se) ConditionAvailable"

definition CheckMongoDBRoleConditions :: "mongodb_role \<Rightarrow> bool" where
  "CheckMongoDBRoleConditions mr \<longleftrightarrow> IsConditionTrue (mr_conditions mr) ConditionAvailable"

text \<open>The same on the conditions of the roles of two other databases; the loop has no use for them.\<close>

definition CheckPostgresRoleConditions :: "condition list \<Rightarrow> bool" where
  "CheckPostgresRoleConditions conditions \<longleftrightarrow> IsConditionTrue conditions ConditionAvailable"

definition CheckMysqlRoleConditions :: "condition list \<Rightarrow> bool" where
  "CheckMysqlRoleConditions conditions \<longleftrightarrow> IsConditionTrue conditions ConditionAvailable"

definition CheckSecretAccessRequestConditions :: "secret_access_request \<Rightarrow> bool" where
  "CheckSecretAccessRequestConditions sar \<longleftrightarrow>
     IsConditionTrue (sar_conditions sar) ConditionAvailable \<and>
     IsConditionTrue (sar_conditions sar) ConditionRequestApproved"

definition CheckRestoreSessionPhaseSucceed :: "ext_names \<Rightarrow> restore_session \<Rightarrow> bool" where
  "CheckRestoreSessionPhaseSucceed K res \<longleftrightarrow> res_phase res = k_RestoreSucceeded K"

definition CheckRestoreSessionPhaseFailed :: "ext_names \<Rightarrow> restore_session \<Rightarrow> bool" where
  "CheckRestoreSessionPhaseFailed K res \<longleftrightarrow> res_phase res = k_RestoreFailed K"

definition JobComplete :: string where "JobComplete = ''Complete''"

definition CheckJobConditions :: "job \<Rightarrow> bool" where
  "CheckJobConditions jb \<longleftrightarrow> IsJobConditionTrue (jb_conditions jb) JobComplete"

text \<open>The loop at the end of \<open>GetPhaseFromCondition\<close>.\<close>

fun restore_outcome :: "condition list \<Rightarrow> string" where
  "restore_outcome [] = SchemaDatabasePhaseSucceeded"
| "restore_outcome (c # cs) =
     (if cond_type c = SchemaDatabaseConditionRestoreSession
      then (if cond_reason c = SchemaDatabaseReasonRestoreSessionSFailed
            then SchemaDatabasePhaseFailed
            else if cond_reason c = SchemaDatabaseReasonRestoreSessionSucceed
            then SchemaDatabasePhaseSucceeded
            else restore_outcome cs)
      else restore_outcome cs)"

definition GetPhaseFromCondition :: "condition list \<Rightarrow> bool \<Rightarrow> string" where
  "GetPhaseFromCondition conditions toRestore =
     (if \<not> IsConditionTrue conditions SchemaDatabaseConditionVaultReady \<or>
         \<not> IsConditionTrue conditions SchemaDatabaseConditionDBReady
      then SchemaDatabasePhaseWaiting
      else if \<not> IsConditionTrue conditions SchemaDatabaseConditionSecretEngineReady \<or>
         \<not> IsConditionTrue conditions SchemaDatabaseConditionMongoDBRoleReady \<or>
         \<not> IsConditionTrue conditions SchemaDatabaseConditionSecretAccessRequestReady
      then SchemaDatabasePhaseProcessing
      else if toRestore \<and> \<not> IsConditionTrue conditions SchemaDatabaseConditionRepositoryFound
      then SchemaDatabasePhaseRunning
      else if toRestore \<and> \<not> IsConditionTrue conditions SchemaDatabaseConditionAppbindingFound
      then SchemaDatabasePhaseRunning
      else if toRestore \<and> \<not> IsConditionTrue conditions SchemaDatabaseConditionRestoreSession
      then SchemaDatabasePhaseRunning
      else if \<not> toRestore \<and> HasCondition conditions SchemaDatabaseConditionJobCompleted \<and>
         \<not> IsConditionTrue conditions SchemaDatabaseConditionJobCompleted
      then SchemaDatabasePhaseRunning
      else restore_outcome conditions)"

section \<open>Milestones\<close>

text \<open>
  The specification of the phase: groups of conditions, each with the phase the schema is in
  while the group is not complete.
\<close>

definition milestones :: "condition list \<Rightarrow> bool \<Rightarrow> (string list \<times> string) list" where
  "milestones conditions toRestore =
     [([SchemaDatabaseConditionDBReady, SchemaDatabaseConditionVaultReady],
        SchemaDatabasePhaseWaiting),
      ([SchemaDatabaseConditionSecretEngineReady, SchemaDatabaseConditionMongoDBRoleReady,
        SchemaDatabaseConditionSecretAccessRequestReady], SchemaDatabasePhaseProcessing),
      (if toRestore
       then [SchemaDatabaseConditionRepositoryFound, SchemaDatabaseConditionAppbindingFound,
             SchemaDatabaseConditionRestoreSession]
       else if HasCondition conditions SchemaDatabaseConditionJobCompleted
       then [SchemaDatabaseConditionJobCompleted] else [], SchemaDatabasePhaseRunning)]"

definition reached :: "condition list \<Rightarrow> string list \<Rightarrow> bool" where
  "reached conditions grp \<longleftrightarrow> (\<forall>typ \<in> set grp. IsConditionTrue conditions typ)"

fun first_open :: "condition list \<Rightarrow> (string list \<times> string) list \<Rightarrow> string option" where
  "first_open conditions [] = None"
| "first_open conditions ((grp, phase) # ms) =
     (if reached conditions grp then first_open conditions ms else Some phase)"

definition phase_spec :: "condition list \<Rightarrow> bool \<Rightarrow> string" where
  "phase_spec conditions toRestore =
     (case first_open conditions (milestones conditions toRestore) of
        Some phase \<Rightarrow> phase
      | None \<Rightarrow> restore_outcome conditions)"

lemma GetPhase_milestones: "GetPhaseFromCondition cs r = phase_spec cs r"
  by (cases r) (simp_all add: GetPhaseFromCondition_def phase_spec_def milestones_def reached_def)

lemma restore_outcome_cases:
  "restore_outcome cs \<in> {SchemaDatabasePhaseSucceeded, SchemaDatabasePhaseFailed}"
  by (induction cs) auto

lemma restore_outcome_failed:
  "restore_outcome cs = SchemaDatabasePhaseFailed \<Longrightarrow>
   \<exists>c \<in> set cs. cond_type c = SchemaDatabaseConditionRestoreSession \<and>
     cond_reason c = SchemaDatabaseReasonRestoreSessionSFailed"
  by (induction cs) (auto split: if_splits)

lemma restore_outcome_find:
  "distinct_types cs \<Longrightarrow>
   restore_outcome cs =
     (case find_by cond_type SchemaDatabaseConditionRestoreSession cs of
        None \<Rightarrow> SchemaDatabasePhaseSucceeded
      | Some c \<Rightarrow>
          if cond_reason c = SchemaDatabaseReasonRestoreSessionSFailed
          then SchemaDatabasePhaseFailed else SchemaDatabasePhaseSucceeded)"
proof (induction cs)
  case (Cons c cs)
  have "restore_outcome ds = SchemaDatabasePhaseSucceeded"
    if "SchemaDatabaseConditionRestoreSession \<notin> cond_type ` set ds" for ds
    using that by (induction ds) auto
  with Cons show ?case by (auto simp: distinct_types_def)
qed simp

section \<open>Progress\<close>

text \<open>The order of the phases: the last two end the work.\<close>

definition phase_rank :: "string \<Rightarrow> nat" where
  "phase_rank phase =
     (if phase = SchemaDatabasePhaseWaiting then 0
      else if phase = SchemaDatabasePhaseProcessing then 1
      else if phase = SchemaDatabasePhaseRunning then 2
      else 3)"

lemma phase_rank_simps [simp]:
  "phase_rank SchemaDatabasePhaseWaiting = 0"
  "phase_rank SchemaDatabasePhaseProcessing = 1"
  "phase_rank SchemaDatabasePhaseRunning = 2"
  "phase_rank SchemaDatabasePhaseSucceeded = 3"
  "phase_rank SchemaDatabasePhaseFailed = 3"
  by (simp_all add: phase_rank_def)

lemma restore_outcome_rank [simp]: "phase_rank (restore_outcome cs) = 3"
  using restore_outcome_cases [of cs] by auto

lemma GetPhase_rank_mono:
  assumes true_mono: "\<And>typ. IsConditionTrue cs typ \<Longrightarrow> IsConditionTrue cs' typ"
    and has_mono: "\<And>typ. HasCondition cs' typ \<Longrightarrow> HasCondition cs typ \<or> IsConditionTrue cs' typ"
  shows "phase_rank (GetPhaseFromCondition cs r) \<le> phase_rank (GetPhaseFromCondition cs' r)"
proof -
  have "\<not> (HasCondition cs' t \<and> \<not> IsConditionTrue cs' t) \<or>
      (HasCondition cs t \<and> \<not> IsConditionTrue cs t)" for t
    using true_mono has_mono by blast
  then show ?thesis
    unfolding GetPhaseFromCondition_def
    using true_mono [of SchemaDatabaseConditionVaultReady]
      true_mono [of SchemaDatabaseConditionDBReady]
      true_mono [of SchemaDatabaseConditionSecretEngineReady]
      true_mono [of SchemaDatabaseConditionMongoDBRoleReady]
      true_mono [of SchemaDatabaseConditionSecretAccessRequestReady]
      true_mono [of SchemaDatabaseConditionRepositoryFound]
      true_mono [of SchemaDatabaseConditionAppbindingFound]
      true_mono [of SchemaDatabaseConditionRestoreSession]
    by (cases r) auto
qed

end
