(* ===== verification/SchemaEnv.thy ===== *)
theory SchemaEnv
  imports SchemaPhase
begin

text \<open>
  What the schema controller runs in: the calls it makes, the answers it gets, and its state
  (the record of calls and the \<open>MongoDBDatabase\<close> object that its functions share by
  pointer). The answers are arbitrary functions of the calls made so far, so every theorem
  holds for every API server, every MongoDB server and every interleaving with other clients.

  \<open>clientutil.CreateOrPatch\<close> and \<open>PatchStatus\<close> are not in the repository. A call of
  \<open>CreateOrPatch\<close> is two calls here, around the transform function the code passes to it: it
  fetches the object (saying if it has to be created), applies the transform once, and
  writes the result.

  The handlers \<open>updateStatusForX\<close> share a contract, the locale \<open>status_update\<close>.
\<close>

datatype res_kind =
    KSchema | KMongoDB | KVaultServer | KSecretEngine | KMongoDBRole | KServiceAccount
  | KSecretAccessRequest | KSecret | KJob | KRepository | KAppBinding | KRestoreSession
  | KMongoDBVersion

datatype schema_call =
    Get res_kind nsname
  | ListSchemas
  | Fetch res_kind nsname
  | WriteSecretEngine secret_engine
  | WriteMongoDBRole mongodb_role
  | WriteServiceAccount service_account
  | WriteSecretAccessRequest secret_access_request
  | WriteJob job
  | WriteRepository repository
  | WriteSecret secret
  | WriteAppBinding app_binding
  | WriteRestoreSession restore_session
  | PatchAccessRequestStatus object_meta secret_access_request
  | PatchSchemaStatus object_meta string "condition list"
  | UpdateSchema schema_db
  | MongoConnect mongodb
  | MongoClose
  | FindEntry string string
  | DropDatabase string
  | DeleteEntry string string
  | ListCollections string
  | UpsertEntry string string

type_synonym hist = "schema_call list"

text \<open>
  A \<open>Get\<close> into an object that the code goes on using whatever the error answers the error
  and what the object then holds; other calls answer an error or a value.
\<close>

record schema_env =
  e_names :: ext_names
  e_now :: "hist \<Rightarrow> time"
  e_getSchema :: "hist \<Rightarrow> nsname \<Rightarrow> gerr + schema_db"
  e_listSchemas :: "hist \<Rightarrow> gerr + schema_db list"
  e_updateSchema :: "hist \<Rightarrow> schema_db \<Rightarrow> gerr option \<times> schema_db"
  e_patchSchemaStatus :: "hist \<Rightarrow> object_meta \<Rightarrow> string \<Rightarrow> condition list \<Rightarrow> gerr + unit"
  e_getMongoDB :: "hist \<Rightarrow> nsname \<Rightarrow> mongodb \<Rightarrow> gerr option \<times> mongodb"
  e_getVaultServer :: "hist \<Rightarrow> nsname \<Rightarrow> vault_server \<Rightarrow> gerr option \<times> vault_server"
  e_getSecretEngine :: "hist \<Rightarrow> nsname \<Rightarrow> secret_engine \<Rightarrow> gerr option \<times> secret_engine"
  e_getMongoDBRole :: "hist \<Rightarrow> nsname \<Rightarrow> mongodb_role \<Rightarrow> gerr option \<times> mongodb_role"
  e_getSecretAccessRequest :: "hist \<Rightarrow> nsname \<Rightarrow> gerr + secret_access_request"
  e_getSecret :: "hist \<Rightarrow> nsname \<Rightarrow> gerr + secret"
  e_getJob :: "hist \<Rightarrow> nsname \<Rightarrow> gerr + job"
  e_getRepository :: "hist \<Rightarrow> nsname \<Rightarrow> gerr + repository"
  e_getAppBinding :: "hist \<Rightarrow> nsname \<Rightarrow> gerr + app_binding"
  e_getRestoreSession :: "hist \<Rightarrow> nsname \<Rightarrow> gerr + restore_session"
  e_getMongoDBVersion :: "hist \<Rightarrow> string \<Rightarrow> gerr + mongodb_version"
  e_fetchSecretEngine :: "hist \<Rightarrow> nsname \<Rightarrow> gerr + secret_engine \<times> bool"
  e_writeSecretEngine :: "hist \<Rightarrow> secret_engine \<Rightarrow> gerr + secret_engine"
  e_fetchMongoDBRole :: "hist \<Rightarrow> nsname \<Rightarrow> gerr + mongodb_role \<times> bool"
  e_writeMongoDBRole :: "hist \<Rightarrow> mongodb_role \<Rightarrow> gerr + mongodb_role"
  e_fetchServiceAccount :: "hist \<Rightarrow> nsname \<Rightarrow> gerr + service_account \<times> bool"
  e_writeServiceAccount :: "hist \<Rightarrow> service_account \<Rightarrow> gerr + service_account"
  e_fetchSecretAccessRequest :: "hist \<Rightarrow> nsname \<Rightarrow> gerr + secret_access_request \<times> bool"
  e_writeSecretAccessRequest :: "hist \<Rightarrow> secret_access_request \<Rightarrow> gerr + secret_access_request"
  e_patchAccessRequestStatus ::
    "hist \<Rightarrow> object_meta \<Rightarrow> secret_access_request \<Rightarrow> gerr + secret_access_request"
  e_fetchJob :: "hist \<Rightarrow> nsname \<Rightarrow> gerr + job \<times> bool"
  e_writeJob :: "hist \<Rightarrow> job \<Rightarrow> gerr + job"
  e_fetchRepository :: "hist \<Rightarrow> nsname \<Rightarrow> gerr + repository \<times> bool"
  e_writeRepository :: "hist \<Rightarrow> repository \<Rightarrow> gerr + repository"
  e_fetchSecret :: "hist \<Rightarrow> nsname \<Rightarrow> gerr + secret \<times> bool"
  e_writeSecret :: "hist \<Rightarrow> secret \<Rightarrow> gerr + secret"
  e_fetchAppBinding :: "hist \<Rightarrow> nsname \<Rightarrow> gerr + app_binding \<times> bool"
  e_writeAppBinding :: "hist \<Rightarrow> app_binding \<Rightarrow> gerr + app_binding"
  e_fetchRestoreSession :: "hist \<Rightarrow> nsname \<Rightarrow> gerr + restore_session \<times> bool"
  e_writeRestoreSession :: "hist \<Rightarrow> restore_session \<Rightarrow> gerr + restore_session"
  e_mongoConnect :: "hist \<Rightarrow> mongodb \<Rightarrow> gerr + unit"
  e_findEntry :: "hist \<Rightarrow> string \<Rightarrow> string \<Rightarrow> gerr + unit"
  e_dropDatabase :: "hist \<Rightarrow> string \<Rightarrow> gerr + unit"
  e_deleteEntry :: "hist \<Rightarrow> string \<Rightarrow> string \<Rightarrow> gerr + unit"
  e_listCollections :: "hist \<Rightarrow> string \<Rightarrow> gerr + string list"
  e_upsertEntry :: "hist \<Rightarrow> string \<Rightarrow> string \<Rightarrow> gerr + unit"
  e_parseVersion :: "string \<Rightarrow> gerr + semver"

record schema_state = "schema_call trace" +
  obj :: schema_db

type_synonym 'a schema_prog = "(schema_state, 'a) prog"

definition start :: "schema_db \<Rightarrow> schema_state" where
  "start db = \<lparr>calls = [], obj = db\<rparr>"

lemma start_simps [simp]: "calls (start db) = []" "obj (start db) = db"
  by (simp_all add: start_def)

text \<open>\<open>CreateOrPatch\<close> with a transform that may itself make calls, and with a pure one.\<close>

definition create_or_patch_with ::
  "(hist \<Rightarrow> nsname \<Rightarrow> gerr + 'o \<times> bool) \<Rightarrow> (hist \<Rightarrow> 'o \<Rightarrow> gerr + 'o) \<Rightarrow> res_kind \<Rightarrow>
   ('o \<Rightarrow> schema_call) \<Rightarrow> nsname \<Rightarrow> ('o \<Rightarrow> bool \<Rightarrow> 'o schema_prog) \<Rightarrow> (gerr + 'o) schema_prog" where
  "create_or_patch_with fetch write kind call key transform =
     bndE (perform (\<lambda>h. fetch h key) (Fetch kind key)) (\<lambda>(object, createOp).
       bnd (transform object createOp) (\<lambda>object'.
         perform (\<lambda>h. write h object') (call object')))"

definition create_or_patch ::
  "(hist \<Rightarrow> nsname \<Rightarrow> gerr + 'o \<times> bool) \<Rightarrow> (hist \<Rightarrow> 'o \<Rightarrow> gerr + 'o) \<Rightarrow> res_kind \<Rightarrow>
   ('o \<Rightarrow> schema_call) \<Rightarrow> nsname \<Rightarrow> ('o \<Rightarrow> bool \<Rightarrow> 'o) \<Rightarrow> (gerr + 'o) schema_prog" where
  "create_or_patch fetch write kind call key transform =
     create_or_patch_with fetch write kind call key (\<lambda>object createOp. ret (transform object createOp))"

lemma wp_create_or_patch [wp_simps]:
  "wp (create_or_patch fetch write kind call key transform) Q C s =
     (case fetch (calls s) key of
        Inl e \<Rightarrow> Q (Inl e) (s\<lparr>calls := calls s @ [Fetch kind key]\<rparr>)
      | Inr (object, createOp) \<Rightarrow>
          let object' = transform object createOp; h = calls s @ [Fetch kind key]
          in Q (write h object') (s\<lparr>calls := h @ [call object']\<rparr>))"
  by (simp add: create_or_patch_def create_or_patch_with_def wp_simps Let_def split: sum.split)

lemma keeps_create_or_patch:
  assumes "\<And>s. I s \<Longrightarrow> I (s\<lparr>calls := calls s @ [Fetch kind key]\<rparr>)"
    and "\<And>s object createOp. I s \<Longrightarrow> fetch (calls s) key = Inr (object, createOp) \<Longrightarrow>
      I (s\<lparr>calls := (calls s @ [Fetch kind key]) @ [call (transform object createOp)]\<rparr>)"
  shows "keeps I (create_or_patch fetch write kind call key transform)"
  using assms by (intro keepsI) (simp add: wp_simps Let_def split: sum.split prod.split)

lemma emits_create_or_patch [emits_intros]:
  "P (Fetch kind key) \<Longrightarrow> (\<And>ob. P (call ob)) \<Longrightarrow>
   emits P (create_or_patch fetch write kind call key transform)"
  unfolding create_or_patch_def create_or_patch_with_def by (intro emits_intros) auto

text \<open>\<open>obj.Status.Conditions = obj.SetCondition(typ, sts, reason, msg)\<close>\<close>

definition set_condition :: "schema_env \<Rightarrow> string \<Rightarrow> string \<Rightarrow> string \<Rightarrow> string \<Rightarrow> unit schema_prog" where
  "set_condition E typ sts reason msg =
     update (\<lambda>s. s\<lparr>obj := MongoDBDatabase_SetCondition (e_now E (calls s)) typ sts reason msg (obj s)\<rparr>)"

lemma wp_set_condition [wp_simps]:
  "wp (set_condition E typ sts reason msg) Q C s =
     Q () (s\<lparr>obj := MongoDBDatabase_SetCondition (e_now E (calls s)) typ sts reason msg (obj s)\<rparr>)"
  by (simp add: set_condition_def wp_simps)

lemma emits_set_condition [emits_intros]: "emits P (set_condition E typ sts reason msg)"
  unfolding set_condition_def by (intro emits_intros) simp

section \<open>The contract of the status handlers\<close>

text \<open>
  \<open>updateStatusForX\<close> makes one \<open>Get\<close> and sets one condition: true if what it got is ready,
  false otherwise; it never fails.
\<close>

definition sts_of :: "bool \<Rightarrow> string" where
  "sts_of b = (if b then ConditionTrue else ConditionFalse)"

lemma sts_of_simps [simp]: "sts_of True = ConditionTrue" "sts_of False = ConditionFalse"
  "sts_of b = ConditionTrue \<longleftrightarrow> b"
  by (simp_all add: sts_of_def)

text \<open>Types are not repeated and no generation is the last one: \<open>SetCondition\<close> takes effect.\<close>

definition conds_ok :: "condition list \<Rightarrow> bool" where
  "conds_ok cs \<longleftrightarrow> distinct_types cs \<and> (\<forall>c \<in> set cs. gen_room (cond_gen c))"

lemma conds_ok_Nil [simp]: "conds_ok []"
  by (simp add: conds_ok_def distinct_types_def)

lemma conds_ok_distinct [simp]: "conds_ok cs \<Longrightarrow> distinct_types cs"
  by (simp add: conds_ok_def)

lemma MongoDBDatabase_SetCondition_true:
  assumes "conds_ok (sd_conditions db)"
  shows "IsConditionTrue (sd_conditions (MongoDBDatabase_SetCondition now typ sts reason msg db)) typ
    \<longleftrightarrow> sts = ConditionTrue"
proof -
  from assms have "\<exists>c. find_by cond_type typ
      (sd_conditions (MongoDBDatabase_SetCondition now typ sts reason msg db)) = Some c \<and>
      cond_status c = sts"
    using MongoDBDatabase_SetCondition_find [of db "typ" now sts reason msg]
    by (auto simp: conds_ok_def dest: find_by_key)
  with assms show ?thesis
    by (auto simp: IsConditionTrue_find MongoDBDatabase_SetCondition_distinct)
qed

locale status_update =
  fixes ctype :: string
    and kind :: res_kind
    and upd :: "'a schema_prog"
    and ready :: "schema_state \<Rightarrow> bool"
  assumes shape: "\<exists>a key now reason msg. upd s =
      (Done a, s\<lparr>calls := calls s @ [Get kind key],
        obj := MongoDBDatabase_SetCondition now ctype (sts_of (ready s)) reason msg (obj s)\<rparr>)"
begin

lemma step:
  assumes "upd s = (r, t)"
  obtains a key now reason msg where "r = Done a"
    and "calls t = calls s @ [Get kind key]"
    and "obj t = MongoDBDatabase_SetCondition now ctype (sts_of (ready s)) reason msg (obj s)"
  using shape [of s] assms by auto

lemma wpI:
  assumes "\<And>a key now reason msg.
      Q a (s\<lparr>calls := calls s @ [Get kind key],
        obj := MongoDBDatabase_SetCondition now ctype (sts_of (ready s)) reason msg (obj s)\<rparr>)"
  shows "wp upd Q C s"
  using shape [of s] assms by (auto simp: wp_def)

lemma only_reads: "(\<And>key. P (Get kind key)) \<Longrightarrow> emits P upd"
  unfolding emits_def
proof
  fix s
  assume P: "\<And>key. P (Get kind key)"
  obtain r t where "upd s = (r, t)" by fastforce
  moreover from this obtain key where "calls t = calls s @ [Get kind key]" by (rule step)
  ultimately show "\<exists>cs. calls (snd (upd s)) = calls s @ cs \<and> (\<forall>c \<in> set cs. P c)"
    using P by auto
qed

lemma looks: "upd s = (r, t) \<Longrightarrow> \<exists>key. last (calls t) = Get kind key"
  by (erule step) auto

lemma present: "upd s = (r, t) \<Longrightarrow> HasCondition (sd_conditions (obj t)) ctype"
  by (erule step) (simp add: MongoDBDatabase_SetCondition_def)

lemma reports:
  "upd s = (r, t) \<Longrightarrow> conds_ok (sd_conditions (obj s)) \<Longrightarrow>
   IsConditionTrue (sd_conditions (obj t)) ctype \<longleftrightarrow> ready s"
  by (erule step) (simp add: MongoDBDatabase_SetCondition_true)

lemma others:
  "upd s = (r, t) \<Longrightarrow> typ' \<noteq> ctype \<Longrightarrow>
   find_by cond_type typ' (sd_conditions (obj t)) = find_by cond_type typ' (sd_conditions (obj s))"
  by (erule step) (simp add: MongoDBDatabase_SetCondition_other)

lemma distinct_kept:
  "upd s = (r, t) \<Longrightarrow> distinct_types (sd_conditions (obj s)) \<Longrightarrow>
   distinct_types (sd_conditions (obj t))"
  by (erule step) (simp add: MongoDBDatabase_SetCondition_distinct)

lemma spec_kept: "upd s = (r, t) \<Longrightarrow> obj t = (obj s)\<lparr>sd_conditions := sd_conditions (obj t)\<rparr>"
  by (erule step) (simp add: MongoDBDatabase_SetCondition_def)

lemma keeps_obj:
  "(\<And>db cs. I db \<Longrightarrow> I (db\<lparr>sd_conditions := cs\<rparr>)) \<Longrightarrow> keeps (\<lambda>s. I (obj s)) upd"
  by (rule keepsI, rule wpI) (simp add: MongoDBDatabase_SetCondition_def)

lemma keeps_obj_trace:
  "(\<And>db cs. I db \<Longrightarrow> I (db\<lparr>sd_conditions := cs\<rparr>)) \<Longrightarrow> (\<And>h key. P h (Get kind key)) \<Longrightarrow>
   keeps (\<lambda>s. I (obj s) \<and> trace_ok P (calls s)) upd"
  by (rule keepsI, rule wpI) (simp add: MongoDBDatabase_SetCondition_def)

end

end
