(* ===== verification/SchemaStatus.thy ===== *)
theory SchemaStatus
  imports SchemaEnv
begin

text \<open>
  The handlers \<open>updateStatusForX\<close> of \<open>mongodbdatabase_controller.go\<close>: each reads one resource
  and records in a condition of the \<open>MongoDBDatabase\<close> whether it is ready. The first four read
  into the object the caller holds a pointer to, and return what it then holds.

  Each is an instance of \<open>status_update\<close>, with the readiness it reports written out.
\<close>

section \<open>Resources held by the caller\<close>

definition updateStatusForMongoDB :: "schema_env \<Rightarrow> mongodb \<Rightarrow> mongodb schema_prog" where
  "updateStatusForMongoDB E mongo =
     bnd (perform (\<lambda>h. e_getMongoDB E h (key_of (mg_meta mongo)) mongo) (Get KMongoDB (key_of (mg_meta mongo))))
       (\<lambda>(err, mongo').
         case err of
           Some e \<Rightarrow>
             bnd (set_condition E SchemaDatabaseConditionDBReady ConditionFalse (error_text e)
                 ''MongoDB is not created yet'')
               (\<lambda>_. ret mongo')
         | None \<Rightarrow>
             bnd (if \<not> CheckMongoDBConditions mongo'
                  then set_condition E SchemaDatabaseConditionDBReady ConditionFalse
                    SchemaDatabaseReasonDBReady ''MongoDB is provisioning''
                  else set_condition E SchemaDatabaseConditionDBReady ConditionTrue
                    SchemaDatabaseReasonDBReady ''MongoDB is ready'')
               (\<lambda>_. ret mongo'))"

definition updateStatusForVaultServer :: "schema_env \<Rightarrow> vault_server \<Rightarrow> vault_server schema_prog" where
  "updateStatusForVaultServer E vault =
     bnd (perform (\<lambda>h. e_getVaultServer E h (key_of (vs_meta vault)) vault) (Get KVaultServer (key_of (vs_meta vault))))
       (\<lambda>(err, vault').
         case err of
           Some e \<Rightarrow>
             bnd (set_condition E SchemaDatabaseConditionVaultReady ConditionFalse (error_text e)
                 ''VaultServer is not created yet'')
               (\<lambda>_. ret vault')
         | None \<Rightarrow>
             bnd (if \<not> CheckVaultConditions (e_names E) vault'
                  then set_condition E SchemaDatabaseConditionVaultReady ConditionFalse
                    SchemaDatabaseReasonVaultReady ''VaultServer is provisioning''
                  else set_condition E SchemaDatabaseConditionVaultReady ConditionTrue
                    SchemaDatabaseReasonVaultReady ''VaultServer is ready'')
               (\<lambda>_. ret vault'))"

definition updateStatusForSecretEngine :: "schema_env \<Rightarrow> secret_engine \<Rightarrow> secret_engine schema_prog" where
  "updateStatusForSecretEngine E se =
     bnd (perform (\<lambda>h. e_getSecretEngine E h (key_of (se_meta se)) se) (Get KSecretEngine (key_of (se_meta se))))
       (\<lambda>(err, se').
         case err of
           Some e \<Rightarrow>
             bnd (set_condition E SchemaDatabaseConditionSecretEngineReady ConditionFalse (error_text e)
                 ''Secret Engine is not created yet'')
               (\<lambda>_. ret se')
         | None \<Rightarrow>
             bnd (if \<not> CheckSecretEngineConditions se'
                  then set_condition E SchemaDatabaseConditionSecretEngineReady ConditionFalse
                    SchemaDatabaseReasonSecretEngineReady ''Secret Engine is provisioning''
                  else set_condition E SchemaDatabaseConditionSecretEngineReady ConditionTrue
                    SchemaDatabaseReasonSecretEngineReady ''Secret Engine is ready'')
               (\<lambda>_. ret se'))"

definition updateStatusForMongoDbRole :: "schema_env \<Rightarrow> mongodb_role \<Rightarrow> mongodb_role schema_prog" where
  "updateStatusForMongoDbRole E mr =
     bnd (perform (\<lambda>h. e_getMongoDBRole E h (key_of (mr_meta mr)) mr) (Get KMongoDBRole (key_of (mr_meta mr))))
       (\<lambda>(err, mr').
         case err of
           Some e \<Rightarrow>
             bnd (set_condition E SchemaDatabaseConditionMongoDBRoleReady ConditionFalse (error_text e)
                 ''MongoDB Role is not created yet'')
               (\<lambda>_. ret mr')
         | None \<Rightarrow>
             bnd (if \<not> CheckMongoDBRoleConditions mr'
                  then set_condition E SchemaDatabaseConditionMongoDBRoleReady ConditionFalse
                    SchemaDatabaseReasonMongoDBRoleReady ''MongoDB Role is being created''
                  else set_condition E SchemaDatabaseConditionMongoDBRoleReady ConditionTrue
                    SchemaDatabaseReasonMongoDBRoleReady ''MongoDB Role is ready'')
               (\<lambda>_. ret mr'))"

text \<open>What they report: the resource could be read, and its conditions are in order.\<close>

definition MongoDB_ready :: "schema_env \<Rightarrow> mongodb \<Rightarrow> schema_state \<Rightarrow> bool" where
  "MongoDB_ready E mongo s \<longleftrightarrow>
     (case e_getMongoDB E (calls s) (key_of (mg_meta mongo)) mongo of
        (Some e, mongo') \<Rightarrow> False
      | (None, mongo') \<Rightarrow> CheckMongoDBConditions mongo')"

definition VaultServer_ready :: "schema_env \<Rightarrow> vault_server \<Rightarrow> schema_state \<Rightarrow> bool" where
  "VaultServer_ready E vault s \<longleftrightarrow>
     (case e_getVaultServer E (calls s) (key_of (vs_meta vault)) vault of
        (Some e, vault') \<Rightarrow> False
      | (None, vault') \<Rightarrow> CheckVaultConditions (e_names E) vault')"

definition SecretEngine_ready :: "schema_env \<Rightarrow> secret_engine \<Rightarrow> schema_state \<Rightarrow> bool" where
  "SecretEngine_ready E se s \<longleftrightarrow>
     (case e_getSecretEngine E (calls s) (key_of (se_meta se)) se of
        (Some e, se') \<Rightarrow> False
      | (None, se') \<Rightarrow> CheckSecretEngineConditions se')"

definition MongoDbRole_ready :: "schema_env \<Rightarrow> mongodb_role \<Rightarrow> schema_state \<Rightarrow> bool" where
  "MongoDbRole_ready E mr s \<longleftrightarrow>
     (case e_getMongoDBRole E (calls s) (key_of (mr_meta mr)) mr of
        (Some e, mr') \<Rightarrow> False
      | (None, mr') \<Rightarrow> CheckMongoDBRoleConditions mr')"

section \<open>Resources read afresh\<close>

text \<open>These take the name and namespace from the object they are given.\<close>

definition updateStatusForSecretAccessRequest :: "schema_env \<Rightarrow> object_meta \<Rightarrow> unit schema_prog" where
  "updateStatusForSecretAccessRequest E sar =
     bnd (perform (\<lambda>h. e_getSecretAccessRequest E h (key_of sar)) (Get KSecretAccessRequest (key_of sar))) (\<lambda>r.
       case r of
         Inl e \<Rightarrow>
           set_condition E SchemaDatabaseConditionSecretAccessRequestReady ConditionFalse
             (error_text e) ''Secret access request is not created yet''
       | Inr newSar \<Rightarrow>
           if \<not> CheckSecretAccessRequestConditions newSar
             then set_condition E SchemaDatabaseConditionSecretAccessRequestReady ConditionFalse
               SchemaDatabaseReasonSecretAccessRequestReady ''Secret access request is being created''
             else set_condition E SchemaDatabaseConditionSecretAccessRequestReady ConditionTrue
               SchemaDatabaseReasonSecretAccessRequestReady ''Secret access request is succeeded'')"

definition updateStatusForInitJob :: "schema_env \<Rightarrow> object_meta \<Rightarrow> unit schema_prog" where
  "updateStatusForInitJob E jb =
     bnd (perform (\<lambda>h. e_getJob E h (key_of jb)) (Get KJob (key_of jb))) (\<lambda>r.
       case r of
         Inl e \<Rightarrow>
           set_condition E SchemaDatabaseConditionJobCompleted ConditionFalse
             (error_text e) ''Job is not created yet''
       | Inr newJob \<Rightarrow>
           if \<not> CheckJobConditions newJob
             then set_condition E SchemaDatabaseConditionJobCompleted ConditionFalse
               SchemaDatabaseReasonJobCompleted ''Job is being created''
             else set_condition E SchemaDatabaseConditionJobCompleted ConditionTrue
               SchemaDatabaseReasonJobCompleted ''Job is completed'')"

definition updateStatusForRepository :: "schema_env \<Rightarrow> object_meta \<Rightarrow> unit schema_prog" where
  "updateStatusForRepository E rp =
     bnd (perform (\<lambda>h. e_getRepository E h (key_of rp)) (Get KRepository (key_of rp))) (\<lambda>r.
       case r of
         Inl e \<Rightarrow>
           set_condition E SchemaDatabaseConditionRepositoryFound ConditionFalse
             (error_text e) ''Repository is not created yet''
       | Inr found \<Rightarrow>
           set_condition E SchemaDatabaseConditionRepositoryFound ConditionTrue
             SchemaDatabaseReasonRepositoryFound ''Repository is copied successfully'')"

definition updateStatusForAppbinding :: "schema_env \<Rightarrow> object_meta \<Rightarrow> unit schema_prog" where
  "updateStatusForAppbinding E ab =
     bnd (perform (\<lambda>h. e_getAppBinding E h (key_of ab)) (Get KAppBinding (key_of ab))) (\<lambda>r.
       case r of
         Inl e \<Rightarrow>
           set_condition E SchemaDatabaseConditionAppbindingFound ConditionFalse
             (error_text e) ''Appbinding is not created yet''
       | Inr found \<Rightarrow>
           set_condition E SchemaDatabaseConditionAppbindingFound ConditionTrue
             SchemaDatabaseReasonAppbindingFound ''Appbinding creation succeeded'')"

definition updateStatusForRestoreSession :: "schema_env \<Rightarrow> object_meta \<Rightarrow> unit schema_prog" where
  "updateStatusForRestoreSession E rs =
     bnd (perform (\<lambda>h. e_getRestoreSession E h (key_of rs)) (Get KRestoreSession (key_of rs))) (\<lambda>r.
       case r of
         Inl e \<Rightarrow>
           set_condition E SchemaDatabaseConditionRestoreSession ConditionFalse
             (error_text e) ''RestoreSession is not created yet''
       | Inr restore \<Rightarrow>
           if CheckRestoreSessionPhaseFailed (e_names E) restore
           then set_condition E SchemaDatabaseConditionRestoreSession ConditionTrue
             SchemaDatabaseReasonRestoreSessionSFailed ''Restoring process is failed''
           else if CheckRestoreSessionPhaseSucceed (e_names E) restore
           then set_condition E SchemaDatabaseConditionRestoreSession ConditionTrue
             SchemaDatabaseReasonRestoreSessionSucceed ''Restoring process is succeeded''
           else set_condition E SchemaDatabaseConditionRestoreSession ConditionFalse
             SchemaDatabaseReasonRestoreSessionSucceed ''Restoring process is running'')"

definition SecretAccessRequest_ready :: "schema_env \<Rightarrow> object_meta \<Rightarrow> schema_state \<Rightarrow> bool" where
  "SecretAccessRequest_ready E sar s \<longleftrightarrow>
     (case e_getSecretAccessRequest E (calls s) (key_of sar) of
        Inl e \<Rightarrow> False
      | Inr found \<Rightarrow> CheckSecretAccessRequestConditions found)"

definition InitJob_ready :: "schema_env \<Rightarrow> object_meta \<Rightarrow> schema_state \<Rightarrow> bool" where
  "InitJob_ready E jb s \<longleftrightarrow>
     (case e_getJob E (calls s) (key_of jb) of
        Inl e \<Rightarrow> False
      | Inr found \<Rightarrow> CheckJobConditions found)"

definition Repository_ready :: "schema_env \<Rightarrow> object_meta \<Rightarrow> schema_state \<Rightarrow> bool" where
  "Repository_ready E rp s \<longleftrightarrow>
     (case e_getRepository E (calls s) (key_of rp) of
        Inl e \<Rightarrow> False
      | Inr found \<Rightarrow> True)"

definition Appbinding_ready :: "schema_env \<Rightarrow> object_meta \<Rightarrow> schema_state \<Rightarrow> bool" where
  "Appbinding_ready E ab s \<longleftrightarrow>
     (case e_getAppBinding E (calls s) (key_of ab) of
        Inl e \<Rightarrow> False
      | Inr found \<Rightarrow> True)"

definition RestoreSession_ready :: "schema_env \<Rightarrow> object_meta \<Rightarrow> schema_state \<Rightarrow> bool" where
  "RestoreSession_ready E rs s \<longleftrightarrow>
     (case e_getRestoreSession E (calls s) (key_of rs) of
        Inl e \<Rightarrow> False
      | Inr found \<Rightarrow>
          CheckRestoreSessionPhaseFailed (e_names E) found \<or>
          CheckRestoreSessionPhaseSucceed (e_names E) found)"

section \<open>The contract holds\<close>

text \<open>A read followed by setting the condition that the answer decides has the contract.\<close>

lemma status_updateI:
  assumes "\<And>r. \<exists>reason msg. f r = bnd (set_condition E ctype (sts_of (ok r)) reason msg) (\<lambda>_. ret (g r))"
    and "\<And>s. ready s = ok (ans (calls s))"
  shows "status_update ctype kind (bnd (perform ans (Get kind key)) f) ready"
proof
  fix s :: schema_state
  obtain reason msg where f: "f (ans (calls s)) =
      bnd (set_condition E ctype (sts_of (ok (ans (calls s)))) reason msg) (\<lambda>_. ret (g (ans (calls s))))"
    using assms(1) by blast
  have "bnd (perform ans (Get kind key)) f s = (Done (g (ans (calls s))),
      s\<lparr>calls := calls s @ [Get kind key],
        obj := MongoDBDatabase_SetCondition (e_now E (calls s @ [Get kind key])) ctype
          (sts_of (ready s)) reason msg (obj s)\<rparr>)"
    by (simp add: bnd_def perform_def f set_condition_def update_def ret_def assms(2))
  then show "\<exists>a key' now reason msg. bnd (perform ans (Get kind key)) f s =
      (Done a, s\<lparr>calls := calls s @ [Get kind key'],
        obj := MongoDBDatabase_SetCondition now ctype (sts_of (ready s)) reason msg (obj s)\<rparr>)"
    by blast
qed

lemma bnd_ret: "bnd m ret = (m :: 'a schema_prog)"
  by (rule ext) (simp add: bnd_def ret_def split: prod.split outcome.split)

lemma MongoDB_status_update:
  "status_update SchemaDatabaseConditionDBReady KMongoDB (updateStatusForMongoDB E mongo) (MongoDB_ready E mongo)"
  unfolding updateStatusForMongoDB_def
  by (rule status_updateI [where E = E and g = snd
        and ok = "\<lambda>(err, x). err = None \<and> CheckMongoDBConditions x"])
    (auto simp: MongoDB_ready_def sts_of_def split: prod.splits option.splits)

lemma VaultServer_status_update:
  "status_update SchemaDatabaseConditionVaultReady KVaultServer (updateStatusForVaultServer E vault) (VaultServer_ready E vault)"
  unfolding updateStatusForVaultServer_def
  by (rule status_updateI [where E = E and g = snd
        and ok = "\<lambda>(err, x). err = None \<and> CheckVaultConditions (e_names E) x"])
    (auto simp: VaultServer_ready_def sts_of_def split: prod.splits option.splits)

lemma SecretEngine_status_update:
  "status_update SchemaDatabaseConditionSecretEngineReady KSecretEngine (updateStatusForSecretEngine E se) (SecretEngine_ready E se)"
  unfolding updateStatusForSecretEngine_def
  by (rule status_updateI [where E = E and g = snd
        and ok = "\<lambda>(err, x). err = None \<and> CheckSecretEngineConditions x"])
    (auto simp: SecretEngine_ready_def sts_of_def split: prod.splits option.splits)

lemma MongoDbRole_status_update:
  "status_update SchemaDatabaseConditionMongoDBRoleReady KMongoDBRole (updateStatusForMongoDbRole E mr) (MongoDbRole_ready E mr)"
  unfolding updateStatusForMongoDbRole_def
  by (rule status_updateI [where E = E and g = snd
        and ok = "\<lambda>(err, x). err = None \<and> CheckMongoDBRoleConditions x"])
    (auto simp: MongoDbRole_ready_def sts_of_def split: prod.splits option.splits)

lemma SecretAccessRequest_status_update:
  "status_update SchemaDatabaseConditionSecretAccessRequestReady KSecretAccessRequest (updateStatusForSecretAccessRequest E sar) (SecretAccessRequest_ready E sar)"
  unfolding updateStatusForSecretAccessRequest_def
  by (rule status_updateI [where E = E and g = "\<lambda>_. ()"
        and ok = "\<lambda>r. case r of Inl e \<Rightarrow> False | Inr x \<Rightarrow> CheckSecretAccessRequestConditions x"])
    (auto simp: SecretAccessRequest_ready_def sts_of_def bnd_ret split: sum.splits)

lemma InitJob_status_update:
  "status_update SchemaDatabaseConditionJobCompleted KJob (updateStatusForInitJob E jb) (InitJob_ready E jb)"
  unfolding updateStatusForInitJob_def
  by (rule status_updateI [where E = E and g = "\<lambda>_. ()"
        and ok = "\<lambda>r. case r of Inl e \<Rightarrow> False | Inr x \<Rightarrow> CheckJobConditions x"])
    (auto simp: InitJob_ready_def sts_of_def bnd_ret split: sum.splits)

lemma Repository_status_update:
  "status_update SchemaDatabaseConditionRepositoryFound KRepository (updateStatusForRepository E rp) (Repository_ready E rp)"
  unfolding updateStatusForRepository_def
  by (rule status_updateI [where E = E and g = "\<lambda>_. ()"
        and ok = "\<lambda>r. case r of Inl e \<Rightarrow> False | Inr x \<Rightarrow> True"])
    (auto simp: Repository_ready_def sts_of_def bnd_ret split: sum.splits)

lemma Appbinding_status_update:
  "status_update SchemaDatabaseConditionAppbindingFound KAppBinding (updateStatusForAppbinding E ab) (Appbinding_ready E ab)"
  unfolding updateStatusForAppbinding_def
  by (rule status_updateI [where E = E and g = "\<lambda>_. ()"
        and ok = "\<lambda>r. case r of Inl e \<Rightarrow> False | Inr x \<Rightarrow> True"])
    (auto simp: Appbinding_ready_def sts_of_def bnd_ret split: sum.splits)

lemma RestoreSession_status_update:
  "status_update SchemaDatabaseConditionRestoreSession KRestoreSession (updateStatusForRestoreSession E rs)
     (RestoreSession_ready E rs)"
  unfolding updateStatusForRestoreSession_def
  by (rule status_updateI [where E = E and g = "\<lambda>_. ()"
        and ok = "\<lambda>r. case r of Inl e \<Rightarrow> False | Inr x \<Rightarrow>
          CheckRestoreSessionPhaseFailed (e_names E) x \<or>
          CheckRestoreSessionPhaseSucceed (e_names E) x"])
    (auto simp: RestoreSession_ready_def sts_of_def bnd_ret split: sum.splits)

interpretation mongoDB_status: status_update SchemaDatabaseConditionDBReady KMongoDB
    "updateStatusForMongoDB E mongo" "MongoDB_ready E mongo" for E mongo
  by (rule MongoDB_status_update)

interpretation vaultServer_status: status_update SchemaDatabaseConditionVaultReady KVaultServer
    "updateStatusForVaultServer E vault" "VaultServer_ready E vault" for E vault
  by (rule VaultServer_status_update)

interpretation secretEngine_status: status_update SchemaDatabaseConditionSecretEngineReady KSecretEngine
    "updateStatusForSecretEngine E se" "SecretEngine_ready E se" for E se
  by (rule SecretEngine_status_update)

interpretation mongoDbRole_status: status_update SchemaDatabaseConditionMongoDBRoleReady KMongoDBRole
    "updateStatusForMongoDbRole E mr" "MongoDbRole_ready E mr" for E mr
  by (rule MongoDbRole_status_update)

interpretation secretAccessRequest_status: status_update SchemaDatabaseConditionSecretAccessRequestReady KSecretAccessRequest
    "updateStatusForSecretAccessRequest E sar" "SecretAccessRequest_ready E sar" for E sar
  by (rule SecretAccessRequest_status_update)

interpretation initJob_status: status_update SchemaDatabaseConditionJobCompleted KJob
    "updateStatusForInitJob E jb" "InitJob_ready E jb" for E jb
  by (rule InitJob_status_update)

interpretation repository_status: status_update SchemaDatabaseConditionRepositoryFound KRepository
    "updateStatusForRepository E rp" "Repository_ready E rp" for E rp
  by (rule Repository_status_update)

interpretation appbinding_status: status_update SchemaDatabaseConditionAppbindingFound KAppBinding
    "updateStatusForAppbinding E ab" "Appbinding_ready E ab" for E ab
  by (rule Appbinding_status_update)

interpretation restoreSession_status: status_update SchemaDatabaseConditionRestoreSession KRestoreSession
    "updateStatusForRestoreSession E rs" "RestoreSession_ready E rs" for E rs
  by (rule RestoreSession_status_update)

lemmas status_wpI =
  mongoDB_status.wpI
  vaultServer_status.wpI
  secretEngine_status.wpI
  mongoDbRole_status.wpI
  secretAccessRequest_status.wpI
  initJob_status.wpI
  repository_status.wpI
  appbinding_status.wpI
  restoreSession_status.wpI

lemmas status_reads [emits_intros] =
  mongoDB_status.only_reads
  vaultServer_status.only_reads
  secretEngine_status.only_reads
  mongoDbRole_status.only_reads
  secretAccessRequest_status.only_reads
  initJob_status.only_reads
  repository_status.only_reads
  appbinding_status.only_reads
  restoreSession_status.only_reads

lemmas status_keeps =
  mongoDB_status.keeps_obj_trace
  vaultServer_status.keeps_obj_trace
  secretEngine_status.keeps_obj_trace
  mongoDbRole_status.keeps_obj_trace
  secretAccessRequest_status.keeps_obj_trace
  initJob_status.keeps_obj_trace
  repository_status.keeps_obj_trace
  appbinding_status.keeps_obj_trace
  restoreSession_status.keeps_obj_trace

end
