(* ===== verification/SchemaEnsure.thy ===== *)
theory SchemaEnsure
  imports SchemaStatus
begin

text \<open>
  The resources the schema controller creates for a \<open>MongoDBDatabase\<close>: secret engine, role,
  service account and access request in Vault, the init job, and for a restore the copied
  repository, secrets, application binding and restore session
  (\<open>ensureX\<close> and \<open>makeTheInitJob\<close> of \<open>mongodbdatabase_controller.go\<close>).
\<close>

text \<open>\<open>if createOp { coreutil.EnsureOwnerReference(...) }\<close>\<close>

definition own_on_create :: "schema_env \<Rightarrow> schema_db \<Rightarrow> bool \<Rightarrow> object_meta \<Rightarrow> object_meta" where
  "own_on_create E db createOp m =
     (if createOp
      then EnsureOwnerReference m
        (NewControllerRef (sd_meta db) (k_SchemaGroupVersion (e_names E)) ResourceKindMongoDBDatabase)
      else m)"

lemma own_on_create_owned:
  "IsOwnedBy (own_on_create E db True m) (sd_meta db) = (True, True)"
  by (simp add: own_on_create_def EnsureOwnerReference_owned)

lemma own_on_create_key [simp]: "key_of (own_on_create E db createOp m) = key_of m"
  by (simp add: own_on_create_def)

section \<open>Vault\<close>

definition secretEngine_transform ::
  "schema_env \<Rightarrow> schema_db \<Rightarrow> secret_engine \<Rightarrow> bool \<Rightarrow> secret_engine" where
  "secretEngine_transform E db se createOp =
     se\<lparr>se_vaultRef := sd_vaultRef db,
        se_mongodb := Some
          \<lparr>mc_databaseRef = sd_databaseRef db,
           mc_pluginName = k_DefaultMongoDBDatabasePlugin (e_names E), mc_rest = absent\<rparr>,
        se_meta := own_on_create E db createOp (se_meta se)\<rparr>"

definition ensureSecretEngine :: "schema_env \<Rightarrow> (gerr + secret_engine) schema_prog" where
  "ensureSecretEngine E =
     bnd (gets obj) (\<lambda>db.
       bndE (create_or_patch (e_fetchSecretEngine E) (e_writeSecretEngine E) KSecretEngine
               WriteSecretEngine (sd_namespace db, GetMongoSecretEngineName db)
               (secretEngine_transform E db))
         (\<lambda>fetched. bnd (updateStatusForSecretEngine E fetched) (\<lambda>se. ret (Inr se))))"

definition role_statement :: "string \<Rightarrow> string" where
  "role_statement name =
     ''{ '' @ [CHR 0x22] @ ''db'' @ [CHR 0x22] @ '': '' @ [CHR 0x22] @ name @ [CHR 0x22] @
     '', '' @ [CHR 0x22] @ ''roles'' @ [CHR 0x22] @ '': [{ '' @ [CHR 0x22] @ ''role'' @ [CHR 0x22] @
     '': '' @ [CHR 0x22] @ ''dbOwner'' @ [CHR 0x22] @ '' }] }''"

definition mongoDBRole_transform ::
  "schema_env \<Rightarrow> schema_db \<Rightarrow> mongodb_role \<Rightarrow> bool \<Rightarrow> mongodb_role" where
  "mongoDBRole_transform E db mr createOp =
     mr\<lparr>mr_secretEngineRef := GetMongoSecretEngineName db,
        mr_creationStatements := [role_statement (sd_databaseName db)],
        mr_revocationStatements := [role_statement (sd_databaseName db)],
        mr_meta := own_on_create E db createOp (mr_meta mr)\<rparr>"

definition ensureMongoDBRole :: "schema_env \<Rightarrow> (gerr + mongodb_role) schema_prog" where
  "ensureMongoDBRole E =
     bnd (gets obj) (\<lambda>db.
       bndE (create_or_patch (e_fetchMongoDBRole E) (e_writeMongoDBRole E) KMongoDBRole
               WriteMongoDBRole (sd_namespace db, GetMongoAdminRoleName db)
               (mongoDBRole_transform E db))
         (\<lambda>fetched. bnd (updateStatusForMongoDbRole E fetched) (\<lambda>mr. ret (Inr mr))))"

definition ensureServiceAccount :: "schema_env \<Rightarrow> (gerr + service_account) schema_prog" where
  "ensureServiceAccount E =
     bnd (gets obj) (\<lambda>db.
       create_or_patch (e_fetchServiceAccount E) (e_writeServiceAccount E) KServiceAccount
         WriteServiceAccount (sd_namespace db, GetMongoAdminServiceAccountName db)
         (\<lambda>sa createOp. sa\<lparr>sa_meta := own_on_create E db createOp (sa_meta sa)\<rparr>))"

text \<open>The request's subjects: the service account is added unless one has its name.\<close>

definition add_subject :: "schema_db \<Rightarrow> rbac_subject list \<Rightarrow> rbac_subject list" where
  "add_subject db subs =
     (if list_ex (\<lambda>sub. rs_name sub = GetMongoAdminServiceAccountName db) subs then subs
      else subs @
        [\<lparr>rs_kind = ''ServiceAccount'', rs_name = GetMongoAdminServiceAccountName db,
          rs_namespace = sd_namespace db\<rparr>])"

definition secretAccessRequest_transform ::
  "schema_env \<Rightarrow> schema_db \<Rightarrow> secret_access_request \<Rightarrow> bool \<Rightarrow> secret_access_request" where
  "secretAccessRequest_transform E db sar createOp =
     sar\<lparr>sar_roleRefKind := k_ResourceKindMongoDBRole (e_names E),
         sar_roleRefName := GetMongoAdminRoleName db,
         sar_subjects := add_subject db (sar_subjects sar),
         sar_meta := own_on_create E db createOp (sar_meta sar)\<rparr>"

text \<open>The approval has no observed generation: the zero value 0.\<close>

definition approve :: "time \<Rightarrow> secret_access_request \<Rightarrow> secret_access_request" where
  "approve now sar =
     sar\<lparr>sar_conditions := SetCondition now (sar_conditions sar)
       (new_condition ConditionRequestApproved ConditionTrue SchemaDatabaseAutoApprovalReason 0
         ''This was approved by: KubeDb SchemaManager'')\<rparr>"

definition ensureSecretAccessRequest :: "schema_env \<Rightarrow> (gerr + secret_access_request) schema_prog" where
  "ensureSecretAccessRequest E =
     bnd (gets obj) (\<lambda>db.
       bndE (create_or_patch (e_fetchSecretAccessRequest E) (e_writeSecretAccessRequest E)
               KSecretAccessRequest WriteSecretAccessRequest
               (sd_namespace db, GetMongoAdminSecretAccessRequestName db)
               (secretAccessRequest_transform E db))
         (\<lambda>fetched.
            if \<not> sd_autoApproval db
            then bnd (updateStatusForSecretAccessRequest E (sar_meta fetched))
              (\<lambda>_. ret (Inr fetched))
            else bnd (gets (\<lambda>s. approve (e_now E (calls s)) fetched)) (\<lambda>sar.
              bndE (perform (\<lambda>h. e_patchAccessRequestStatus E h (sar_meta sar) sar)
                      (PatchAccessRequestStatus (sar_meta sar) sar))
                (\<lambda>patched. bnd (updateStatusForSecretAccessRequest E (sar_meta patched))
                  (\<lambda>_. ret (Inr patched))))))"

section \<open>The init job\<close>

definition setDefaultOptionsForJobContainer :: "container \<Rightarrow> pod_template \<Rightarrow> container" where
  "setDefaultOptionsForJobContainer c pt =
     c\<lparr>c_resources := pt_resources pt, c_livenessProbe := pt_livenessProbe pt,
       c_readinessProbe := pt_readinessProbe pt, c_lifecycle := pt_lifecycle pt,
       c_securityContext := pt_containerSecurityContext pt\<rparr>"

definition in_cert_dir :: "string \<Rightarrow> string" where
  "in_cert_dir file = MongoCertDirectory @ ''/'' @ file"

definition getSSLArgsForJob :: "schema_env \<Rightarrow> mongodb \<Rightarrow> (gerr + string) schema_prog" where
  "getSSLArgsForJob E mongo =
     (if mg_tls mongo = None
      then ret (Inl (Err ''SSLMode in mongoDB object in enabled, but issuerRef is not given''))
      else bndE (perform (\<lambda>h. e_getMongoDBVersion E h (mg_version mongo))
                   (Get KMongoDBVersion ('''', mg_version mongo))) (\<lambda>ver.
        case e_parseVersion E (mv_version ver) of
          Inl e \<Rightarrow> ret (Inl e)
        | Inr currentVer \<Rightarrow>
            ret (Inr
              (if EqualVersion currentVer exceptionVer
               then ''--tls --tlsCAFile='' @ in_cert_dir TLSCACertFileName @ '' --tlsPEMKeyFile='' @
                 in_cert_dir MongoClientFileName
               else if LessThan currentVer breakingVer
               then ''--ssl --sslCAFile='' @ in_cert_dir TLSCACertFileName @ '' --sslPEMKeyFile='' @
                 in_cert_dir MongoClientFileName
               else ''--tls --tlsCAFile '' @ in_cert_dir TLSCACertFileName @
                 '' --tlsCertificateKeyFile '' @ in_cert_dir MongoClientFileName))))"

definition init_env_list :: "schema_db \<Rightarrow> secret \<Rightarrow> env_var list" where
  "init_env_list db singleCred =
     [\<lparr>ev_name = ''MONGODB_USERNAME'', ev_value = '''',
       ev_valueFrom = Some (SecretKeyRef (om_name (sec_meta singleCred)) ''username'')\<rparr>,
      \<lparr>ev_name = ''MONGODB_PASSWORD'', ev_value = '''',
       ev_valueFrom = Some (SecretKeyRef (om_name (sec_meta singleCred)) ''password'')\<rparr>,
      \<lparr>ev_name = ''MONGODB_DATABASE_NAME'', ev_value = sd_databaseName db,
       ev_valueFrom = None\<rparr>]"

definition init_command :: "mongodb \<Rightarrow> string \<Rightarrow> string" where
  "init_command mongo sslArgs =
     ''mongo --host='' @ ServiceName mongo @ ''.'' @ mg_namespace mongo @ ''.svc.cluster.local '' @
     sslArgs @
     '' --authenticationDatabase=$MONGODB_DATABASE_NAME --username=$MONGODB_USERNAME'' @
     '' --password=$MONGODB_PASSWORD < '' @ MongoInitScriptPath @ ''/'' @ InitScriptName @ ''; ''"

definition getTheInitContainerSpec :: "schema_env \<Rightarrow> mongodb \<Rightarrow> secret \<Rightarrow> (gerr + container) schema_prog" where
  "getTheInitContainerSpec E mongo singleCred =
     bnd (gets obj) (\<lambda>db. bnd (deref (sd_init db)) (\<lambda>init.
       bndE (if mg_sslMode mongo \<noteq> SSLModeDisabled then getSSLArgsForJob E mongo
             else ret (Inr '''')) (\<lambda>sslArgs.
         let args = [init_command mongo sslArgs];
             envList = (case si_podTemplate init of
               None \<Rightarrow> init_env_list db singleCred
             | Some pt \<Rightarrow> UpsertEnvVars (init_env_list db singleCred) (pt_env pt));
             argList = (case si_podTemplate init of
               None \<Rightarrow> args
             | Some pt \<Rightarrow> UpsertArgumentList (pt_args pt) args []);
             volumeMounts = UpsertVolumeMount []
               [\<lparr>vm_name = GetMongoInitVolumeNameForPod db, vm_mountPath = MongoInitScriptPath,
                 vm_subPath = ''''\<rparr>]
         in bndE (perform (\<lambda>h. e_getMongoDBVersion E h (mg_version mongo))
                    (Get KMongoDBVersion ('''', mg_version mongo))) (\<lambda>ver.
              ret (Inr ((new_container (GetMongoInitContainerNameForPod db))
                \<lparr>c_image := mv_dbImage ver, c_env := envList, c_command := [''/bin/sh'', ''-c''],
                 c_args := argList, c_imagePullPolicy := ''Always'',
                 c_volumeMounts := volumeMounts\<rparr>))))))"

definition job_transform ::
  "schema_env \<Rightarrow> schema_db \<Rightarrow> schema_init \<Rightarrow> volume list \<Rightarrow> container \<Rightarrow> job \<Rightarrow> bool \<Rightarrow> job" where
  "job_transform E db init volumes cont jb createOp =
     (let jb1 = jb\<lparr>jb_volumes := UpsertVolume (jb_volumes jb) volumes\<rparr>;
          cont' = (case si_podTemplate init of None \<Rightarrow> cont
            | Some pt \<Rightarrow> setDefaultOptionsForJobContainer cont pt);
          jb2 = (case si_podTemplate init of None \<Rightarrow> jb1
            | Some pt \<Rightarrow> jb1\<lparr>jb_serviceAccountName := pt_serviceAccountName pt,
                jb_scheduling := pt_scheduling pt\<rparr>)
      in jb2\<lparr>jb_containers := UpsertContainers (jb_containers jb2) [cont'],
             jb_restartPolicy := ''OnFailure'', jb_backoffLimit := Some 5,
             jb_meta := own_on_create E db createOp (jb_meta jb2)\<rparr>)"

definition makeTheInitJob :: "schema_env \<Rightarrow> mongodb \<Rightarrow> secret \<Rightarrow> (gerr + job option) schema_prog" where
  "makeTheInitJob E mongo singleCred =
     bnd (gets obj) (\<lambda>db.
       case sd_init db of
         None \<Rightarrow> ret (Inr None)
       | Some init \<Rightarrow>
           (case si_script init of
              None \<Rightarrow> ret (Inr None)
            | Some givenScript \<Rightarrow>
                let volumes = UpsertVolume []
                  [\<lparr>vol_name = GetMongoInitVolumeNameForPod db,
                    vol_source = scr_volumeSource givenScript\<rparr>]
                in bndE (getTheInitContainerSpec E mongo singleCred) (\<lambda>cont.
                  bndE (create_or_patch (e_fetchJob E) (e_writeJob E) KJob WriteJob
                          (sd_namespace db, GetMongoInitJobName db)
                          (job_transform E db init volumes cont))
                    (\<lambda>createdJob. bnd (updateStatusForInitJob E (jb_meta createdJob))
                      (\<lambda>_. ret (Inr (Some createdJob)))))))"

end
