(* ===== verification/SchemaRestore.thy ===== *)
theory SchemaRestore
  imports SchemaEnsure
begin

text \<open>
  The restore of a \<open>MongoDBDatabase\<close> from a Stash repository: the repository, its storage
  secret, the authentication secret and the application binding are copied into the
  namespace of the schema, and a restore session is created
  (\<open>copyRepositoryAndSecret\<close>, \<open>ensureAppbinding\<close>, \<open>ensureRestoreSession\<close>).
\<close>

definition copy_secret :: "schema_env \<Rightarrow> schema_db \<Rightarrow> secret \<Rightarrow> (gerr + secret) schema_prog" where
  "copy_secret E db sec =
     create_or_patch (e_fetchSecret E) (e_writeSecret E) KSecret WriteSecret
       (sd_namespace db, om_name (sec_meta sec))
       (\<lambda>s createOp. s\<lparr>sec_data := sec_data sec,
          sec_meta := own_on_create E db createOp (sec_meta s)\<rparr>)"

definition repository_transform ::
  "schema_env \<Rightarrow> schema_db \<Rightarrow> repository \<Rightarrow> repository \<Rightarrow> bool \<Rightarrow> repository" where
  "repository_transform E db repo rep createOp =
     rep\<lparr>rep_storageSecretName := rep_storageSecretName repo, rep_rest := rep_rest repo,
         rep_meta := own_on_create E db createOp (rep_meta rep)\<rparr>"

definition copyRepositoryAndSecret :: "schema_env \<Rightarrow> (gerr + unit) schema_prog" where
  "copyRepositoryAndSecret E =
     bnd (gets obj) (\<lambda>db. bnd (deref (sd_restore db)) (\<lambda>restore.
       bndE (perform (\<lambda>h. e_getRepository E h (rr_repository restore))
               (Get KRepository (rr_repository restore))) (\<lambda>repo.
       bndE (create_or_patch (e_fetchRepository E) (e_writeRepository E) KRepository
               WriteRepository (sd_namespace db, om_name (rep_meta repo))
               (repository_transform E db repo)) (\<lambda>fetched.
       let secretKey = (om_namespace (rep_meta repo), rep_storageSecretName repo)
       in bndE (perform (\<lambda>h. e_getSecret E h secretKey) (Get KSecret secretKey)) (\<lambda>sec.
       bndE (copy_secret E db sec) (\<lambda>_.
       bnd (updateStatusForRepository E (rep_meta fetched)) (\<lambda>_. ret (Inr ()))))))))"

text \<open>The host name the copied binding points to; the empty string if the read fails.\<close>

definition appbinding_host :: "schema_env \<Rightarrow> schema_db \<Rightarrow> string schema_prog" where
  "appbinding_host E db =
     bnd (perform (\<lambda>h. e_getMongoDB E h (sd_databaseRef db) empty_mongodb)
           (Get KMongoDB (sd_databaseRef db))) (\<lambda>(err, mongo).
       case err of
         Some e \<Rightarrow> ret ''''
       | None \<Rightarrow> ret (mg_name mongo @ ''.'' @ mg_namespace mongo @ ''.svc.cluster.local''))"

definition appbinding_transform ::
  "schema_env \<Rightarrow> schema_db \<Rightarrow> app_binding \<Rightarrow> app_binding \<Rightarrow> bool \<Rightarrow> app_binding schema_prog" where
  "appbinding_transform E db appbinding ab createOp =
     bnd (appbinding_host E db) (\<lambda>host.
     bnd (deref (ab_service appbinding)) (\<lambda>svc.
       ret (appbinding\<lparr>ab_service := Some (svc\<lparr>as_name := host\<rparr>),
         ab_meta := own_on_create E db createOp (ab_meta ab)\<rparr>)))"

text \<open>The error of copying the authentication secret is overwritten by the next \<open>Get\<close>.\<close>

definition ensureAppbinding :: "schema_env \<Rightarrow> (gerr + unit) schema_prog" where
  "ensureAppbinding E =
     bnd (gets obj) (\<lambda>db.
       let authKey = (fst (sd_databaseRef db), GetAuthSecretName (snd (sd_databaseRef db)))
       in bndE (perform (\<lambda>h. e_getSecret E h authKey) (Get KSecret authKey)) (\<lambda>authSecret.
       bnd (copy_secret E db authSecret) (\<lambda>_.
       bndE (perform (\<lambda>h. e_getAppBinding E h (sd_databaseRef db))
               (Get KAppBinding (sd_databaseRef db))) (\<lambda>appbinding.
       bndE (create_or_patch_with (e_fetchAppBinding E) (e_writeAppBinding E) KAppBinding
               WriteAppBinding (sd_namespace db, om_name (ab_meta appbinding))
               (appbinding_transform E db appbinding)) (\<lambda>fetched.
       bnd (updateStatusForAppbinding E (ab_meta fetched)) (\<lambda>_. ret (Inr ())))))))"

definition getVaultCreatedSecretName :: "schema_env \<Rightarrow> (gerr + string) schema_prog" where
  "getVaultCreatedSecretName E =
     bnd (gets obj) (\<lambda>db.
       let key = (sd_namespace db, GetMongoAdminSecretAccessRequestName db)
       in bndE (perform (\<lambda>h. e_getSecretAccessRequest E h key) (Get KSecretAccessRequest key))
         (\<lambda>sar. case sar_secret sar of
            None \<Rightarrow> ret (Inl (Err ''secret is not generated yet in the secretAccessRequest''))
          | Some (ns, name) \<Rightarrow> ret (Inr name)))"

definition restoreSession_transform ::
  "schema_env \<Rightarrow> schema_db \<Rightarrow> restore_ref \<Rightarrow> mongodb \<Rightarrow> mongodb_version \<Rightarrow> restore_session \<Rightarrow> bool \<Rightarrow>
   restore_session" where
  "restoreSession_transform E db restore mongo ver rs createOp =
     rs\<lparr>res_taskName := mv_restoreTask ver,
        res_target := Some
          \<lparr>rt_apiVersion = ''appcatalog.appscode.com/v1alpha1'', rt_kind = ''AppBinding'',
           rt_name = mg_name mongo, rt_snapshots = [[rr_snapshot restore]]\<rparr>,
        res_repository := snd (rr_repository restore),
        res_meta := own_on_create E db createOp (res_meta rs)\<rparr>"

definition ensureRestoreSession :: "schema_env \<Rightarrow> mongodb \<Rightarrow> (gerr + restore_session) schema_prog" where
  "ensureRestoreSession E mongo =
     bnd (gets obj) (\<lambda>db.
       bndE (perform (\<lambda>h. e_getMongoDBVersion E h (mg_version mongo))
               (Get KMongoDBVersion ('''', mg_version mongo))) (\<lambda>ver.
       bndE (create_or_patch_with (e_fetchRestoreSession E) (e_writeRestoreSession E) KRestoreSession
               WriteRestoreSession (sd_namespace db, GetMongoRestoreSessionName db)
               (\<lambda>rs createOp. bnd (deref (sd_restore db)) (\<lambda>restore.
                  ret (restoreSession_transform E db restore mongo ver rs createOp)))) (\<lambda>fetched.
       bnd (updateStatusForRestoreSession E (res_meta fetched)) (\<lambda>_. ret (Inr fetched)))))"

end
