(* ===== verification/SchemaReconcile.thy ===== *)
theory SchemaReconcile
  imports SchemaRestore
begin

text \<open>
  The reconcile loop of the schema manager (\<open>mongodbdatabase_controller.go\<close>): status updates,
  the database entry and the finalizer, the worker \<open>runMongoSchema\<close>, \<open>Reconcile\<close> itself, and
  the functions that map a changed MongoDB or VaultServer to the schemas to reconcile.
\<close>

section \<open>Status\<close>

definition updateSchemaMongoDBDatabaseStatus :: "schema_env \<Rightarrow> string \<Rightarrow> (gerr + unit) schema_prog" where
  "updateSchemaMongoDBDatabaseStatus E typ =
     bnd (gets obj) (\<lambda>db.
       let phase = (if typ = SchemaDatabasePhaseIgnored then typ
                    else GetPhaseFromCondition (sd_conditions db) (sd_restore db \<noteq> None))
       in bnd (update (\<lambda>s. s\<lparr>obj := (obj s)\<lparr>sd_phase := phase\<rparr>\<rparr>)) (\<lambda>_.
            perform (\<lambda>h. e_patchSchemaStatus E h (sd_meta db) phase (sd_conditions db))
              (PatchSchemaStatus (sd_meta db) phase (sd_conditions db))))"

definition getMongoDBAndVaultServer ::
  "schema_env \<Rightarrow> (gerr + mongodb \<times> vault_server \<times> bool) schema_prog" where
  "getMongoDBAndVaultServer E =
     bnd (gets obj) (\<lambda>db.
     bndE (if sd_phase db = ''''
           then updateSchemaMongoDBDatabaseStatus E SchemaDatabasePhaseWaiting
           else ret (Inr ())) (\<lambda>_.
     bnd (perform (\<lambda>h. e_getMongoDB E h (sd_databaseRef db) empty_mongodb)
            (Get KMongoDB (sd_databaseRef db))) (\<lambda>(err, mongo0).
     bnd (updateStatusForMongoDB E mongo0) (\<lambda>mongo.
       case err of
         Some e \<Rightarrow> ret (Inl e)
       | None \<Rightarrow>
     bnd (perform (\<lambda>h. e_getVaultServer E h (sd_vaultRef db)
             \<lparr>vs_meta = meta_of '''' '''', vs_phase = '''', vs_conditions = []\<rparr>)
            (Get KVaultServer (sd_vaultRef db))) (\<lambda>(err', vault0).
     bnd (updateStatusForVaultServer E vault0) (\<lambda>vault.
       case err' of
         Some e \<Rightarrow> ret (Inl e)
       | None \<Rightarrow>
           if mg_phase mongo \<noteq> DatabasePhaseReady \<or>
              vs_phase vault \<noteq> k_VaultServerPhaseReady (e_names E)
           then ret (Inr (mongo, vault, False))
           else bndE (updateSchemaMongoDBDatabaseStatus E '''')
             (\<lambda>_. ret (Inr (mongo, vault, True)))))))))"

section \<open>The entry and the finalizer\<close>

text \<open>
  \<open>defer mongoClient.Close()\<close> stands before the check of the error: when the connection has
  failed, the deferred call dereferences a nil client.
\<close>

definition doExternalThingsBeforeDelete :: "schema_env \<Rightarrow> mongodb \<Rightarrow> (gerr + unit) schema_prog" where
  "doExternalThingsBeforeDelete E mongo =
     bnd (gets obj) (\<lambda>db.
     bnd (perform (\<lambda>h. e_mongoConnect E h mongo) (MongoConnect mongo)) (\<lambda>connected.
       with_defer
         (case connected of
            Inl e \<Rightarrow> ret (Inl e)
          | Inr _ \<Rightarrow>
              let uid = om_uid (sd_meta db); name = sd_databaseName db
              in bnd (perform (\<lambda>h. e_findEntry E h uid name) (FindEntry uid name)) (\<lambda>cursor.
                   case cursor of
                     Inl e \<Rightarrow> ret (Inr ())
                   | Inr _ \<Rightarrow>
                       bndE (perform (\<lambda>h. e_dropDatabase E h name) (DropDatabase name)) (\<lambda>_.
                         perform (\<lambda>h. e_deleteEntry E h uid name) (DeleteEntry uid name))))
         (case connected of
            Inl e \<Rightarrow> panic ''nil pointer dereference''
          | Inr _ \<Rightarrow> perform (\<lambda>h. ()) MongoClose)))"

definition ensureEntryIntoDatabase :: "schema_env \<Rightarrow> mongodb \<Rightarrow> (gerr + unit) schema_prog" where
  "ensureEntryIntoDatabase E mongo =
     bnd (perform (\<lambda>h. e_mongoConnect E h mongo) (MongoConnect mongo)) (\<lambda>connected.
       case connected of
         Inl e \<Rightarrow> fatal (''Running MongoDBClient failed. '' @ error_text e)
       | Inr _ \<Rightarrow>
           with_defer
             (bnd (gets obj) (\<lambda>db.
                let uid = om_uid (sd_meta db); name = sd_databaseName db
                in bndE (perform (\<lambda>h. e_listCollections E h name) (ListCollections name)) (\<lambda>res.
                     if 0 < length res
                     then bndE (updateSchemaMongoDBDatabaseStatus E SchemaDatabasePhaseIgnored)
                       (\<lambda>_. ret (Inl (Err ''database already exist'')))
                     else bnd (perform (\<lambda>h. e_upsertEntry E h uid name) (UpsertEntry uid name))
                       (\<lambda>r. case r of
                          Inl e \<Rightarrow> ret (Inl (Err
                            (''failed to write on database with error: '' @ error_text e)))
                        | Inr _ \<Rightarrow> ret (Inr ())))))
             (perform (\<lambda>h. ()) MongoClose))"

text \<open>\<open>r.Update(ctx, obj)\<close> leaves the server's answer in \<open>obj\<close>.\<close>

definition updateObj :: "schema_env \<Rightarrow> (gerr + unit) schema_prog" where
  "updateObj E =
     bnd (gets obj) (\<lambda>db.
     bnd (perform (\<lambda>h. e_updateSchema E h db) (UpdateSchema db)) (\<lambda>(err, db').
     bnd (update (\<lambda>s. s\<lparr>obj := db'\<rparr>)) (\<lambda>_.
       ret (case err of None \<Rightarrow> Inr () | Some e \<Rightarrow> Inl e))))"

definition set_meta :: "(object_meta \<Rightarrow> object_meta) \<Rightarrow> unit schema_prog" where
  "set_meta f = update (\<lambda>s. s\<lparr>obj := (obj s)\<lparr>sd_meta := f (sd_meta (obj s))\<rparr>\<rparr>)"

text \<open>\<open>Inr b\<close> is \<open>(b, nil)\<close>, and \<open>Inl e\<close> is \<open>(false, e)\<close>.\<close>

definition ensureOrDeleteFinalizer :: "schema_env \<Rightarrow> mongodb \<Rightarrow> (gerr + bool) schema_prog" where
  "ensureOrDeleteFinalizer E mongo =
     bnd (gets obj) (\<lambda>db.
       let finalizerName = k_SchemaGroup (e_names E)
       in if om_deletionTimestamp (sd_meta db) = None
          then if \<not> ContainsString (om_finalizers (sd_meta db)) finalizerName
               then bndE (ensureEntryIntoDatabase E mongo) (\<lambda>_.
                      bnd (set_meta (\<lambda>m. AddFinalizer m finalizerName)) (\<lambda>_.
                      bndE (updateObj E) (\<lambda>_. ret (Inr True))))
               else ret (Inr True)
          else if sd_deletionPolicy db = DeletionPolicyDelete
          then if ContainsString (om_finalizers (sd_meta db)) finalizerName
               then bndE (doExternalThingsBeforeDelete E mongo) (\<lambda>_.
                      bnd (set_meta (\<lambda>m. RemoveFinalizer m finalizerName)) (\<lambda>_.
                      bndE (updateObj E) (\<lambda>_. ret (Inr False))))
               else ret (Inr False)
          else ret (Inr True))"

section \<open>The worker\<close>

text \<open>The part of \<open>runMongoSchema\<close> for a restore.\<close>

definition run_restore :: "schema_env \<Rightarrow> mongodb \<Rightarrow> (gerr + unit) schema_prog" where
  "run_restore E mongo =
     bndE (copyRepositoryAndSecret E) (\<lambda>_.
     bndE (ensureAppbinding E) (\<lambda>_.
     bndE (ensureRestoreSession E mongo) (\<lambda>res.
     bnd (gets obj) (\<lambda>db.
       if (case sd_init db of None \<Rightarrow> True | Some init \<Rightarrow> \<not> si_initialized init) \<and>
          CheckRestoreSessionPhaseSucceed (e_names E) res
       then bnd (update (\<lambda>s. s\<lparr>obj := (obj s)\<lparr>sd_init :=
           Some \<lparr>si_initialized = True, si_script = None, si_podTemplate = None\<rparr>\<rparr>\<rparr>))
         (\<lambda>_. ret (Inr ()))
       else ret (Inr ())))))"

text \<open>The part for an init script.\<close>

definition run_init :: "schema_env \<Rightarrow> mongodb \<Rightarrow> secret \<Rightarrow> (gerr + unit) schema_prog" where
  "run_init E mongo singleCred =
     bnd (gets obj) (\<lambda>db0.
     let jobKey = (sd_namespace db0, GetMongoInitJobName db0)
     in bnd (updateStatusForInitJob E (meta_of (fst jobKey) (snd jobKey))) (\<lambda>_.
     bnd (gets obj) (\<lambda>db.
     bnd (deref (sd_init db)) (\<lambda>init.
       if si_initialized init then ret (Inr ())
       else bnd (perform (\<lambda>h. e_getJob E h jobKey) (Get KJob jobKey)) (\<lambda>r.
         case r of
           Inl e \<Rightarrow>
             if is_not_found e
             then bndE (makeTheInitJob E mongo singleCred) (\<lambda>_. ret (Inr ()))
             else ret (Inl e)
         | Inr jb \<Rightarrow>
             if jb_completionTime jb \<noteq> None
             then bnd (update (\<lambda>s. s\<lparr>obj := (obj s)\<lparr>sd_init := Some (init\<lparr>si_initialized := True\<rparr>)\<rparr>\<rparr>))
               (\<lambda>_. ret (Inr ()))
             else ret (Inr ()))))))"

definition runMongoSchema :: "schema_env \<Rightarrow> mongodb \<Rightarrow> (gerr + unit) schema_prog" where
  "runMongoSchema E mongo =
     bndE (ensureSecretEngine E) (\<lambda>se.
     bndE (ensureMongoDBRole E) (\<lambda>role.
       if se_phase se \<noteq> SecretEnginePhaseSuccess \<or>
          mr_phase role \<noteq> k_RolePhaseSuccess (e_names E)
       then ret (Inr ())
       else
     bndE (ensureServiceAccount E) (\<lambda>_.
     bndE (ensureSecretAccessRequest E) (\<lambda>sar.
       if sar_phase sar \<noteq> k_RequestStatusPhaseApproved (e_names E) then ret (Inr ())
       else case sar_secret sar of
         None \<Rightarrow> ret (Inr ())
       | Some secretKey \<Rightarrow>
           bndE (perform (\<lambda>h. e_getSecret E h secretKey) (Get KSecret secretKey)) (\<lambda>singleCred.
           bnd (gets obj) (\<lambda>db.
             if sd_restore db \<noteq> None then run_restore E mongo
             else run_init E mongo singleCred))))))"

section \<open>Reconcile\<close>

text \<open>The result is always empty; the value is the error.\<close>

definition Reconcile :: "schema_env \<Rightarrow> nsname \<Rightarrow> gerr option schema_prog" where
  "Reconcile E req =
     bnd (perform (\<lambda>h. e_getSchema E h req) (Get KSchema req)) (\<lambda>got.
       case got of
         Inl e \<Rightarrow> ret (if is_not_found e then None else Some e)
       | Inr db \<Rightarrow>
     bnd (update (\<lambda>s. s\<lparr>obj := db\<rparr>)) (\<lambda>_.
     bnd (getMongoDBAndVaultServer E) (\<lambda>r1.
       case r1 of
         Inl e \<Rightarrow> ret (Some e)
       | Inr (mongo, vault, goForward) \<Rightarrow>
           if \<not> goForward then ret None
           else
     bnd (ensureOrDeleteFinalizer E mongo) (\<lambda>r2.
       case r2 of
         Inl e \<Rightarrow> ret (Some e)
       | Inr goForward2 \<Rightarrow>
           if \<not> goForward2 then ret None
           else
     bnd (runMongoSchema E mongo) (\<lambda>r3.
     bnd (updateSchemaMongoDBDatabaseStatus E '''') (\<lambda>r4.
       case r4 of
         Inl e \<Rightarrow> ret (Some e)
       | Inr _ \<Rightarrow> ret (case r3 of Inl e \<Rightarrow> Some e | Inr _ \<Rightarrow> None)))))))"

section \<open>Watches\<close>

definition getHandlerFuncForMongoDB :: "schema_env \<Rightarrow> mongodb \<Rightarrow> nsname list schema_prog" where
  "getHandlerFuncForMongoDB E mongo =
     bnd (perform (e_listSchemas E) ListSchemas) (\<lambda>r.
       case r of
         Inl e \<Rightarrow> ret []
       | Inr items \<Rightarrow>
           ret (map (\<lambda>schema. key_of (sd_meta schema))
             [schema \<leftarrow> items. sd_databaseRef schema = key_of (mg_meta mongo)]))"

definition getHandlerFuncForVaultServer :: "schema_env \<Rightarrow> vault_server \<Rightarrow> nsname list schema_prog" where
  "getHandlerFuncForVaultServer E vault =
     bnd (perform (e_listSchemas E) ListSchemas) (\<lambda>r.
       case r of
         Inl e \<Rightarrow> ret []
       | Inr items \<Rightarrow>
           ret (map (\<lambda>schema. key_of (sd_meta schema))
             [schema \<leftarrow> items. sd_vaultRef schema = key_of (vs_meta vault)]))"

end
