(* ===== verification/SchemaLemmas.thy ===== *)
theory SchemaLemmas
  imports SchemaReconcile
begin

text \<open>
  Which calls the parts of the schema controller make, and what the decisions between them
  have seen. These lemmas carry the properties of \<open>SchemaProps\<close>.
\<close>

section \<open>Kinds of calls\<close>

text \<open>The calls of the worker: reads, and writes of the resources it owns.\<close>

fun worker_call :: "schema_call \<Rightarrow> bool" where
  "worker_call (Get kind key) = True"
| "worker_call (Fetch kind key) = True"
| "worker_call (WriteSecretEngine x) = True"
| "worker_call (WriteMongoDBRole x) = True"
| "worker_call (WriteServiceAccount x) = True"
| "worker_call (WriteSecretAccessRequest x) = True"
| "worker_call (WriteJob x) = True"
| "worker_call (WriteRepository x) = True"
| "worker_call (WriteSecret x) = True"
| "worker_call (WriteAppBinding x) = True"
| "worker_call (WriteRestoreSession x) = True"
| "worker_call (PatchAccessRequestStatus m x) = True"
| "worker_call c = False"

text \<open>Calls that change nothing but the status of the schema.\<close>

fun status_call :: "schema_call \<Rightarrow> bool" where
  "status_call (Get kind key) = True"
| "status_call (PatchSchemaStatus m p cs) = True"
| "status_call c = False"

lemma emits_status_reads:
  "emits worker_call (updateStatusForSecretEngine E se)"
  "emits worker_call (updateStatusForMongoDbRole E mr)"
  "emits worker_call (updateStatusForSecretAccessRequest E sar)"
  "emits worker_call (updateStatusForInitJob E jb)"
  "emits worker_call (updateStatusForRepository E rp)"
  "emits worker_call (updateStatusForAppbinding E ab)"
  "emits worker_call (updateStatusForRestoreSession E rs)"
  "emits status_call (updateStatusForMongoDB E mongo)"
  "emits status_call (updateStatusForVaultServer E vault)"
  by (rule status_reads; simp)+

lemma ensureSecretEngine_calls [emits_intros]: "emits worker_call (ensureSecretEngine E)"
  unfolding ensureSecretEngine_def by (intro emits_intros emits_status_reads) auto

lemma ensureMongoDBRole_calls [emits_intros]: "emits worker_call (ensureMongoDBRole E)"
  unfolding ensureMongoDBRole_def by (intro emits_intros emits_status_reads) auto

lemma ensureServiceAccount_calls [emits_intros]: "emits worker_call (ensureServiceAccount E)"
  unfolding ensureServiceAccount_def by (intro emits_intros emits_status_reads) auto

lemma ensureSecretAccessRequest_calls [emits_intros]:
  "emits worker_call (ensureSecretAccessRequest E)"
  unfolding ensureSecretAccessRequest_def by (intro emits_intros emits_status_reads) auto

lemma getSSLArgsForJob_calls [emits_intros]: "emits worker_call (getSSLArgsForJob E mongo)"
  unfolding getSSLArgsForJob_def by (intro emits_intros) auto

lemma getTheInitContainerSpec_calls [emits_intros]:
  "emits worker_call (getTheInitContainerSpec E mongo cred)"
  unfolding getTheInitContainerSpec_def Let_def by (intro emits_intros) auto

lemma makeTheInitJob_calls [emits_intros]: "emits worker_call (makeTheInitJob E mongo cred)"
  unfolding makeTheInitJob_def Let_def by (intro emits_intros emits_status_reads) auto

lemma copy_secret_calls [emits_intros]: "emits worker_call (copy_secret E db sec)"
  unfolding copy_secret_def by (intro emits_intros) auto

lemma copyRepositoryAndSecret_calls [emits_intros]: "emits worker_call (copyRepositoryAndSecret E)"
  unfolding copyRepositoryAndSecret_def Let_def by (intro emits_intros emits_status_reads) auto

lemma ensureAppbinding_calls [emits_intros]: "emits worker_call (ensureAppbinding E)"
  unfolding ensureAppbinding_def appbinding_transform_def appbinding_host_def
    create_or_patch_with_def Let_def
  by (intro emits_intros emits_status_reads) auto

lemma ensureRestoreSession_calls [emits_intros]: "emits worker_call (ensureRestoreSession E mongo)"
  unfolding ensureRestoreSession_def create_or_patch_with_def Let_def
  by (intro emits_intros emits_status_reads) auto

lemma run_restore_calls [emits_intros]: "emits worker_call (run_restore E mongo)"
  unfolding run_restore_def by (intro emits_intros) auto

lemma run_init_calls [emits_intros]: "emits worker_call (run_init E mongo cred)"
  unfolding run_init_def Let_def by (intro emits_intros emits_status_reads) auto

lemma runMongoSchema_calls: "emits worker_call (runMongoSchema E mongo)"
  unfolding runMongoSchema_def by (intro emits_intros) auto

lemma updateSchemaStatus_calls [emits_intros]:
  "emits status_call (updateSchemaMongoDBDatabaseStatus E typ)"
  unfolding updateSchemaMongoDBDatabaseStatus_def Let_def by (intro emits_intros) auto

lemma getMongoDBAndVaultServer_calls: "emits status_call (getMongoDBAndVaultServer E)"
  unfolding getMongoDBAndVaultServer_def by (intro emits_intros emits_status_reads) auto


lemma worker_not_status: "worker_call c \<Longrightarrow> \<not> status_call c \<or> (\<exists>kind key. c = Get kind key)"
  by (cases c) auto

section \<open>Guards\<close>

text \<open>A database is dropped right after its entry was found; the entry is deleted after that.\<close>

fun drop_guarded :: "schema_env \<Rightarrow> hist \<Rightarrow> schema_call \<Rightarrow> bool" where
  "drop_guarded E h (DropDatabase name) =
     (h \<noteq> [] \<and> (case last h of
        FindEntry uid n \<Rightarrow> n = name \<and> e_findEntry E (butlast h) uid n = Inr ()
      | _ \<Rightarrow> False))"
| "drop_guarded E h (DeleteEntry uid name) =
     (h \<noteq> [] \<and> last h = DropDatabase name \<and> e_dropDatabase E (butlast h) name = Inr ())"
| "drop_guarded E h c = True"

text \<open>An entry is written right after the database was seen to have no collection.\<close>

fun entry_guarded :: "schema_env \<Rightarrow> hist \<Rightarrow> schema_call \<Rightarrow> bool" where
  "entry_guarded E h (UpsertEntry uid name) =
     (h \<noteq> [] \<and> last h = ListCollections name \<and> e_listCollections E (butlast h) name = Inr [])"
| "entry_guarded E h c = True"

text \<open>
  The last calls wrote the entry of the schema, under its UID and with its database; the last
  calls found no such entry or deleted it.
\<close>

definition entry_written :: "schema_env \<Rightarrow> schema_db \<Rightarrow> hist \<Rightarrow> bool" where
  "entry_written E db h \<longleftrightarrow>
     2 \<le> length h \<and> last h = MongoClose \<and>
     last (butlast h) = UpsertEntry (om_uid (sd_meta db)) (sd_databaseName db) \<and>
     e_upsertEntry E (butlast (butlast h)) (om_uid (sd_meta db)) (sd_databaseName db) = Inr ()"

definition entry_gone :: "schema_env \<Rightarrow> schema_db \<Rightarrow> hist \<Rightarrow> bool" where
  "entry_gone E db h \<longleftrightarrow>
     2 \<le> length h \<and> last h = MongoClose \<and>
     (case last (butlast h) of
        FindEntry uid name \<Rightarrow> uid = om_uid (sd_meta db) \<and> name = sd_databaseName db \<and>
          e_findEntry E (butlast (butlast h)) uid name \<noteq> Inr ()
      | DeleteEntry uid name \<Rightarrow> uid = om_uid (sd_meta db) \<and> name = sd_databaseName db \<and>
          e_deleteEntry E (butlast (butlast h)) uid name = Inr ()
      | _ \<Rightarrow> False)"

lemma entry_finalizers [simp]:
  "entry_written E (db\<lparr>sd_meta := AddFinalizer (sd_meta db) f\<rparr>) h = entry_written E db h"
  "entry_gone E (db\<lparr>sd_meta := RemoveFinalizer (sd_meta db) f\<rparr>) h = entry_gone E db h"
  by (simp_all add: entry_written_def entry_gone_def split: schema_call.split)

text \<open>
  The object is updated to gain the finalizer, after its entry was written, or to lose it,
  while it is being deleted with policy \<open>Delete\<close> and after the entry was not found or was
  deleted.
\<close>

fun finalizer_guarded :: "schema_env \<Rightarrow> hist \<Rightarrow> schema_call \<Rightarrow> bool" where
  "finalizer_guarded E h (UpdateSchema db) =
     (if om_deletionTimestamp (sd_meta db) = None
      then HasFinalizer (sd_meta db) (k_SchemaGroup (e_names E)) \<and> entry_written E db h
      else sd_deletionPolicy db = DeletionPolicyDelete \<and>
        \<not> HasFinalizer (sd_meta db) (k_SchemaGroup (e_names E)) \<and> entry_gone E db h)"
| "finalizer_guarded E h c = True"

definition guarded :: "schema_env \<Rightarrow> hist \<Rightarrow> schema_call \<Rightarrow> bool" where
  "guarded E h c \<longleftrightarrow> drop_guarded E h c \<and> entry_guarded E h c \<and> finalizer_guarded E h c"

lemma worker_guarded: "worker_call c \<Longrightarrow> guarded E h c"
  by (cases c) (simp_all add: guarded_def)

lemma status_guarded: "status_call c \<Longrightarrow> guarded E h c"
  by (cases c) (simp_all add: guarded_def)

lemma guarded_simps [simp]:
  "guarded E h (Get kind key)" "guarded E h (MongoConnect mongo)" "guarded E h MongoClose"
  "guarded E h (FindEntry uid name)" "guarded E h (ListCollections name)"
  "guarded E h (PatchSchemaStatus m p cs)"
  by (simp_all add: guarded_def)

lemma wp_set_meta [wp_simps]:
  "wp (set_meta f) Q C s = Q () (s\<lparr>obj := (obj s)\<lparr>sd_meta := f (sd_meta (obj s))\<rparr>\<rparr>)"
  by (simp add: set_meta_def wp_simps)

lemma wp_updateObj [wp_simps]:
  "wp (updateObj E) Q C s =
     (case e_updateSchema E (calls s) (obj s) of (err, db') \<Rightarrow>
        Q (case err of None \<Rightarrow> Inr () | Some e \<Rightarrow> Inl e)
          (s\<lparr>calls := calls s @ [UpdateSchema (obj s)], obj := db'\<rparr>))"
  by (simp add: updateObj_def wp_simps split: prod.split)

lemma wp_updateSchemaStatus [wp_simps]:
  "wp (updateSchemaMongoDBDatabaseStatus E typ) Q C s =
     (let db = obj s;
          phase = (if typ = SchemaDatabasePhaseIgnored then typ
            else GetPhaseFromCondition (sd_conditions db) (sd_restore db \<noteq> None))
      in Q (e_patchSchemaStatus E (calls s) (sd_meta db) phase (sd_conditions db))
        (s\<lparr>obj := db\<lparr>sd_phase := phase\<rparr>,
           calls := calls s @ [PatchSchemaStatus (sd_meta db) phase (sd_conditions db)]\<rparr>))"
  by (simp add: updateSchemaMongoDBDatabaseStatus_def wp_simps Let_def)

lemma ensureEntryIntoDatabase_guarded:
  assumes "trace_ok (guarded E) (calls s)"
  shows "wp (ensureEntryIntoDatabase E mongo)
    (\<lambda>r t. trace_ok (guarded E) (calls t) \<and>
      (r = Inr () \<longrightarrow> obj t = obj s \<and> entry_written E (obj s) (calls t)))
    (\<lambda>_ t. trace_ok (guarded E) (calls t)) s"
  using assms
  unfolding ensureEntryIntoDatabase_def
  by (simp add: wp_simps Let_def split: sum.split)
    (simp add: guarded_def entry_written_def butlast_append)

lemma doExternalThingsBeforeDelete_guarded:
  assumes "trace_ok (guarded E) (calls s)"
  shows "wp (doExternalThingsBeforeDelete E mongo)
    (\<lambda>r t. trace_ok (guarded E) (calls t) \<and>
      (r = Inr () \<longrightarrow> obj t = obj s \<and> entry_gone E (obj s) (calls t)))
    (\<lambda>_ t. trace_ok (guarded E) (calls t)) s"
  using assms
  unfolding doExternalThingsBeforeDelete_def
  by (simp add: wp_simps Let_def split: sum.split)
    (auto simp: guarded_def entry_gone_def butlast_append)

lemma ensureOrDeleteFinalizer_guarded:
  "keeps (\<lambda>s. trace_ok (guarded E) (calls s)) (ensureOrDeleteFinalizer E mongo)"
proof (rule keepsI)
  fix s :: schema_state
  assume ok: "trace_ok (guarded E) (calls s)"
  show "wp (ensureOrDeleteFinalizer E mongo) (\<lambda>_ t. trace_ok (guarded E) (calls t))
      (\<lambda>_ t. trace_ok (guarded E) (calls t)) s"
  proof (cases "om_deletionTimestamp (sd_meta (obj s)) = None")
    case True
    then show ?thesis
      unfolding ensureOrDeleteFinalizer_def
      by (auto simp: wp_simps Let_def ok guarded_def
          intro!: wp_conseq [OF ensureEntryIntoDatabase_guarded [OF ok]]
          split: sum.split prod.split)
  next
    case False
    then show ?thesis
      unfolding ensureOrDeleteFinalizer_def
      by (auto simp: wp_simps Let_def ok guarded_def
          intro!: wp_conseq [OF doExternalThingsBeforeDelete_guarded [OF ok]]
          split: sum.split prod.split)
  qed
qed

lemma Reconcile_guarded: "keeps (\<lambda>s. trace_ok (guarded E) (calls s)) (Reconcile E req)"
proof -
  let ?ok = "\<lambda>s :: schema_state. trace_ok (guarded E) (calls s)"
  have "keeps ?ok (getMongoDBAndVaultServer E)"
    by (rule keeps_trace_ok [OF getMongoDBAndVaultServer_calls]) (rule status_guarded)
  moreover have "keeps ?ok (updateSchemaMongoDBDatabaseStatus E '''')"
    by (rule keeps_trace_ok [OF updateSchemaStatus_calls]) (rule status_guarded)
  moreover have "keeps ?ok (runMongoSchema E mongo)" for mongo
    by (rule keeps_trace_ok [OF runMongoSchema_calls]) (rule worker_guarded)
  ultimately show ?thesis
    unfolding Reconcile_def
    by (intro keeps_intros ensureOrDeleteFinalizer_guarded) auto
qed

section \<open>What the object keeps\<close>

text \<open>Two objects with the same specification.\<close>

definition same_spec :: "schema_db \<Rightarrow> schema_db \<Rightarrow> bool" where
  "same_spec a b \<longleftrightarrow>
     sd_databaseRef a = sd_databaseRef b \<and> sd_vaultRef a = sd_vaultRef b \<and>
     sd_databaseName a = sd_databaseName b \<and> sd_subjects a = sd_subjects b \<and>
     sd_init a = sd_init b \<and> sd_restore a = sd_restore b \<and>
     sd_deletionPolicy a = sd_deletionPolicy b \<and> sd_autoApproval a = sd_autoApproval b"

lemma same_spec_refl [simp]: "same_spec db db"
  by (simp add: same_spec_def)

lemma same_spec_status [simp]:
  "same_spec (a\<lparr>sd_conditions := cs\<rparr>) b = same_spec a b"
  "same_spec (a\<lparr>sd_phase := ph\<rparr>) b = same_spec a b"
  "same_spec (a\<lparr>sd_meta := m\<rparr>) b = same_spec a b"
  by (simp_all add: same_spec_def)

lemma updateSchemaStatus_keeps [keeps_intros]:
  "(\<And>db ph. I db \<Longrightarrow> I (db\<lparr>sd_phase := ph\<rparr>)) \<Longrightarrow>
   keeps (\<lambda>s. I (obj s)) (updateSchemaMongoDBDatabaseStatus E typ)"
  by (rule keepsI) (simp add: wp_simps Let_def)

lemma getMongoDBAndVaultServer_keeps:
  assumes "\<And>db ph. I db \<Longrightarrow> I (db\<lparr>sd_phase := ph\<rparr>)"
    and "\<And>db cs. I db \<Longrightarrow> I (db\<lparr>sd_conditions := cs\<rparr>)"
  shows "keeps (\<lambda>s. I (obj s)) (getMongoDBAndVaultServer E)"
  unfolding getMongoDBAndVaultServer_def
  by (intro keeps_intros assms mongoDB_status.keeps_obj vaultServer_status.keeps_obj) simp_all

lemma getMongoDBAndVaultServer_ready:
  "wp (getMongoDBAndVaultServer E)
    (\<lambda>r t. \<forall>mongo vault. r = Inr (mongo, vault, True) \<longrightarrow>
      mg_phase mongo = DatabasePhaseReady \<and> vs_phase vault = k_VaultServerPhaseReady (e_names E))
    (\<lambda>_ _. False) s"
  unfolding getMongoDBAndVaultServer_def
  by (auto simp: wp_simps Let_def intro!: mongoDB_status.wpI vaultServer_status.wpI
      split: sum.split option.split prod.split)

text \<open>Every status the controller writes has the phase that its conditions give.\<close>

fun phase_guarded :: "hist \<Rightarrow> schema_call \<Rightarrow> bool" where
  "phase_guarded h (PatchSchemaStatus m phase cs) =
     ((\<exists>r. phase = GetPhaseFromCondition cs r) \<or>
      phase = SchemaDatabasePhaseIgnored \<and> h \<noteq> [] \<and>
        (\<exists>name. last h = ListCollections name))"
| "phase_guarded h c = True"

lemma worker_phase_guarded: "worker_call c \<Longrightarrow> phase_guarded h c"
  by (cases c) simp_all

section \<open>Writes\<close>

text \<open>
  A write of the worker: the object was fetched just before, in the namespace of the schema;
  its name and namespace are as fetched; a new object is owned by the schema.
\<close>

definition fetched ::
  "(hist \<Rightarrow> nsname \<Rightarrow> gerr + 'o \<times> bool) \<Rightarrow> ('o \<Rightarrow> object_meta) \<Rightarrow> res_kind \<Rightarrow> object_meta \<Rightarrow>
   hist \<Rightarrow> 'o \<Rightarrow> bool" where
  "fetched fetch mt kind m h x \<longleftrightarrow>
     h \<noteq> [] \<and>
     (case last h of
        Fetch k key \<Rightarrow>
          k = kind \<and> fst key = om_namespace m \<and>
          (case fetch (butlast h) key of
             Inl e \<Rightarrow> False
           | Inr (object, createOp) \<Rightarrow>
               key_of (mt x) = key_of (mt object) \<and>
               (createOp \<longrightarrow> IsOwnedBy (mt x) m = (True, True)))
      | _ \<Rightarrow> False)"

fun write_guarded :: "schema_env \<Rightarrow> object_meta \<Rightarrow> hist \<Rightarrow> schema_call \<Rightarrow> bool" where
  "write_guarded E m h (WriteSecretEngine x) =
     fetched (e_fetchSecretEngine E) se_meta KSecretEngine m h x"
| "write_guarded E m h (WriteMongoDBRole x) =
     fetched (e_fetchMongoDBRole E) mr_meta KMongoDBRole m h x"
| "write_guarded E m h (WriteServiceAccount x) =
     fetched (e_fetchServiceAccount E) sa_meta KServiceAccount m h x"
| "write_guarded E m h (WriteSecretAccessRequest x) =
     fetched (e_fetchSecretAccessRequest E) sar_meta KSecretAccessRequest m h x"
| "write_guarded E m h (WriteJob x) = fetched (e_fetchJob E) jb_meta KJob m h x"
| "write_guarded E m h (WriteRepository x) =
     fetched (e_fetchRepository E) rep_meta KRepository m h x"
| "write_guarded E m h (WriteSecret x) = fetched (e_fetchSecret E) sec_meta KSecret m h x"
| "write_guarded E m h (WriteAppBinding x) =
     fetched (e_fetchAppBinding E) ab_meta KAppBinding m (butlast h) x"
| "write_guarded E m h (WriteRestoreSession x) =
     fetched (e_fetchRestoreSession E) res_meta KRestoreSession m h x"
| "write_guarded E m h c = True"

definition writes_ok :: "schema_env \<Rightarrow> object_meta \<Rightarrow> schema_state \<Rightarrow> bool" where
  "writes_ok E m s \<longleftrightarrow> sd_meta (obj s) = m \<and> trace_ok (write_guarded E m) (calls s)"

lemma writes_ok_read [simp]:
  "writes_ok E m s \<Longrightarrow> writes_ok E m (s\<lparr>calls := calls s @ [Get kind key]\<rparr>)"
  "writes_ok E m s \<Longrightarrow> writes_ok E m (s\<lparr>calls := calls s @ [Fetch kind key]\<rparr>)"
  "writes_ok E m s \<Longrightarrow> writes_ok E m (s\<lparr>calls := calls s @ [PatchAccessRequestStatus om x]\<rparr>)"
  by (simp_all add: writes_ok_def)

lemma writes_ok_status:
  "keeps (writes_ok E m) (updateStatusForSecretEngine E se)"
  "keeps (writes_ok E m) (updateStatusForMongoDbRole E mr)"
  "keeps (writes_ok E m) (updateStatusForSecretAccessRequest E om)"
  "keeps (writes_ok E m) (updateStatusForInitJob E om)"
  "keeps (writes_ok E m) (updateStatusForRepository E om)"
  "keeps (writes_ok E m) (updateStatusForAppbinding E om)"
  "keeps (writes_ok E m) (updateStatusForRestoreSession E om)"
  unfolding writes_ok_def by (rule status_keeps; simp)+

lemma fetched_own [simp]:
  "fetched fetch mt kind m (h @ [Fetch kind key]) x \<longleftrightarrow>
     fst key = om_namespace m \<and>
     (case fetch h key of
        Inl e \<Rightarrow> False
      | Inr (object, createOp) \<Rightarrow>
          key_of (mt x) = key_of (mt object) \<and>
          (createOp \<longrightarrow> IsOwnedBy (mt x) m = (True, True)))"
  by (simp add: fetched_def)

lemmas writes_intros =
  keeps_bnd_gets keeps_create_or_patch writes_ok_status keeps_bndE keeps_bnd keeps_ret keeps_if
  keeps_let keeps_prod keeps_option keeps_sum keeps_deref keeps_gets

lemma ensure_writes_ok:
  "keeps (writes_ok E m) (ensureSecretEngine E)"
  "keeps (writes_ok E m) (ensureMongoDBRole E)"
  "keeps (writes_ok E m) (ensureServiceAccount E)"
  unfolding ensureSecretEngine_def ensureMongoDBRole_def ensureServiceAccount_def
  by (intro writes_intros;
      auto simp: writes_ok_def secretEngine_transform_def mongoDBRole_transform_def
        own_on_create_owned)+

lemma keeps_perform_read:
  "keeps (writes_ok E m) (perform ans (Get kind key))"
  "keeps (writes_ok E m) (perform ans (PatchAccessRequestStatus om x))"
  by (rule keeps_perform; simp)+

lemma ensureSecretAccessRequest_writes_ok: "keeps (writes_ok E m) (ensureSecretAccessRequest E)"
  unfolding ensureSecretAccessRequest_def
  by (intro writes_intros keeps_perform_read)
    (auto simp: writes_ok_def secretAccessRequest_transform_def own_on_create_owned)

lemma getTheInitContainerSpec_writes_ok:
  "keeps (writes_ok E m) (getTheInitContainerSpec E mongo cred)"
  unfolding getTheInitContainerSpec_def getSSLArgsForJob_def Let_def
  by (intro writes_intros keeps_perform_read)

lemma job_transform_meta:
  "jb_meta (job_transform E db init vs c jb createOp) = own_on_create E db createOp (jb_meta jb)"
  by (simp add: job_transform_def Let_def split: option.split)

lemma makeTheInitJob_writes_ok: "keeps (writes_ok E m) (makeTheInitJob E mongo cred)"
  unfolding makeTheInitJob_def Let_def
  by (intro writes_intros getTheInitContainerSpec_writes_ok)
    (auto simp: writes_ok_def job_transform_meta own_on_create_owned)

lemma copy_secret_writes_ok:
  "sd_meta db = m \<Longrightarrow> keeps (writes_ok E m) (copy_secret E db sec)"
  unfolding copy_secret_def
  by (intro writes_intros) (auto simp: writes_ok_def own_on_create_owned)

lemma copyRepositoryAndSecret_writes_ok: "keeps (writes_ok E m) (copyRepositoryAndSecret E)"
  unfolding copyRepositoryAndSecret_def Let_def
  by (intro writes_intros keeps_perform_read copy_secret_writes_ok)
    (auto simp: writes_ok_def repository_transform_def own_on_create_owned)

lemma fetched_own2 [simp]:
  "fetched fetch mt kind m (butlast (h @ [Fetch kind key, c])) x =
     fetched fetch mt kind m (h @ [Fetch kind key]) x"
  by (simp add: butlast_append)

lemma own_owned:
  "sd_meta db = owner \<Longrightarrow> IsOwnedBy (own_on_create E db True om) owner = (True, True)"
  using own_on_create_owned by blast

lemma appbinding_write_ok:
  assumes "sd_meta db = m"
  shows "keeps (writes_ok E m) (create_or_patch_with (e_fetchAppBinding E) (e_writeAppBinding E)
    KAppBinding WriteAppBinding (sd_namespace db, name) (appbinding_transform E db ab))"
  unfolding create_or_patch_with_def appbinding_transform_def appbinding_host_def
  by (rule keepsI)
    (insert assms, auto simp: wp_simps writes_ok_def own_owned split: sum.split option.split)

lemma ensureAppbinding_writes_ok: "keeps (writes_ok E m) (ensureAppbinding E)"
  unfolding ensureAppbinding_def Let_def
  by (intro writes_intros keeps_perform_read copy_secret_writes_ok appbinding_write_ok)
    (auto simp: writes_ok_def)

lemma restoreSession_write_ok:
  assumes "sd_meta db = m"
  shows "keeps (writes_ok E m) (create_or_patch_with (e_fetchRestoreSession E)
    (e_writeRestoreSession E) KRestoreSession WriteRestoreSession (sd_namespace db, name)
    (\<lambda>rs createOp. bnd (deref (sd_restore db)) (\<lambda>restore.
       ret (restoreSession_transform E db restore mongo ver rs createOp))))"
  unfolding create_or_patch_with_def
  by (rule keepsI)
    (insert assms, auto simp: wp_simps writes_ok_def own_owned restoreSession_transform_def
      split: sum.split option.split)

lemma ensureRestoreSession_writes_ok: "keeps (writes_ok E m) (ensureRestoreSession E mongo)"
  unfolding ensureRestoreSession_def
  by (intro writes_intros keeps_perform_read restoreSession_write_ok)
    (auto simp: writes_ok_def)

lemma keeps_set_init: "keeps (writes_ok E m) (update (\<lambda>s. s\<lparr>obj := (obj s)\<lparr>sd_init := i\<rparr>\<rparr>))"
  by (rule keeps_update) (simp add: writes_ok_def)

lemma runMongoSchema_writes_ok: "keeps (writes_ok E m) (runMongoSchema E mongo)"
  unfolding runMongoSchema_def run_restore_def run_init_def Let_def
  by (intro writes_intros keeps_perform_read keeps_set_init ensure_writes_ok
      ensureSecretAccessRequest_writes_ok copyRepositoryAndSecret_writes_ok
      ensureAppbinding_writes_ok ensureRestoreSession_writes_ok makeTheInitJob_writes_ok)

section \<open>Runs of the controller\<close>

text \<open>All calls of one reconciliation of the request \<open>req\<close>, and of one run of the worker.\<close>

definition reconcile_calls :: "schema_env \<Rightarrow> nsname \<Rightarrow> schema_call list" where
  "reconcile_calls E req = calls (snd (Reconcile E req (start empty_schema_db)))"

definition worker_calls :: "schema_env \<Rightarrow> mongodb \<Rightarrow> schema_db \<Rightarrow> schema_call list" where
  "worker_calls E mongo db = calls (snd (runMongoSchema E mongo (start db)))"

lemma keeps_trace_call:
  assumes "keeps (\<lambda>s. trace_ok P (calls s)) m" and "calls s = []" and "i < length (calls (snd (m s)))"
  shows "P (take i (calls (snd (m s)))) (calls (snd (m s)) ! i)"
proof -
  obtain r t where m: "m s = (r, t)" by fastforce
  with keepsD [OF assms(1) _ m] assms(2) have "trace_ok P (calls t)" by simp
  with assms(3) m show ?thesis by (simp add: trace_ok_def)
qed

lemma reconcile_call_guarded:
  "i < length (reconcile_calls E req) \<Longrightarrow>
   guarded E (take i (reconcile_calls E req)) (reconcile_calls E req ! i)"
  unfolding reconcile_calls_def by (rule keeps_trace_call [OF Reconcile_guarded]) simp_all

lemma snoc_last: "h \<noteq> [] \<Longrightarrow> last h = c \<Longrightarrow> h = butlast h @ [c]"
  by auto

lemma drop_guarded_cases:
  assumes "drop_guarded E h (DropDatabase name)"
  obtains uid h' where "h = h' @ [FindEntry uid name]" "e_findEntry E h' uid name = Inr ()"
proof -
  from assms obtain uid where last: "h \<noteq> []" "last h = FindEntry uid name"
    and found: "e_findEntry E (butlast h) uid name = Inr ()"
    by (auto split: schema_call.splits)
  from last have "h = butlast h @ [FindEntry uid name]" by (rule snoc_last)
  with found show thesis using that by blast
qed

lemma entry_guarded_cases:
  assumes "entry_guarded E h (UpsertEntry uid name)"
  obtains h' where "h = h' @ [ListCollections name]" "e_listCollections E h' name = Inr []"
  using assms snoc_last [of h] by auto

text \<open>The specification of the object is the fetched one until the finalizer step updates it.\<close>

fun spec_guarded :: "schema_db \<Rightarrow> hist \<Rightarrow> schema_call \<Rightarrow> bool" where
  "spec_guarded db h (UpdateSchema db') = same_spec db' db"
| "spec_guarded db h c = True"

definition spec_ok :: "schema_db \<Rightarrow> schema_state \<Rightarrow> bool" where
  "spec_ok db s \<longleftrightarrow> same_spec (obj s) db \<and> trace_ok (spec_guarded db) (calls s)"

lemma spec_guarded_other [simp]: "worker_call c \<Longrightarrow> spec_guarded db h c"
  by (cases c) simp_all

lemma spec_ok_call [simp]:
  "spec_ok db s \<Longrightarrow> (\<And>h. spec_guarded db h c) \<Longrightarrow> spec_ok db (s\<lparr>calls := calls s @ [c]\<rparr>)"
  by (simp add: spec_ok_def)

lemma spec_ok_status:
  "keeps (spec_ok db) (updateSchemaMongoDBDatabaseStatus E ph)"
  "keeps (spec_ok db) (updateStatusForMongoDB E mongo)"
  "keeps (spec_ok db) (updateStatusForVaultServer E vault)"
proof -
  show "keeps (spec_ok db) (updateSchemaMongoDBDatabaseStatus E ph)"
    by (rule keepsI) (simp add: wp_simps Let_def spec_ok_def)
  show "keeps (spec_ok db) (updateStatusForMongoDB E mongo)"
    "keeps (spec_ok db) (updateStatusForVaultServer E vault)"
    unfolding spec_ok_def by (rule status_keeps; simp)+
qed

lemma getMongoDBAndVaultServer_spec: "keeps (spec_ok db) (getMongoDBAndVaultServer E)"
  unfolding getMongoDBAndVaultServer_def
  by (intro keeps_intros spec_ok_status) auto

lemma entry_spec:
  "keeps (spec_ok db) (ensureEntryIntoDatabase E mongo)"
  "keeps (spec_ok db) (doExternalThingsBeforeDelete E mongo)"
  unfolding ensureEntryIntoDatabase_def doExternalThingsBeforeDelete_def
  by (intro keeps_intros spec_ok_status; simp)+

lemma finalizer_spec:
  assumes "spec_ok db s"
  shows "wp (ensureOrDeleteFinalizer E mongo) (\<lambda>_ t. trace_ok (spec_guarded db) (calls t))
    (\<lambda>_ t. trace_ok (spec_guarded db) (calls t)) s"
proof -
  have before: "wp (ensureEntryIntoDatabase E mongo) (\<lambda>_. spec_ok db) (\<lambda>_. spec_ok db) s"
    "wp (doExternalThingsBeforeDelete E mongo) (\<lambda>_. spec_ok db) (\<lambda>_. spec_ok db) s"
    using assms entry_spec by (simp_all add: keeps_def)
  from assms show ?thesis
    unfolding ensureOrDeleteFinalizer_def
    by (auto simp: wp_simps Let_def spec_ok_def same_spec_def
        intro!: wp_conseq [OF before(1)] wp_conseq [OF before(2)] split: sum.split prod.split)
qed

section \<open>Crashes\<close>

lemma getSSLArgsForJob_returns:
  "wp (getSSLArgsForJob E mongo) (\<lambda>_ _. True) (\<lambda>_ _. False) s"
  by (simp add: getSSLArgsForJob_def wp_simps split: sum.split)

lemma makeTheInitJob_returns: "wp (makeTheInitJob E mongo cred) (\<lambda>_ _. True) (\<lambda>_ _. False) s"
proof -
  have obj: "wp (getSSLArgsForJob E mongo) (\<lambda>_ t. obj t = obj s) (\<lambda>_ _. False) s" for s
    by (simp add: getSSLArgsForJob_def wp_simps split: sum.split)
  have init: "wp (getTheInitContainerSpec E mongo cred) (\<lambda>_ _. True) (\<lambda>_ _. False) s"
    if "sd_init (obj s) \<noteq> None"
    unfolding getTheInitContainerSpec_def using that
    by (auto simp: wp_simps Let_def split: sum.split option.split intro!: wp_conseq [OF obj])
  show ?thesis
    unfolding makeTheInitJob_def
    by (auto simp: wp_simps Let_def split: option.split sum.split prod.split
        intro!: wp_conseq [OF init] initJob_status.wpI)
qed

lemma run_init_crash:
  "(\<exists>k. fst (run_init E mongo cred s) = Crash k) \<longleftrightarrow> sd_init (obj s) = None"
proof (cases "sd_init (obj s)")
  case None
  have "wp (run_init E mongo cred) (\<lambda>_ _. False) (\<lambda>_ _. True) s"
    unfolding run_init_def using None
    by (auto simp: wp_simps Let_def intro!: initJob_status.wpI)
  with None show ?thesis by (auto simp: wp_def split: prod.splits outcome.splits)
next
  case (Some init)
  have "wp (run_init E mongo cred) (\<lambda>_ _. True) (\<lambda>_ _. False) s"
    unfolding run_init_def using Some
    by (auto simp: wp_simps Let_def split: sum.split
        intro!: initJob_status.wpI wp_conseq [OF makeTheInitJob_returns])
  with Some show ?thesis by (auto simp: wp_def split: prod.splits outcome.splits)
qed

section \<open>Phases that are written\<close>

lemma updateSchemaStatus_phase:
  "keeps (\<lambda>s. trace_ok phase_guarded (calls s)) (updateSchemaMongoDBDatabaseStatus E '''')"
  by (rule keepsI) (auto simp: wp_simps Let_def)

lemma getMongoDBAndVaultServer_phase:
  "keeps (\<lambda>s. trace_ok phase_guarded (calls s)) (getMongoDBAndVaultServer E)"
proof -
  have read: "keeps (\<lambda>s. trace_ok phase_guarded (calls s)) (updateStatusForMongoDB E mongo)"
    "keeps (\<lambda>s. trace_ok phase_guarded (calls s)) (updateStatusForVaultServer E vault)" for mongo vault
    by (rule keeps_trace_ok [OF mongoDB_status.only_reads [where P = "\<lambda>c. \<exists>k key. c = Get k key"]]
        keeps_trace_ok [OF vaultServer_status.only_reads [where P = "\<lambda>c. \<exists>k key. c = Get k key"]]; auto)+
  have "keeps (\<lambda>s. trace_ok phase_guarded (calls s))
      (updateSchemaMongoDBDatabaseStatus E SchemaDatabasePhaseWaiting)"
    by (rule keepsI) (auto simp: wp_simps Let_def)
  then show ?thesis
    unfolding getMongoDBAndVaultServer_def
    by (intro keeps_intros read updateSchemaStatus_phase) auto
qed

lemma ensureOrDeleteFinalizer_phase:
  "keeps (\<lambda>s. trace_ok phase_guarded (calls s)) (ensureOrDeleteFinalizer E mongo)"
proof -
  have "keeps (\<lambda>s. trace_ok phase_guarded (calls s)) (ensureEntryIntoDatabase E mongo)"
    unfolding ensureEntryIntoDatabase_def
    by (rule keepsI) (auto simp: wp_simps Let_def split: sum.split)
  moreover have "keeps (\<lambda>s. trace_ok phase_guarded (calls s)) (doExternalThingsBeforeDelete E mongo)"
    unfolding doExternalThingsBeforeDelete_def by (intro keeps_intros) auto
  ultimately show ?thesis
    unfolding ensureOrDeleteFinalizer_def set_meta_def updateObj_def
    by (intro keeps_intros) auto
qed

lemma Reconcile_phase: "keeps (\<lambda>s. trace_ok phase_guarded (calls s)) (Reconcile E req)"
proof -
  have "keeps (\<lambda>s. trace_ok phase_guarded (calls s)) (runMongoSchema E mongo)" for mongo
    by (rule keeps_trace_ok [OF runMongoSchema_calls]) (rule worker_phase_guarded)
  then show ?thesis
    unfolding Reconcile_def
    by (intro keeps_intros getMongoDBAndVaultServer_phase ensureOrDeleteFinalizer_phase
        updateSchemaStatus_phase) auto
qed

end
