(* ===== verification/SchemaDemo.thy ===== *)
theory SchemaDemo
  imports SchemaLemmas
begin

text \<open>
  A concrete cluster for the schema controller, on which its properties are exercised:
  \<open>quiet_env\<close> has no object at all, and \<open>demo_env\<close> one schema with its MongoDB and its Vault
  server, all ready.
\<close>

definition demo_names :: ext_names where
  "demo_names =
     \<lparr>k_AllReplicasAreReady = ''AllReplicasReady'',
      k_VaultServerAcceptingConnection = ''AcceptingConnection'',
      k_VaultServerInitialized = ''Initialized'', k_VaultServerUnsealed = ''Unsealed'',
      k_VaultServerPhaseReady = ''Ready'', k_RolePhaseSuccess = ''Success'',
      k_RequestStatusPhaseApproved = ''Approved'', k_RestoreSucceeded = ''Succeeded'',
      k_RestoreFailed = ''Failed'', k_DefaultMongoDBDatabasePlugin = ''mongodb-database-plugin'',
      k_ResourceKindMongoDBRole = ''MongoDBRole'', k_SchemaGroup = ''schema.kubedb.com'',
      k_SchemaGroupVersion = ''schema.kubedb.com/v1alpha1''\<rparr>"

definition quiet_env :: schema_env where
  "quiet_env =
     \<lparr>e_names = demo_names,
      e_now = (\<lambda>h. length h),
      e_getSchema = (\<lambda>_ _. Inl (NotFound ''not found'')),
      e_listSchemas = (\<lambda>_. Inr []),
      e_updateSchema = (\<lambda>_ x. (Some (NotFound ''not found''), x)),
      e_patchSchemaStatus = (\<lambda>_ _ _ _. Inr ()),
      e_getMongoDB = (\<lambda>_ _ x. (Some (NotFound ''not found''), x)),
      e_getVaultServer = (\<lambda>_ _ x. (Some (NotFound ''not found''), x)),
      e_getSecretEngine = (\<lambda>_ _ x. (Some (NotFound ''not found''), x)),
      e_getMongoDBRole = (\<lambda>_ _ x. (Some (NotFound ''not found''), x)),
      e_getSecretAccessRequest = (\<lambda>_ _. Inl (NotFound ''not found'')),
      e_getSecret = (\<lambda>_ _. Inl (NotFound ''not found'')),
      e_getJob = (\<lambda>_ _. Inl (NotFound ''not found'')),
      e_getRepository = (\<lambda>_ _. Inl (NotFound ''not found'')),
      e_getAppBinding = (\<lambda>_ _. Inl (NotFound ''not found'')),
      e_getRestoreSession = (\<lambda>_ _. Inl (NotFound ''not found'')),
      e_getMongoDBVersion = (\<lambda>_ _. Inl (NotFound ''not found'')),
      e_fetchSecretEngine = (\<lambda>_ _. Inl (NotFound ''not found'')),
      e_writeSecretEngine = (\<lambda>_ _. Inl (NotFound ''not found'')),
      e_fetchMongoDBRole = (\<lambda>_ _. Inl (NotFound ''not found'')),
      e_writeMongoDBRole = (\<lambda>_ _. Inl (NotFound ''not found'')),
      e_fetchServiceAccount = (\<lambda>_ _. Inl (NotFound ''not found'')),
      e_writeServiceAccount = (\<lambda>_ _. Inl (NotFound ''not found'')),
      e_fetchSecretAccessRequest = (\<lambda>_ _. Inl (NotFound ''not found'')),
      e_writeSecretAccessRequest = (\<lambda>_ _. Inl (NotFound ''not found'')),
      e_patchAccessRequestStatus = (\<lambda>_ _ _. Inl (NotFound ''not found'')),
      e_fetchJob = (\<lambda>_ _. Inl (NotFound ''not found'')),
      e_writeJob = (\<lambda>_ _. Inl (NotFound ''not found'')),
      e_fetchRepository = (\<lambda>_ _. Inl (NotFound ''not found'')),
      e_writeRepository = (\<lambda>_ _. Inl (NotFound ''not found'')),
      e_fetchSecret = (\<lambda>_ _. Inl (NotFound ''not found'')),
      e_writeSecret = (\<lambda>_ _. Inl (NotFound ''not found'')),
      e_fetchAppBinding = (\<lambda>_ _. Inl (NotFound ''not found'')),
      e_writeAppBinding = (\<lambda>_ _. Inl (NotFound ''not found'')),
      e_fetchRestoreSession = (\<lambda>_ _. Inl (NotFound ''not found'')),
      e_writeRestoreSession = (\<lambda>_ _. Inl (NotFound ''not found'')),
      e_mongoConnect = (\<lambda>_ _. Inr ()),
      e_findEntry = (\<lambda>_ _ _. Inr ()),
      e_dropDatabase = (\<lambda>_ _. Inr ()),
      e_deleteEntry = (\<lambda>_ _ _. Inr ()),
      e_listCollections = (\<lambda>_ _. Inr []),
      e_upsertEntry = (\<lambda>_ _ _. Inr ()),
      e_parseVersion = (\<lambda>_. Inl (NotFound ''not found''))\<rparr>"

definition true_condition :: "string \<Rightarrow> condition" where
  "true_condition typ = new_condition typ ConditionTrue ''demo'' 1 ''''"

definition demo_mongo :: mongodb where
  "demo_mongo = empty_mongodb
     \<lparr>mg_meta := meta_of ''demo'' ''mg'', mg_phase := ''Ready'', mg_sslMode := SSLModeDisabled,
      mg_conditions := map true_condition
        [DatabaseAcceptingConnection, DatabaseReady, DatabaseProvisioned]\<rparr>"

definition demo_vault :: vault_server where
  "demo_vault =
     \<lparr>vs_meta = meta_of ''demo'' ''vault'', vs_phase = ''Ready'',
      vs_conditions = map true_condition
        [''AllReplicasReady'', ''AcceptingConnection'', ''Initialized'', ''Unsealed'']\<rparr>"

definition demo_schema :: schema_db where
  "demo_schema = empty_schema_db
     \<lparr>sd_meta := (meta_of ''demo'' ''shop'')\<lparr>om_uid := ''u1''\<rparr>, sd_databaseRef := (''demo'', ''mg''),
      sd_vaultRef := (''demo'', ''vault''), sd_databaseName := ''shopdb'',
      sd_deletionPolicy := DeletionPolicyDelete, sd_phase := SchemaDatabasePhaseWaiting\<rparr>"

text \<open>The same schema with its finalizer, under deletion.\<close>

definition dying_schema :: schema_db where
  "dying_schema = demo_schema
     \<lparr>sd_meta := (sd_meta demo_schema)
       \<lparr>om_finalizers := [''schema.kubedb.com''], om_deletionTimestamp := Some 7\<rparr>\<rparr>"

definition demo_env :: "schema_db \<Rightarrow> schema_env" where
  "demo_env db = quiet_env
     \<lparr>e_getSchema := (\<lambda>_ _. Inr db),
      e_getMongoDB := (\<lambda>_ _ _. (None, demo_mongo)),
      e_getVaultServer := (\<lambda>_ _ _. (None, demo_vault)),
      e_updateSchema := (\<lambda>_ db'. (None, db'))\<rparr>"

abbreviation demo_req :: nsname where "demo_req \<equiv> (''demo'', ''shop'')"

lemma demo_env_simps [simp]:
  "e_names (demo_env db) = demo_names"
  "e_getSchema (demo_env db) = (\<lambda>_ _. Inr db)"
  "e_getMongoDB (demo_env db) = (\<lambda>_ _ _. (None, demo_mongo))"
  "e_getVaultServer (demo_env db) = (\<lambda>_ _ _. (None, demo_vault))"
  "e_updateSchema (demo_env db) = (\<lambda>_ db'. (None, db'))"
  "e_patchSchemaStatus (demo_env db) = (\<lambda>_ _ _ _. Inr ())"
  "e_mongoConnect (demo_env db) = (\<lambda>_ _. Inr ())"
  "e_findEntry (demo_env db) = (\<lambda>_ _ _. Inr ())"
  "e_dropDatabase (demo_env db) = (\<lambda>_ _. Inr ())"
  "e_deleteEntry (demo_env db) = (\<lambda>_ _ _. Inr ())"
  "e_listCollections (demo_env db) = (\<lambda>_ _. Inr [])"
  "e_upsertEntry (demo_env db) = (\<lambda>_ _ _. Inr ())"
  by (simp_all add: demo_env_def quiet_env_def)

lemma demo_names_simps [simp]:
  "k_SchemaGroup demo_names = ''schema.kubedb.com''"
  "k_VaultServerPhaseReady demo_names = ''Ready''"
  by (simp_all add: demo_names_def)

section \<open>Runs\<close>

lemmas program_defs =
  bnd_def bndE_def ret_def gets_def update_def perform_def deref_def panic_def fatal_def
  with_defer_def set_condition_def create_or_patch_def create_or_patch_with_def Let_def

text \<open>With both servers ready the controller goes forward, with the object as it was but for
  its status.\<close>

lemma demo_servers:
  assumes "e_getMongoDB E = (\<lambda>_ _ _. (None, demo_mongo))"
    and "e_getVaultServer E = (\<lambda>_ _ _. (None, demo_vault))"
    and "e_patchSchemaStatus E = (\<lambda>_ _ _ _. Inr ())" and "e_names E = demo_names"
    and "sd_phase db \<noteq> ''''"
  obtains db' k1 k2 k3 k4 m ph cs where
    "getMongoDBAndVaultServer E \<lparr>calls = h, obj = db\<rparr> =
       (Done (Inr (demo_mongo, demo_vault, True)),
        \<lparr>calls = h @ [Get KMongoDB k1, Get KMongoDB k2, Get KVaultServer k3,
           Get KVaultServer k4, PatchSchemaStatus m ph cs], obj = db'\<rparr>)"
    "same_spec db' db" "sd_meta db' = sd_meta db"
proof -
  have ready: "mg_phase demo_mongo = DatabasePhaseReady"
      "vs_phase demo_vault = k_VaultServerPhaseReady (e_names E)"
    by (simp_all add: demo_mongo_def DatabasePhaseReady_def demo_vault_def assms demo_names_def)
  have mongo: "\<exists>reason msg sts now. updateStatusForMongoDB E demo_mongo \<lparr>calls = c, obj = d\<rparr> =
      (Done demo_mongo, \<lparr>calls = c @ [Get KMongoDB (key_of (mg_meta demo_mongo))],
        obj = MongoDBDatabase_SetCondition now SchemaDatabaseConditionDBReady sts reason msg d\<rparr>)" for c d
    by (auto simp: updateStatusForMongoDB_def program_defs assms)
  have vault: "\<exists>reason msg sts now. updateStatusForVaultServer E demo_vault \<lparr>calls = c, obj = d\<rparr> =
      (Done demo_vault, \<lparr>calls = c @ [Get KVaultServer (key_of (vs_meta demo_vault))],
        obj = MongoDBDatabase_SetCondition now SchemaDatabaseConditionVaultReady sts reason msg d\<rparr>)" for c d
    by (auto simp: updateStatusForVaultServer_def program_defs assms)
  obtain r1 m1 s1 n1 where 1: "updateStatusForMongoDB E demo_mongo
      \<lparr>calls = h @ [Get KMongoDB (sd_databaseRef db)], obj = db\<rparr> =
      (Done demo_mongo, \<lparr>calls = (h @ [Get KMongoDB (sd_databaseRef db)]) @
          [Get KMongoDB (key_of (mg_meta demo_mongo))],
        obj = MongoDBDatabase_SetCondition n1 SchemaDatabaseConditionDBReady s1 r1 m1 db\<rparr>)"
    using mongo by blast
  let ?db = "MongoDBDatabase_SetCondition n1 SchemaDatabaseConditionDBReady s1 r1 m1 db"
  let ?h = "h @ [Get KMongoDB (sd_databaseRef db), Get KMongoDB (key_of (mg_meta demo_mongo)),
      Get KVaultServer (sd_vaultRef db)]"
  obtain r2 m2 s2 n2 where 2: "updateStatusForVaultServer E demo_vault \<lparr>calls = ?h, obj = ?db\<rparr> =
      (Done demo_vault, \<lparr>calls = ?h @ [Get KVaultServer (key_of (vs_meta demo_vault))],
        obj = MongoDBDatabase_SetCondition n2 SchemaDatabaseConditionVaultReady s2 r2 m2 ?db\<rparr>)"
    using vault by blast
  let ?db2 = "MongoDBDatabase_SetCondition n2 SchemaDatabaseConditionVaultReady s2 r2 m2 ?db"
  let ?ph = "GetPhaseFromCondition (sd_conditions ?db2) (sd_restore db \<noteq> None)"
  show thesis
  proof (rule that)
    show "getMongoDBAndVaultServer E \<lparr>calls = h, obj = db\<rparr> =
       (Done (Inr (demo_mongo, demo_vault, True)),
        \<lparr>calls = h @ [Get KMongoDB (sd_databaseRef db),
          Get KMongoDB (key_of (mg_meta demo_mongo)), Get KVaultServer (sd_vaultRef db),
          Get KVaultServer (key_of (vs_meta demo_vault)),
          PatchSchemaStatus (sd_meta db) ?ph (sd_conditions ?db2)],
         obj = ?db2\<lparr>sd_phase := ?ph\<rparr>\<rparr>)"
      using 1 2 assms ready
      by (simp add: getMongoDBAndVaultServer_def updateSchemaMongoDBDatabaseStatus_def program_defs)
    show "same_spec (?db2\<lparr>sd_phase := ?ph\<rparr>) db"
      by (simp add: same_spec_def MongoDBDatabase_SetCondition_def)
    show "sd_meta (?db2\<lparr>sd_phase := ?ph\<rparr>) = sd_meta db" by simp
  qed
qed

lemmas finalizer_defs =
  reconcile_calls_def Reconcile_def ensureOrDeleteFinalizer_def doExternalThingsBeforeDelete_def
  ensureEntryIntoDatabase_def updateObj_def set_meta_def ContainsString_def RemoveFinalizer_def
  AddFinalizer_def start_def

lemma dying_run:
  "\<exists>db. length (reconcile_calls (demo_env dying_schema) demo_req) = 12 \<and>
     reconcile_calls (demo_env dying_schema) demo_req ! 8 = DropDatabase ''shopdb'' \<and>
     reconcile_calls (demo_env dying_schema) demo_req ! 11 = UpdateSchema db \<and>
     om_finalizers (sd_meta db) = [] \<and> om_deletionTimestamp (sd_meta db) = Some 7"
proof -
  have "sd_phase dying_schema \<noteq> ''''"
    by (simp add: dying_schema_def demo_schema_def)
  from demo_servers [OF _ _ _ _ this, of "demo_env dying_schema" "[Get KSchema demo_req]", simplified]
  obtain db' k1 k2 k3 k4 m ph cs where
    run: "getMongoDBAndVaultServer (demo_env dying_schema)
         \<lparr>calls = [Get KSchema demo_req], obj = dying_schema\<rparr> =
       (Done (Inr (demo_mongo, demo_vault, True)),
        \<lparr>calls = [Get KSchema demo_req, Get KMongoDB k1, Get KMongoDB k2, Get KVaultServer k3,
           Get KVaultServer k4, PatchSchemaStatus m ph cs], obj = db'\<rparr>)"
    and spec: "same_spec db' dying_schema" "sd_meta db' = sd_meta dying_schema"
    by metis
  from spec have "sd_databaseName db' = ''shopdb''" "sd_deletionPolicy db' = DeletionPolicyDelete"
    "om_finalizers (sd_meta db') = [''schema.kubedb.com'']" "om_uid (sd_meta db') = ''u1''"
    "om_deletionTimestamp (sd_meta db') = Some 7"
    by (simp_all add: same_spec_def dying_schema_def demo_schema_def meta_of_def)
  then show ?thesis
    by (simp add: finalizer_defs program_defs run)
qed

text \<open>The API server rejects the update that adds the finalizer.\<close>

definition conflict_env :: schema_env where
  "conflict_env = (demo_env demo_schema)\<lparr>e_updateSchema := (\<lambda>_ db'. (Some (Err ''conflict''), db'))\<rparr>"

lemma conflict_run:
  "\<exists>db. length (reconcile_calls conflict_env demo_req) = 11 \<and>
     reconcile_calls conflict_env demo_req ! 8 = UpsertEntry ''u1'' ''shopdb'' \<and>
     reconcile_calls conflict_env demo_req ! 10 = UpdateSchema db \<and> sd_init db = None \<and>
     (\<exists>m phase cs. reconcile_calls conflict_env demo_req ! 5 = PatchSchemaStatus m phase cs)"
proof -
  have "sd_phase demo_schema \<noteq> ''''" by (simp add: demo_schema_def)
  from demo_servers [OF _ _ _ _ this, of "conflict_env" "[Get KSchema demo_req]"]
  obtain db' k1 k2 k3 k4 m ph cs where
    run: "getMongoDBAndVaultServer conflict_env
         \<lparr>calls = [Get KSchema demo_req], obj = demo_schema\<rparr> =
       (Done (Inr (demo_mongo, demo_vault, True)),
        \<lparr>calls = [Get KSchema demo_req, Get KMongoDB k1, Get KMongoDB k2, Get KVaultServer k3,
           Get KVaultServer k4, PatchSchemaStatus m ph cs], obj = db'\<rparr>)"
    and spec: "same_spec db' demo_schema" "sd_meta db' = sd_meta demo_schema"
    unfolding conflict_env_def by simp metis
  from spec have "sd_databaseName db' = ''shopdb''" "sd_init db' = None"
    "om_finalizers (sd_meta db') = []" "om_uid (sd_meta db') = ''u1''"
    "om_deletionTimestamp (sd_meta db') = None"
    by (simp_all add: same_spec_def demo_schema_def empty_schema_db_def meta_of_def)
  moreover have "e_updateSchema conflict_env = (\<lambda>_ db'. (Some (Err ''conflict''), db'))"
    "e_getSchema conflict_env = (\<lambda>_ _. Inr demo_schema)"
    "e_names conflict_env = demo_names" "e_mongoConnect conflict_env = (\<lambda>_ _. Inr ())"
    "e_listCollections conflict_env = (\<lambda>_ _. Inr [])"
    "e_upsertEntry conflict_env = (\<lambda>_ _ _. Inr ())"
    by (simp_all add: conflict_env_def)
  ultimately show ?thesis
    by (simp add: finalizer_defs program_defs run)
qed

end
