(* ===== verification/SchemaProps.thy ===== *)
theory SchemaProps
  imports SchemaDemo
begin

text \<open>
  The properties of the schema manager, each with a run on the cluster of \<open>SchemaDemo\<close> where
  it has hypotheses.
\<close>

section \<open>The phase\<close>


text \<open>A schema is reported as succeeded only when both servers, the secret engine, the role
  and the access request are ready, and the restore is complete or the init job is not
  recorded as unfinished.\<close>

theorem succeeded_means_ready:
  assumes "GetPhaseFromCondition conditions toRestore = SchemaDatabasePhaseSucceeded"
  shows "list_all (IsConditionTrue conditions)
      ([SchemaDatabaseConditionDBReady, SchemaDatabaseConditionVaultReady,
        SchemaDatabaseConditionSecretEngineReady, SchemaDatabaseConditionMongoDBRoleReady,
        SchemaDatabaseConditionSecretAccessRequestReady] @
       (if toRestore
        then [SchemaDatabaseConditionRepositoryFound, SchemaDatabaseConditionAppbindingFound,
              SchemaDatabaseConditionRestoreSession]
        else [])) \<and>
    (toRestore \<or> \<not> HasCondition conditions SchemaDatabaseConditionJobCompleted \<or>
      IsConditionTrue conditions SchemaDatabaseConditionJobCompleted)"
  using assms by (auto simp: GetPhaseFromCondition_def split: if_splits)

definition done_conditions :: "condition list" where
  "done_conditions = map true_condition
     [SchemaDatabaseConditionDBReady, SchemaDatabaseConditionVaultReady,
      SchemaDatabaseConditionSecretEngineReady, SchemaDatabaseConditionMongoDBRoleReady,
      SchemaDatabaseConditionSecretAccessRequestReady]"

theorem succeeded_means_ready_witness:
  "GetPhaseFromCondition done_conditions False = SchemaDatabasePhaseSucceeded \<and>
   IsConditionTrue done_conditions SchemaDatabaseConditionVaultReady"
proof -
  have "GetPhaseFromCondition done_conditions False = SchemaDatabasePhaseSucceeded" by code_simp
  with succeeded_means_ready [OF this] show ?thesis by simp
qed

text \<open>C26. Setting a condition to true never moves the phase of the schema backwards.\<close>

theorem true_condition_never_moves_back:
  assumes "conds_ok (sd_conditions db)"
  shows "phase_rank (GetPhaseFromCondition (sd_conditions db) toRestore)
    \<le> phase_rank (GetPhaseFromCondition
        (sd_conditions (MongoDBDatabase_SetCondition now ctype ConditionTrue reason msg db))
        toRestore)"
proof (rule GetPhase_rank_mono)
  let ?db = "MongoDBDatabase_SetCondition now ctype ConditionTrue reason msg db"
  have set: "IsConditionTrue (sd_conditions ?db) ctype"
    using assms by (simp add: MongoDBDatabase_SetCondition_true)
  fix t
  show "IsConditionTrue (sd_conditions db) t \<Longrightarrow> IsConditionTrue (sd_conditions ?db) t"
    by (cases "t = ctype") (simp_all add: set MongoDBDatabase_SetCondition_true_other)
  show "HasCondition (sd_conditions ?db) t \<Longrightarrow>
      HasCondition (sd_conditions db) t \<or> IsConditionTrue (sd_conditions ?db) t"
    using set by (auto simp: MongoDBDatabase_SetCondition_def)
qed

theorem true_condition_never_moves_back_witness:
  "phase_rank (GetPhaseFromCondition [] False) = 0 \<and>
   phase_rank (GetPhaseFromCondition [] False)
    \<le> phase_rank (GetPhaseFromCondition
        (sd_conditions (MongoDBDatabase_SetCondition 3 SchemaDatabaseConditionVaultReady
          ConditionTrue ''r'' ''m'' demo_schema)) False)"
proof -
  have conds: "sd_conditions demo_schema = []"
    by (simp add: demo_schema_def empty_schema_db_def)
  then have "conds_ok (sd_conditions demo_schema)" by simp
  from true_condition_never_moves_back [OF this, of False 3 SchemaDatabaseConditionVaultReady "''r''" "''m''"]
  show ?thesis unfolding conds by (simp add: GetPhaseFromCondition_def)
qed

section \<open>Conditions\<close>

text \<open>Setting a condition on a schema takes effect unless the stored generation is the
  largest \<open>int64\<close>: the condition then has the given status, reason and message, its
  generation counts the status changes, every other condition is as before, and no type is
  repeated.\<close>

theorem set_condition_takes_effect:
  assumes "distinct_types (sd_conditions db)"
    and "\<And>c. find_by cond_type ctype (sd_conditions db) = Some c \<Longrightarrow> gen_room (cond_gen c)"
    and "sd_conditions (MongoDBDatabase_SetCondition now ctype sts reason msg db) = cs"
  shows "(\<exists>c. find_by cond_type ctype cs = Some c \<and>
      cond_status c = sts \<and> cond_reason c = reason \<and> cond_message c = msg \<and>
      cond_gen c =
        (case find_by cond_type ctype (sd_conditions db) of
           None \<Rightarrow> 1
         | Some old \<Rightarrow> if cond_status old \<noteq> sts then cond_gen old + 1 else cond_gen old)) \<and>
    (\<forall>t. t \<noteq> ctype \<longrightarrow> find_by cond_type t cs = find_by cond_type t (sd_conditions db)) \<and>
    distinct_types cs"
proof -
  obtain c where c: "find_by cond_type ctype cs = Some c" "cond_status c = sts"
      "cond_reason c = reason" "cond_message c = msg"
      "cond_gen c = next_generation ctype sts 1 (sd_conditions db)"
    using MongoDBDatabase_SetCondition_find [OF assms(1,2), where now = now and sts = sts and reason = reason and msg = msg] assms(3) by auto
  moreover have "next_generation ctype sts 1 (sd_conditions db) =
        (case find_by cond_type ctype (sd_conditions db) of
           None \<Rightarrow> 1
         | Some old \<Rightarrow> if cond_status old \<noteq> sts then cond_gen old + 1 else cond_gen old)"
    using assms(1) by (simp add: next_generation_absent next_generation_find split: option.split)
  ultimately show ?thesis
    using assms(1,3) MongoDBDatabase_SetCondition_other MongoDBDatabase_SetCondition_distinct
    by metis
qed

theorem set_condition_takes_effect_witness:
  "\<exists>c. find_by cond_type ''VaultReady''
      (sd_conditions (MongoDBDatabase_SetCondition 9 ''VaultReady'' ConditionFalse ''r'' ''m''
        (demo_schema\<lparr>sd_conditions := [true_condition ''VaultReady'']\<rparr>))) = Some c \<and>
    cond_status c = ConditionFalse \<and> cond_gen c = 2"
proof -
  let ?db = "demo_schema\<lparr>sd_conditions := [true_condition ''VaultReady'']\<rparr>"
  have "distinct_types (sd_conditions ?db)" by (simp add: distinct_types_def)
  moreover have "gen_room (cond_gen c)"
    if "find_by cond_type ''VaultReady'' (sd_conditions ?db) = Some c" for c
    using that by (auto simp: true_condition_def gen_room_def split: if_splits)
  ultimately show ?thesis
    using set_condition_takes_effect [of ?db "''VaultReady''" 9 ConditionFalse "''r''" "''m''", OF _ _ refl]
    by (auto simp: true_condition_def)
qed

text \<open>At the largest generation the counter wraps to the smallest one, and a change of
  status is lost: the conditions stay as they were.\<close>

theorem status_change_lost_at_last_generation:
  assumes "distinct_types (sd_conditions db)"
    and "find_by cond_type ctype (sd_conditions db) = Some c"
    and "cond_gen c = 0x7FFFFFFFFFFFFFFF" and "cond_status c \<noteq> sts"
  shows "sd_conditions (MongoDBDatabase_SetCondition now ctype sts reason msg db) =
    sd_conditions db"
  using assms
  by (simp add: MongoDBDatabase_SetCondition_def next_generation_find SetCondition_stale
      [where cur = c])

theorem status_change_lost_at_last_generation_witness:
  "sd_conditions (MongoDBDatabase_SetCondition 9 ''VaultReady'' ConditionFalse ''r'' ''m''
     (demo_schema\<lparr>sd_conditions :=
        [new_condition ''VaultReady'' ConditionTrue ''r'' 0x7FFFFFFFFFFFFFFF '''']\<rparr>)) =
   [new_condition ''VaultReady'' ConditionTrue ''r'' 0x7FFFFFFFFFFFFFFF '''']"
  using status_change_lost_at_last_generation
    [of "demo_schema\<lparr>sd_conditions :=
        [new_condition ''VaultReady'' ConditionTrue ''r'' 0x7FFFFFFFFFFFFFFF '''']\<rparr>"
      "''VaultReady''" "new_condition ''VaultReady'' ConditionTrue ''r'' 0x7FFFFFFFFFFFFFFF ''''"
      ConditionFalse 9 "''r''" "''m''"]
  by (simp add: distinct_types_def)

section \<open>Reconciliation\<close>



text \<open>C9. A reconciliation claims a database in the registry only right after it saw that the
  database has no collection.\<close>

theorem only_empty_database_claimed:
  assumes "i < length (reconcile_calls E req)"
    and "reconcile_calls E req ! i = UpsertEntry uid name"
  shows "\<exists>h. take i (reconcile_calls E req) = h @ [ListCollections name] \<and>
    e_listCollections E h name = Inr []"
proof -
  from assms have "entry_guarded E (take i (reconcile_calls E req)) (UpsertEntry uid name)"
    using reconcile_call_guarded [OF assms(1)] by (simp add: guarded_def)
  then show ?thesis by (elim entry_guarded_cases) blast
qed

theorem only_empty_database_claimed_witness:
  "\<exists>h. take 8 (reconcile_calls conflict_env demo_req) = h @ [ListCollections ''shopdb''] \<and>
    e_listCollections conflict_env h ''shopdb'' = Inr []"
proof -
  from conflict_run have len: "8 < length (reconcile_calls conflict_env demo_req)"
    and call: "reconcile_calls conflict_env demo_req ! 8 = UpsertEntry ''u1'' ''shopdb''" by auto
  from only_empty_database_claimed [OF len call] show ?thesis .
qed



text \<open>C32. A reconciliation never writes the specification of the schema: every update it
  sends has the specification it fetched. The \<open>Initialized\<close> flag that the worker sets in
  memory therefore never reaches the API server.\<close>

theorem specification_never_written:
  assumes "e_getSchema E [] req = Inr db"
    and "i < length (reconcile_calls E req)" and "reconcile_calls E req ! i = UpdateSchema db'"
  shows "same_spec db' db"
proof -
  let ?s = "\<lparr>calls = [Get KSchema req], obj = db\<rparr>"
  let ?ok = "\<lambda>t :: schema_state. trace_ok (spec_guarded db) (calls t)"
  have first: "wp (getMongoDBAndVaultServer E) (\<lambda>_. spec_ok db) (\<lambda>_. spec_ok db) ?s"
    using getMongoDBAndVaultServer_spec [of db E]
    by (simp add: keeps_def spec_ok_def trace_ok_def)
  have worker: "wp (runMongoSchema E mongo) (\<lambda>_. ?ok) (\<lambda>_. ?ok) t" if "?ok t" for mongo t
  proof -
    have "keeps ?ok (runMongoSchema E mongo)"
      by (rule keeps_trace_ok [OF runMongoSchema_calls]) (rule spec_guarded_other)
    with that show ?thesis by (simp add: keeps_def)
  qed
  have "wp (Reconcile E req) (\<lambda>_. ?ok) (\<lambda>_. ?ok) (start empty_schema_db)"
    unfolding Reconcile_def
    by (auto simp: wp_simps assms(1) start_def spec_ok_def Let_def split: sum.split prod.split
        intro!: wp_conseq [OF first] wp_conseq [OF finalizer_spec] wp_conseq [OF worker])
  then have "trace_ok (spec_guarded db) (reconcile_calls E req)"
    by (simp add: wp_def reconcile_calls_def split: prod.splits outcome.splits)
  then have "spec_guarded db (take i (reconcile_calls E req)) (UpdateSchema db')"
    using assms(2,3) by (auto simp: trace_ok_def)
  then show ?thesis by simp
qed

theorem specification_never_written_witness:
  "\<exists>db'. reconcile_calls conflict_env demo_req ! 10 = UpdateSchema db' \<and> same_spec db' demo_schema"
proof -
  from conflict_run obtain db' where len: "10 < length (reconcile_calls conflict_env demo_req)"
    and call: "reconcile_calls conflict_env demo_req ! 10 = UpdateSchema db'" by auto
  have "e_getSchema conflict_env [] demo_req = Inr demo_schema" by (simp add: conflict_env_def)
  from call specification_never_written [OF this len call] show ?thesis by blast
qed




text \<open>When the MongoDB cannot be read, the reconciliation fails with that error after two
  reads of it: the condition \<open>DatabaseReady = False\<close> that it sets in memory is never written
  to the API server.\<close>

theorem missing_mongodb_not_reported:
  assumes "e_getSchema E [] req = Inr db" and "sd_phase db \<noteq> ''''"
    and "e_getMongoDB E [Get KSchema req] (sd_databaseRef db) empty_mongodb = (Some e, mongo0)"
  shows "\<exists>t. Reconcile E req (start empty_schema_db) = (Done (Some e), t) \<and>
    calls t = [Get KSchema req, Get KMongoDB (sd_databaseRef db), Get KMongoDB (key_of (mg_meta mongo0))] \<and>
    HasCondition (sd_conditions (obj t)) SchemaDatabaseConditionDBReady"
  unfolding Reconcile_def getMongoDBAndVaultServer_def updateStatusForMongoDB_def
  using assms
  by (auto simp: program_defs start_def MongoDBDatabase_SetCondition_def
      split: prod.split option.split)

theorem missing_mongodb_not_reported_witness:
  "\<exists>t. Reconcile (quiet_env\<lparr>e_getSchema := (\<lambda>_ _. Inr demo_schema)\<rparr>) demo_req (start empty_schema_db) =
      (Done (Some (NotFound ''not found'')), t) \<and> length (calls t) = 3"
proof -
  let ?E = "quiet_env\<lparr>e_getSchema := (\<lambda>_ _. Inr demo_schema)\<rparr>"
  have "e_getSchema ?E [] demo_req = Inr demo_schema" "sd_phase demo_schema \<noteq> ''''"
    "e_getMongoDB ?E [Get KSchema demo_req] (sd_databaseRef demo_schema) empty_mongodb =
      (Some (NotFound ''not found''), empty_mongodb)"
    by (simp_all add: quiet_env_def demo_schema_def)
  from missing_mongodb_not_reported [OF this] show ?thesis by auto
qed

section \<open>The worker\<close>







text \<open>Cleaning up before the finalizer is removed panics exactly when the connection to the
  MongoDB server fails: the deferred \<open>Close\<close> is registered before the error is checked.\<close>

theorem cleanup_panics_without_connection:
  "(\<exists>k. fst (doExternalThingsBeforeDelete E mongo s) = Crash k) \<longleftrightarrow>
     (\<exists>e. e_mongoConnect E (calls s) mongo = Inl e)"
  by (auto simp: doExternalThingsBeforeDelete_def program_defs split: sum.split)

text \<open>Writing the entry ends the whole process exactly when the connection to the MongoDB
  server fails; no deferred call runs then, and nothing else is called.\<close>

theorem entry_ends_process_without_connection:
  "(\<exists>msg t. ensureEntryIntoDatabase E mongo s = (Crash (Fatal msg), t)) \<longleftrightarrow>
     (\<exists>e. e_mongoConnect E (calls s) mongo = Inl e)"
  by (auto simp: ensureEntryIntoDatabase_def updateSchemaMongoDBDatabaseStatus_def program_defs
      split: sum.split)

text \<open>The automatic approval of an access request takes effect exactly when the request has
  no approval with a positive observed generation, or is approved already: the approval the
  controller sets has generation 0.\<close>

theorem auto_approval_effective:
  assumes "distinct_types (sar_conditions sar)"
  shows "IsConditionTrue (sar_conditions (approve now sar)) ConditionRequestApproved \<longleftrightarrow>
    (case find_by cond_type ConditionRequestApproved (sar_conditions sar) of
       None \<Rightarrow> True
     | Some c \<Rightarrow> cond_status c = ConditionTrue \<or> sint (cond_gen c) \<le> 0)"
proof -
  let ?new = "new_condition ConditionRequestApproved ConditionTrue SchemaDatabaseAutoApprovalReason 0
    ''This was approved by: KubeDb SchemaManager''"
  have "distinct_types (sar_conditions (approve now sar))"
    using assms by (simp add: approve_def SetCondition_distinct)
  then show ?thesis
    using SetCondition_same [of ?new now "sar_conditions sar"]
    by (auto simp: IsConditionTrue_find approve_def merge_condition_def split: option.splits)
qed

definition denied_request :: secret_access_request where
  "denied_request =
     \<lparr>sar_meta = meta_of ''demo'' ''req'', sar_roleRefKind = '''', sar_roleRefName = '''',
      sar_subjects = [], sar_phase = '''', sar_secret = None,
      sar_conditions = [new_condition ConditionRequestApproved ConditionFalse ''r'' 1 '''']\<rparr>"

theorem auto_approval_effective_witness:
  "\<not> IsConditionTrue (sar_conditions (approve 5 denied_request)) ConditionRequestApproved"
proof -
  have "distinct_types (sar_conditions denied_request)"
    by (simp add: denied_request_def distinct_types_def)
  from auto_approval_effective [OF this, of 5] show ?thesis
    by (simp add: denied_request_def)
qed

text \<open>For a schema that is not restored, the worker crashes after the access request was
  approved exactly when \<open>spec.init\<close> is not set.\<close>

theorem init_crashes_without_spec:
  "(\<exists>k. fst (run_init E mongo cred s) = Crash k) \<longleftrightarrow> sd_init (obj s) = None"
  by (rule run_init_crash)

end
