(* ===== verification/SchemaProgress.thy ===== *)
theory SchemaProgress
  imports SchemaDemo
begin

text \<open>
  Progress of a schema: in a cluster where everything it depends on is there and ready, one
  reconciliation sets every condition and reports the schema as succeeded. The conditions that a
  pass has set are tracked by \<open>progress\<close>, which every status handler (locale \<open>status_update\<close>) extends
  by its own.
\<close>

section \<open>Conditions that are set\<close>

text \<open>
  \<open>progress db met x\<close>: \<open>x\<close> is the object \<open>db\<close>, on which the conditions \<open>met\<close> have been made true and
  no others were touched.
\<close>

definition progress :: "schema_db \<Rightarrow> string set \<Rightarrow> schema_db \<Rightarrow> bool" where
  "progress db met x \<longleftrightarrow>
     x = db\<lparr>sd_phase := sd_phase x, sd_conditions := sd_conditions x\<rparr> \<and>
     distinct_types (sd_conditions x) \<and>
     (\<forall>typ \<in> met. IsConditionTrue (sd_conditions x) typ) \<and>
     (\<forall>typ. typ \<notin> met \<longrightarrow>
        find_by cond_type typ (sd_conditions x) = find_by cond_type typ (sd_conditions db))"

lemma progress_start: "conds_ok (sd_conditions db) \<Longrightarrow> progress db {} db"
  by (simp add: progress_def)

lemma progress_fields:
  assumes "progress db met x"
  shows "sd_meta x = sd_meta db" "sd_databaseRef x = sd_databaseRef db" "sd_vaultRef x = sd_vaultRef db"
    "sd_init x = sd_init db" "sd_restore x = sd_restore db" "sd_autoApproval x = sd_autoApproval db"
proof -
  have x: "x = db\<lparr>sd_phase := sd_phase x, sd_conditions := sd_conditions x\<rparr>"
    using assms by (simp add: progress_def)
  show "sd_meta x = sd_meta db" "sd_databaseRef x = sd_databaseRef db" "sd_vaultRef x = sd_vaultRef db"
    "sd_init x = sd_init db" "sd_restore x = sd_restore db" "sd_autoApproval x = sd_autoApproval db"
    by (subst x; simp)+
qed

lemma progress_phase [simp]: "progress db met (x\<lparr>sd_phase := p\<rparr>) = progress db met x"
  unfolding progress_def by (cases x; cases db) auto

lemma progress_room:
  assumes "progress db met x" and "typ \<notin> met" and "conds_ok (sd_conditions db)"
    and "find_by cond_type typ (sd_conditions x) = Some c"
  shows "gen_room (cond_gen c)"
proof -
  have "find_by cond_type typ (sd_conditions db) = Some c"
    using assms(1,2,4) by (simp add: progress_def)
  with assms(3) show ?thesis by (auto simp: conds_ok_def dest: find_by_key)
qed

lemma progress_set:
  assumes "progress db met x" and "typ \<notin> met" and "conds_ok (sd_conditions db)"
  shows "progress db (insert typ met) (MongoDBDatabase_SetCondition now typ ConditionTrue reason msg x)"
proof -
  let ?x = "MongoDBDatabase_SetCondition now typ ConditionTrue reason msg x"
  have dist: "distinct_types (sd_conditions x)" using assms(1) by (simp add: progress_def)
  note room = progress_room [OF assms]
  from MongoDBDatabase_SetCondition_find [of x "typ" now ConditionTrue reason msg, OF dist room]
  have "IsConditionTrue (sd_conditions ?x) typ"
    using dist by (auto simp: IsConditionTrue_find MongoDBDatabase_SetCondition_distinct)
  moreover have "?x = db\<lparr>sd_phase := sd_phase ?x, sd_conditions := sd_conditions ?x\<rparr>"
  proof -
    have "x = db\<lparr>sd_phase := sd_phase x, sd_conditions := sd_conditions x\<rparr>"
      using assms(1) by (simp add: progress_def)
    then show ?thesis by (cases x; cases db) (simp add: MongoDBDatabase_SetCondition_def)
  qed
  moreover have "IsConditionTrue (sd_conditions ?x) typ'" if "typ' \<in> met" for typ'
  proof -
    have "IsConditionTrue (sd_conditions x) typ'" using that assms(1) unfolding progress_def by blast
    moreover have "typ' \<noteq> typ" using that assms(2) by blast
    ultimately show ?thesis by (simp add: MongoDBDatabase_SetCondition_true_other)
  qed
  moreover have "find_by cond_type typ' (sd_conditions ?x) = find_by cond_type typ' (sd_conditions db)"
    if "typ' \<notin> insert typ met" for typ'
    using that assms(1) by (auto simp: progress_def MongoDBDatabase_SetCondition_other)
  ultimately show ?thesis
    using dist unfolding progress_def by (blast intro: MongoDBDatabase_SetCondition_distinct)
qed

lemma progress_reason:
  assumes "progress db met x" and "typ \<notin> met" and "conds_ok (sd_conditions db)"
  shows "\<exists>c. find_by cond_type typ
      (sd_conditions (MongoDBDatabase_SetCondition now typ ConditionTrue reason msg x)) = Some c \<and>
    cond_reason c = reason"
proof -
  have dist: "distinct_types (sd_conditions x)" using assms(1) by (simp add: progress_def)
  note room = progress_room [OF assms]
  from MongoDBDatabase_SetCondition_find [of x "typ" now ConditionTrue reason msg, OF dist room]
  show ?thesis by auto
qed

context status_update
begin

lemma progressI:
  assumes "ready s" and "progress db met (obj s)" and "conds_ok (sd_conditions db)" and "ctype \<notin> met"
    and "\<And>a s'. progress db (insert ctype met) (obj s') \<Longrightarrow> Q a s'"
  shows "wp upd Q C s"
  by (rule wpI, rule assms(5)) (simp add: assms(1) progress_set [OF assms(2,4,3)])

end

section \<open>A cooperative cluster\<close>

text \<open>
  Whatever it is asked, the cluster answers an object that is fit; for a \<open>Get\<close> into an object
  there is no error beside it.
\<close>

definition answers :: "(hist \<Rightarrow> 'k \<Rightarrow> gerr + 'a) \<Rightarrow> ('a \<Rightarrow> bool) \<Rightarrow> bool" where
  "answers call fit \<longleftrightarrow> (\<forall>h k. \<exists>y. call h k = Inr y \<and> fit y)"

definition answers_into :: "(hist \<Rightarrow> nsname \<Rightarrow> 'a \<Rightarrow> gerr option \<times> 'a) \<Rightarrow> ('a \<Rightarrow> bool) \<Rightarrow> bool" where
  "answers_into call fit \<longleftrightarrow> (\<forall>h k x. \<exists>y. call h k x = (None, y) \<and> fit y)"

lemma wp_answers:
  assumes "answers call fit" and "\<And>y. fit y \<Longrightarrow> Q (Inr y) (s\<lparr>calls := calls s @ [c]\<rparr>)"
  shows "wp (perform (\<lambda>h. call h k) c) Q C s"
  using assms unfolding answers_def wp_perform by metis

lemma answersE:
  assumes "answers call fit"
  obtains g where "\<And>h k. call h k = Inr (g h k)" "\<And>h k. fit (g h k)"
  using assms unfolding answers_def by metis

lemma wp_written:
  assumes "answers fetch (\<lambda>_. True)" and "answers write fit"
    and "\<And>y s'. fit y \<Longrightarrow> obj s' = obj s \<Longrightarrow> Q (Inr y) s'"
  shows "wp (create_or_patch fetch write kind call key transform) Q C s"
proof -
  obtain x createOp where "fetch (calls s) key = Inr (x, createOp)"
    using assms(1) unfolding answers_def by (metis surj_pair)
  moreover obtain y where "write (calls s @ [Fetch kind key]) (transform x createOp) = Inr y" "fit y"
    using assms(2) unfolding answers_def by blast
  ultimately show ?thesis by (simp add: wp_create_or_patch Let_def assms(3))
qed

text \<open>The resources of the worker, without and with a restore.\<close>

definition servers_ready :: "schema_env \<Rightarrow> bool" where
  "servers_ready E \<longleftrightarrow>
     (\<forall>h m phase cs. e_patchSchemaStatus E h m phase cs = Inr ()) \<and>
     answers_into (e_getMongoDB E) (\<lambda>x. CheckMongoDBConditions x \<and> mg_phase x = DatabasePhaseReady) \<and>
     answers_into (e_getVaultServer E)
       (\<lambda>x. CheckVaultConditions (e_names E) x \<and> vs_phase x = k_VaultServerPhaseReady (e_names E))"

definition request_granted :: "schema_env \<Rightarrow> secret_access_request \<Rightarrow> bool" where
  "request_granted E x \<longleftrightarrow>
     sar_phase x = k_RequestStatusPhaseApproved (e_names E) \<and> sar_secret x \<noteq> None \<and>
     CheckSecretAccessRequestConditions x"

definition access_ready :: "schema_env \<Rightarrow> bool" where
  "access_ready E \<longleftrightarrow>
     answers (e_fetchSecretEngine E) (\<lambda>_. True) \<and> answers (e_writeSecretEngine E) (\<lambda>_. True) \<and>
     answers_into (e_getSecretEngine E)
       (\<lambda>x. CheckSecretEngineConditions x \<and> se_phase x = SecretEnginePhaseSuccess) \<and>
     answers (e_fetchMongoDBRole E) (\<lambda>_. True) \<and> answers (e_writeMongoDBRole E) (\<lambda>_. True) \<and>
     answers_into (e_getMongoDBRole E)
       (\<lambda>x. CheckMongoDBRoleConditions x \<and> mr_phase x = k_RolePhaseSuccess (e_names E)) \<and>
     answers (e_fetchServiceAccount E) (\<lambda>_. True) \<and> answers (e_writeServiceAccount E) (\<lambda>_. True) \<and>
     answers (e_fetchSecretAccessRequest E) (\<lambda>_. True) \<and>
     answers (e_writeSecretAccessRequest E) (request_granted E) \<and>
     (\<forall>h m x. \<exists>y. e_patchAccessRequestStatus E h m x = Inr y \<and> request_granted E y) \<and>
     answers (e_getSecretAccessRequest E) (request_granted E) \<and>
     answers (e_getSecret E) (\<lambda>_. True)"

definition restore_ready :: "schema_env \<Rightarrow> bool" where
  "restore_ready E \<longleftrightarrow>
     answers (e_getRepository E) (\<lambda>_. True) \<and>
     answers (e_fetchRepository E) (\<lambda>_. True) \<and> answers (e_writeRepository E) (\<lambda>_. True) \<and>
     answers (e_fetchSecret E) (\<lambda>_. True) \<and> answers (e_writeSecret E) (\<lambda>_. True) \<and>
     answers (e_getAppBinding E) (\<lambda>x. ab_service x \<noteq> None) \<and>
     answers (e_fetchAppBinding E) (\<lambda>_. True) \<and> answers (e_writeAppBinding E) (\<lambda>_. True) \<and>
     answers (e_getMongoDBVersion E) (\<lambda>_. True) \<and>
     answers (e_fetchRestoreSession E) (\<lambda>_. True) \<and> answers (e_writeRestoreSession E) (\<lambda>_. True) \<and>
     answers (e_getRestoreSession E) (CheckRestoreSessionPhaseSucceed (e_names E)) \<and>
     k_RestoreSucceeded (e_names E) \<noteq> k_RestoreFailed (e_names E)"

definition init_ready :: "schema_env \<Rightarrow> bool" where
  "init_ready E \<longleftrightarrow> answers (e_getJob E) CheckJobConditions"

section \<open>The steps of a pass\<close>

lemma wp_into:
  assumes "answers_into call fit" and "\<And>y. fit y \<Longrightarrow> wp (f (None, y)) Q C (s\<lparr>calls := calls s @ [c]\<rparr>)"
  shows "wp (bnd (perform (\<lambda>h. call h k x) c) f) Q C s"
  using assms unfolding answers_into_def wp_bnd wp_perform by metis

text \<open>A handler that reads into the object of its caller also hands back what it has read.\<close>

lemma handed_back:
  "answers_into (e_getMongoDB E) fit \<Longrightarrow> wp (updateStatusForMongoDB E m) (\<lambda>y _. fit y) (\<lambda>_ _. False) s"
  "answers_into (e_getVaultServer E) fit' \<Longrightarrow> wp (updateStatusForVaultServer E v) (\<lambda>y _. fit' y) (\<lambda>_ _. False) s"
  "answers_into (e_getSecretEngine E) fit'' \<Longrightarrow>
     wp (updateStatusForSecretEngine E se) (\<lambda>y _. fit'' y) (\<lambda>_ _. False) s"
  "answers_into (e_getMongoDBRole E) fit''' \<Longrightarrow>
     wp (updateStatusForMongoDbRole E mr) (\<lambda>y _. fit''' y) (\<lambda>_ _. False) s"
  unfolding updateStatusForMongoDB_def updateStatusForVaultServer_def updateStatusForSecretEngine_def
    updateStatusForMongoDbRole_def
  by (rule wp_into, assumption, simp add: wp_simps)+

lemma into_case:
  assumes "answers_into call fit" and "\<And>y. fit y \<Longrightarrow> ok y"
  shows "case call h k x of (Some e, y) \<Rightarrow> False | (None, y) \<Rightarrow> ok y"
proof -
  obtain y where "call h k x = (None, y)" "fit y" using assms(1) unfolding answers_into_def by blast
  with assms(2) show ?thesis by simp
qed

lemma handed_ready:
  "answers_into (e_getMongoDB E) fit \<Longrightarrow> (\<And>y. fit y \<Longrightarrow> CheckMongoDBConditions y) \<Longrightarrow> MongoDB_ready E m s"
  "answers_into (e_getVaultServer E) fit' \<Longrightarrow> (\<And>y. fit' y \<Longrightarrow> CheckVaultConditions (e_names E) y) \<Longrightarrow>
     VaultServer_ready E v s"
  "answers_into (e_getSecretEngine E) fit'' \<Longrightarrow> (\<And>y. fit'' y \<Longrightarrow> CheckSecretEngineConditions y) \<Longrightarrow>
     SecretEngine_ready E se s"
  "answers_into (e_getMongoDBRole E) fit''' \<Longrightarrow> (\<And>y. fit''' y \<Longrightarrow> CheckMongoDBRoleConditions y) \<Longrightarrow>
     MongoDbRole_ready E mr s"
  unfolding MongoDB_ready_def VaultServer_ready_def SecretEngine_ready_def MongoDbRole_ready_def
  by (erule into_case, blast)+

lemma wp_both:
  assumes "wp m (\<lambda>y _. fit y) (\<lambda>_ _. False) s" and "wp m (\<lambda>_. R) C s"
    and "\<And>y s'. fit y \<Longrightarrow> R s' \<Longrightarrow> Q y s'"
  shows "wp m Q D s"
  using wp_conj [OF assms(1,2)] by (rule wp_conseq) (simp_all add: assms(3))

section \<open>The steps of a pass\<close>

text \<open>The conditions, in the order in which a pass sets them.\<close>

abbreviation "server_conditions \<equiv> {SchemaDatabaseConditionDBReady, SchemaDatabaseConditionVaultReady}"

abbreviation "access_conditions \<equiv> insert SchemaDatabaseConditionSecretAccessRequestReady
  (insert SchemaDatabaseConditionMongoDBRoleReady
    (insert SchemaDatabaseConditionSecretEngineReady server_conditions))"

lemma wp_report:
  assumes "\<And>h m phase cs. e_patchSchemaStatus E h m phase cs = Inr ()"
    and "\<And>s' phase. obj s' = (obj s)\<lparr>sd_phase := phase\<rparr> \<Longrightarrow> Q (Inr ()) s'"
  shows "wp (updateSchemaMongoDBDatabaseStatus E ty) Q C s"
  using assms by (simp add: wp_updateSchemaStatus Let_def)

lemma wp_MongoDB:
  assumes "answers_into (e_getMongoDB E) (\<lambda>x. CheckMongoDBConditions x \<and> P x)"
    and "progress db met (obj s)" "conds_ok (sd_conditions db)" "SchemaDatabaseConditionDBReady \<notin> met"
    and "\<And>y s'. P y \<Longrightarrow> progress db (insert SchemaDatabaseConditionDBReady met) (obj s') \<Longrightarrow> Q y s'"
  shows "wp (updateStatusForMongoDB E m) Q C s"
proof (rule wp_both [OF handed_back(1) [OF assms(1)]])
  show "wp (updateStatusForMongoDB E m)
      (\<lambda>_ s'. progress db (insert SchemaDatabaseConditionDBReady met) (obj s')) C s"
    using handed_ready(1) [OF assms(1)] assms(2-4) by (intro mongoDB_status.progressI) simp_all
qed (simp add: assms(5))

lemma wp_VaultServer:
  assumes "answers_into (e_getVaultServer E) (\<lambda>x. CheckVaultConditions (e_names E) x \<and> P x)"
    and "progress db met (obj s)" "conds_ok (sd_conditions db)" "SchemaDatabaseConditionVaultReady \<notin> met"
    and "\<And>y s'. P y \<Longrightarrow> progress db (insert SchemaDatabaseConditionVaultReady met) (obj s') \<Longrightarrow> Q y s'"
  shows "wp (updateStatusForVaultServer E m) Q C s"
proof (rule wp_both [OF handed_back(2) [OF assms(1)]])
  show "wp (updateStatusForVaultServer E m)
      (\<lambda>_ s'. progress db (insert SchemaDatabaseConditionVaultReady met) (obj s')) C s"
    using handed_ready(2) [OF assms(1)] assms(2-4) by (intro vaultServer_status.progressI) simp_all
qed (simp add: assms(5))

lemma wp_SecretEngine:
  assumes "answers_into (e_getSecretEngine E) (\<lambda>x. CheckSecretEngineConditions x \<and> P x)"
    and "progress db met (obj s)" "conds_ok (sd_conditions db)"
    and "SchemaDatabaseConditionSecretEngineReady \<notin> met"
    and "\<And>y s'. P y \<Longrightarrow> progress db (insert SchemaDatabaseConditionSecretEngineReady met) (obj s') \<Longrightarrow> Q y s'"
  shows "wp (updateStatusForSecretEngine E m) Q C s"
proof (rule wp_both [OF handed_back(3) [OF assms(1)]])
  show "wp (updateStatusForSecretEngine E m)
      (\<lambda>_ s'. progress db (insert SchemaDatabaseConditionSecretEngineReady met) (obj s')) C s"
    using handed_ready(3) [OF assms(1)] assms(2-4) by (intro secretEngine_status.progressI) simp_all
qed (simp add: assms(5))

lemma wp_MongoDbRole:
  assumes "answers_into (e_getMongoDBRole E) (\<lambda>x. CheckMongoDBRoleConditions x \<and> P x)"
    and "progress db met (obj s)" "conds_ok (sd_conditions db)"
    and "SchemaDatabaseConditionMongoDBRoleReady \<notin> met"
    and "\<And>y s'. P y \<Longrightarrow> progress db (insert SchemaDatabaseConditionMongoDBRoleReady met) (obj s') \<Longrightarrow> Q y s'"
  shows "wp (updateStatusForMongoDbRole E m) Q C s"
proof (rule wp_both [OF handed_back(4) [OF assms(1)]])
  show "wp (updateStatusForMongoDbRole E m)
      (\<lambda>_ s'. progress db (insert SchemaDatabaseConditionMongoDBRoleReady met) (obj s')) C s"
    using handed_ready(4) [OF assms(1)] assms(2-4) by (intro mongoDbRole_status.progressI) simp_all
qed (simp add: assms(5))

lemmas condition_defs = SchemaDatabaseConditionDBReady_def SchemaDatabaseConditionVaultReady_def
  SchemaDatabaseConditionSecretEngineReady_def SchemaDatabaseConditionMongoDBRoleReady_def
  SchemaDatabaseConditionSecretAccessRequestReady_def SchemaDatabaseConditionJobCompleted_def
  SchemaDatabaseConditionRepositoryFound_def SchemaDatabaseConditionAppbindingFound_def
  SchemaDatabaseConditionRestoreSession_def

text \<open>The servers.\<close>

lemma servers_step:
  assumes ready: "servers_ready E" and ok: "conds_ok (sd_conditions db)" and start: "obj s = db"
  shows "wp (getMongoDBAndVaultServer E)
    (\<lambda>r s'. (\<exists>mongo vault. r = Inr (mongo, vault, True)) \<and> progress db server_conditions (obj s'))
    (\<lambda>_ _. False) s"
proof -
  note ready = ready [unfolded servers_ready_def, THEN conjunct1, rule_format]
    ready [unfolded servers_ready_def, THEN conjunct2, THEN conjunct1]
    ready [unfolded servers_ready_def, THEN conjunct2, THEN conjunct2]
  obtain gm gv where reads: "\<And>h k x. e_getMongoDB E h k x = (None, gm h k x)"
    "\<And>h k x. e_getVaultServer E h k x = (None, gv h k x)"
    using ready(2,3) unfolding answers_into_def by metis
  have here: "progress db {} db" "progress db {} (db\<lparr>sd_phase := p\<rparr>)" for p
    using progress_start [OF ok] by simp_all
  have names: "SchemaDatabaseConditionVaultReady \<notin> {SchemaDatabaseConditionDBReady}"
    by (simp add: condition_defs)
  show ?thesis
    unfolding getMongoDBAndVaultServer_def using start here names
    by (auto simp: wp_simps reads ready(1) Let_def insert_commute
        intro!: wp_MongoDB [OF ready(2) _ ok, where met = "{}"]
          wp_VaultServer [OF ready(3) _ ok, where met = "{SchemaDatabaseConditionDBReady}"])
qed

text \<open>The access through Vault.\<close>

lemma access_facts:
  assumes "access_ready E"
  shows "answers (e_fetchSecretEngine E) (\<lambda>_. True)" "answers (e_writeSecretEngine E) (\<lambda>_. True)"
    "answers_into (e_getSecretEngine E)
       (\<lambda>x. CheckSecretEngineConditions x \<and> se_phase x = SecretEnginePhaseSuccess)"
    "answers (e_fetchMongoDBRole E) (\<lambda>_. True)" "answers (e_writeMongoDBRole E) (\<lambda>_. True)"
    "answers_into (e_getMongoDBRole E)
       (\<lambda>x. CheckMongoDBRoleConditions x \<and> mr_phase x = k_RolePhaseSuccess (e_names E))"
    "answers (e_fetchServiceAccount E) (\<lambda>_. True)" "answers (e_writeServiceAccount E) (\<lambda>_. True)"
    "answers (e_fetchSecretAccessRequest E) (\<lambda>_. True)"
    "answers (e_writeSecretAccessRequest E) (request_granted E)"
    "\<forall>h m x. \<exists>y. e_patchAccessRequestStatus E h m x = Inr y \<and> request_granted E y"
    "answers (e_getSecretAccessRequest E) (request_granted E)"
    "answers (e_getSecret E) (\<lambda>_. True)"
  using assms unfolding access_ready_def by blast+

lemma secretEngine_step:
  assumes "access_ready E" and "conds_ok (sd_conditions db)" and "progress db met (obj s)"
    and "SchemaDatabaseConditionSecretEngineReady \<notin> met"
    and "\<And>se s'. se_phase se = SecretEnginePhaseSuccess \<Longrightarrow>
      progress db (insert SchemaDatabaseConditionSecretEngineReady met) (obj s') \<Longrightarrow> Q (Inr se) s'"
  shows "wp (ensureSecretEngine E) Q C s"
  using assms(3-5) unfolding ensureSecretEngine_def
  by (auto simp: wp_bnd wp_bndE wp_gets wp_ret
      intro!: wp_written [OF access_facts(1,2) [OF assms(1)]]
        wp_SecretEngine [OF access_facts(3) [OF assms(1)] _ assms(2), where met = met])

lemma role_step:
  assumes "access_ready E" and "conds_ok (sd_conditions db)" and "progress db met (obj s)"
    and "SchemaDatabaseConditionMongoDBRoleReady \<notin> met"
    and "\<And>mr s'. mr_phase mr = k_RolePhaseSuccess (e_names E) \<Longrightarrow>
      progress db (insert SchemaDatabaseConditionMongoDBRoleReady met) (obj s') \<Longrightarrow> Q (Inr mr) s'"
  shows "wp (ensureMongoDBRole E) Q C s"
  using assms(3-5) unfolding ensureMongoDBRole_def
  by (auto simp: wp_bnd wp_bndE wp_gets wp_ret
      intro!: wp_written [OF access_facts(4,5) [OF assms(1)]]
        wp_MongoDbRole [OF access_facts(6) [OF assms(1)] _ assms(2), where met = met])

lemma account_step:
  assumes "access_ready E" and "\<And>sa s'. obj s' = obj s \<Longrightarrow> Q (Inr sa) s'"
  shows "wp (ensureServiceAccount E) Q C s"
  using assms(2) unfolding ensureServiceAccount_def
  by (auto simp: wp_bnd wp_gets intro!: wp_written [OF access_facts(7,8) [OF assms(1)]])

lemma request_step:
  assumes E: "access_ready E" and ok: "conds_ok (sd_conditions db)" and here: "progress db met (obj s)"
    and new: "SchemaDatabaseConditionSecretAccessRequestReady \<notin> met"
    and goal: "\<And>sar s'. request_granted E sar \<Longrightarrow>
      progress db (insert SchemaDatabaseConditionSecretAccessRequestReady met) (obj s') \<Longrightarrow> Q (Inr sar) s'"
  shows "wp (ensureSecretAccessRequest E) Q C s"
proof -
  obtain p where patch: "\<And>h m x. e_patchAccessRequestStatus E h m x = Inr (p h m x)"
    "\<And>h m x. request_granted E (p h m x)"
    using access_facts(11) [OF E] by metis
  have "SecretAccessRequest_ready E m s'" for m s'
    using access_facts(12) [OF E] unfolding answers_def SecretAccessRequest_ready_def request_granted_def
    by (metis sum.case(2))
  then have handler: "wp (updateStatusForSecretAccessRequest E m) Q' C' s'"
    if "progress db met (obj s')" "\<And>a s'. progress db (insert SchemaDatabaseConditionSecretAccessRequestReady met) (obj s') \<Longrightarrow> Q' a s'"
    for m Q' C' s'
    using that ok new by (intro secretAccessRequest_status.progressI) simp_all
  show ?thesis
    using here new unfolding ensureSecretAccessRequest_def
    by (auto simp: wp_bnd wp_bndE wp_gets wp_ret wp_if wp_perform patch
        intro!: wp_written [OF access_facts(9,10) [OF E]] handler goal)
qed

text \<open>The init job. At the end \<open>initialized\<close> may have been set in memory.\<close>

lemma init_step:
  assumes ready: "init_ready E" and ok: "conds_ok (sd_conditions db)" and here: "progress db met (obj s)"
    and new: "SchemaDatabaseConditionJobCompleted \<notin> met" and init: "sd_init db \<noteq> None"
    and goal: "\<And>s' x. progress db (insert SchemaDatabaseConditionJobCompleted met) x \<Longrightarrow>
      sd_conditions (obj s') = sd_conditions x \<Longrightarrow> sd_restore (obj s') = sd_restore x \<Longrightarrow> Q (Inr ()) s'"
  shows "wp (run_init E mongo cred) Q C s"
proof -
  obtain j where job: "\<And>h k. e_getJob E h k = Inr (j h k)" "\<And>h k. CheckJobConditions (j h k)"
    using ready unfolding init_ready_def answers_def by metis
  have handler: "wp (updateStatusForInitJob E m) Q' C' s"
    if "\<And>a s'. progress db (insert SchemaDatabaseConditionJobCompleted met) (obj s') \<Longrightarrow> Q' a s'" for m Q' C'
    using that here ok new by (intro initJob_status.progressI) (simp_all add: InitJob_ready_def job)
  obtain i where "sd_init db = Some i" using init by blast
  then show ?thesis
    unfolding run_init_def
    by (auto simp: wp_bnd wp_gets wp_ret wp_if wp_perform wp_deref wp_update wp_let job progress_fields
        intro!: handler) (rule goal, assumption, simp, simp)+
qed

text \<open>The restore.\<close>

lemma restore_facts:
  assumes "restore_ready E"
  shows "answers (e_getRepository E) (\<lambda>_. True)"
    "answers (e_fetchRepository E) (\<lambda>_. True)" "answers (e_writeRepository E) (\<lambda>_. True)"
    "answers (e_fetchSecret E) (\<lambda>_. True)" "answers (e_writeSecret E) (\<lambda>_. True)"
    "answers (e_getAppBinding E) (\<lambda>x. ab_service x \<noteq> None)"
    "answers (e_fetchAppBinding E) (\<lambda>_. True)" "answers (e_writeAppBinding E) (\<lambda>_. True)"
    "answers (e_getMongoDBVersion E) (\<lambda>_. True)"
    "answers (e_fetchRestoreSession E) (\<lambda>_. True)" "answers (e_writeRestoreSession E) (\<lambda>_. True)"
    "answers (e_getRestoreSession E) (CheckRestoreSessionPhaseSucceed (e_names E))"
    "k_RestoreSucceeded (e_names E) \<noteq> k_RestoreFailed (e_names E)"
  using assms unfolding restore_ready_def by blast+

lemma secret_step:
  assumes "restore_ready E" and "\<And>r s'. obj s' = obj s \<Longrightarrow> Q (Inr r) s'"
  shows "wp (copy_secret E x sec) Q C s"
  using assms(2) unfolding copy_secret_def
  by (auto intro!: wp_written [OF restore_facts(4,5) [OF assms(1)]])

lemma repository_step:
  assumes E: "restore_ready E" "access_ready E" and ok: "conds_ok (sd_conditions db)"
    and here: "progress db met (obj s)" and new: "SchemaDatabaseConditionRepositoryFound \<notin> met"
    and restore: "sd_restore db \<noteq> None"
    and goal: "\<And>s'. progress db (insert SchemaDatabaseConditionRepositoryFound met) (obj s') \<Longrightarrow> Q (Inr ()) s'"
  shows "wp (copyRepositoryAndSecret E) Q C s"
proof -
  have "Repository_ready E m s'" for m s'
    using restore_facts(1) [OF E(1)] unfolding answers_def Repository_ready_def by (metis sum.case(2))
  then have handler: "wp (updateStatusForRepository E m) Q' C' s'"
    if "progress db met (obj s')" "\<And>a s'. progress db (insert SchemaDatabaseConditionRepositoryFound met) (obj s') \<Longrightarrow> Q' a s'"
    for m Q' C' s'
    using that ok new by (intro repository_status.progressI) simp_all
  obtain g c where gets: "\<And>h k. e_getRepository E h k = Inr (g h k)" "\<And>h k. e_getSecret E h k = Inr (c h k)"
    using restore_facts(1) [OF E(1)] access_facts(13) [OF E(2)] unfolding answers_def by metis
  obtain r where "sd_restore db = Some r" using restore by blast
  with here show ?thesis
    unfolding copyRepositoryAndSecret_def
    by (auto simp: wp_bnd wp_bndE wp_gets wp_ret wp_perform wp_deref wp_let gets progress_fields
        intro!: wp_written [OF restore_facts(2,3) [OF E(1)]] secret_step [OF E(1)] handler goal)
qed

lemma appbinding_step:
  assumes E: "restore_ready E" "access_ready E" "servers_ready E" and ok: "conds_ok (sd_conditions db)"
    and here: "progress db met (obj s)" and new: "SchemaDatabaseConditionAppbindingFound \<notin> met"
    and goal: "\<And>s'. progress db (insert SchemaDatabaseConditionAppbindingFound met) (obj s') \<Longrightarrow> Q (Inr ()) s'"
  shows "wp (ensureAppbinding E) Q C s"
proof -
  have "Appbinding_ready E m s'" for m s'
    using restore_facts(6) [OF E(1)] unfolding answers_def Appbinding_ready_def by (metis sum.case(2))
  then have handler: "wp (updateStatusForAppbinding E m) Q' C' s'"
    if "progress db met (obj s')" "\<And>a s'. progress db (insert SchemaDatabaseConditionAppbindingFound met) (obj s') \<Longrightarrow> Q' a s'"
    for m Q' C' s'
    using that ok new by (intro appbinding_status.progressI) simp_all
  obtain g where binding: "\<And>h k. e_getAppBinding E h k = Inr (g h k)" "\<And>h k. ab_service (g h k) \<noteq> None"
    by (rule answersE [OF restore_facts(6) [OF E(1)]]) blast
  obtain c where secret: "\<And>h k. e_getSecret E h k = Inr (c h k)"
    by (rule answersE [OF access_facts(13) [OF E(2)]]) blast
  obtain f where fetch: "\<And>h k. e_fetchAppBinding E h k = Inr (f h k)"
    by (rule answersE [OF restore_facts(7) [OF E(1)]]) blast
  obtain w where put: "\<And>h k. e_writeAppBinding E h k = Inr (w h k)"
    by (rule answersE [OF restore_facts(8) [OF E(1)]]) blast
  obtain m where mongo: "\<And>h k x. e_getMongoDB E h k x = (None, m h k x)"
    using E(3) unfolding servers_ready_def answers_into_def by metis
  from here show ?thesis
    unfolding ensureAppbinding_def create_or_patch_with_def appbinding_transform_def appbinding_host_def
    by (auto simp: wp_bnd wp_bndE wp_gets wp_ret wp_perform wp_deref wp_let binding secret fetch put mongo
        split: prod.split option.split
        intro!: secret_step [OF E(1)] handler goal)
qed

text \<open>The session also leaves the reason that it has succeeded.\<close>

definition restored :: "condition list \<Rightarrow> bool" where
  "restored cs \<longleftrightarrow> (\<forall>c. find_by cond_type SchemaDatabaseConditionRestoreSession cs = Some c \<longrightarrow>
     cond_reason c \<noteq> SchemaDatabaseReasonRestoreSessionSFailed)"

lemma session_step:
  assumes E: "restore_ready E" and ok: "conds_ok (sd_conditions db)"
    and here: "progress db met (obj s)" and new: "SchemaDatabaseConditionRestoreSession \<notin> met"
    and restore: "sd_restore db \<noteq> None"
    and goal: "\<And>r s'. progress db (insert SchemaDatabaseConditionRestoreSession met) (obj s') \<Longrightarrow>
      restored (sd_conditions (obj s')) \<Longrightarrow> Q (Inr r) s'"
  shows "wp (ensureRestoreSession E mongo) Q C s"
proof -
  obtain g where session: "\<And>h k. e_getRestoreSession E h k = Inr (g h k)"
    "\<And>h k. CheckRestoreSessionPhaseSucceed (e_names E) (g h k)"
    by (rule answersE [OF restore_facts(12) [OF E]]) blast
  then have success: "\<not> CheckRestoreSessionPhaseFailed (e_names E) (g h k)" for h k
    using restore_facts(13) [OF E] by (auto simp: CheckRestoreSessionPhaseSucceed_def CheckRestoreSessionPhaseFailed_def)
  have reasons: "SchemaDatabaseReasonRestoreSessionSucceed \<noteq> SchemaDatabaseReasonRestoreSessionSFailed"
    by (simp add: SchemaDatabaseReasonRestoreSessionSucceed_def SchemaDatabaseReasonRestoreSessionSFailed_def)
  have handler: "wp (updateStatusForRestoreSession E m) Q' C' s'"
    if there: "progress db met (obj s')"
      and "\<And>a s'. progress db (insert SchemaDatabaseConditionRestoreSession met) (obj s') \<Longrightarrow>
        restored (sd_conditions (obj s')) \<Longrightarrow> Q' a s'"
    for m Q' C' s'
  proof -
    have "restored (sd_conditions (MongoDBDatabase_SetCondition now SchemaDatabaseConditionRestoreSession
        ConditionTrue SchemaDatabaseReasonRestoreSessionSucceed msg (obj s')))" for now msg
      using progress_reason [OF there new ok, of now SchemaDatabaseReasonRestoreSessionSucceed msg] reasons
      by (auto simp: restored_def)
    then show ?thesis
      by (simp add: updateStatusForRestoreSession_def wp_simps session success that(2)
          progress_set [OF there new ok])
  qed
  obtain v where version: "\<And>h k. e_getMongoDBVersion E h k = Inr (v h k)"
    by (rule answersE [OF restore_facts(9) [OF E]]) blast
  obtain f where fetch: "\<And>h k. e_fetchRestoreSession E h k = Inr (f h k)"
    by (rule answersE [OF restore_facts(10) [OF E]]) blast
  obtain w where put: "\<And>h k. e_writeRestoreSession E h k = Inr (w h k)"
    by (rule answersE [OF restore_facts(11) [OF E]]) blast
  obtain r where "sd_restore db = Some r" using restore by blast
  with here show ?thesis
    unfolding ensureRestoreSession_def create_or_patch_with_def
    by (auto simp: wp_bnd wp_bndE wp_gets wp_ret wp_perform wp_deref version fetch put progress_fields
        split: prod.split intro!: handler goal)
qed

section \<open>The phase at the end\<close>

lemma not_restored_twice:
  "distinct_types cs \<Longrightarrow> restored cs \<Longrightarrow> restore_outcome cs = SchemaDatabasePhaseSucceeded"
  by (auto simp: restore_outcome_find restored_def split: option.split)

lemma phase_without_restore:
  assumes "progress db (insert SchemaDatabaseConditionJobCompleted access_conditions) x"
    and "restored (sd_conditions db)"
  shows "GetPhaseFromCondition (sd_conditions x) False = SchemaDatabasePhaseSucceeded"
proof -
  have "SchemaDatabaseConditionRestoreSession \<notin> insert SchemaDatabaseConditionJobCompleted access_conditions"
    by (simp add: condition_defs)
  then have "restored (sd_conditions x)" "distinct_types (sd_conditions x)"
    using assms by (simp_all add: progress_def restored_def)
  then show ?thesis
    using assms(1) by (simp add: GetPhaseFromCondition_def progress_def not_restored_twice)
qed

lemma phase_with_restore:
  assumes "progress db ({SchemaDatabaseConditionRepositoryFound, SchemaDatabaseConditionAppbindingFound,
      SchemaDatabaseConditionRestoreSession} \<union> access_conditions) x"
    and "restored (sd_conditions x)"
  shows "GetPhaseFromCondition (sd_conditions x) True = SchemaDatabasePhaseSucceeded"
  using assms by (simp add: GetPhaseFromCondition_def progress_def not_restored_twice)

section \<open>A pass over a ready cluster\<close>

text \<open>What the branch of the worker needs: the objects of a restore, or an init job and no
  recorded failure of an earlier restore.\<close>

definition branch_ready :: "schema_env \<Rightarrow> schema_db \<Rightarrow> bool" where
  "branch_ready E db \<longleftrightarrow>
     (if sd_restore db \<noteq> None then restore_ready E
      else init_ready E \<and> sd_init db \<noteq> None \<and> restored (sd_conditions db))"

definition succeeded :: "schema_db \<Rightarrow> bool" where
  "succeeded x \<longleftrightarrow>
     GetPhaseFromCondition (sd_conditions x) (sd_restore x \<noteq> None) = SchemaDatabasePhaseSucceeded"

lemma restore_step:
  assumes E: "restore_ready E" "access_ready E" "servers_ready E" and ok: "conds_ok (sd_conditions db)"
    and here: "progress db access_conditions (obj s)" and restore: "sd_restore db \<noteq> None"
  shows "wp (run_restore E mongo) (\<lambda>r s'. r = Inr () \<and> succeeded (obj s')) (\<lambda>_ _. False) s"
proof -
  have 1: "SchemaDatabaseConditionRepositoryFound \<notin> access_conditions"
    "SchemaDatabaseConditionAppbindingFound \<notin> insert SchemaDatabaseConditionRepositoryFound access_conditions"
    "SchemaDatabaseConditionRestoreSession \<notin> insert SchemaDatabaseConditionAppbindingFound
       (insert SchemaDatabaseConditionRepositoryFound access_conditions)"
    by (simp_all add: condition_defs)
  have 2: "succeeded y" if "progress db (insert SchemaDatabaseConditionRestoreSession
        (insert SchemaDatabaseConditionAppbindingFound
          (insert SchemaDatabaseConditionRepositoryFound access_conditions))) x"
      and "restored (sd_conditions x)" "sd_conditions y = sd_conditions x" "sd_restore y = sd_restore x" for x y
    using that restore phase_with_restore [of db x]
    by (simp add: succeeded_def progress_fields(5) [OF that(1)] insert_commute)
  show ?thesis
    unfolding run_restore_def wp_bndE
    apply (rule repository_step [OF E(1,2) ok here 1(1) restore], simp only: sum.case wp_bndE)
    apply (rule appbinding_step [OF E ok _ 1(2)], assumption, simp only: sum.case wp_bndE)
    apply (rule session_step [OF E(1) ok _ 1(3) restore], assumption)
    apply (simp add: wp_simps 2)
    done
qed

lemma worker_step:
  assumes E: "access_ready E" "servers_ready E" "branch_ready E db" and ok: "conds_ok (sd_conditions db)"
    and here: "progress db server_conditions (obj s)"
  shows "wp (runMongoSchema E mongo) (\<lambda>r s'. r = Inr () \<and> succeeded (obj s')) (\<lambda>_ _. False) s"
proof -
  let ?m1 = "insert SchemaDatabaseConditionSecretEngineReady server_conditions"
  let ?m2 = "insert SchemaDatabaseConditionMongoDBRoleReady ?m1"
  have new: "SchemaDatabaseConditionSecretEngineReady \<notin> server_conditions"
    "SchemaDatabaseConditionMongoDBRoleReady \<notin> ?m1" "SchemaDatabaseConditionSecretAccessRequestReady \<notin> ?m2"
    "SchemaDatabaseConditionJobCompleted \<notin> access_conditions"
    by (simp_all add: condition_defs)
  have restore: "wp (run_restore E mongo) (\<lambda>r s'. r = Inr () \<and> succeeded (obj s')) (\<lambda>_ _. False) s"
    if there: "progress db access_conditions (obj s)" "sd_restore (obj s) = Some r" for s r
    using that E by (intro restore_step [OF _ E(1,2) ok there(1)])
      (simp_all add: progress_fields(5) [OF there(1)] branch_ready_def)
  have init: "wp (run_init E mongo cred) (\<lambda>r s'. r = Inr () \<and> succeeded (obj s')) (\<lambda>_ _. False) s"
    if there: "progress db access_conditions (obj s)" "sd_restore (obj s) = None" for s cred
  proof -
    have "init_ready E" "sd_init db \<noteq> None" "restored (sd_conditions db)" and none: "sd_restore db = None"
      using there E(3) by (simp_all add: progress_fields(5) [OF there(1)] branch_ready_def)
    then show ?thesis
      by (auto simp: succeeded_def progress_fields(5) phase_without_restore
          intro!: init_step [OF _ ok there(1) new(4)])
  qed
  obtain c where secret: "\<And>h k. e_getSecret E h k = Inr (c h k)"
    by (rule answersE [OF access_facts(13) [OF E(1)]]) blast
  show ?thesis
    unfolding runMongoSchema_def wp_bndE
    apply (rule secretEngine_step [OF E(1) ok here new(1)], simp only: sum.case wp_bndE)
    apply (rule role_step [OF E(1) ok _ new(2)], assumption, simp only: sum.case wp_if wp_bndE)
    apply simp
    apply (rule account_step [OF E(1)], simp)
    apply (rule request_step [OF E(1) ok _ new(3)])
    apply simp
    apply (auto simp: wp_bndE wp_bnd wp_gets wp_perform secret request_granted_def)
     apply (rule restore init; simp)+
    done
qed

text \<open>C11. A schema gets its database: when its MongoDB and Vault server, the secret engine, the role
  and the access request are there and ready, and so are the objects of its restore or its init job,
  one reconciliation of the claimed schema ends without an error, and the last thing it does is to
  report the phase \<open>Succeeded\<close>.\<close>
theorem ready_cluster_succeeds:
  assumes "servers_ready E" and "access_ready E" and "branch_ready E db"
    and "\<forall>h. e_getSchema E h req = Inr db" and "conds_ok (sd_conditions db)"
    and "om_deletionTimestamp (sd_meta db) = None"
    and "ContainsString (om_finalizers (sd_meta db)) (k_SchemaGroup (e_names E))"
  shows "\<exists>t m cs. Reconcile E req s = (Done None, t) \<and>
    last (calls t) = PatchSchemaStatus m SchemaDatabasePhaseSucceeded cs"
proof -
  have patch: "e_patchSchemaStatus E h m phase cs = Inr ()" for h m phase cs
    using assms(1) by (simp add: servers_ready_def)
  have finalizer: "ensureOrDeleteFinalizer E mongo s' = (Done (Inr True), s')"
    if "progress db server_conditions (obj s')" for mongo s'
    using assms(6,7) by (simp add: ensureOrDeleteFinalizer_def progress_fields(1) [OF that] bnd_def gets_def
        ret_def Let_def)
  have rest: "wp (bnd (ensureOrDeleteFinalizer E mongo) f) Q C s'"
    if "progress db server_conditions (obj s')" "wp (f (Inr True)) Q C s'" for mongo f Q C s'
    using that(2) by (simp add: wp_def bnd_def finalizer [OF that(1)])
  have "wp (Reconcile E req) (\<lambda>r t. r = None \<and>
      (\<exists>m cs. last (calls t) = PatchSchemaStatus m SchemaDatabasePhaseSucceeded cs)) (\<lambda>_ _. False) s"
    unfolding Reconcile_def
    apply (simp add: wp_bnd wp_perform wp_update assms(4))
    apply (rule wp_conseq [OF servers_step [OF assms(1,5)]])
      apply simp
     apply (auto simp: wp_ret intro!: rest)
    apply (simp add: wp_bnd)
    apply (rule wp_conseq [OF worker_step [OF assms(2,1,3,5)]])
      apply assumption
     apply (auto simp: wp_bnd wp_updateSchemaStatus patch wp_ret Let_def succeeded_def)
    done
  then show ?thesis
    by (cases "Reconcile E req s") (auto simp: wp_def split: outcome.splits)
qed

text \<open>The example schema, claimed, with an init script whose job has ended.\<close>

definition claimed_schema :: schema_db where
  "claimed_schema = demo_schema
     \<lparr>sd_meta := (sd_meta demo_schema)\<lparr>om_finalizers := [''schema.kubedb.com'']\<rparr>,
      sd_init := Some \<lparr>si_initialized = False, si_script = None, si_podTemplate = None\<rparr>\<rparr>"

definition demo_engine :: secret_engine where
  "demo_engine = \<lparr>se_meta = meta_of ''demo'' ''engine'', se_vaultRef = (''demo'', ''vault''), se_mongodb = None,
     se_phase = SecretEnginePhaseSuccess, se_conditions = [true_condition ConditionAvailable]\<rparr>"

definition demo_role :: mongodb_role where
  "demo_role = \<lparr>mr_meta = meta_of ''demo'' ''role'', mr_secretEngineRef = ''engine'',
     mr_creationStatements = [], mr_revocationStatements = [], mr_phase = ''Success'',
     mr_conditions = [true_condition ConditionAvailable]\<rparr>"

definition demo_request :: secret_access_request where
  "demo_request = \<lparr>sar_meta = meta_of ''demo'' ''request'', sar_roleRefKind = ''MongoDBRole'',
     sar_roleRefName = ''role'', sar_subjects = [], sar_phase = ''Approved'',
     sar_secret = Some (''demo'', ''credentials''),
     sar_conditions = map true_condition [ConditionAvailable, ConditionRequestApproved]\<rparr>"

definition demo_job :: job where
  "demo_job = \<lparr>jb_meta = meta_of ''demo'' ''job'', jb_volumes = [], jb_serviceAccountName = '''',
     jb_scheduling = \<lparr>ps_nodeSelector = absent, ps_affinity = absent, ps_schedulerName = '''',
       ps_tolerations = absent, ps_imagePullSecrets = absent, ps_priorityClassName = '''', ps_priority = absent,
       ps_hostNetwork = False, ps_hostPID = False, ps_hostIPC = False, ps_shareProcessNamespace = None,
       ps_securityContext = absent, ps_dnsPolicy = '''', ps_dnsConfig = absent\<rparr>,
     jb_containers = [], jb_restartPolicy = '''', jb_backoffLimit = None,
     jb_conditions = [\<lparr>jc_type = JobComplete, jc_status = ConditionTrue\<rparr>], jb_completionTime = Some 5\<rparr>"

definition demo_credentials :: secret where
  "demo_credentials = \<lparr>sec_meta = meta_of ''demo'' ''credentials'', sec_type = '''', sec_data = Map.empty\<rparr>"

definition full_env :: schema_env where
  "full_env = (demo_env claimed_schema)
     \<lparr>e_getSecretEngine := (\<lambda>_ _ _. (None, demo_engine)),
      e_fetchSecretEngine := (\<lambda>_ _. Inr (demo_engine, False)), e_writeSecretEngine := (\<lambda>_ x. Inr x),
      e_getMongoDBRole := (\<lambda>_ _ _. (None, demo_role)),
      e_fetchMongoDBRole := (\<lambda>_ _. Inr (demo_role, False)), e_writeMongoDBRole := (\<lambda>_ x. Inr x),
      e_fetchServiceAccount := (\<lambda>_ key. Inr (\<lparr>sa_meta = meta_of (fst key) (snd key)\<rparr>, True)),
      e_writeServiceAccount := (\<lambda>_ x. Inr x),
      e_getSecretAccessRequest := (\<lambda>_ _. Inr demo_request),
      e_fetchSecretAccessRequest := (\<lambda>_ _. Inr (demo_request, False)),
      e_writeSecretAccessRequest := (\<lambda>_ _. Inr demo_request),
      e_patchAccessRequestStatus := (\<lambda>_ _ _. Inr demo_request),
      e_getSecret := (\<lambda>_ _. Inr demo_credentials), e_getJob := (\<lambda>_ _. Inr demo_job)\<rparr>"

lemma demo_ready:
  "CheckMongoDBConditions demo_mongo" "mg_phase demo_mongo = DatabasePhaseReady"
  "CheckVaultConditions demo_names demo_vault" "vs_phase demo_vault = k_VaultServerPhaseReady demo_names"
  "CheckSecretEngineConditions demo_engine" "se_phase demo_engine = SecretEnginePhaseSuccess"
  "CheckMongoDBRoleConditions demo_role" "mr_phase demo_role = k_RolePhaseSuccess demo_names"
  "sar_phase demo_request = k_RequestStatusPhaseApproved demo_names" "sar_secret demo_request = Some (''demo'', ''credentials'')"
  "CheckSecretAccessRequestConditions demo_request" "CheckJobConditions demo_job"
  by code_simp+

lemma full_env_ready: "servers_ready full_env" "access_ready full_env" "branch_ready full_env claimed_schema"
proof -
  have names: "e_names full_env = demo_names" by (simp add: full_env_def)
  show "servers_ready full_env"
    by (simp add: servers_ready_def names answers_into_def) (simp add: full_env_def demo_ready)
  show "access_ready full_env"
    by (simp add: access_ready_def names request_granted_def answers_def answers_into_def)
      (simp add: full_env_def demo_ready ex_bool_eq)
  show "branch_ready full_env claimed_schema"
    by (simp add: branch_ready_def init_ready_def answers_def full_env_def demo_ready claimed_schema_def
        demo_schema_def empty_schema_db_def restored_def)
qed

theorem ready_cluster_succeeds_witness:
  "\<exists>t m cs. Reconcile full_env demo_req (start empty_schema_db) = (Done None, t) \<and>
     last (calls t) = PatchSchemaStatus m SchemaDatabasePhaseSucceeded cs"
proof (rule ready_cluster_succeeds [OF full_env_ready])
  show "conds_ok (sd_conditions claimed_schema)" "om_deletionTimestamp (sd_meta claimed_schema) = None"
    by (simp_all add: claimed_schema_def demo_schema_def empty_schema_db_def meta_of_def)
  show "\<forall>h. e_getSchema full_env h demo_req = Inr claimed_schema" by (simp add: full_env_def)
  show "ContainsString (om_finalizers (sd_meta claimed_schema)) (k_SchemaGroup (e_names full_env))"
    by (simp add: claimed_schema_def full_env_def ContainsString_def)
qed

end
