(* ===== verification/SchemaServer.thy ===== *)
theory SchemaServer
  imports SchemaDemo
begin

text \<open>
  The schema manager beside a MongoDB server. The server is not in the repository: it is the
  parameter \<open>srv\<close>, its state after each call, of which only two laws are assumed: it answers
  from its state (\<open>answers_from\<close>), and a call of the controller has no other effect than the
  one it asks for (\<open>call_effect\<close>), while other clients may create collections at any time. The
  reconciliations of all schemas on the server, in any order and in any state of the API
  server, are the closure of \<open>reconciled\<close>.
\<close>

section \<open>The server\<close>

record mongo_server =
  srv_collections :: "string \<Rightarrow> string list"
  srv_entries :: "(string \<times> string) list"

text \<open>What a successful listing and a successful search say of the state.\<close>

definition answers_from :: "schema_env \<Rightarrow> (hist \<Rightarrow> mongo_server) \<Rightarrow> bool" where
  "answers_from E srv \<longleftrightarrow>
     (\<forall>h name cs. e_listCollections E h name = Inr cs \<longrightarrow>
        set cs = set (srv_collections (srv h) name)) \<and>
     (\<forall>h uid name. e_findEntry E h uid name = Inr () \<longrightarrow> (uid, name) \<in> set (srv_entries (srv h)))"

text \<open>
  A collection disappears only with its database, an entry appears only when it is written.
  Dropping a database that is not the registry, or any call but a deletion, keeps the entries.
\<close>

definition call_effect :: "schema_call \<Rightarrow> mongo_server \<Rightarrow> mongo_server \<Rightarrow> bool" where
  "call_effect c s s' \<longleftrightarrow>
     (\<forall>name. c \<noteq> DropDatabase name \<longrightarrow>
        set (srv_collections s name) \<subseteq> set (srv_collections s' name)) \<and>
     (\<forall>uid name. c \<noteq> UpsertEntry uid name \<longrightarrow> (uid, name) \<in> set (srv_entries s') \<longrightarrow>
        (uid, name) \<in> set (srv_entries s)) \<and>
     (\<forall>uid name. c \<noteq> DeleteEntry uid name \<and> c \<noteq> DropDatabase MongoDatabaseNameForEntry \<longrightarrow>
        (uid, name) \<in> set (srv_entries s) \<longrightarrow> (uid, name) \<in> set (srv_entries s'))"

definition serves :: "schema_env \<Rightarrow> (hist \<Rightarrow> mongo_server) \<Rightarrow> bool" where
  "serves E srv \<longleftrightarrow> answers_from E srv \<and> (\<forall>h c. call_effect c (srv h) (srv (h @ [c])))"

text \<open>One reconciliation, or clients that create collections.\<close>

inductive reconciled :: "mongo_server \<Rightarrow> mongo_server \<Rightarrow> bool" where
  by_schema: "serves E srv \<Longrightarrow> reconciled (srv []) (srv (reconcile_calls E req))"
| by_clients: "srv_entries s' = srv_entries s \<Longrightarrow>
    (\<And>name. set (srv_collections s name) \<subseteq> set (srv_collections s' name)) \<Longrightarrow> reconciled s s'"

section \<open>Data that nobody claimed\<close>

definition unclaimed_data :: "string \<Rightarrow> string \<Rightarrow> mongo_server \<Rightarrow> bool" where
  "unclaimed_data name coll s \<longleftrightarrow>
     coll \<in> set (srv_collections s name) \<and> (\<forall>uid. (uid, name) \<notin> set (srv_entries s))"

lemma serves_effect: "serves E srv \<Longrightarrow> call_effect c (srv h) (srv (h @ [c]))"
  by (simp add: serves_def)

lemma serves_found:
  "serves E srv \<Longrightarrow> e_findEntry E h uid name = Inr () \<Longrightarrow> (uid, name) \<in> set (srv_entries (srv h))"
  by (simp add: serves_def answers_from_def)

lemma serves_listed:
  "serves E srv \<Longrightarrow> e_listCollections E h name = Inr [] \<Longrightarrow> srv_collections (srv h) name = []"
  unfolding serves_def answers_from_def by (metis list.set(1) set_empty)

lemma call_effect_data:
  assumes "call_effect c s s'" and "unclaimed_data name coll s"
    and "c \<noteq> DropDatabase name" and "\<And>uid. c \<noteq> UpsertEntry uid name"
  shows "unclaimed_data name coll s'"
  using assms unfolding call_effect_def unclaimed_data_def by blast

lemma prefix_data:
  assumes srv: "serves E srv" and data: "unclaimed_data name coll (srv [])"
    and ok: "trace_ok (guarded E) cs"
  shows "\<forall>n. unclaimed_data name coll (srv (take n cs))"
  using ok
proof (induction cs rule: rev_induct)
  case Nil
  with data show ?case by simp
next
  case (snoc c cs)
  from snoc.prems have "trace_ok (guarded E) cs" and now: "guarded E cs c"
    by (simp_all add: trace_ok_snoc)
  with snoc.IH have before: "unclaimed_data name coll (srv (take n cs))" for n by blast
  from before [of "length cs"] have data: "unclaimed_data name coll (srv cs)" by simp
  have "c \<noteq> DropDatabase name"
  proof
    assume "c = DropDatabase name"
    with now have "drop_guarded E cs (DropDatabase name)" by (simp add: guarded_def)
    then obtain uid h where h: "cs = h @ [FindEntry uid name]" "e_findEntry E h uid name = Inr ()"
      by (rule drop_guarded_cases)
    from before [of "length h"] h(1) have "unclaimed_data name coll (srv h)" by simp
    with serves_found [OF srv h(2)] show False by (simp add: unclaimed_data_def)
  qed
  moreover have "c \<noteq> UpsertEntry uid name" for uid
  proof
    assume "c = UpsertEntry uid name"
    with now have "entry_guarded E cs (UpsertEntry uid name)" by (simp add: guarded_def)
    then obtain h where h: "cs = h @ [ListCollections name]" "e_listCollections E h name = Inr []"
      by (rule entry_guarded_cases)
    from before [of "length h"] h(1) have "unclaimed_data name coll (srv h)" by simp
    with serves_listed [OF srv h(2)] show False by (simp add: unclaimed_data_def)
  qed
  ultimately have "unclaimed_data name coll (srv (cs @ [c]))"
    using call_effect_data [OF serves_effect [OF srv] data] by blast
  with before show ?case by (simp add: take_Cons' split: nat_diff_split)
qed

lemma reconciled_data:
  assumes "reconciled s s'" and "unclaimed_data name coll s"
  shows "unclaimed_data name coll s'"
  using assms(1)
proof cases
  case (by_schema E srv req)
  have "trace_ok (guarded E) (reconcile_calls E req)"
    by (simp add: trace_ok_def reconcile_call_guarded)
  with prefix_data [OF by_schema(3)] by_schema assms(2) show ?thesis by (metis take_all order_refl)
next
  case by_clients
  with assms(2) show ?thesis by (auto simp: unclaimed_data_def)
qed

text \<open>C2. The schema manager never destroys data it did not create the database for: if a database
  has a collection and no schema claims the database, then after any sequence of
  reconciliations of any schemas, with clients creating collections meanwhile, the collection
  is still there and the database still unclaimed.\<close>

theorem preexisting_data_survives:
  assumes "reconciled\<^sup>*\<^sup>* s s'" and "unclaimed_data name coll s"
  shows "unclaimed_data name coll s'"
  using assms by (induction rule: rtranclp_induct) (auto intro: reconciled_data)

section \<open>The finalizer and the registry\<close>








section \<open>Two schemas on one server\<close>

text \<open>A server that does what it is asked, and the cluster of \<open>SchemaDemo\<close> around it.\<close>

fun served :: "schema_call \<Rightarrow> mongo_server \<Rightarrow> mongo_server" where
  "served (UpsertEntry uid name) s =
     s\<lparr>srv_collections := (srv_collections s)(MongoDatabaseNameForEntry :=
         List.insert MongoCollectionNameForEntry (srv_collections s MongoDatabaseNameForEntry)),
       srv_entries := List.insert (uid, name) (srv_entries s)\<rparr>"
| "served (DropDatabase name) s =
     s\<lparr>srv_collections := (srv_collections s)(name := []),
       srv_entries := (if name = MongoDatabaseNameForEntry then [] else srv_entries s)\<rparr>"
| "served (DeleteEntry uid name) s = s\<lparr>srv_entries := removeAll (uid, name) (srv_entries s)\<rparr>"
| "served c s = s"

definition server_env :: "mongo_server \<Rightarrow> schema_db \<Rightarrow> schema_env" where
  "server_env s db = (demo_env db)
     \<lparr>e_listCollections := (\<lambda>h name. Inr (srv_collections (fold served h s) name)),
      e_findEntry := (\<lambda>h uid name.
        if (uid, name) \<in> set (srv_entries (fold served h s)) then Inr ()
        else Inl (NotFound ''no documents in result''))\<rparr>"

lemma served_effect: "call_effect c s (served c s)"
  by (cases c) (auto simp: call_effect_def)

lemma server_env_serves: "serves (server_env s db) (\<lambda>h. fold served h s)"
  by (auto simp: serves_def answers_from_def server_env_def served_effect)


definition tenant :: "string \<Rightarrow> schema_db" where
  "tenant u = demo_schema\<lparr>sd_meta := (sd_meta demo_schema)\<lparr>om_uid := u\<rparr>\<rparr>"

definition leaving :: "string \<Rightarrow> schema_db" where
  "leaving u = dying_schema\<lparr>sd_meta := (sd_meta dying_schema)\<lparr>om_uid := u\<rparr>\<rparr>"

lemma server_env_simps [simp]:
  "e_names (server_env s db) = demo_names"
  "e_getSchema (server_env s db) = (\<lambda>_ _. Inr db)"
  "e_getMongoDB (server_env s db) = (\<lambda>_ _ _. (None, demo_mongo))"
  "e_getVaultServer (server_env s db) = (\<lambda>_ _ _. (None, demo_vault))"
  "e_updateSchema (server_env s db) = (\<lambda>_ db'. (None, db'))"
  "e_patchSchemaStatus (server_env s db) = (\<lambda>_ _ _ _. Inr ())"
  "e_mongoConnect (server_env s db) = (\<lambda>_ _. Inr ())"
  "e_dropDatabase (server_env s db) = (\<lambda>_ _. Inr ())"
  "e_deleteEntry (server_env s db) = (\<lambda>_ _ _. Inr ())"
  "e_upsertEntry (server_env s db) = (\<lambda>_ _ _. Inr ())"
  "e_fetchSecretEngine (server_env s db) = (\<lambda>_ _. Inl (NotFound ''not found''))"
  "e_listCollections (server_env s db) = (\<lambda>h name. Inr (srv_collections (fold served h s) name))"
  "e_findEntry (server_env s db) = (\<lambda>h uid name.
     if (uid, name) \<in> set (srv_entries (fold served h s)) then Inr ()
     else Inl (NotFound ''no documents in result''))"
  by (simp_all add: server_env_def demo_env_def quiet_env_def)

definition empty_server :: mongo_server where
  "empty_server = \<lparr>srv_collections = (\<lambda>_. []), srv_entries = []\<rparr>"

definition legacy_server :: mongo_server where
  "legacy_server = \<lparr>srv_collections = (\<lambda>_. [])(''legacy'' := [''orders'']), srv_entries = []\<rparr>"

lemma tenant_run:
  assumes "srv_collections s ''shopdb'' = []"
  shows "\<exists>k1 k2 k3 k4 k5 m1 p1 c1 m2 p2 c2 db.
    reconcile_calls (server_env s (tenant u)) demo_req =
      [Get KSchema demo_req, Get KMongoDB k1, Get KMongoDB k2, Get KVaultServer k3,
       Get KVaultServer k4, PatchSchemaStatus m1 p1 c1, MongoConnect demo_mongo,
       ListCollections ''shopdb'', UpsertEntry u ''shopdb'', MongoClose, UpdateSchema db,
       Fetch KSecretEngine k5, PatchSchemaStatus m2 p2 c2] \<and>
    om_uid (sd_meta db) = u \<and> sd_databaseName db = ''shopdb'' \<and>
    HasFinalizer (sd_meta db) ''schema.kubedb.com''"
proof -
  let ?E = "server_env s (tenant u)"
  have "sd_phase (tenant u) \<noteq> ''''" by (simp add: tenant_def demo_schema_def)
  from demo_servers [OF _ _ _ _ this, of ?E "[Get KSchema demo_req]", simplified]
  obtain db' k1 k2 k3 k4 m ph cs where
    run: "getMongoDBAndVaultServer ?E \<lparr>calls = [Get KSchema demo_req], obj = tenant u\<rparr> =
       (Done (Inr (demo_mongo, demo_vault, True)),
        \<lparr>calls = [Get KSchema demo_req, Get KMongoDB k1, Get KMongoDB k2, Get KVaultServer k3,
           Get KVaultServer k4, PatchSchemaStatus m ph cs], obj = db'\<rparr>)"
    and spec: "same_spec db' (tenant u)" "sd_meta db' = sd_meta (tenant u)"
    by metis
  from spec have "sd_databaseName db' = ''shopdb''" "om_finalizers (sd_meta db') = []"
    "om_uid (sd_meta db') = u" "om_deletionTimestamp (sd_meta db') = None"
    by (simp_all add: same_spec_def tenant_def demo_schema_def empty_schema_db_def meta_of_def)
  then show ?thesis
    using assms
    by (simp add: finalizer_defs program_defs run runMongoSchema_def ensureSecretEngine_def
        updateSchemaMongoDBDatabaseStatus_def HasFinalizer_def)
qed

lemma tenant_claims:
  assumes "srv_collections s ''shopdb'' = []"
  shows "reconciled s (served (UpsertEntry u ''shopdb'') s)"
proof -
  from tenant_run [OF assms, of u]
  have "fold served (reconcile_calls (server_env s (tenant u)) demo_req) s =
      served (UpsertEntry u ''shopdb'') s"
    by auto
  with by_schema [OF server_env_serves, of s "tenant u" demo_req] show ?thesis by simp
qed

lemma leaving_run:
  assumes "(u, ''shopdb'') \<in> set (srv_entries s)"
  shows "\<exists>k1 k2 k3 k4 m p c db. reconcile_calls (server_env s (leaving u)) demo_req =
      [Get KSchema demo_req, Get KMongoDB k1, Get KMongoDB k2, Get KVaultServer k3,
       Get KVaultServer k4, PatchSchemaStatus m p c, MongoConnect demo_mongo,
       FindEntry u ''shopdb'', DropDatabase ''shopdb'', DeleteEntry u ''shopdb'', MongoClose,
       UpdateSchema db]"
proof -
  let ?E = "server_env s (leaving u)"
  have "sd_phase (leaving u) \<noteq> ''''" by (simp add: leaving_def dying_schema_def demo_schema_def)
  from demo_servers [OF _ _ _ _ this, of ?E "[Get KSchema demo_req]", simplified]
  obtain db' k1 k2 k3 k4 m ph cs where
    run: "getMongoDBAndVaultServer ?E \<lparr>calls = [Get KSchema demo_req], obj = leaving u\<rparr> =
       (Done (Inr (demo_mongo, demo_vault, True)),
        \<lparr>calls = [Get KSchema demo_req, Get KMongoDB k1, Get KMongoDB k2, Get KVaultServer k3,
           Get KVaultServer k4, PatchSchemaStatus m ph cs], obj = db'\<rparr>)"
    and spec: "same_spec db' (leaving u)" "sd_meta db' = sd_meta (leaving u)"
    by metis
  from spec have "sd_databaseName db' = ''shopdb''" "sd_deletionPolicy db' = DeletionPolicyDelete"
    "om_finalizers (sd_meta db') = [''schema.kubedb.com'']" "om_uid (sd_meta db') = u"
    "om_deletionTimestamp (sd_meta db') = Some 7"
    by (simp_all add: same_spec_def leaving_def dying_schema_def demo_schema_def meta_of_def)
  then show ?thesis
    using assms by (simp add: finalizer_defs program_defs run)
qed

lemma leaving_drops:
  assumes "(u, ''shopdb'') \<in> set (srv_entries s)"
  shows "reconciled s (served (DeleteEntry u ''shopdb'') (served (DropDatabase ''shopdb'') s))"
proof -
  from leaving_run [OF assms]
  have "fold served (reconcile_calls (server_env s (leaving u)) demo_req) s =
      served (DeleteEntry u ''shopdb'') (served (DropDatabase ''shopdb'') s)"
    by auto
  with by_schema [OF server_env_serves, of s "leaving u" demo_req] show ?thesis by simp
qed


text \<open>C28. The check before a claim looks at collections only, not at the claims of other schemas:
  two schemas can claim the same database while it is empty, and deleting the first then
  drops the data of the second, which still holds its claim.\<close>

theorem shared_claim_loses_data:
  "\<exists>s s'. reconciled\<^sup>*\<^sup>* empty_server s \<and> reconciled s s' \<and>
     {(''u1'', ''shopdb''), (''u2'', ''shopdb'')} \<subseteq> set (srv_entries s) \<and>
     srv_collections s ''shopdb'' = [''orders''] \<and>
     (''u2'', ''shopdb'') \<in> set (srv_entries s') \<and> srv_collections s' ''shopdb'' = []"
proof -
  let ?s1 = "served (UpsertEntry ''u1'' ''shopdb'') empty_server"
  let ?s2 = "served (UpsertEntry ''u2'' ''shopdb'') ?s1"
  let ?s3 = "?s2\<lparr>srv_collections := (srv_collections ?s2)(''shopdb'' := [''orders''])\<rparr>"
  let ?s4 = "served (DeleteEntry ''u1'' ''shopdb'') (served (DropDatabase ''shopdb'') ?s3)"
  have "reconciled empty_server ?s1" by (rule tenant_claims) (simp add: empty_server_def)
  moreover have "reconciled ?s1 ?s2"
    by (rule tenant_claims) (simp add: empty_server_def MongoDatabaseNameForEntry_def)
  moreover have "reconciled ?s2 ?s3"
    by (rule by_clients) (auto simp: empty_server_def MongoDatabaseNameForEntry_def)
  moreover have "reconciled ?s3 ?s4" by (rule leaving_drops) simp
  ultimately have "reconciled\<^sup>*\<^sup>* empty_server ?s3" "reconciled ?s3 ?s4" by auto
  moreover have "{(''u1'', ''shopdb''), (''u2'', ''shopdb'')} \<subseteq> set (srv_entries ?s3)"
    "srv_collections ?s3 ''shopdb'' = [''orders'']"
    "(''u2'', ''shopdb'') \<in> set (srv_entries ?s4)" "srv_collections ?s4 ''shopdb'' = []"
    by (simp_all add: empty_server_def MongoDatabaseNameForEntry_def)
  ultimately show ?thesis by blast
qed

text \<open>Beside a database of a customer, a schema claims its own and is deleted.\<close>

theorem preexisting_data_survives_witness:
  "\<exists>s'. reconciled\<^sup>*\<^sup>* legacy_server s' \<and> unclaimed_data ''legacy'' ''orders'' s' \<and>
     srv_entries s' = []"
proof -
  let ?s1 = "served (UpsertEntry ''u1'' ''shopdb'') legacy_server"
  let ?s2 = "served (DeleteEntry ''u1'' ''shopdb'') (served (DropDatabase ''shopdb'') ?s1)"
  have "reconciled legacy_server ?s1" by (rule tenant_claims) (simp add: legacy_server_def)
  moreover have "reconciled ?s1 ?s2" by (rule leaving_drops) simp
  ultimately have "reconciled\<^sup>*\<^sup>* legacy_server ?s2" by auto
  moreover from this have "unclaimed_data ''legacy'' ''orders'' ?s2"
    by (rule preexisting_data_survives) (simp add: unclaimed_data_def legacy_server_def)
  moreover have "srv_entries ?s2 = []" by (simp add: legacy_server_def MongoDatabaseNameForEntry_def)
  ultimately show ?thesis by blast
qed

end
