(* ===== verification/SchemaStartup.thy ===== *)
theory SchemaStartup
  imports SchemaDemo "HOL-Library.Sublist"
begin

text \<open>
  How the schema manager starts (\<open>main.go\<close>) and which objects wake it (\<open>SetupWithManager\<close>).

  controller-runtime and the controllers of the other databases are not in the repository:
  each use of them is a call with an arbitrary answer. The flags are those that \<open>main\<close>
  declares; those of the logger are left out. \<open>os.Exit\<close> (and \<open>GetConfigOrDie\<close>) ends the process like \<open>klog.Fatalf\<close>, and
  \<open>utilruntime.Must\<close> panics.
\<close>

section \<open>The controller and its watches\<close>

datatype mapper = MongoDBMapper | VaultServerMapper

text \<open>What \<open>ctrl.NewControllerManagedBy\<close> is told before \<open>Complete\<close>.\<close>

record builder =
  bl_for :: res_kind
  bl_owns :: "res_kind list"
  bl_watches :: "(res_kind \<times> mapper) list"

definition mongoDBDatabase_builder :: builder where
  "mongoDBDatabase_builder =
     \<lparr>bl_for = KSchema,
      bl_owns = [KSecretAccessRequest, KSecretEngine, KMongoDBRole, KJob, KRestoreSession],
      bl_watches = [(KMongoDB, MongoDBMapper), (KVaultServer, VaultServerMapper)]\<rparr>"

definition watched :: "builder \<Rightarrow> res_kind list" where
  "watched b = bl_for b # bl_owns b @ map fst (bl_watches b)"

section \<open>The manager\<close>

record manager_options =
  mo_metricsBindAddress :: string
  mo_port :: int
  mo_healthProbeBindAddress :: string
  mo_leaderElection :: bool
  mo_leaderElectionID :: string
  mo_syncPeriod :: int

datatype manager_call =
    MAddToScheme string
  | MGetConfig
  | MNewManager manager_options
  | MSetupReconciler string
  | MComplete builder
  | MAddHealthzCheck string
  | MAddReadyzCheck string
  | MStart

type_synonym mhist = "manager_call list"

record manager_env =
  m_addToScheme :: "mhist \<Rightarrow> string \<Rightarrow> gerr + unit"
  m_getConfig :: "mhist \<Rightarrow> gerr + unit"
  m_newManager :: "mhist \<Rightarrow> manager_options \<Rightarrow> gerr + unit"
  m_setupReconciler :: "mhist \<Rightarrow> string \<Rightarrow> gerr + unit"
  m_complete :: "mhist \<Rightarrow> builder \<Rightarrow> gerr + unit"
  m_addHealthzCheck :: "mhist \<Rightarrow> string \<Rightarrow> gerr + unit"
  m_addReadyzCheck :: "mhist \<Rightarrow> string \<Rightarrow> gerr + unit"
  m_start :: "mhist \<Rightarrow> gerr + unit"

record manager_flags =
  mf_metricsAddr :: string
  mf_probeAddr :: string
  mf_enableLeaderElection :: bool

text \<open>The values of the flags that are not given.\<close>

definition default_flags :: manager_flags where
  "default_flags =
     \<lparr>mf_metricsAddr = '':8080'', mf_probeAddr = '':8081'', mf_enableLeaderElection = False\<rparr>"

type_synonym 'a manager_prog = "(manager_call trace, 'a) prog"

definition must :: "(gerr + unit) manager_prog \<Rightarrow> unit manager_prog" where
  "must m = bnd m (\<lambda>r. case r of Inl e \<Rightarrow> panic (error_text e) | Inr _ \<Rightarrow> ret ())"

definition or_exit :: "string \<Rightarrow> (gerr + unit) manager_prog \<Rightarrow> unit manager_prog" where
  "or_exit msg m = bnd m (\<lambda>r. case r of Inl e \<Rightarrow> fatal msg | Inr _ \<Rightarrow> ret ())"

definition init_scheme :: "manager_env \<Rightarrow> unit manager_prog" where
  "init_scheme N =
     (let add = (\<lambda>name. must (perform (\<lambda>h. m_addToScheme N h name) (MAddToScheme name)))
      in bnd (add ''client-go'') (\<lambda>_. bnd (add ''kubedb'') (\<lambda>_. bnd (add ''kubevault'') (\<lambda>_.
         bnd (add ''schema'') (\<lambda>_. bnd (add ''stash'') (\<lambda>_. add ''appcatalog''))))))"

definition options_of :: "manager_flags \<Rightarrow> manager_options" where
  "options_of F =
     \<lparr>mo_metricsBindAddress = mf_metricsAddr F, mo_port = 9443,
      mo_healthProbeBindAddress = mf_probeAddr F, mo_leaderElection = mf_enableLeaderElection F,
      mo_leaderElectionID = ''82ac5e1d.kubedb.com'', mo_syncPeriod = 60 * 10 ^ 9 * 3\<rparr>"

definition SetupWithManager :: "manager_env \<Rightarrow> (gerr + unit) manager_prog" where
  "SetupWithManager N =
     perform (\<lambda>h. m_complete N h mongoDBDatabase_builder) (MComplete mongoDBDatabase_builder)"

definition setup_other :: "manager_env \<Rightarrow> string \<Rightarrow> unit manager_prog" where
  "setup_other N name =
     or_exit ''unable to create controller''
       (perform (\<lambda>h. m_setupReconciler N h name) (MSetupReconciler name))"

text \<open>The program: \<open>init\<close> runs before \<open>main\<close>.\<close>

definition manager_main :: "manager_env \<Rightarrow> manager_flags \<Rightarrow> unit manager_prog" where
  "manager_main N F =
     bnd (init_scheme N) (\<lambda>_.
     bnd (or_exit ''unable to get kubeconfig'' (perform (m_getConfig N) MGetConfig)) (\<lambda>_.
     bnd (or_exit ''unable to start manager''
       (perform (\<lambda>h. m_newManager N h (options_of F)) (MNewManager (options_of F)))) (\<lambda>_.
     bnd (setup_other N ''MySQLDatabase'') (\<lambda>_.
     bnd (setup_other N ''RedisDatabase'') (\<lambda>_.
     bnd (setup_other N ''MariaDBDatabase'') (\<lambda>_.
     bnd (setup_other N ''PostgresDatabase'') (\<lambda>_.
     bnd (or_exit ''unable to create controller'' (SetupWithManager N)) (\<lambda>_.
     bnd (or_exit ''unable to set up health check''
       (perform (\<lambda>h. m_addHealthzCheck N h ''healthz'') (MAddHealthzCheck ''healthz''))) (\<lambda>_.
     bnd (or_exit ''unable to set up ready check''
       (perform (\<lambda>h. m_addReadyzCheck N h ''readyz'') (MAddReadyzCheck ''readyz''))) (\<lambda>_.
       or_exit ''problem running manager'' (perform (m_start N) MStart)))))))))))"

text \<open>What is called up to the start.\<close>

definition startup_calls :: "manager_flags \<Rightarrow> mhist" where
  "startup_calls F =
     map MAddToScheme [''client-go'', ''kubedb'', ''kubevault'', ''schema'', ''stash'', ''appcatalog''] @
     MGetConfig # MNewManager (options_of F) #
     map MSetupReconciler [''MySQLDatabase'', ''RedisDatabase'', ''MariaDBDatabase'', ''PostgresDatabase''] @
     [MComplete mongoDBDatabase_builder, MAddHealthzCheck ''healthz'', MAddReadyzCheck ''readyz'', MStart]"

lemma wp_or_exit:
  "(\<And>k. C k (s\<lparr>calls := calls s @ [c]\<rparr>)) \<Longrightarrow> Q () (s\<lparr>calls := calls s @ [c]\<rparr>) \<Longrightarrow>
   wp (or_exit msg (perform ans c)) Q C s"
  by (simp add: or_exit_def wp_simps split: sum.split)

lemma wp_must:
  "(\<And>k. C k (s\<lparr>calls := calls s @ [c]\<rparr>)) \<Longrightarrow> Q () (s\<lparr>calls := calls s @ [c]\<rparr>) \<Longrightarrow>
   wp (must (perform ans c)) Q C s"
  by (simp add: must_def wp_simps split: sum.split)

text \<open>However the start ends, the calls are the first ones of this list: the first error ends the
  process, so nothing runs unless everything before it was registered.\<close>

lemma main_in_order: "prefix (calls (snd (manager_main N F \<lparr>calls = []\<rparr>))) (startup_calls F)"
proof -
  let ?P = "\<lambda>t :: manager_call trace. prefix (calls t) (startup_calls F)"
  have "wp (manager_main N F) (\<lambda>_. ?P) (\<lambda>_. ?P) \<lparr>calls = []\<rparr>"
    unfolding manager_main_def init_scheme_def Let_def setup_other_def SetupWithManager_def wp_bnd
    by (rule wp_must wp_or_exit, simp add: startup_calls_def, simp add: startup_calls_def)+
  then show ?thesis by (simp add: wp_def split: prod.splits outcome.splits)
qed

section \<open>What wakes a schema\<close>

text \<open>The kind of the last object that was read.\<close>

fun looked_kind :: "schema_call \<Rightarrow> res_kind option" where
  "looked_kind (Get kind key) = Some kind"
| "looked_kind (Fetch kind key) = Some kind"
| "looked_kind c = None"

fun last_looked :: "hist \<Rightarrow> res_kind option" where
  "last_looked [] = None"
| "last_looked (c # h) = (case last_looked h of None \<Rightarrow> looked_kind c | Some k \<Rightarrow> Some k)"

definition at_watched :: "hist \<Rightarrow> bool" where
  "at_watched h \<longleftrightarrow>
     (case last_looked h of None \<Rightarrow> False | Some k \<Rightarrow> k \<in> set (watched mongoDBDatabase_builder))"

lemma last_looked_append:
  "last_looked (h @ h') = (case last_looked h' of None \<Rightarrow> last_looked h | Some k \<Rightarrow> Some k)"
  by (induction h) (auto split: option.splits)

lemma at_watched_append [simp]:
  "at_watched (h @ h') \<longleftrightarrow>
     (case last_looked h' of None \<Rightarrow> at_watched h | Some k \<Rightarrow> k \<in> set (watched mongoDBDatabase_builder))"
  by (simp add: at_watched_def last_looked_append split: option.split)

lemma watched_kinds [simp]:
  "KSchema \<in> set (watched mongoDBDatabase_builder)" "KMongoDB \<in> set (watched mongoDBDatabase_builder)"
  "KVaultServer \<in> set (watched mongoDBDatabase_builder)"
  "KSecretEngine \<in> set (watched mongoDBDatabase_builder)"
  "KMongoDBRole \<in> set (watched mongoDBDatabase_builder)"
  "KSecretAccessRequest \<in> set (watched mongoDBDatabase_builder)"
  "KJob \<in> set (watched mongoDBDatabase_builder)"
  "KRestoreSession \<in> set (watched mongoDBDatabase_builder)"
  by (simp_all add: watched_def mongoDBDatabase_builder_def)

text \<open>A step that, when it ends without an error, has last looked at a watched kind.\<close>

definition waits :: "(gerr + 'a) schema_prog \<Rightarrow> bool" where
  "waits m \<longleftrightarrow> (\<forall>s. wp m (\<lambda>r t. r \<in> range Inr \<longrightarrow> at_watched (calls t)) (\<lambda>_ _. True) s)"






lemma waits_ret: "waits (ret (Inl e))"
  by (auto simp: waits_def wp_ret)
















end
