(* ===== verification/ClientBuilder.thy ===== *)
theory ClientBuilder
  imports Resources
begin

text \<open>
  The MongoDB client builder (\<open>dbclient/client_builder.go\<close>, \<open>client.go\<close>): the options set by
  the \<open>With\<close> functions, the URL of a pod, the connection string, and connecting. Secrets,
  the certificate store (\<open>certholder\<close>) and the MongoDB driver answer arbitrarily; every call to
  them is recorded.

  The URL built for a pod is shown to be the host name under which the pod is a member of
  its replica set.
\<close>

datatype client_call =
    CGetSecret nsname
  | CSaveCert secret
  | CGetPaths string
  | CConnect string bool
  | CPing
  | CDisconnect

type_synonym chist = "client_call list"

text \<open>\<open>cb_certs\<close>: whether a certificate store was given (\<open>WithCerts\<close>).\<close>

record client_builder =
  cb_db :: mongodb
  cb_url :: string
  cb_podName :: string
  cb_repSetName :: string
  cb_direct :: bool
  cb_certs :: bool

record client_env =
  ce_getSecret :: "chist \<Rightarrow> nsname \<Rightarrow> gerr + secret"
  ce_saveCert :: "chist \<Rightarrow> secret \<Rightarrow> gerr + unit"
  ce_getPaths :: "chist \<Rightarrow> string \<Rightarrow> gerr + string \<times> string"
  ce_connect :: "chist \<Rightarrow> string \<Rightarrow> bool \<Rightarrow> gerr + unit"
  ce_ping :: "chist \<Rightarrow> gerr + unit"
  ce_disconnect :: "chist \<Rightarrow> gerr + unit"

record client_state = "client_call trace" +
  builder :: client_builder

type_synonym 'a client_prog = "(client_state, 'a) prog"

section \<open>Options\<close>

definition NewKubeDBClientBuilder :: "mongodb \<Rightarrow> client_builder" where
  "NewKubeDBClientBuilder db =
     \<lparr>cb_db = db, cb_url = '''', cb_podName = '''', cb_repSetName = '''', cb_direct = False,
      cb_certs = False\<rparr>"

definition WithURL :: "string \<Rightarrow> client_builder \<Rightarrow> client_builder" where
  "WithURL url b = b\<lparr>cb_url := url\<rparr>"

definition WithPod :: "string \<Rightarrow> client_builder \<Rightarrow> client_builder" where
  "WithPod podName b = b\<lparr>cb_podName := podName, cb_direct := True\<rparr>"

definition WithReplSet :: "string \<Rightarrow> client_builder \<Rightarrow> client_builder" where
  "WithReplSet replSetName b = b\<lparr>cb_repSetName := replSetName\<rparr>"

definition WithDirect :: "client_builder \<Rightarrow> client_builder" where
  "WithDirect b = b\<lparr>cb_direct := True\<rparr>"

definition WithCerts :: "client_builder \<Rightarrow> client_builder" where
  "WithCerts b = b\<lparr>cb_certs := True\<rparr>"

section \<open>Connecting\<close>

text \<open>\<open>None\<close> is a panic: no dash in the pod name, or nothing before the last one.\<close>

definition getURL :: "client_builder \<Rightarrow> string option" where
  "getURL b =
     (case last_index_of (CHR ''-'') (cb_podName b) of
        None \<Rightarrow> None
      | Some i \<Rightarrow>
          (case GoverningServiceName (take i (cb_podName b)) of
             None \<Rightarrow> None
           | Some gov \<Rightarrow>
               Some (cb_podName b @ ''.'' @ gov @ ''.'' @ mg_namespace (cb_db b) @ ''.svc'')))"

definition getMongoDBRootCredentials :: "client_env \<Rightarrow> (gerr + string \<times> string) client_prog" where
  "getMongoDBRootCredentials E =
     bnd (gets builder) (\<lambda>b.
       case mg_authSecret (cb_db b) of
         None \<Rightarrow> ret (Inl (Err ''no database secret''))
       | Some name \<Rightarrow>
           let key = (mg_namespace (cb_db b), name)
           in bndE (perform (\<lambda>h. ce_getSecret E h key) (CGetSecret key)) (\<lambda>sec.
             ret (Inr
               (case sec_data sec ''username'' of None \<Rightarrow> '''' | Some u \<Rightarrow> u,
                case sec_data sec ''password'' of None \<Rightarrow> '''' | Some p \<Rightarrow> p))))"

definition repset_config :: "client_builder \<Rightarrow> string" where
  "repset_config b =
     (if cb_repSetName b \<noteq> '''' then ''replicaSet='' @ cb_repSetName b @ ''&'' else '''')"

definition plain_uri :: "client_builder \<Rightarrow> string \<Rightarrow> string \<Rightarrow> string" where
  "plain_uri b user pass =
     ''mongodb://'' @ user @ '':'' @ pass @ ''@'' @ cb_url b @ ''/admin?'' @ repset_config b"

definition tls_uri :: "client_builder \<Rightarrow> string \<Rightarrow> string \<Rightarrow> string \<Rightarrow> string \<Rightarrow> string" where
  "tls_uri b user pass ca pem =
     plain_uri b user pass @ ''tls=true&tlsCAFile='' @ ca @ ''&tlsCertificateKeyFile='' @ pem"

text \<open>The connection string and the direct flag.\<close>

definition getMongoDBClientOpts :: "client_env \<Rightarrow> (gerr + string \<times> bool) client_prog" where
  "getMongoDBClientOpts E =
     bnd (gets builder) (\<lambda>b.
     bndE (getMongoDBRootCredentials E) (\<lambda>(user, pass).
       if mg_tls (cb_db b) = None then ret (Inr (plain_uri b user pass, cb_direct b))
       else bnd (deref (GetCertSecretName (cb_db b) MongoDBClientCert '''')) (\<lambda>secretName.
         bndE (if \<not> cb_certs b
               then let key = (mg_namespace (cb_db b), secretName)
                 in bndE (perform (\<lambda>h. ce_getSecret E h key) (CGetSecret key)) (\<lambda>certSecret.
                    bndE (perform (\<lambda>h. ce_saveCert E h certSecret) (CSaveCert certSecret)) (\<lambda>_.
                      perform (\<lambda>h. ce_getPaths E h secretName) (CGetPaths secretName)))
               else perform (\<lambda>h. ce_getPaths E h secretName) (CGetPaths secretName))
           (\<lambda>(ca, pem). ret (Inr (tls_uri b user pass ca pem, cb_direct b))))))"

definition set_url :: "string \<Rightarrow> unit client_prog" where
  "set_url url = update (\<lambda>s. s\<lparr>builder := (builder s)\<lparr>cb_url := url\<rparr>\<rparr>)"

text \<open>Which hosts are contacted.\<close>

definition choose_url :: "unit client_prog" where
  "choose_url =
     bnd (gets builder) (\<lambda>b.
     bnd (if cb_podName b \<noteq> '''' then bnd (deref (getURL b)) set_url else ret ()) (\<lambda>_.
     bnd (gets builder) (\<lambda>b.
       if cb_podName b = '''' \<and> cb_url b = ''''
       then bnd (deref (if mg_shardTopology (cb_db b) \<noteq> None then MongosHosts (cb_db b)
                        else Hosts (cb_db b)))
              (\<lambda>hosts. set_url (str_join '','' hosts))
       else ret ())))"

definition GetMongoClient :: "client_env \<Rightarrow> (gerr + unit) client_prog" where
  "GetMongoClient E =
     bnd choose_url (\<lambda>_.
     bndE (getMongoDBClientOpts E) (\<lambda>(uri, direct).
     bndE (perform (\<lambda>h. ce_connect E h uri direct) (CConnect uri direct)) (\<lambda>_.
       perform (ce_ping E) CPing)))"

text \<open>\<open>Close\<close> logs the error of \<open>Disconnect\<close>.\<close>

definition Close :: "client_env \<Rightarrow> unit client_prog" where
  "Close E = bnd (perform (ce_disconnect E) CDisconnect) (\<lambda>_. ret ())"

section \<open>Lemmas\<close>

lemma getURL_pod:
  assumes "node \<noteq> ''''" and "0 \<le> i"
  shows "getURL (WithPod (node @ ''-'' @ itoa i) b) =
    Some (node @ ''-'' @ itoa i @ ''.'' @ node @ ''-pods.'' @ mg_namespace (cb_db b) @ ''.svc'')"
proof -
  have "last_index_of (CHR ''-'') (node @ CHR ''-'' # itoa i) = Some (length node)"
    using assms(2) by (intro last_index_of_append_single itoa_no_sep)
  with assms(1) show ?thesis
    by (simp add: getURL_def WithPod_def GoverningServiceName_def)
qed

lemma pod_hosts_nth:
  assumes "pod_hosts node ns suffix n = Some hs" and "0 \<le> i" and "i < n"
  shows "hs ! nat i = node @ ''-'' @ itoa i @ ''.'' @ node @ ''-pods.'' @ ns @ ''.svc'' @ suffix"
proof -
  have "nat i < length (int_range n)" using assms(2,3) by simp
  moreover have "int_range n ! nat i = i"
    using assms(2,3) by (simp add: int_range_def)
  ultimately show ?thesis
    using assms by (auto simp: pod_hosts_def GoverningServiceName_def split: if_splits)
qed

lemma wp_choose_url:
  assumes "\<And>url. Q () (s\<lparr>builder := (builder s)\<lparr>cb_url := url\<rparr>\<rparr>)"
    and "\<And>k t. calls t = calls s \<Longrightarrow> C k t"
  shows "wp choose_url Q C s"
proof -
  have same: "s = s\<lparr>builder := (builder s)\<lparr>cb_url := cb_url (builder s)\<rparr>\<rparr>" by simp
  have "Q () s" by (subst same) (rule assms(1))
  with assms show ?thesis
    by (auto simp: choose_url_def set_url_def wp_simps split: option.split)
qed

text \<open>The calls that prepare the connection.\<close>

fun prepares :: "client_call \<Rightarrow> bool" where
  "prepares (CConnect uri direct) = False"
| "prepares CPing = False"
| "prepares CDisconnect = False"
| "prepares c = True"

definition credentials :: "secret \<Rightarrow> string \<times> string" where
  "credentials sec =
     (case sec_data sec ''username'' of None \<Rightarrow> '''' | Some u \<Rightarrow> u,
      case sec_data sec ''password'' of None \<Rightarrow> '''' | Some p \<Rightarrow> p)"

lemma wp_credentials:
  assumes "calls s = []"
  shows "wp (getMongoDBRootCredentials E)
    (\<lambda>r t. builder t = builder s \<and> list_all prepares (calls t) \<and>
      (\<forall>up. r = Inr up \<longrightarrow> (\<exists>name sec. mg_authSecret (cb_db (builder s)) = Some name \<and>
        calls t = [CGetSecret (mg_namespace (cb_db (builder s)), name)] \<and>
        ce_getSecret E [] (mg_namespace (cb_db (builder s)), name) = Inr sec \<and>
        up = credentials sec)))
    (\<lambda>_ _. False) s"
  using assms
  by (auto simp: getMongoDBRootCredentials_def wp_simps Let_def credentials_def
      split: option.split sum.split)

definition database_uri :: "client_builder \<Rightarrow> string \<times> string \<Rightarrow> string \<Rightarrow> bool" where
  "database_uri b up uri \<longleftrightarrow>
     (if mg_tls (cb_db b) = None then uri = plain_uri b (fst up) (snd up)
      else \<exists>ca pem. uri = tls_uri b (fst up) (snd up) ca pem)"

lemma database_uri_plain: "mg_tls (cb_db b) = None \<Longrightarrow> database_uri b (u, p) (plain_uri b u p)"
  by (simp add: database_uri_def)

lemma database_uri_tls:
  "mg_tls (cb_db b) \<noteq> None \<Longrightarrow> database_uri b (u, p) (tls_uri b u p ca pem)"
  by (auto simp: database_uri_def)

lemma pair_credentials: "(u, p) = credentials sec \<longleftrightarrow> credentials sec = (u, p)"
  by (rule eq_commute)

lemma wp_clientOpts:
  assumes "calls s = []" and "builder s = b"
  shows "wp (getMongoDBClientOpts E)
    (\<lambda>r t. list_all prepares (calls t) \<and>
      (\<forall>uri direct. r = Inr (uri, direct) \<longrightarrow> direct = cb_direct b \<and>
        (\<exists>name sec. mg_authSecret (cb_db b) = Some name \<and>
          (\<exists>cs. calls t = CGetSecret (mg_namespace (cb_db b), name) # cs) \<and>
          ce_getSecret E [] (mg_namespace (cb_db b), name) = Inr sec \<and>
          database_uri b (credentials sec) uri)))
    (\<lambda>_ t. list_all prepares (calls t)) s"
  unfolding getMongoDBClientOpts_def wp_bnd wp_gets wp_bndE
  by (rule wp_conseq [OF wp_credentials [OF assms(1)]])
    (auto simp: wp_simps Let_def assms database_uri_plain database_uri_tls pair_credentials
      split: sum.split option.split)

end
