(* ===== verification/ClientProps.thy ===== *)
theory ClientProps
  imports ClientBuilder
begin

text \<open>The properties of the MongoDB client builder.\<close>

definition demo_client_env :: client_env where
  "demo_client_env =
     \<lparr>ce_getSecret = (\<lambda>h key. Inr \<lparr>sec_meta = meta_of (fst key) (snd key), sec_type = ''Opaque'',
        sec_data = [''username'' \<mapsto> ''root'', ''password'' \<mapsto> ''pw'']\<rparr>),
      ce_saveCert = (\<lambda>h sec. Inr ()),
      ce_getPaths = (\<lambda>h name. Inr (''/ca'', ''/pem'')),
      ce_connect = (\<lambda>h uri direct. Inr ()),
      ce_ping = (\<lambda>h. Inr ()),
      ce_disconnect = (\<lambda>h. Inr ())\<rparr>"

definition demo_builder :: client_builder where
  "demo_builder = WithURL ''host'' (NewKubeDBClientBuilder
     (empty_mongodb\<lparr>mg_meta := meta_of ''demo'' ''mg'', mg_authSecret := Some ''mg-auth''\<rparr>))"

lemma demo_connects:
  "GetMongoClient demo_client_env \<lparr>calls = [], builder = demo_builder\<rparr> =
     (Done (Inr ()), \<lparr>calls = [CGetSecret (''demo'', ''mg-auth''),
       CConnect ''mongodb://root:pw@host/admin?'' False, CPing], builder = demo_builder\<rparr>)"
  by (simp add: GetMongoClient_def choose_url_def getMongoDBClientOpts_def
      getMongoDBRootCredentials_def demo_builder_def demo_client_env_def WithURL_def
      NewKubeDBClientBuilder_def empty_mongodb_def meta_of_def plain_uri_def repset_config_def perform_def bnd_def
      bndE_def ret_def gets_def Let_def)



text \<open>Connecting panics while choosing the URL exactly when a pod name is given that has
  nothing before its last dash, or no dash at all.\<close>

theorem pod_url_panics_without_dash:
  "getURL b = None \<longleftrightarrow>
     (case last_index_of (CHR ''-'') (cb_podName b) of None \<Rightarrow> True | Some i \<Rightarrow> i = 0)"
  by (auto simp: getURL_def GoverningServiceName_def split: option.splits dest: last_index_of_bound)

text \<open>C36. Connecting contacts a server only with the credentials of the database's
  authentication secret, which it has just read, and asks for TLS exactly when the database
  has a TLS configuration.\<close>

theorem connects_with_database_credentials:
  assumes "GetMongoClient E \<lparr>calls = [], builder = b\<rparr> = (r, t)"
    and "CConnect uri direct \<in> set (calls t)"
  shows "direct = cb_direct b \<and>
    (\<exists>name sec url. mg_authSecret (cb_db b) = Some name \<and>
      hd (calls t) = CGetSecret (mg_namespace (cb_db b), name) \<and>
      ce_getSecret E [] (mg_namespace (cb_db b), name) = Inr sec \<and>
      database_uri (b\<lparr>cb_url := url\<rparr>) (credentials sec) uri)"
    (is "?P (calls t)")
proof -
  have prep: "list_all prepares cs \<Longrightarrow> CConnect uri direct \<notin> set cs" for cs
    by (auto simp: list_all_iff)
  let ?Q = "\<lambda>_ t. CConnect uri direct \<in> set (calls t) \<longrightarrow> ?P (calls t)"
  have opts: "wp (bndE (getMongoDBClientOpts E) (\<lambda>(uri, direct).
      bndE (perform (\<lambda>h. ce_connect E h uri direct) (CConnect uri direct)) (\<lambda>_.
        perform (ce_ping E) CPing))) ?Q ?Q \<lparr>calls = [], builder = b\<lparr>cb_url := url\<rparr>\<rparr>" for url
    unfolding wp_bndE
    by (rule wp_conseq [OF wp_clientOpts [OF _ refl]])
      (auto 0 3 simp: wp_simps dest: prep split: sum.split intro: exI [of _ url])
  have "wp (GetMongoClient E) ?Q ?Q \<lparr>calls = [], builder = b\<rparr>"
    unfolding GetMongoClient_def
    by (rule wp_bnd [THEN iffD2], rule wp_choose_url) (use opts in simp_all)
  with assms show ?thesis by (auto simp: wp_def split: prod.splits outcome.splits)
qed

theorem connects_with_database_credentials_witness:
  "\<exists>name sec url. mg_authSecret (cb_db demo_builder) = Some name \<and>
     ce_getSecret demo_client_env [] (''demo'', name) = Inr sec \<and>
     database_uri (demo_builder\<lparr>cb_url := url\<rparr>) (credentials sec) ''mongodb://root:pw@host/admin?''"
proof -
  have "mg_namespace (cb_db demo_builder) = ''demo''"
    by (simp add: demo_builder_def WithURL_def NewKubeDBClientBuilder_def meta_of_def)
  then show ?thesis
    using connects_with_database_credentials [OF demo_connects,
        of "''mongodb://root:pw@host/admin?''" False] by simp
qed

text \<open>When the server does not answer the ping, the client that was connected is not
  disconnected: connecting never calls \<open>Disconnect\<close>.\<close>

theorem failed_ping_leaks_connection:
  "list_all (\<lambda>c. c \<noteq> CDisconnect) (calls (snd (GetMongoClient E \<lparr>calls = [], builder = b\<rparr>)))"
proof -
  have "emits (\<lambda>c. c \<noteq> CDisconnect) (GetMongoClient E)"
    unfolding GetMongoClient_def choose_url_def set_url_def getMongoDBClientOpts_def
      getMongoDBRootCredentials_def Let_def
    by (intro emits_intros) auto
  moreover obtain r t where run: "GetMongoClient E \<lparr>calls = [], builder = b\<rparr> = (r, t)" by fastforce
  ultimately obtain cs where "calls t = [] @ cs" "\<forall>c \<in> set cs. c \<noteq> CDisconnect"
    using emitsD [of _ _ "\<lparr>calls = [], builder = b\<rparr>"] by fastforce
  with run show ?thesis by (auto simp: list_all_iff)
qed

end
