(* ===== verification/OpEnv.thy ===== *)
theory OpEnv
  imports Resources
begin

text \<open>
  What the KubeDB operator for MongoDB (\<open>mongodb-pkg-controller-related\<close>) runs in: the objects
  it manages, the calls it makes, the answers it gets, and its state (the record of calls and
  the \<open>MongoDB\<close> object its functions share by pointer). As for the schema manager the answers
  are arbitrary functions of the calls made so far.

  \<open>CreateOrPatch\<close> of \<open>kmodules.xyz/client-go\<close> is written once for all kinds of objects, with
  the functions of one kind as the record \<open>api\<close>. Its contract is the locale \<open>owned_kind\<close>: if
  the transform function installs the controller reference of the database and keeps the
  object's name, so does everything that is written.
\<close>

section \<open>Objects\<close>

record service_port =
  sp_name :: string
  sp_port :: int
  sp_nodePort :: int
  sp_protocol :: string
  sp_appProtocol :: "string option"
  sp_targetPort :: string

record service =
  svc_meta :: object_meta
  svc_selector :: "string \<rightharpoonup> string"
  svc_ports :: "service_port list"
  svc_clusterIP :: string
  svc_serviceType :: string
  svc_publishNotReadyAddresses :: bool
  svc_externalIPs :: "string list"
  svc_loadBalancerIP :: string
  svc_loadBalancerSourceRanges :: "string list"
  svc_externalTrafficPolicy :: string
  svc_healthCheckNodePort :: int

record policy_rule =
  pr_apiGroups :: "string list"
  pr_resources :: "string list"
  pr_verbs :: "string list"
  pr_resourceNames :: "string list"

record role =
  ro_meta :: object_meta
  ro_rules :: "policy_rule list"

record role_ref =
  rr_apiGroup :: string
  rr_kind :: string
  rr_name :: string

record role_binding =
  rb_meta :: object_meta
  rb_roleRef :: role_ref
  rb_subjects :: "rbac_subject list"

text \<open>The template of the pods of a StatefulSet, and the StatefulSet.\<close>

record pod_spec =
  pd_labels :: "string \<rightharpoonup> string"
  pd_annotations :: "string \<rightharpoonup> string"
  pd_initContainers :: "container list"
  pd_containers :: "container list"
  pd_volumes :: "volume list"
  pd_scheduling :: pod_scheduling
  pd_serviceAccountName :: string

record stateful_set =
  sts_meta :: object_meta
  sts_replicas :: "int option"
  sts_serviceName :: string
  sts_selector :: "string \<rightharpoonup> string"
  sts_template :: pod_spec
  sts_claims :: "volume_claim list"
  sts_updateStrategy :: string
  sts_readyReplicas :: int

text \<open>
  Values of BSON documents: the server's answers are looked into only for 32-bit integers,
  doubles (as their shortest decimal text, so that \<open>1.0\<close> is \<open>Double ''1''\<close>) and nested documents.
\<close>

datatype bson = Int32 "32 word" | Double string | Document "(string \<times> bson) list" | OtherBson raw

type_synonym document = "(string \<times> bson) list"

text \<open>The objects the operator writes, and the kinds it reads, lists or deletes.\<close>

datatype object =
    ServiceObj service
  | ServiceAccountObj service_account
  | RoleObj role
  | RoleBindingObj role_binding
  | AppBindingObj app_binding
  | SecretObj secret
  | StatefulSetObj stateful_set

datatype obj_kind =
    OService | OServiceAccount | ORole | ORoleBinding | OAppBinding | OSecret | OPod
  | OPodDisruptionBudget | OStatefulSet | ODeployment | OPersistentVolumeClaim

fun object_metadata :: "object \<Rightarrow> object_meta" where
  "object_metadata (ServiceObj x) = svc_meta x"
| "object_metadata (ServiceAccountObj x) = sa_meta x"
| "object_metadata (RoleObj x) = ro_meta x"
| "object_metadata (RoleBindingObj x) = rb_meta x"
| "object_metadata (AppBindingObj x) = ab_meta x"
| "object_metadata (SecretObj x) = sec_meta x"
| "object_metadata (StatefulSetObj x) = sts_meta x"

text \<open>The status of the \<open>MongoDB\<close> object, as \<open>UpdateMongoDBStatus\<close> passes it around.\<close>

record mongodb_status =
  ms_phase :: string
  ms_observedGeneration :: "64 word"
  ms_conditions :: "condition list"

type_synonym selector = "string \<rightharpoonup> string"

section \<open>Calls and answers\<close>

text \<open>
  \<open>OCreate ns x\<close> creates \<open>x\<close> in namespace \<open>ns\<close>; \<open>OPatch old new\<close> patches the fetched object
  \<open>old\<close> to \<open>new\<close>. \<open>UpdateMongoDBStatus\<close> and \<open>CreateOrPatchMongoDB\<close> are outside the repository:
  they fetch the object (\<open>OFetchStatus\<close>, \<open>OFetchDB\<close>), apply the code's function once, and
  write the result. The monitoring agents, the dynamic client and the MongoDB driver are
  outside too.
\<close>

datatype op_call =
    OGet obj_kind nsname
  | OCreate string object
  | OPatch object object
  | OList obj_kind string selector
  | ODelete obj_kind nsname
  | ODeleteCollection obj_kind string selector
  | OGetVersion string
  | OListDBs string
  | OPatchDB mongodb mongodb
  | OFetchDB nsname
  | OWriteDB mongodb
  | OFetchStatus nsname
  | OUpdateStatus nsname string mongodb_status mongodb_status
  | OEvent string string string
  | OGeneratePassword
  | OGenerateToken
  | OResourcesExist obj_kind string "string list"
  | ORemoveOwnerForItems obj_kind string "string list" string
  | ORemoveOwnerForSelector obj_kind string selector string
  | OEnsureOwnerForItems obj_kind string "string list" owner_ref
  | OEnsureOwnerForSelector obj_kind string selector owner_ref
  | OAgentUpdate string nsname
  | OAgentDelete string nsname
  | OConnect string string
  | OPing string
  | OClose string
  | OUsersInfo string string
  | OCreateUser string string
  | OGetReplConfig string
  | OReconfig string document
  | OValidate nsname
  | OCreatePDB nsname
  | OGetFromCache string

type_synonym ohist = "op_call list"

datatype verb = VerbUnchanged | VerbCreated | VerbPatched

fun verb_text :: "verb \<Rightarrow> string" where
  "verb_text VerbUnchanged = ''''"
| "verb_text VerbCreated = ''created''"
| "verb_text VerbPatched = ''patched''"

text \<open>
  The API of one kind of object. \<open>api_same old new\<close>: the JSON merge patch between the two is
  empty.
\<close>

record 'a api =
  api_get :: "ohist \<Rightarrow> nsname \<Rightarrow> gerr + 'a"
  api_create :: "ohist \<Rightarrow> 'a \<Rightarrow> gerr + 'a"
  api_patch :: "ohist \<Rightarrow> 'a \<Rightarrow> 'a \<Rightarrow> gerr + 'a"
  api_same :: "'a \<Rightarrow> 'a \<Rightarrow> bool"

text \<open>
  The certificate parser, the JSON codec of pod templates, \<open>envsubst\<close>, \<open>go-merge\<close>,
  \<open>structs.IsZero\<close>, the phase of a list of conditions and the validation of the admission
  webhook are functions of their arguments. \<open>o_usersInfo\<close> answers the length of the list of
  users, if the answer has one.

  \<open>o_polls\<close> is the number of times a polled condition is tried before the time is up;
  \<open>o_defaultHost\<close> is Stash's name of the only host.
\<close>

record op_env =
  o_services :: "service api"
  o_serviceAccounts :: "service_account api"
  o_roles :: "role api"
  o_roleBindings :: "role_binding api"
  o_appBindings :: "app_binding api"
  o_secrets :: "secret api"
  o_now :: "ohist \<Rightarrow> time"
  o_listNames :: "ohist \<Rightarrow> obj_kind \<Rightarrow> string \<Rightarrow> selector \<Rightarrow> gerr + string list"
  o_delete :: "ohist \<Rightarrow> obj_kind \<Rightarrow> nsname \<Rightarrow> gerr + unit"
  o_deleteCollection :: "ohist \<Rightarrow> obj_kind \<Rightarrow> string \<Rightarrow> selector \<Rightarrow> gerr + unit"
  o_getVersion :: "ohist \<Rightarrow> string \<Rightarrow> gerr + mongodb_version"
  o_listDBs :: "ohist \<Rightarrow> string \<Rightarrow> gerr + mongodb list"
  o_patchDB :: "ohist \<Rightarrow> mongodb \<Rightarrow> mongodb \<Rightarrow> gerr + mongodb"
  o_fetchDB :: "ohist \<Rightarrow> nsname \<Rightarrow> gerr + mongodb"
  o_writeDB :: "ohist \<Rightarrow> mongodb \<Rightarrow> gerr + mongodb"
  o_fetchStatus :: "ohist \<Rightarrow> nsname \<Rightarrow> gerr + mongodb_status"
  o_updateStatus :: "ohist \<Rightarrow> nsname \<Rightarrow> string \<Rightarrow> mongodb_status \<Rightarrow> gerr + unit"
  o_password :: "ohist \<Rightarrow> string"
  o_token :: "ohist \<Rightarrow> string"
  o_resourcesExist :: "ohist \<Rightarrow> obj_kind \<Rightarrow> string \<Rightarrow> string list \<Rightarrow> gerr + bool"
  o_removeOwnerForItems :: "ohist \<Rightarrow> obj_kind \<Rightarrow> string \<Rightarrow> string list \<Rightarrow> string \<Rightarrow> gerr + unit"
  o_removeOwnerForSelector :: "ohist \<Rightarrow> obj_kind \<Rightarrow> string \<Rightarrow> selector \<Rightarrow> string \<Rightarrow> gerr + unit"
  o_ensureOwnerForItems :: "ohist \<Rightarrow> obj_kind \<Rightarrow> string \<Rightarrow> string list \<Rightarrow> owner_ref \<Rightarrow> gerr + unit"
  o_ensureOwnerForSelector :: "ohist \<Rightarrow> obj_kind \<Rightarrow> string \<Rightarrow> selector \<Rightarrow> owner_ref \<Rightarrow> gerr + unit"
  o_newAgent :: "string \<Rightarrow> gerr + string"
  o_agentUpdate :: "ohist \<Rightarrow> string \<Rightarrow> nsname \<Rightarrow> gerr + unit"
  o_agentDelete :: "ohist \<Rightarrow> string \<Rightarrow> nsname \<Rightarrow> gerr + unit"
  o_connect :: "ohist \<Rightarrow> string \<Rightarrow> string \<Rightarrow> gerr + unit"
  o_ping :: "ohist \<Rightarrow> string \<Rightarrow> gerr + unit"
  o_usersInfo :: "ohist \<Rightarrow> string \<Rightarrow> string \<Rightarrow> gerr + nat option"
  o_createUser :: "ohist \<Rightarrow> string \<Rightarrow> string \<Rightarrow> gerr + unit"
  o_getReplConfig :: "ohist \<Rightarrow> string \<Rightarrow> gerr + document"
  o_reconfig :: "ohist \<Rightarrow> string \<Rightarrow> document \<Rightarrow> gerr + document"
  o_parseCertificate :: "string \<Rightarrow> gerr + string"
  o_pemDecode :: "string \<Rightarrow> string option"
  o_unmarshalObject :: "string \<Rightarrow> gerr + document"
  o_mergeDocuments :: "document \<Rightarrow> document \<Rightarrow> document"
  o_statefulSets :: "stateful_set api"
  o_createPDB :: "ohist \<Rightarrow> stateful_set \<Rightarrow> gerr + unit"
  o_validate :: "ohist \<Rightarrow> mongodb \<Rightarrow> gerr + unit"
  o_fromCache :: "ohist \<Rightarrow> string \<Rightarrow> gerr + mongodb option"
  o_phase :: "condition list \<Rightarrow> string"
  o_IPv6 :: "ohist \<Rightarrow> gerr + bool"
  o_isZero :: "raw \<Rightarrow> bool"
  o_marshalTemplate :: "pod_template \<Rightarrow> gerr + string"
  o_evalMap :: "string \<Rightarrow> (string \<rightharpoonup> string) \<Rightarrow> gerr + string"
  o_unmarshalTemplate :: "string \<Rightarrow> pod_template \<Rightarrow> gerr + pod_template"
  o_loggerFlags :: "string list"
  o_parse :: "string \<Rightarrow> gerr + semver"
  o_polls :: nat
  o_defaultHost :: string

record op_state = "op_call trace" +
  odb :: mongodb

type_synonym 'a op_prog = "(op_state, 'a) prog"

definition op_start :: "mongodb \<Rightarrow> op_state" where
  "op_start db = \<lparr>calls = [], odb = db\<rparr>"

lemma op_start_simps [simp]: "calls (op_start db) = []" "odb (op_start db) = db"
  by (simp_all add: op_start_def)

text \<open>\<open>metav1.NewControllerRef(db, ...)\<close>.\<close>

definition db_owner :: "mongodb \<Rightarrow> owner_ref" where
  "db_owner db = NewControllerRef (mg_meta db) (GroupName @ ''/v1alpha2'') ResourceKindMongoDB"

lemma db_owner_uid [simp]: "or_uid (db_owner db) = mg_uid db"
  by (simp add: db_owner_def NewControllerRef_def)

text \<open>\<open>Recorder.Event\<close>: the type, the reason and the message of the event.\<close>

definition event :: "string \<Rightarrow> string \<Rightarrow> string \<Rightarrow> unit op_prog" where
  "event kind reason message = perform (\<lambda>h. ()) (OEvent kind reason message)"

section \<open>Create or patch\<close>

definition createOrPatch ::
  "'a api \<Rightarrow> ('a \<Rightarrow> object) \<Rightarrow> obj_kind \<Rightarrow> nsname \<Rightarrow> 'a \<Rightarrow> ('a \<Rightarrow> 'a) \<Rightarrow> (gerr + 'a \<times> verb) op_prog" where
  "createOrPatch A wrap k key new f =
     bnd (perform (\<lambda>h. api_get A h key) (OGet k key)) (\<lambda>r.
       case r of
         Inl e \<Rightarrow>
           if is_not_found e
           then bndE (perform (\<lambda>h. api_create A h (f new)) (OCreate (fst key) (wrap (f new))))
             (\<lambda>x. ret (Inr (x, VerbCreated)))
           else ret (Inl e)
       | Inr cur \<Rightarrow>
           if api_same A cur (f cur) then ret (Inr (cur, VerbUnchanged))
           else bndE (perform (\<lambda>h. api_patch A h cur (f cur)) (OPatch (wrap cur) (wrap (f cur))))
             (\<lambda>x. ret (Inr (x, VerbPatched))))"

text \<open>The same with a transform function that may panic (\<open>None\<close>).\<close>

definition createOrPatchPartial ::
  "'a api \<Rightarrow> ('a \<Rightarrow> object) \<Rightarrow> obj_kind \<Rightarrow> nsname \<Rightarrow> 'a \<Rightarrow> ('a \<Rightarrow> 'a option) \<Rightarrow>
   (gerr + 'a \<times> verb) op_prog" where
  "createOrPatchPartial A wrap k key new f =
     bnd (perform (\<lambda>h. api_get A h key) (OGet k key)) (\<lambda>r.
       case r of
         Inl e \<Rightarrow>
           if is_not_found e
           then bnd (deref (f new)) (\<lambda>x.
             bndE (perform (\<lambda>h. api_create A h x) (OCreate (fst key) (wrap x)))
               (\<lambda>y. ret (Inr (y, VerbCreated))))
           else ret (Inl e)
       | Inr cur \<Rightarrow>
           bnd (deref (f cur)) (\<lambda>x.
             if api_same A cur x then ret (Inr (cur, VerbUnchanged))
             else bndE (perform (\<lambda>h. api_patch A h cur x) (OPatch (wrap cur) (wrap x)))
               (\<lambda>y. ret (Inr (y, VerbPatched)))))"

lemma createOrPatch_partial:
  "createOrPatch A wrap k key new f = createOrPatchPartial A wrap k key new (\<lambda>x. Some (f x))"
  by (simp add: createOrPatch_def createOrPatchPartial_def fun_eq_iff bnd_def perform_def deref_def
      ret_def split: sum.split)

text \<open>A call that writes only objects controlled by \<open>owner\<close>, under \<open>key\<close> when it creates.\<close>

definition controlled :: "owner_ref \<Rightarrow> object \<Rightarrow> bool" where
  "controlled owner x \<longleftrightarrow>
     find_by or_uid (or_uid owner) (om_ownerReferences (object_metadata x)) = Some owner"

fun writes_controlled :: "owner_ref \<Rightarrow> op_call \<Rightarrow> bool" where
  "writes_controlled owner (OCreate ns x) = controlled owner x"
| "writes_controlled owner (OPatch x y) =
     (controlled owner y \<and> key_of (object_metadata y) = key_of (object_metadata x))"
| "writes_controlled owner c = True"

locale owned_partial =
  fixes wrap :: "'a \<Rightarrow> object"
    and f :: "'a \<Rightarrow> 'a option"
    and owner :: owner_ref
  assumes partial_key: "f x = Some y \<Longrightarrow> key_of (object_metadata (wrap y)) = key_of (object_metadata (wrap x))"
    and partial_owner: "f x = Some y \<Longrightarrow> controlled owner (wrap y)"
begin

lemma writes_partial: "emits (writes_controlled owner) (createOrPatchPartial A wrap k key new f)"
  unfolding createOrPatchPartial_def
  by (intro emits_intros emits_deref_then) (simp_all add: partial_key partial_owner)

lemma create_key_partial:
  assumes "key_of (object_metadata (wrap new)) = key"
  shows "emits (\<lambda>c. \<forall>ns x. c = OCreate ns x \<longrightarrow> key_of (object_metadata x) = key \<and> ns = fst key)
    (createOrPatchPartial A wrap k key new f)"
  unfolding createOrPatchPartial_def
  by (intro emits_intros emits_deref_then) (simp_all add: partial_key assms)

end

locale owned_kind =
  fixes wrap :: "'a \<Rightarrow> object"
    and f :: "'a \<Rightarrow> 'a"
    and owner :: owner_ref
  assumes keeps_key: "key_of (object_metadata (wrap (f x))) = key_of (object_metadata (wrap x))"
    and installs_owner: "controlled owner (wrap (f x))"

sublocale owned_kind \<subseteq> owned_partial wrap "\<lambda>x. Some (f x)" owner
  by unfold_locales (auto simp: keeps_key installs_owner)

context owned_kind
begin

lemma writes: "emits (writes_controlled owner) (createOrPatch A wrap k key new f)"
  unfolding createOrPatch_partial by (rule writes_partial)

lemma create_key:
  assumes "key_of (object_metadata (wrap new)) = key"
  shows "emits (\<lambda>c. \<forall>ns x. c = OCreate ns x \<longrightarrow> key_of (object_metadata x) = key \<and> ns = fst key)
    (createOrPatch A wrap k key new f)"
  unfolding createOrPatch_partial using assms by (rule create_key_partial)

end

lemma EnsureOwnerReference_find:
  "find_by or_uid (or_uid ref) (om_ownerReferences (EnsureOwnerReference m ref)) = Some ref"
  using owner_refs.find_same [of ref "om_ownerReferences m"]
  by (simp add: EnsureOwnerReference_def split: option.splits)

lemma db_owner_find:
  "find_by or_uid (mg_uid db) (om_ownerReferences (EnsureOwnerReference m (db_owner db))) =
     Some (db_owner db)"
  using EnsureOwnerReference_find [of "db_owner db" m] by simp

section \<open>The status of the database\<close>

text \<open>
  \<open>util.UpdateMongoDBStatus\<close>: the function passed to it gives the UID the object must have and
  the new status.
\<close>

definition updateStatus :: "op_env \<Rightarrow> mongodb \<Rightarrow> (mongodb_status \<Rightarrow> mongodb_status) \<Rightarrow> (gerr + unit) op_prog" where
  "updateStatus E db f =
     (let key = key_of (mg_meta db)
      in bndE (perform (\<lambda>h. o_fetchStatus E h key) (OFetchStatus key)) (\<lambda>st.
           perform (\<lambda>h. o_updateStatus E h key (mg_uid db) (f st))
             (OUpdateStatus key (mg_uid db) st (f st))))"

definition set_db_condition :: "time \<Rightarrow> condition \<Rightarrow> mongodb_status \<Rightarrow> mongodb_status" where
  "set_db_condition now c st = st\<lparr>ms_conditions := SetCondition now (ms_conditions st) c\<rparr>"

text \<open>A condition as the operator writes it; its time is filled in by \<open>SetCondition\<close>.\<close>

definition db_condition :: "string \<Rightarrow> string \<Rightarrow> string \<Rightarrow> 64 word \<Rightarrow> string \<Rightarrow> condition" where
  "db_condition ctype status reason gen message =
     \<lparr>cond_type = ctype, cond_status = status, cond_gen = gen, cond_time = 0,
      cond_reason = reason, cond_message = message\<rparr>"

definition db_name :: "mongodb \<Rightarrow> string" where
  "db_name db = mg_namespace db @ ''/'' @ mg_name db"

section \<open>Answers in the past\<close>

text \<open>
  \<open>replied p c h\<close>: in \<open>h\<close> the call \<open>c\<close> was made after calls that satisfy \<open>p\<close>, where \<open>p\<close>
  says what the answer to \<open>c\<close> was; \<open>answered\<close>: it was answered without an error.
\<close>

definition replied :: "(ohist \<Rightarrow> bool) \<Rightarrow> op_call \<Rightarrow> ohist \<Rightarrow> bool" where
  "replied p c h \<longleftrightarrow> (\<exists>h1 h2. h = h1 @ c # h2 \<and> p h1)"

definition answered :: "(ohist \<Rightarrow> gerr + 'a) \<Rightarrow> op_call \<Rightarrow> ohist \<Rightarrow> bool" where
  "answered ans c h \<longleftrightarrow> replied (\<lambda>h1. \<exists>a. ans h1 = Inr a) c h"

lemma replied_mono: "replied p c h \<Longrightarrow> replied p c (h @ cs)"
  unfolding replied_def by fastforce

lemma replied_now: "p h \<Longrightarrow> replied p c (h @ [c])"
  unfolding replied_def by blast

lemma answered_mono: "answered ans c h \<Longrightarrow> answered ans c (h @ cs)"
  unfolding answered_def by (rule replied_mono)

lemma answered_snoc: "answered ans c h \<Longrightarrow> answered ans c (h @ [d])"
  by (rule answered_mono)

lemma answered_now: "ans h = Inr a \<Longrightarrow> answered ans c (h @ [c])"
  unfolding answered_def by (rule replied_now) blast

section \<open>Guards of status updates\<close>

text \<open>\<open>update_guard p\<close>: the status is written only when the calls before satisfy \<open>p\<close>.\<close>

definition update_guard :: "(ohist \<Rightarrow> bool) \<Rightarrow> ohist \<Rightarrow> op_call \<Rightarrow> bool" where
  "update_guard p h c \<longleftrightarrow> (\<forall>key uid st st'. c = OUpdateStatus key uid st st' \<longrightarrow> p h)"

fun is_update :: "op_call \<Rightarrow> bool" where
  "is_update (OUpdateStatus key uid st st') = True"
| "is_update c = False"

lemma update_guard_other: "\<not> is_update c \<Longrightarrow> update_guard p h c"
  by (auto simp: update_guard_def)

section \<open>Polling\<close>

text \<open>\<open>wait.PollImmediate\<close>: the condition is tried at most \<open>n + 1\<close> times.\<close>

primrec PollImmediate :: "nat \<Rightarrow> (gerr + bool) op_prog \<Rightarrow> (gerr + unit) op_prog" where
  "PollImmediate 0 c =
     bndE c (\<lambda>done. if done then ret (Inr ())
                    else ret (Inl (Err ''timed out waiting for the condition'')))"
| "PollImmediate (Suc n) c =
     bndE c (\<lambda>done. if done then ret (Inr ()) else PollImmediate n c)"

lemma emits_PollImmediate [emits_intros]: "emits P c \<Longrightarrow> emits P (PollImmediate n c)"
  by (induction n) (auto intro!: emits_intros)

lemma keeps_PollImmediate [keeps_intros]: "keeps I c \<Longrightarrow> keeps I (PollImmediate n c)"
  by (induction n) (auto intro!: keeps_intros)

text \<open>Polling returns without an error only after the condition has held.\<close>

lemma wp_PollImmediate:
  assumes "\<And>s. I s \<Longrightarrow> wp c (\<lambda>r t. I t \<and> (r = Inr True \<longrightarrow> Q t)) (\<lambda>_. I) s" and "I s"
  shows "wp (PollImmediate n c) (\<lambda>r t. I t \<and> (r = Inr () \<longrightarrow> Q t)) (\<lambda>_. I) s"
  using assms(2)
proof (induction n arbitrary: s)
  case 0
  show ?case
    unfolding PollImmediate.simps wp_bndE
    by (rule wp_conseq [OF assms(1) [OF 0]]) (auto simp: wp_simps split: sum.split)
next
  case (Suc n)
  show ?case
    unfolding PollImmediate.simps wp_bndE
    by (rule wp_conseq [OF assms(1) [OF Suc.prems]])
      (auto simp: wp_simps Suc.IH split: sum.split)
qed

end
