(* ===== verification/OpServices.thy ===== *)
theory OpServices
  imports OpEnv
begin

text \<open>
  The services of a database (\<open>service.go\<close>): the primary service, the stats service of the
  monitoring agent and the governing services of the StatefulSets, with the library's
  functions on port lists (vendored \<open>core/v1/service.go\<close> and \<open>offshoot-api/api/v1\<close>).

  Every one of them is an \<open>owned_kind\<close>; the ports a service ends with are those the operator
  asks for, with what the API server assigned before and what the user's template overrides.
\<close>

section \<open>Ports\<close>

text \<open>Of several ports with one name the last one counts.\<close>

definition last_by :: "('a \<Rightarrow> 'k) \<Rightarrow> 'k \<Rightarrow> 'a list \<Rightarrow> 'a option" where
  "last_by key k xs = find_by key k (rev xs)"

definition merge_port :: "service_port list \<Rightarrow> service_port \<Rightarrow> service_port" where
  "merge_port cur dp =
     (case last_by sp_name (sp_name dp) cur of
        None \<Rightarrow> dp
      | Some cp \<Rightarrow>
          dp\<lparr>sp_port := (if sp_port dp = 0 then sp_port cp else sp_port dp),
            sp_nodePort := (if sp_nodePort dp = 0 then sp_nodePort cp else sp_nodePort dp),
            sp_protocol := (if sp_protocol dp = '''' then sp_protocol cp else sp_protocol dp),
            sp_appProtocol :=
              (if sp_appProtocol dp = None then sp_appProtocol cp else sp_appProtocol dp)\<rparr>)"

definition MergeServicePorts :: "service_port list \<Rightarrow> service_port list \<Rightarrow> service_port list" where
  "MergeServicePorts cur desired = (if cur = [] then desired else map (merge_port cur) desired)"

definition patch_port :: "template_port list \<Rightarrow> service_port \<Rightarrow> service_port" where
  "patch_port desired cp =
     (case last_by tp_name (sp_name cp) [p \<leftarrow> desired. tp_name p \<noteq> ''''] of
        None \<Rightarrow> cp
      | Some dp \<Rightarrow>
          cp\<lparr>sp_port := (if tp_port dp > 0 then tp_port dp else sp_port cp),
            sp_nodePort := (if tp_nodePort dp > 0 then tp_nodePort dp else sp_nodePort cp)\<rparr>)"

definition PatchServicePorts :: "service_port list \<Rightarrow> template_port list \<Rightarrow> service_port list" where
  "PatchServicePorts cur desired = (if desired = [] then cur else map (patch_port desired) cur)"

lemma last_by_Nil [simp]: "last_by key k [] = None"
  by (simp add: last_by_def)

lemma PatchServicePorts_map: "PatchServicePorts cur desired = map (patch_port desired) cur"
  by (simp add: PatchServicePorts_def patch_port_def [abs_def])

lemma MergeServicePorts_map: "MergeServicePorts cur desired = map (merge_port cur) desired"
  by (simp add: MergeServicePorts_def merge_port_def [abs_def])

lemma merge_port_name [simp]: "sp_name (merge_port cur dp) = sp_name dp"
  and merge_port_target [simp]: "sp_targetPort (merge_port cur dp) = sp_targetPort dp"
  by (simp_all add: merge_port_def split: option.split)

lemma merge_port_port: "sp_port dp \<noteq> 0 \<Longrightarrow> sp_port (merge_port cur dp) = sp_port dp"
  by (simp add: merge_port_def split: option.split)

lemma patch_port_name [simp]: "sp_name (patch_port desired cp) = sp_name cp"
  and patch_port_target [simp]: "sp_targetPort (patch_port desired cp) = sp_targetPort cp"
  by (simp_all add: patch_port_def split: option.split)

section \<open>The services\<close>

definition MongoDBPrimaryServicePortName :: string where
  "MongoDBPrimaryServicePortName = ''primary''"
definition MongoDBDatabasePortName :: string where "MongoDBDatabasePortName = ''db''"
definition database_port :: int where "database_port = 27017"
definition PrimaryServiceAlias :: string where "PrimaryServiceAlias = ''primary''"
definition StatsServiceAlias :: string where "StatsServiceAlias = ''stats''"
definition LabelRole :: string where "LabelRole = ''kubedb.com/role''"
definition DatabasePodPrimary :: string where "DatabasePodPrimary = ''primary''"
definition RoleStats :: string where "RoleStats = ''stats''"
definition VendorPrometheus :: string where "VendorPrometheus = ''prometheus.io''"
definition PrometheusExporterPortName :: string where "PrometheusExporterPortName = ''metrics''"

definition EventTypeNormal :: string where "EventTypeNormal = ''Normal''"
definition EventTypeWarning :: string where "EventTypeWarning = ''Warning''"

text \<open>The reasons of events are constants of another repository; they stand for themselves.\<close>

definition EventReasonSuccessful :: string where
  "EventReasonSuccessful = ''EventReasonSuccessful''"

definition new_service :: "nsname \<Rightarrow> service" where
  "new_service key =
     \<lparr>svc_meta = meta_of (fst key) (snd key), svc_selector = Map.empty, svc_ports = [],
      svc_clusterIP = '''', svc_serviceType = '''', svc_publishNotReadyAddresses = False,
      svc_externalIPs = [], svc_loadBalancerIP = '''', svc_loadBalancerSourceRanges = [],
      svc_externalTrafficPolicy = '''', svc_healthCheckNodePort = 0\<rparr>"

definition service_port_of :: "string \<Rightarrow> int \<Rightarrow> string \<Rightarrow> service_port" where
  "service_port_of name port target =
     \<lparr>sp_name = name, sp_port = port, sp_nodePort = 0, sp_protocol = '''', sp_appProtocol = None,
      sp_targetPort = target\<rparr>"

text \<open>The settings that the user's template overrides, the same in both services with one.\<close>

definition template_settings :: "service_template \<Rightarrow> service \<Rightarrow> service" where
  "template_settings tmpl svc =
     svc\<lparr>svc_clusterIP := (if stt_clusterIP tmpl \<noteq> '''' then stt_clusterIP tmpl else svc_clusterIP svc),
       svc_serviceType :=
         (if stt_serviceType tmpl \<noteq> '''' then stt_serviceType tmpl else svc_serviceType svc),
       svc_externalIPs := stt_externalIPs tmpl,
       svc_loadBalancerIP := stt_loadBalancerIP tmpl,
       svc_loadBalancerSourceRanges := stt_loadBalancerSourceRanges tmpl,
       svc_externalTrafficPolicy := stt_externalTrafficPolicy tmpl,
       svc_healthCheckNodePort :=
         (if stt_healthCheckNodePort tmpl > 0 then stt_healthCheckNodePort tmpl
          else svc_healthCheckNodePort svc)\<rparr>"

definition primary_selector :: "mongodb \<Rightarrow> (string \<rightharpoonup> string)" where
  "primary_selector db =
     (let selector = (if mg_shardTopology db \<noteq> None then MongosSelectors db else OffshootSelectors db)
      in if mg_replicaSet db \<noteq> None then selector(LabelRole \<mapsto> DatabasePodPrimary) else selector)"

definition primary_service_transform :: "mongodb \<Rightarrow> service \<Rightarrow> service" where
  "primary_service_transform db svc =
     (let tmpl = GetServiceTemplate (mg_serviceTemplates db) PrimaryServiceAlias
      in template_settings tmpl
        (svc\<lparr>svc_meta := (EnsureOwnerReference (svc_meta svc) (db_owner db))
              \<lparr>om_labels := OffshootLabels db, om_annotations := stt_annotations tmpl\<rparr>,
            svc_selector := primary_selector db,
            svc_ports := PatchServicePorts
              (MergeServicePorts (svc_ports svc)
                [service_port_of MongoDBPrimaryServicePortName database_port MongoDBDatabasePortName])
              (stt_ports tmpl)\<rparr>))"

definition ensurePrimaryService :: "op_env \<Rightarrow> (gerr + verb) op_prog" where
  "ensurePrimaryService E =
     bnd (gets odb) (\<lambda>db.
       let key = (mg_namespace db, OffshootName db)
       in bndE (createOrPatch (o_services E) ServiceObj OService key (new_service key)
                 (primary_service_transform db))
            (\<lambda>(svc, vt). ret (Inr vt)))"

definition ensureService :: "op_env \<Rightarrow> (gerr + verb) op_prog" where
  "ensureService E =
     bndE (ensurePrimaryService E) (\<lambda>vt.
     bnd (if vt \<noteq> VerbUnchanged
          then event EventTypeNormal EventReasonSuccessful
            (''Successfully '' @ verb_text vt @ '' Primary Service'')
          else ret ()) (\<lambda>_. ret (Inr vt)))"

text \<open>\<open>AgentType.Vendor\<close>: what precedes the first slash.\<close>

definition Vendor :: "string \<Rightarrow> string" where
  "Vendor agent = (case index_of (CHR ''/'') agent of None \<Rightarrow> agent | Some i \<Rightarrow> take i agent)"

definition stats_name :: "mongodb \<Rightarrow> string" where
  "stats_name db = OffshootName db @ ''-stats''"

definition StatsServiceLabels :: "mongodb \<Rightarrow> (string \<rightharpoonup> string)" where
  "StatsServiceLabels db =
     (FilterKeys GroupName (OffshootSelectors db) (om_labels (mg_meta db)))(LabelRole \<mapsto> RoleStats)"

definition stats_service_transform :: "mongodb \<Rightarrow> exporter_spec \<Rightarrow> service \<Rightarrow> service" where
  "stats_service_transform db exporter svc =
     (let tmpl = GetServiceTemplate (mg_serviceTemplates db) StatsServiceAlias
      in template_settings tmpl
        (svc\<lparr>svc_meta := (EnsureOwnerReference (svc_meta svc) (db_owner db))
              \<lparr>om_labels := StatsServiceLabels db,
               om_annotations := OverwriteKeys (om_annotations (svc_meta svc)) (stt_annotations tmpl)\<rparr>,
            svc_selector := OffshootSelectors db,
            svc_ports := PatchServicePorts
              (MergeServicePorts (svc_ports svc)
                [service_port_of PrometheusExporterPortName (ex_port exporter)
                   PrometheusExporterPortName])
              (stt_ports tmpl)\<rparr>))"

text \<open>The exporter is read only after the service has been fetched: a nil one panics there.\<close>

definition ensureStatsService :: "op_env \<Rightarrow> (gerr + verb) op_prog" where
  "ensureStatsService E =
     bnd (gets odb) (\<lambda>db.
       case mg_monitor db of
         None \<Rightarrow> ret (Inr VerbUnchanged)
       | Some monitor \<Rightarrow>
           if Vendor (ag_agent monitor) \<noteq> VendorPrometheus then ret (Inr VerbUnchanged)
           else
             let key = (mg_namespace db, stats_name db)
             in case ag_prometheus monitor of
                  None \<Rightarrow>
                    bnd (perform (\<lambda>h. api_get (o_services E) h key) (OGet OService key)) (\<lambda>r.
                      case r of
                        Inl e \<Rightarrow> if is_not_found e then panic ''nil pointer dereference''
                                  else ret (Inl e)
                      | Inr cur \<Rightarrow> panic ''nil pointer dereference'')
                | Some exporter \<Rightarrow>
                    bndE (createOrPatch (o_services E) ServiceObj OService key (new_service key)
                           (stats_service_transform db exporter)) (\<lambda>(svc, vt).
                    bnd (if vt \<noteq> VerbUnchanged
                         then event EventTypeNormal EventReasonSuccessful
                           (''Successfully '' @ verb_text vt @ '' stats service'')
                         else ret ()) (\<lambda>_. ret (Inr vt))))"

definition governing_service_transform ::
  "mongodb \<Rightarrow> (string \<rightharpoonup> string) \<Rightarrow> (string \<rightharpoonup> string) \<Rightarrow> service \<Rightarrow> service" where
  "governing_service_transform db labels selectors svc =
     svc\<lparr>svc_meta := (EnsureOwnerReference (svc_meta svc) (db_owner db))\<lparr>om_labels := labels\<rparr>,
       svc_serviceType := ''ClusterIP'',
       svc_clusterIP := ''None'',
       svc_selector := selectors,
       svc_publishNotReadyAddresses := True,
       svc_ports := MergeServicePorts (svc_ports svc)
         [service_port_of MongoDBDatabasePortName database_port MongoDBDatabasePortName]\<rparr>"

text \<open>\<open>svcFunc\<close>; a node without a name panics before any call.\<close>

definition governing_service ::
  "op_env \<Rightarrow> string \<Rightarrow> (string \<rightharpoonup> string) \<Rightarrow> (string \<rightharpoonup> string) \<Rightarrow> (gerr + unit) op_prog" where
  "governing_service E node labels selectors =
     bnd (gets odb) (\<lambda>db.
     bnd (deref (GoverningServiceName node)) (\<lambda>svcName.
       let key = (mg_namespace db, svcName)
       in bndE (createOrPatch (o_services E) ServiceObj OService key (new_service key)
                 (governing_service_transform db labels selectors)) (\<lambda>(svc, vt).
          bnd (if vt \<noteq> VerbUnchanged
               then event EventTypeNormal EventReasonSuccessful
                 (''Successfully '' @ verb_text vt @ '' governing service'')
               else ret ()) (\<lambda>_. ret (Inr ())))))"

definition EnsureGoverningService :: "op_env \<Rightarrow> (gerr + unit) op_prog" where
  "EnsureGoverningService E =
     bnd (gets odb) (\<lambda>db.
       case mg_shardTopology db of
         Some topology \<Rightarrow>
           bndE (for_each (int_range (st_shards topology)) (\<lambda>i.
                   governing_service E (ShardNodeName db i) (ShardLabels db i) (ShardSelectors db i)))
             (\<lambda>_.
           bndE (governing_service E (ConfigSvrNodeName db) (ConfigSvrLabels db)
                   (ConfigSvrSelectors db)) (\<lambda>_.
             governing_service E (MongosNodeName db) (MongosLabels db) (MongosSelectors db)))
       | None \<Rightarrow>
           governing_service E (OffshootName db) (OffshootLabels db) (OffshootSelectors db))"

section \<open>The contract\<close>

lemma template_settings_meta [simp]: "svc_meta (template_settings tmpl svc) = svc_meta svc"
  and template_settings_ports [simp]: "svc_ports (template_settings tmpl svc) = svc_ports svc"
  and template_settings_selector [simp]:
    "svc_selector (template_settings tmpl svc) = svc_selector svc"
  by (simp_all add: template_settings_def)

interpretation primary_service: owned_kind ServiceObj "primary_service_transform db" "db_owner db"
  for db
  by unfold_locales
    (simp_all add: primary_service_transform_def Let_def controlled_def db_owner_find key_of_def)

interpretation stats_service: owned_kind ServiceObj "stats_service_transform db exporter"
    "db_owner db" for db exporter
  by unfold_locales
    (simp_all add: stats_service_transform_def Let_def controlled_def db_owner_find key_of_def)

interpretation governing: owned_kind ServiceObj "governing_service_transform db labels selectors"
    "db_owner db" for db labels selectors
  by unfold_locales
    (simp_all add: governing_service_transform_def controlled_def db_owner_find key_of_def)

end
