(* ===== verification/OpSecrets.thy ===== *)
theory OpSecrets
  imports OpServices
begin

text \<open>
  The secrets of a database (\<open>secret.go\<close>) and its certificates (\<open>certificate.go\<close>): the
  authentication secret, the key file, the test for the certificate secrets, the TLS flags of
  the server, and the map from a secret to the database that controls it.

  The lemmas show that a secret is only ever created, and only after the API server has
  answered that there is none of its name.
\<close>

section \<open>Constants\<close>

definition MongoDBAuthSecretSuffix :: string where "MongoDBAuthSecretSuffix = ''-auth''"
definition MongoDBKeyFileSecretSuffix :: string where "MongoDBKeyFileSecretSuffix = ''-key''"
definition MongoDBKeyForKeyFile :: string where "MongoDBKeyForKeyFile = ''key.txt''"
definition MongodbUser :: string where "MongodbUser = ''root''"
definition ResourceFQN :: string where "ResourceFQN = ''mongodbs.kubedb.com''"

text \<open>Reading a Go map: a missing key reads as the empty string.\<close>

definition lookup_or_empty :: "(string \<rightharpoonup> string) \<Rightarrow> string \<Rightarrow> string" where
  "lookup_or_empty m k = (case m k of None \<Rightarrow> '''' | Some v \<Rightarrow> v)"

section \<open>Creating secrets\<close>

text \<open>\<open>checkSecret\<close>: \<open>None\<close> if there is no such secret, an error if it is not this database's.\<close>

definition checkSecret :: "op_env \<Rightarrow> string \<Rightarrow> (gerr + secret option) op_prog" where
  "checkSecret E secretName =
     bnd (gets odb) (\<lambda>db.
       let key = (mg_namespace db, secretName)
       in bnd (perform (\<lambda>h. api_get (o_secrets E) h key) (OGet OSecret key)) (\<lambda>r.
            case r of
              Inl e \<Rightarrow> if is_not_found e then ret (Inr None) else ret (Inl e)
            | Inr sec \<Rightarrow>
                if lookup_or_empty (om_labels (sec_meta sec)) NameLabelKey \<noteq> ResourceFQN \<or>
                   lookup_or_empty (om_labels (sec_meta sec)) InstanceLabelKey \<noteq> mg_name db
                then ret (Inl (Err (''intended secret \"'' @ mg_namespace db @ ''/'' @ secretName @
                  ''\" already exists'')))
                else ret (Inr (Some sec))))"

text \<open>The secret without a namespace; \<open>StringData\<close> is what the API server stores as data.\<close>

definition new_secret :: "mongodb \<Rightarrow> string \<Rightarrow> (string \<rightharpoonup> string) \<Rightarrow> secret" where
  "new_secret db name data =
     \<lparr>sec_meta = EnsureOwnerReference ((meta_of '''' name)\<lparr>om_labels := OffshootLabels db\<rparr>)
        (db_owner db),
      sec_type = ''Opaque'', sec_data = data\<rparr>"

definition createAuthSecret :: "op_env \<Rightarrow> (gerr + string) op_prog" where
  "createAuthSecret E =
     bnd (gets odb) (\<lambda>db.
       let authSecretName = mg_name db @ MongoDBAuthSecretSuffix
       in bndE (checkSecret E authSecretName) (\<lambda>sc.
          bndE (if sc = None
                then bnd (perform (o_password E) OGeneratePassword) (\<lambda>password.
                  let sec = new_secret db authSecretName
                        [''username'' \<mapsto> MongodbUser, ''password'' \<mapsto> password]
                  in bndE (perform (\<lambda>h. api_create (o_secrets E) h sec)
                            (OCreate (mg_namespace db) (SecretObj sec))) (\<lambda>_. ret (Inr ())))
                else ret (Inr ())) (\<lambda>_.
            ret (Inr authSecretName))))"

definition ensureAuthSecret :: "op_env \<Rightarrow> (gerr + unit) op_prog" where
  "ensureAuthSecret E =
     bnd (gets odb) (\<lambda>db.
       if mg_authSecret db = None
       then bndE (createAuthSecret E) (\<lambda>authSecret.
         let new = db\<lparr>mg_authSecret := Some authSecret\<rparr>
         in bndE (perform (\<lambda>h. o_patchDB E h db new) (OPatchDB db new)) (\<lambda>ms.
            bnd (update (\<lambda>s. s\<lparr>odb := (odb s)\<lparr>mg_authSecret := mg_authSecret ms\<rparr>\<rparr>)) (\<lambda>_.
              ret (Inr ()))))
       else ret (Inr ()))"

definition key_file_secret_name :: "mongodb \<Rightarrow> string" where
  "key_file_secret_name db =
     (case mg_keyFileSecret db of
        None \<Rightarrow> mg_name db @ MongoDBKeyFileSecretSuffix
      | Some name \<Rightarrow> if name \<noteq> '''' then name else mg_name db @ MongoDBKeyFileSecretSuffix)"

text \<open>\<open>o_token\<close> is the random token, encoded.\<close>

definition ensureKeyFileSecret :: "op_env \<Rightarrow> (gerr + unit) op_prog" where
  "ensureKeyFileSecret E =
     bnd (gets odb) (\<lambda>db.
       if \<not> KeyFileRequired db then ret (Inr ())
       else
         let secretName = key_file_secret_name db;
             new = db\<lparr>mg_keyFileSecret := Some secretName\<rparr>
         in bndE (checkSecret E secretName) (\<lambda>sc.
            bndE (if sc = None
                  then bnd (perform (o_token E) OGenerateToken) (\<lambda>base64Token.
                    let sec = new_secret db secretName [MongoDBKeyForKeyFile \<mapsto> base64Token]
                    in bndE (perform (\<lambda>h. api_create (o_secrets E) h sec)
                              (OCreate (mg_namespace db) (SecretObj sec))) (\<lambda>_. ret (Inr ())))
                  else ret (Inr ())) (\<lambda>_.
            bndE (perform (\<lambda>h. o_patchDB E h db new) (OPatchDB db new)) (\<lambda>_.
            bnd (update (\<lambda>s. s\<lparr>odb := (odb s)\<lparr>mg_keyFileSecret := Some secretName\<rparr>\<rparr>)) (\<lambda>_.
              ret (Inr ()))))))"

definition EnsureKeyFileSecret :: "op_env \<Rightarrow> (gerr + unit) op_prog" where
  "EnsureKeyFileSecret E =
     bnd (gets odb) (\<lambda>db.
       if mg_sslMode db \<noteq> SSLModeDisabled \<and> mg_sslMode db \<noteq> '''' \<or>
          mg_replicaSet db \<noteq> None \<or> mg_shardTopology db \<noteq> None
       then ensureKeyFileSecret E else ret (Inr ()))"

section \<open>The database of a secret\<close>

text \<open>\<open>GetControllerOf\<close>: the first reference marked as the controller.\<close>

fun GetControllerOf :: "owner_ref list \<Rightarrow> owner_ref option" where
  "GetControllerOf [] = None"
| "GetControllerOf (r # refs) =
     (if or_controller r = Some True then Some r else GetControllerOf refs)"

text \<open>\<open>ParseGroupVersion\<close>: the group, or an error for two slashes and more.\<close>

definition group_of :: "string \<Rightarrow> gerr + string" where
  "group_of gv =
     (if gv = '''' \<or> gv = ''/'' then Inr ''''
      else case count_list gv (CHR ''/'') of
             0 \<Rightarrow> Inr ''''
           | Suc 0 \<Rightarrow> (case index_of (CHR ''/'') gv of None \<Rightarrow> Inr '''' | Some i \<Rightarrow> Inr (take i gv))
           | _ \<Rightarrow> Inl (Err (''unexpected GroupVersion string: '' @ gv)))"

definition IsOwnerOfGroupKind :: "owner_ref option \<Rightarrow> string \<Rightarrow> string \<Rightarrow> gerr + bool" where
  "IsOwnerOfGroupKind ctrl grp kind =
     (case ctrl of
        None \<Rightarrow> Inr False
      | Some r \<Rightarrow>
          (case group_of (or_apiVersion r) of
             Inl e \<Rightarrow> Inl e
           | Inr g \<Rightarrow> Inr (g = grp \<and> or_kind r = kind)))"

definition MongoDBForSecret :: "secret \<Rightarrow> string" where
  "MongoDBForSecret s =
     (let ctrl = GetControllerOf (om_ownerReferences (sec_meta s))
      in case IsOwnerOfGroupKind ctrl GroupName ResourceKindMongoDB of
           Inl e \<Rightarrow> ''''
         | Inr False \<Rightarrow> ''''
         | Inr True \<Rightarrow>
             (case ctrl of
                None \<Rightarrow> ''''
              | Some r \<Rightarrow> om_namespace (sec_meta s) @ ''/'' @ or_name r))"

section \<open>Certificates\<close>

text \<open>\<open>strings.Replace(s, old, new, 1)\<close> for a non-empty \<open>old\<close>.\<close>

fun replace_first :: "string \<Rightarrow> string \<Rightarrow> string \<Rightarrow> string" where
  "replace_first old new [] = []"
| "replace_first old new (c # s) =
     (if has_prefix (c # s) old then new @ drop (length old) (c # s)
      else c # replace_first old new s)"

fun contains :: "string \<Rightarrow> string \<Rightarrow> bool" where
  "contains [] sub = (sub = [])"
| "contains (c # s) sub = (has_prefix (c # s) sub \<or> contains s sub)"

definition getTLSArgs :: "op_env \<Rightarrow> mongodb \<Rightarrow> mongodb_version \<Rightarrow> gerr + string list" where
  "getTLSArgs E db mgVersion =
     (case o_parse E (mv_version mgVersion) of
        Inl e \<Rightarrow> Inl e
      | Inr currentVer \<Rightarrow>
          let sslMode = mg_sslMode db;
              tlsMode = (if contains sslMode ''SSL'' then replace_first ''SSL'' ''TLS'' sslMode
                         else sslMode)
          in Inr (if \<not> LessThan currentVer (4, 2, 0)
               then (''--tlsMode='' @ tlsMode) #
                 (if sslMode \<noteq> SSLModeDisabled
                  then [''--tlsCAFile='' @ MongoCertDirectory @ ''/'' @ TLSCACertFileName,
                        ''--tlsCertificateKeyFile='' @ MongoCertDirectory @ ''/'' @ MongoPemFileName]
                  else [])
               else (''--sslMode='' @ sslMode) #
                 (if sslMode \<noteq> SSLModeDisabled
                  then [''--sslCAFile='' @ MongoCertDirectory @ ''/'' @ TLSCACertFileName,
                        ''--sslPEMKeyFile='' @ MongoCertDirectory @ ''/'' @ MongoPemFileName]
                  else [])))"

text \<open>The secrets a database with TLS waits for; \<open>None\<close> is a panic.\<close>

fun all_some :: "'a option list \<Rightarrow> 'a list option" where
  "all_some [] = Some []"
| "all_some (None # xs) = None"
| "all_some (Some x # xs) = map_option (Cons x) (all_some xs)"

definition certificate_secrets :: "mongodb \<Rightarrow> string list option" where
  "certificate_secrets db =
     all_some
       ((case mg_shardTopology db of
           Some topology \<Rightarrow>
             GetCertSecretName db MongoDBServerCert (ConfigSvrNodeName db) #
             map (\<lambda>i. GetCertSecretName db MongoDBServerCert (ShardNodeName db i))
               (int_range (st_shards topology)) @
             [GetCertSecretName db MongoDBServerCert (MongosNodeName db)]
         | None \<Rightarrow> [GetCertSecretName db MongoDBServerCert '''']) @
        [GetCertSecretName db MongoDBClientCert '''',
         GetCertSecretName db MongoDBMetricsExporterCert ''''])"

definition IsCertificateSecretsCreated :: "op_env \<Rightarrow> (gerr + bool) op_prog" where
  "IsCertificateSecretsCreated E =
     bnd (gets odb) (\<lambda>db.
       if mg_tls db \<noteq> None
       then bnd (deref (certificate_secrets db)) (\<lambda>secrets.
         perform (\<lambda>h. o_resourcesExist E h OSecret (mg_namespace db) secrets)
           (OResourcesExist OSecret (mg_namespace db) secrets))
       else ret (Inr True))"

section \<open>Lemmas\<close>

lemma all_some_Some: "all_some xs = Some ys \<longleftrightarrow> xs = map Some ys"
proof (induction xs arbitrary: ys)
  case (Cons x xs)
  then show ?case by (cases x; cases ys) auto
qed auto

lemma GetControllerOf_Some:
  "GetControllerOf refs = Some r \<Longrightarrow> r \<in> set refs \<and> or_controller r = Some True"
  by (induction refs) (auto split: if_splits)

lemma index_of_take: "index_of c s = Some i \<Longrightarrow> s = take i s @ c # drop (Suc i) s \<and> c \<notin> set (take i s)"
  by (induction s arbitrary: i) (auto split: if_splits)

text \<open>A condition on every call: creating a secret of some name comes right after the answer
  that there is none.\<close>

definition absent_before :: "op_env \<Rightarrow> ohist \<Rightarrow> op_call \<Rightarrow> bool" where
  "absent_before E h c \<longleftrightarrow>
     (\<forall>ns sec. c = OCreate ns (SecretObj sec) \<longrightarrow>
        (\<exists>h1 h2 e. h = h1 @ OGet OSecret (ns, om_name (sec_meta sec)) # h2 \<and>
           api_get (o_secrets E) h1 (ns, om_name (sec_meta sec)) = Inl e \<and> is_not_found e)) \<and>
     (\<forall>x sec. c \<noteq> OPatch x (SecretObj sec))"

lemma new_secret_name [simp]: "om_name (sec_meta (new_secret db name data)) = name"
  by (simp add: new_secret_def meta_of_def)

lemma new_secret_controlled: "controlled (db_owner db) (SecretObj (new_secret db name data))"
  by (simp add: controlled_def new_secret_def db_owner_find)

lemma wp_checkSecret:
  assumes "odb s = db"
  shows "wp (checkSecret E name)
    (\<lambda>r t. odb t = db \<and> calls t = calls s @ [OGet OSecret (mg_namespace db, name)] \<and>
      (r = Inr None \<longrightarrow> (\<exists>e. api_get (o_secrets E) (calls s) (mg_namespace db, name) = Inl e \<and>
         is_not_found e)))
    (\<lambda>_ _. False) s"
  using assms by (auto simp: checkSecret_def wp_simps Let_def split: sum.split)

definition secrets_ok :: "op_env \<Rightarrow> op_state \<Rightarrow> bool" where
  "secrets_ok E s \<longleftrightarrow> trace_ok (absent_before E) (calls s)"

lemma absent_before_simps [simp]:
  "absent_before E h (OGet k key)" "absent_before E h OGeneratePassword"
  "absent_before E h OGenerateToken" "absent_before E h (OPatchDB x y)"
  by (simp_all add: absent_before_def)

lemma absent_before_new [simp]:
  "is_not_found e \<Longrightarrow> api_get (o_secrets E) h1 (ns, name) = Inl e \<Longrightarrow>
   absent_before E (h1 @ OGet OSecret (ns, name) # h2)
     (OCreate ns (SecretObj (new_secret db name data)))"
  by (auto simp: absent_before_def)

lemma keeps_after_check:
  assumes "\<And>sec. keeps (secrets_ok E) (f (Some sec))"
    and "\<And>s h1 e. secrets_ok E s \<Longrightarrow> odb s = db \<Longrightarrow>
      calls s = h1 @ [OGet OSecret (mg_namespace db, name)] \<Longrightarrow>
      api_get (o_secrets E) h1 (mg_namespace db, name) = Inl e \<Longrightarrow> is_not_found e \<Longrightarrow>
      wp (f None) (\<lambda>_. secrets_ok E) (\<lambda>_. secrets_ok E) s"
    and "odb s = db" and "secrets_ok E s"
  shows "wp (bndE (checkSecret E name) f) (\<lambda>_. secrets_ok E) (\<lambda>_. secrets_ok E) s"
  unfolding wp_bndE
proof (rule wp_conseq [OF wp_checkSecret [OF assms(3)]])
  fix r :: "gerr + secret option" and t :: op_state
  assume t: "odb t = db \<and> calls t = calls s @ [OGet OSecret (mg_namespace db, name)] \<and>
      (r = Inr None \<longrightarrow> (\<exists>e. api_get (o_secrets E) (calls s) (mg_namespace db, name) = Inl e \<and>
         is_not_found e))"
  then have ok: "secrets_ok E t" using assms(4) by (simp add: secrets_ok_def)
  then have found: "wp (f (Some sec)) (\<lambda>_. secrets_ok E) (\<lambda>_. secrets_ok E) t" for sec
    using assms(1) by (simp add: keeps_def)
  show "case r of Inl e \<Rightarrow> secrets_ok E t | Inr a \<Rightarrow> wp (f a) (\<lambda>_. secrets_ok E) (\<lambda>_. secrets_ok E) t"
  proof (cases r)
    case (Inr a)
    with t ok found assms(2) show ?thesis by (cases a) auto
  qed (use ok in simp)
qed simp

lemma keeps_createAuthSecret: "keeps (secrets_ok E) (createAuthSecret E)"
proof (rule keepsI)
  fix s assume ok: "secrets_ok E s"
  show "wp (createAuthSecret E) (\<lambda>_. secrets_ok E) (\<lambda>_. secrets_ok E) s"
    unfolding createAuthSecret_def wp_bnd wp_gets Let_def
    by (rule keeps_after_check [OF _ _ refl ok], simp, intro keeps_intros,
        auto simp: wp_simps secrets_ok_def split: sum.split)
qed

lemma keeps_ensureKeyFileSecret: "keeps (secrets_ok E) (ensureKeyFileSecret E)"
proof (rule keepsI)
  fix s assume ok: "secrets_ok E s"
  show "wp (ensureKeyFileSecret E) (\<lambda>_. secrets_ok E) (\<lambda>_. secrets_ok E) s"
    unfolding ensureKeyFileSecret_def wp_bnd wp_gets Let_def wp_if
    by (cases "KeyFileRequired (odb s)", simp_all add: ok wp_ret,
        rule keeps_after_check [OF _ _ refl ok], simp, intro keeps_intros,
        auto simp: wp_simps secrets_ok_def split: sum.split)
qed

lemma keeps_ensureAuthSecret: "keeps (secrets_ok E) (ensureAuthSecret E)"
  unfolding ensureAuthSecret_def Let_def
  by (intro keeps_intros keeps_createAuthSecret) (simp_all add: secrets_ok_def)

lemma keeps_EnsureKeyFileSecret: "keeps (secrets_ok E) (EnsureKeyFileSecret E)"
  unfolding EnsureKeyFileSecret_def by (intro keeps_intros keeps_ensureKeyFileSecret)

end
