(* ===== verification/OpRbac.thy ===== *)
theory OpRbac
  imports OpSecrets
begin

text \<open>
  The permissions of the database pods (\<open>rbac.go\<close>): service account, role and role binding,
  for every pod template of the database.

  Role and role binding are rebuilt from nothing on every pass. Both carry the name of the
  database, so the pod templates of a sharded database share them; what that means when the
  templates name different service accounts is shown in the properties.
\<close>

definition service_account_transform :: "mongodb \<Rightarrow> service_account \<Rightarrow> service_account" where
  "service_account_transform db sa =
     sa\<lparr>sa_meta := (EnsureOwnerReference (sa_meta sa) (db_owner db))\<lparr>om_labels := OffshootLabels db\<rparr>\<rparr>"

definition createServiceAccount :: "op_env \<Rightarrow> string \<Rightarrow> (gerr + unit) op_prog" where
  "createServiceAccount E saName =
     bnd (gets odb) (\<lambda>db.
       let key = (mg_namespace db, saName)
       in bndE (createOrPatch (o_serviceAccounts E) ServiceAccountObj OServiceAccount key
                 \<lparr>sa_meta = meta_of (mg_namespace db) saName\<rparr> (service_account_transform db))
            (\<lambda>_. ret (Inr ())))"

definition rule_of :: "string \<Rightarrow> string \<Rightarrow> string \<Rightarrow> policy_rule" where
  "rule_of grp resource verb =
     \<lparr>pr_apiGroups = [grp], pr_resources = [resource], pr_verbs = [verb], pr_resourceNames = []\<rparr>"

definition role_rules :: "string \<Rightarrow> policy_rule list" where
  "role_rules pspName =
     (if pspName \<noteq> ''''
      then [(rule_of ''policy'' ''podsecuritypolicies'' ''use'')\<lparr>pr_resourceNames := [pspName]\<rparr>]
      else []) @
     [rule_of '''' ''pods'' ''*'', rule_of GroupName ''mongodbs'' ''get'', rule_of '''' ''secrets'' ''get'']"

definition role_transform :: "mongodb \<Rightarrow> string \<Rightarrow> role \<Rightarrow> role" where
  "role_transform db pspName r =
     r\<lparr>ro_meta := (EnsureOwnerReference (ro_meta r) (db_owner db))\<lparr>om_labels := OffshootLabels db\<rparr>,
       ro_rules := role_rules pspName\<rparr>"

definition ensureRole :: "op_env \<Rightarrow> string \<Rightarrow> string \<Rightarrow> (gerr + unit) op_prog" where
  "ensureRole E name pspName =
     bnd (gets odb) (\<lambda>db.
       let key = (mg_namespace db, name)
       in bndE (createOrPatch (o_roles E) RoleObj ORole key
                 \<lparr>ro_meta = meta_of (mg_namespace db) name, ro_rules = []\<rparr> (role_transform db pspName))
            (\<lambda>_. ret (Inr ())))"

definition role_binding_transform ::
  "mongodb \<Rightarrow> string \<Rightarrow> string \<Rightarrow> role_binding \<Rightarrow> role_binding" where
  "role_binding_transform db roleName saName rb =
     rb\<lparr>rb_meta := (EnsureOwnerReference (rb_meta rb) (db_owner db))\<lparr>om_labels := OffshootLabels db\<rparr>,
       rb_roleRef := \<lparr>rr_apiGroup = ''rbac.authorization.k8s.io'', rr_kind = ''Role'', rr_name = roleName\<rparr>,
       rb_subjects := [\<lparr>rs_kind = ''ServiceAccount'', rs_name = saName, rs_namespace = mg_namespace db\<rparr>]\<rparr>"

definition new_role_binding :: "nsname \<Rightarrow> role_binding" where
  "new_role_binding key =
     \<lparr>rb_meta = meta_of (fst key) (snd key),
      rb_roleRef = \<lparr>rr_apiGroup = '''', rr_kind = '''', rr_name = ''''\<rparr>, rb_subjects = []\<rparr>"

definition createRoleBinding :: "op_env \<Rightarrow> string \<Rightarrow> string \<Rightarrow> (gerr + unit) op_prog" where
  "createRoleBinding E roleName saName =
     bnd (gets odb) (\<lambda>db.
       let key = (mg_namespace db, roleName)
       in bndE (createOrPatch (o_roleBindings E) RoleBindingObj ORoleBinding key
                 (new_role_binding key) (role_binding_transform db roleName saName))
            (\<lambda>_. ret (Inr ())))"

definition getPolicyNames :: "op_env \<Rightarrow> (gerr + string) op_prog" where
  "getPolicyNames E =
     bnd (gets odb) (\<lambda>db.
     bndE (perform (\<lambda>h. o_getVersion E h (mg_version db)) (OGetVersion (mg_version db)))
       (\<lambda>dbVersion. ret (Inr (mv_podSecurityPolicyName dbVersion))))"

text \<open>
  The closure of \<open>ensureDatabaseRBAC\<close>. A pod template is a pointer into the database; here it
  is given by reading it from the database and writing it back. A template without a service
  account gets the name of the database.
\<close>

definition grant_permissions :: "op_env \<Rightarrow> string \<Rightarrow> (gerr + unit) op_prog" where
  "grant_permissions E saName =
     bnd (gets odb) (\<lambda>db.
     bndE (getPolicyNames E) (\<lambda>pspName.
     bndE (ensureRole E (OffshootName db) pspName) (\<lambda>_.
       createRoleBinding E (OffshootName db) saName)))"

definition createDatabaseRBAC ::
  "op_env \<Rightarrow> (mongodb \<Rightarrow> pod_template option) \<Rightarrow> (pod_template \<Rightarrow> mongodb \<Rightarrow> mongodb) \<Rightarrow>
   (gerr + unit) op_prog" where
  "createDatabaseRBAC E read write =
     bnd (gets odb) (\<lambda>db.
       case read db of
         None \<Rightarrow> ret (Inl (Err ''Pod Template can not be empty.''))
       | Some tmpl \<Rightarrow>
           let saName = (if pt_serviceAccountName tmpl = '''' then OffshootName db
                         else pt_serviceAccountName tmpl);
               key = (mg_namespace db, saName)
           in bnd (update (\<lambda>s. s\<lparr>odb := write (tmpl\<lparr>pt_serviceAccountName := saName\<rparr>) (odb s)\<rparr>)) (\<lambda>_.
              bnd (perform (\<lambda>h. api_get (o_serviceAccounts E) h key) (OGet OServiceAccount key)) (\<lambda>r.
                case r of
                  Inl e \<Rightarrow>
                    if is_not_found e
                    then bnd (createServiceAccount E saName) (\<lambda>r'.
                      case r' of
                        Inl e' \<Rightarrow> if is_already_exists e' then grant_permissions E saName
                                   else ret (Inl e')
                      | Inr _ \<Rightarrow> grant_permissions E saName)
                    else ret (Inl e)
                | Inr sa \<Rightarrow>
                    if \<not> snd (IsOwnedBy (sa_meta sa) (mg_meta db)) then ret (Inr ())
                    else grant_permissions E saName)))"

definition config_template :: "mongodb \<Rightarrow> pod_template option" where
  "config_template db = map_option (\<lambda>t. mn_podTemplate (st_configServer t)) (mg_shardTopology db)"

definition mongos_template :: "mongodb \<Rightarrow> pod_template option" where
  "mongos_template db = map_option (\<lambda>t. mn_podTemplate (st_mongos t)) (mg_shardTopology db)"

definition shard_template :: "mongodb \<Rightarrow> pod_template option" where
  "shard_template db = map_option (\<lambda>t. mn_podTemplate (st_shard t)) (mg_shardTopology db)"

definition set_config_template :: "pod_template \<Rightarrow> mongodb \<Rightarrow> mongodb" where
  "set_config_template p db = db\<lparr>mg_shardTopology := map_option
     (\<lambda>t. t\<lparr>st_configServer := (st_configServer t)\<lparr>mn_podTemplate := p\<rparr>\<rparr>) (mg_shardTopology db)\<rparr>"

definition set_mongos_template :: "pod_template \<Rightarrow> mongodb \<Rightarrow> mongodb" where
  "set_mongos_template p db = db\<lparr>mg_shardTopology := map_option
     (\<lambda>t. t\<lparr>st_mongos := (st_mongos t)\<lparr>mn_podTemplate := p\<rparr>\<rparr>) (mg_shardTopology db)\<rparr>"

definition set_shard_template :: "pod_template \<Rightarrow> mongodb \<Rightarrow> mongodb" where
  "set_shard_template p db = db\<lparr>mg_shardTopology := map_option
     (\<lambda>t. t\<lparr>st_shard := (st_shard t)\<lparr>mn_podTemplate := p\<rparr>\<rparr>) (mg_shardTopology db)\<rparr>"

definition set_template :: "pod_template \<Rightarrow> mongodb \<Rightarrow> mongodb" where
  "set_template p db = db\<lparr>mg_podTemplate := Some p\<rparr>"

definition ensureDatabaseRBAC :: "op_env \<Rightarrow> (gerr + unit) op_prog" where
  "ensureDatabaseRBAC E =
     bnd (gets odb) (\<lambda>db.
       if mg_shardTopology db \<noteq> None
       then bndE (createDatabaseRBAC E config_template set_config_template) (\<lambda>_.
            bndE (createDatabaseRBAC E mongos_template set_mongos_template) (\<lambda>_.
              createDatabaseRBAC E shard_template set_shard_template))
       else createDatabaseRBAC E mg_podTemplate set_template)"

section \<open>The contract\<close>

interpretation service_account: owned_kind ServiceAccountObj "service_account_transform db"
    "db_owner db" for db
  by unfold_locales
    (simp_all add: service_account_transform_def controlled_def db_owner_find key_of_def)

interpretation permission_role: owned_kind RoleObj "role_transform db pspName" "db_owner db"
    for db pspName
  by unfold_locales (simp_all add: role_transform_def controlled_def db_owner_find key_of_def)

interpretation permission_binding: owned_kind RoleBindingObj
    "role_binding_transform db roleName saName" "db_owner db" for db roleName saName
  by unfold_locales
    (simp_all add: role_binding_transform_def controlled_def db_owner_find key_of_def)

section \<open>Lemmas\<close>

text \<open>What the permissions of a database may touch, as a condition on calls.\<close>

fun grants :: "mongodb \<Rightarrow> op_call \<Rightarrow> bool" where
  "grants db (OGet k key) = (k = ORoleBinding \<longrightarrow> key = (mg_namespace db, mg_name db))"
| "grants db (OCreate ns (RoleBindingObj rb)) =
     (om_name (rb_meta rb) = mg_name db \<and> length (rb_subjects rb) = 1)"
| "grants db (OPatch x (RoleBindingObj rb)) = (length (rb_subjects rb) = 1)"
| "grants db c = True"

text \<open>The object keeps its metadata and version while its pod templates are filled in.\<close>

definition in_rbac :: "mongodb \<Rightarrow> op_state \<Rightarrow> bool" where
  "in_rbac db s \<longleftrightarrow> mg_meta (odb s) = mg_meta db \<and> list_all (grants db) (calls s)"

lemma in_rbac_snoc [simp]:
  "in_rbac db s \<Longrightarrow> grants db c \<Longrightarrow> in_rbac db (s\<lparr>calls := calls s @ [c]\<rparr>)"
  by (simp add: in_rbac_def)

lemma in_rbac_meta: "in_rbac db s \<Longrightarrow> mg_meta (odb s) = mg_meta db"
  by (simp add: in_rbac_def)

lemma keeps_in_rbac_gets:
  "(\<And>db'. mg_meta db' = mg_meta db \<Longrightarrow> keeps (in_rbac db) (f db')) \<Longrightarrow>
   keeps (in_rbac db) (bnd (gets odb) f)"
  by (rule keeps_bnd_gets) (auto dest: in_rbac_meta)

lemma keeps_in_rbac_write:
  "mg_meta (f (odb s)) = mg_meta (odb s) \<Longrightarrow> in_rbac db s \<Longrightarrow> in_rbac db (s\<lparr>odb := f (odb s)\<rparr>)"
  by (simp add: in_rbac_def)

lemma template_meta [simp]:
  "mg_meta (set_config_template p db) = mg_meta db" "mg_meta (set_mongos_template p db) = mg_meta db"
  "mg_meta (set_shard_template p db) = mg_meta db" "mg_meta (set_template p db) = mg_meta db"
  by (simp_all add: set_config_template_def set_mongos_template_def set_shard_template_def
      set_template_def)

lemma keeps_grant_permissions: "keeps (in_rbac db) (grant_permissions E saName)"
  unfolding grant_permissions_def getPolicyNames_def ensureRole_def createRoleBinding_def
    createOrPatch_def Let_def OffshootName_def
  by (intro keeps_in_rbac_gets keeps_intros)
    (simp_all add: role_binding_transform_def new_role_binding_def meta_of_def)

lemma keeps_createServiceAccount: "keeps (in_rbac db) (createServiceAccount E saName)"
  unfolding createServiceAccount_def createOrPatch_def Let_def
  by (intro keeps_in_rbac_gets keeps_intros) simp_all

lemma keeps_createDatabaseRBAC:
  assumes "\<And>p db. mg_meta (write_back p db) = mg_meta db"
  shows "keeps (in_rbac db) (createDatabaseRBAC E read write_back)"
  unfolding createDatabaseRBAC_def Let_def
  by (intro keeps_in_rbac_gets keeps_intros keeps_grant_permissions keeps_createServiceAccount
      keeps_in_rbac_write) (simp_all add: assms)

lemma keeps_ensureDatabaseRBAC: "keeps (in_rbac db) (ensureDatabaseRBAC E)"
  unfolding ensureDatabaseRBAC_def
  by (intro keeps_in_rbac_gets keeps_intros keeps_createDatabaseRBAC) simp_all

end
