(* ===== verification/OpAppBinding.thy ===== *)
theory OpAppBinding
  imports OpRbac
begin

text \<open>
  The application binding of a database (\<open>appbinding.go\<close>): how other tools reach it. Its
  parameters are the configuration of the backup tool: the DSN of every replica set.

  The port of the primary service is computed from the same lists as in the service itself
  (\<open>OpServices\<close>); the lemmas give it in closed form.
\<close>

text \<open>The first port of the primary service's name.\<close>

definition GetPrimaryServicePort :: "mongodb \<Rightarrow> gerr + int" where
  "GetPrimaryServicePort db =
     (case find_by sp_name MongoDBPrimaryServicePortName
        (PatchServicePorts
          [service_port_of MongoDBPrimaryServicePortName database_port MongoDBDatabasePortName]
          (stt_ports (GetServiceTemplate (mg_serviceTemplates db) PrimaryServiceAlias))) of
        Some p \<Rightarrow> Inr (sp_port p)
      | None \<Rightarrow> Inl (Err (''failed to detect primary port for MongoDB '' @ db_name db)))"

text \<open>\<open>replicaHosts\<close>: the DSN of every replica set under the name Stash knows it by.\<close>

definition replica_hosts :: "op_env \<Rightarrow> mongodb \<Rightarrow> (string \<times> string) list option" where
  "replica_hosts E db =
     (case mg_shardTopology db of
        Some topology \<Rightarrow>
          all_some (map (\<lambda>i. map_option (Pair (''host-'' @ itoa i)) (ShardDSN db i))
            (int_range (st_shards topology)))
      | None \<Rightarrow>
          if mg_replicaSet db \<noteq> None
          then map_option (\<lambda>a. [(o_defaultHost E, a)]) (HostAddress db)
          else Some [])"

text \<open>\<open>MongoDBConfiguration\<close> as it is written; \<open>None\<close> is a panic.\<close>

definition app_parameters :: "op_env \<Rightarrow> mongodb \<Rightarrow> mongodb_version \<Rightarrow> raw option" where
  "app_parameters E db v =
     (if mg_shardTopology db \<noteq> None \<or> mg_replicaSet db \<noteq> None
      then (case replica_hosts E db of
              None \<Rightarrow> None
            | Some hosts \<Rightarrow>
                (case ConfigSvrDSN db of
                   None \<Rightarrow> None
                 | Some dsn \<Rightarrow>
                     Some (Node [(''configServer'', Leaf dsn),
                       (''replicaSets'', Node (map (\<lambda>(k, a). (k, Leaf a)) hosts)),
                       (''stash'', mv_stash v)])))
      else Some (Node [(''stash'', mv_stash v)]))"

definition new_app_binding :: "nsname \<Rightarrow> app_binding" where
  "new_app_binding key =
     \<lparr>ab_meta = meta_of (fst key) (snd key), ab_type = '''', ab_version = '''', ab_service = None,
      ab_insecureSkipTLSVerify = False, ab_caBundle = '''', ab_secret = None,
      ab_parameters = absent, ab_secretTransforms = absent\<rparr>"

text \<open>\<open>kubedb.com/mongodb\<close> is the type of the binding.\<close>

definition app_binding_transform ::
  "mongodb \<Rightarrow> mongodb_version \<Rightarrow> int \<Rightarrow> raw \<Rightarrow> string option \<Rightarrow> string \<Rightarrow> app_binding \<Rightarrow> app_binding" where
  "app_binding_transform db v port params caBundle secretName ab =
     ab\<lparr>ab_meta := (EnsureOwnerReference (ab_meta ab) (db_owner db))
          \<lparr>om_labels := OffshootLabels db,
           om_annotations := FilterKeys GroupName Map.empty (om_annotations (mg_meta db))\<rparr>,
        ab_type := GroupName @ ''/mongodb'',
        ab_version := mv_version v,
        ab_service := Some \<lparr>as_scheme = ''mongodb'', as_name = ServiceName db, as_port = port,
          as_query = ''''\<rparr>,
        ab_caBundle := (case caBundle of None \<Rightarrow> '''' | Some b \<Rightarrow> b),
        ab_insecureSkipTLSVerify := False,
        ab_parameters := params,
        ab_secret := Some secretName\<rparr>"

text \<open>The certificate authority of the database's client certificate, if it uses one.\<close>

definition ca_bundle :: "op_env \<Rightarrow> (gerr + string option) op_prog" where
  "ca_bundle E =
     bnd (gets odb) (\<lambda>db.
       if (mg_sslMode db = SSLModeRequireSSL \<or> mg_sslMode db = SSLModePreferSSL) \<and> mg_tls db \<noteq> None
       then bnd (deref (GetCertSecretName db MongoDBClientCert '''')) (\<lambda>name.
         let key = (mg_namespace db, name)
         in bndE (perform (\<lambda>h. api_get (o_secrets E) h key) (OGet OSecret key)) (\<lambda>certSecret.
            case sec_data certSecret TLSCACertFileName of
              None \<Rightarrow> ret (Inl (Err (''ca.cert is missing in certificate secret for MongoDB '' @ db_name db)))
            | Some v \<Rightarrow> ret (Inr (Some v))))
       else ret (Inr None))"

definition ensureAppBinding :: "op_env \<Rightarrow> (gerr + verb) op_prog" where
  "ensureAppBinding E =
     bnd (gets odb) (\<lambda>db.
       case GetPrimaryServicePort db of
         Inl e \<Rightarrow> ret (Inl e)
       | Inr port \<Rightarrow>
           bnd (perform (\<lambda>h. o_getVersion E h (mg_version db)) (OGetVersion (mg_version db))) (\<lambda>r.
           case r of
             Inl e \<Rightarrow> ret (Inl (Err (''failed to get MongoDBVersion '' @ mg_version db @ '' for '' @
               db_name db @ ''. Reason: '' @ error_text e)))
           | Inr v \<Rightarrow>
               bnd (deref (app_parameters E db v)) (\<lambda>params.
               bndE (ca_bundle E) (\<lambda>caBundle.
               bnd (deref (mg_authSecret db)) (\<lambda>authSecret.
               bnd (if caBundle \<noteq> None then deref (GetCertSecretName db MongoDBClientCert '''')
                    else ret authSecret) (\<lambda>secretName.
               let key = (mg_namespace db, mg_name db)
               in bndE (createOrPatch (o_appBindings E) AppBindingObj OAppBinding key
                         (new_app_binding key)
                         (app_binding_transform db v port params caBundle secretName)) (\<lambda>(ab, vt).
                  bnd (if vt \<noteq> VerbUnchanged
                       then event EventTypeNormal EventReasonSuccessful
                         (''Successfully '' @ verb_text vt @ '' appbinding'')
                       else ret ()) (\<lambda>_. ret (Inr vt)))))))))"

interpretation binding: owned_kind AppBindingObj
    "app_binding_transform db v port params caBundle secretName" "db_owner db"
    for db v port params caBundle secretName
  by unfold_locales
    (simp_all add: app_binding_transform_def controlled_def db_owner_find key_of_def)

lemma GetPrimaryServicePort_closed:
  "GetPrimaryServicePort db =
     Inr (case last_by tp_name MongoDBPrimaryServicePortName
            (stt_ports (GetServiceTemplate (mg_serviceTemplates db) PrimaryServiceAlias)) of
          Some p \<Rightarrow> if tp_port p > 0 then tp_port p else database_port
        | None \<Rightarrow> database_port)"
proof -
  have filtered: "find_by tp_name k [p \<leftarrow> ps. tp_name p \<noteq> ''''] = find_by tp_name k ps"
    if "k \<noteq> ''''" for k ps
    using that by (induction ps) auto
  have name: "MongoDBPrimaryServicePortName \<noteq> ''''"
    by (simp add: MongoDBPrimaryServicePortName_def)
  have unfiltered: "last_by tp_name MongoDBPrimaryServicePortName [p \<leftarrow> ps. tp_name p \<noteq> ''''] =
      last_by tp_name MongoDBPrimaryServicePortName ps" for ps
    using filtered [OF name, of "rev ps"] by (simp add: last_by_def rev_filter)
  show ?thesis
    by (simp add: GetPrimaryServicePort_def PatchServicePorts_map service_port_of_def patch_port_def
        unfiltered
        split: option.split)
qed

end
