(* ===== verification/OpMonitor.thy ===== *)
theory OpMonitor
  imports OpAppBinding
begin

text \<open>
  The monitoring agent of a database (\<open>monitor.go\<close>). The agents themselves are outside the
  repository: \<open>o_newAgent\<close> answers the agent for a type, whose calls are recorded with the
  stats service they are about. Which agent was used last is kept as an annotation of that
  service.
\<close>

definition KeyAgent :: string where "KeyAgent = ''monitoring.appscode.com/agent''"

definition stats_key :: "mongodb \<Rightarrow> nsname" where
  "stats_key db = (mg_namespace db, stats_name db)"

text \<open>The errors print the specification in full; here only their constant part.\<close>

definition newMonitorController :: "op_env \<Rightarrow> mongodb \<Rightarrow> gerr + string" where
  "newMonitorController E db =
     (case mg_monitor db of
        None \<Rightarrow> Inl (Err ''MonitorSpec not found in '')
      | Some monitor \<Rightarrow>
          if ag_prometheus monitor \<noteq> None then o_newAgent E (ag_agent monitor)
          else Inl (Err ''monitoring controller not found for ''))"

definition addOrUpdateMonitor :: "op_env \<Rightarrow> (gerr + unit) op_prog" where
  "addOrUpdateMonitor E =
     bnd (gets odb) (\<lambda>db.
       case newMonitorController E db of
         Inl e \<Rightarrow> ret (Inl e)
       | Inr agent \<Rightarrow>
           perform (\<lambda>h. o_agentUpdate E h agent (stats_key db)) (OAgentUpdate agent (stats_key db)))"

definition deleteMonitor :: "op_env \<Rightarrow> (gerr + unit) op_prog" where
  "deleteMonitor E =
     bnd (gets odb) (\<lambda>db.
       case newMonitorController E db of
         Inl e \<Rightarrow> ret (Inl e)
       | Inr agent \<Rightarrow>
           perform (\<lambda>h. o_agentDelete E h agent (stats_key db)) (OAgentDelete agent (stats_key db)))"

text \<open>Every failure on the way to the old agent means that there is none.\<close>

definition getOldAgent :: "op_env \<Rightarrow> string option op_prog" where
  "getOldAgent E =
     bnd (gets odb) (\<lambda>db.
     bnd (perform (\<lambda>h. api_get (o_services E) h (stats_key db)) (OGet OService (stats_key db))) (\<lambda>r.
       ret (case r of
              Inl e \<Rightarrow> None
            | Inr svc \<Rightarrow>
                (case o_newAgent E (lookup_or_empty (om_annotations (svc_meta svc)) KeyAgent) of
                   Inl e \<Rightarrow> None
                 | Inr agent \<Rightarrow> Some agent))))"

definition set_agent_annotation :: "string \<Rightarrow> service \<Rightarrow> service" where
  "set_agent_annotation agent svc =
     svc\<lparr>svc_meta := (svc_meta svc)\<lparr>om_annotations :=
       OverwriteKeys (om_annotations (svc_meta svc)) [KeyAgent \<mapsto> agent]\<rparr>\<rparr>"

definition setNewAgent :: "op_env \<Rightarrow> (gerr + unit) op_prog" where
  "setNewAgent E =
     bnd (gets odb) (\<lambda>db.
     bndE (perform (\<lambda>h. api_get (o_services E) h (stats_key db)) (OGet OService (stats_key db))) (\<lambda>svc.
     bnd (deref (mg_monitor db)) (\<lambda>monitor.
       let new = set_agent_annotation (ag_agent monitor) svc
       in if api_same (o_services E) svc new then ret (Inr ())
          else bndE (perform (\<lambda>h. api_patch (o_services E) h svc new)
                 (OPatch (ServiceObj svc) (ServiceObj new))) (\<lambda>_. ret (Inr ())))))"

text \<open>An error in deleting the old agent is only logged.\<close>

definition manageMonitor :: "op_env \<Rightarrow> (gerr + unit) op_prog" where
  "manageMonitor E =
     bnd (getOldAgent E) (\<lambda>oldAgent.
     bnd (gets odb) (\<lambda>db.
       case mg_monitor db of
         Some monitor \<Rightarrow>
           bnd (case oldAgent of
                  None \<Rightarrow> ret ()
                | Some agent \<Rightarrow>
                    if agent \<noteq> ag_agent monitor
                    then bnd (perform (\<lambda>h. o_agentDelete E h agent (stats_key db))
                                (OAgentDelete agent (stats_key db))) (\<lambda>_. ret ())
                    else ret ()) (\<lambda>_.
           bndE (addOrUpdateMonitor E) (\<lambda>_. setNewAgent E))
       | None \<Rightarrow>
           (case oldAgent of
              None \<Rightarrow> ret (Inr ())
            | Some agent \<Rightarrow>
                bnd (perform (\<lambda>h. o_agentDelete E h agent (stats_key db))
                       (OAgentDelete agent (stats_key db))) (\<lambda>_. ret (Inr ())))))"

end
