(* ===== verification/OpHalt.thy ===== *)
theory OpHalt
  imports OpMonitor
begin

text \<open>
  Halting a database (\<open>dormant.go\<close> and \<open>halt\<close> of \<open>mongodb.go\<close>): everything but the volume
  claims and the secrets is deleted, the operator waits until it is gone, and then reports the
  database as halted.
\<close>

section \<open>Deleting\<close>

text \<open>The collections deleted by label, in order.\<close>

definition halted_collections :: "obj_kind list" where
  "halted_collections =
     [OAppBinding, OPodDisruptionBudget, OStatefulSet, ODeployment, ORoleBinding, ORole,
      OServiceAccount]"

text \<open>
  A list call that fails answers an empty list beside the error. The error of the monitoring
  agent is only logged.
\<close>

definition haltDatabase :: "op_env \<Rightarrow> (gerr + unit) op_prog" where
  "haltDatabase E =
     bnd (gets odb) (\<lambda>db.
       let ns = mg_namespace db; sel = OffshootSelectors db
       in bndE (for_each halted_collections (\<lambda>k.
                  perform (\<lambda>h. o_deleteCollection E h k ns sel) (ODeleteCollection k ns sel))) (\<lambda>_.
          bnd (perform (\<lambda>h. o_listNames E h OService ns sel) (OList OService ns sel)) (\<lambda>r.
          bndE (case r of Inl e \<Rightarrow> if is_not_found e then ret (Inr []) else ret (Inl e)
                        | Inr names \<Rightarrow> ret (Inr names)) (\<lambda>svcs.
          bndE (for_each svcs (\<lambda>name.
                  perform (\<lambda>h. o_delete E h OService (ns, name)) (ODelete OService (ns, name)))) (\<lambda>_.
            if mg_monitor db \<noteq> None
            then bnd (deleteMonitor E) (\<lambda>_. ret (Inr ()))
            else ret (Inr ()))))))"

section \<open>Waiting\<close>

text \<open>
  The library's wait functions (vendored \<open>core/v1\<close>): pods and services are gone when their
  list is empty, an error of the list being tried again; the service account is gone when
  reading it answers that it does not exist.
\<close>

definition list_is_empty :: "op_env \<Rightarrow> obj_kind \<Rightarrow> string \<Rightarrow> selector \<Rightarrow> (gerr + bool) op_prog" where
  "list_is_empty E k ns sel =
     bnd (perform (\<lambda>h. o_listNames E h k ns sel) (OList k ns sel)) (\<lambda>r.
       ret (Inr (case r of Inl e \<Rightarrow> False | Inr names \<Rightarrow> names = [])))"

definition WaitUntilPodDeletedBySelector :: "op_env \<Rightarrow> string \<Rightarrow> selector \<Rightarrow> (gerr + unit) op_prog" where
  "WaitUntilPodDeletedBySelector E ns sel = PollImmediate (o_polls E) (list_is_empty E OPod ns sel)"

definition WaitUntilServiceDeletedBySelector ::
  "op_env \<Rightarrow> string \<Rightarrow> selector \<Rightarrow> (gerr + unit) op_prog" where
  "WaitUntilServiceDeletedBySelector E ns sel =
     PollImmediate (o_polls E) (list_is_empty E OService ns sel)"

definition WaitUntillServiceAccountDeleted :: "op_env \<Rightarrow> nsname \<Rightarrow> (gerr + unit) op_prog" where
  "WaitUntillServiceAccountDeleted E key =
     PollImmediate (o_polls E)
       (bnd (perform (\<lambda>h. api_get (o_serviceAccounts E) h key) (OGet OServiceAccount key)) (\<lambda>r.
          ret (Inr (case r of Inl e \<Rightarrow> is_not_found e | Inr sa \<Rightarrow> False))))"

definition waitUntilRBACStuffDeleted :: "op_env \<Rightarrow> (gerr + unit) op_prog" where
  "waitUntilRBACStuffDeleted E =
     bnd (gets odb) (\<lambda>db. WaitUntillServiceAccountDeleted E (key_of (mg_meta db)))"

text \<open>Here a list that fails is empty, and an empty list means that they are gone.\<close>

definition waitUntilStatefulSetsDeleted :: "op_env \<Rightarrow> (gerr + unit) op_prog" where
  "waitUntilStatefulSetsDeleted E =
     bnd (gets odb) (\<lambda>db.
       let ns = mg_namespace db; sel = OffshootSelectors db
       in PollImmediate (o_polls E)
            (bnd (perform (\<lambda>h. o_listNames E h OStatefulSet ns sel) (OList OStatefulSet ns sel)) (\<lambda>r.
               let items = (case r of Inl e \<Rightarrow> [] | Inr names \<Rightarrow> names);
                   notFound = (case r of Inl e \<Rightarrow> is_not_found e | Inr names \<Rightarrow> False)
               in ret (Inr (notFound \<or> items = [])))))"

definition waitUntilHalted :: "op_env \<Rightarrow> (gerr + unit) op_prog" where
  "waitUntilHalted E =
     bnd (gets odb) (\<lambda>db.
       let ns = mg_namespace db; sel = OffshootSelectors db
       in bndE (WaitUntilPodDeletedBySelector E ns sel) (\<lambda>_.
          bndE (WaitUntilServiceDeletedBySelector E ns sel) (\<lambda>_.
          bndE (waitUntilRBACStuffDeleted E) (\<lambda>_.
            waitUntilStatefulSetsDeleted E))))"

section \<open>Halting\<close>

definition DatabaseHaltedSuccessfully :: string where
  "DatabaseHaltedSuccessfully = ''DatabaseHaltedSuccessfully''"

text \<open>The three conditions that \<open>halt\<close> writes, in order.\<close>

definition halted_conditions :: "mongodb \<Rightarrow> condition list" where
  "halted_conditions db =
     [db_condition DatabaseHalted ConditionTrue DatabaseHaltedSuccessfully (mg_generation db)
        (''MongoDB '' @ db_name db @ '' successfully halted.''),
      db_condition DatabaseAcceptingConnection ConditionFalse DatabaseHaltedSuccessfully
        (mg_generation db) (''The MongoDB: '' @ db_name db @ '' is not accepting client requests.''),
      db_condition DatabaseReady ConditionFalse DatabaseHaltedSuccessfully (mg_generation db)
        (''The MongoDB: '' @ db_name db @ '' is not ready.'')]"

definition halted_status :: "time \<Rightarrow> mongodb \<Rightarrow> mongodb_status \<Rightarrow> mongodb_status" where
  "halted_status now db st = fold (set_db_condition now) (halted_conditions db) st"

definition halt :: "op_env \<Rightarrow> (gerr + unit) op_prog" where
  "halt E =
     bnd (gets odb) (\<lambda>db.
       if mg_halted db \<and> mg_terminationPolicy db \<noteq> TerminationPolicyHalt
       then ret (Inl (Err (''can't halt db. 'spec.terminationPolicy' is not 'Halt'' @ [CHR 0x27])))
       else
         bndE (haltDatabase E) (\<lambda>_.
         bndE (waitUntilHalted E) (\<lambda>_.
         bnd (gets calls) (\<lambda>h.
           updateStatus E db (halted_status (o_now E h) db)))))"


section \<open>Lemmas\<close>

text \<open>The calls of a halt: it deletes what it should, and writes nothing but the status.\<close>

fun halting :: "mongodb \<Rightarrow> op_call \<Rightarrow> bool" where
  "halting db (ODeleteCollection k ns sel) =
     (k \<in> set halted_collections \<and> ns = mg_namespace db \<and> sel = OffshootSelectors db)"
| "halting db (ODelete k key) = (k = OService \<and> fst key = mg_namespace db)"
| "halting db (OList k ns sel) = (ns = mg_namespace db \<and> sel = OffshootSelectors db)"
| "halting db (OGet k key) = (k = OServiceAccount \<and> key = key_of (mg_meta db))"
| "halting db (OAgentDelete agent key) = (key = stats_key db)"
| "halting db (OFetchStatus key) = (key = key_of (mg_meta db))"
| "halting db (OUpdateStatus key uid st st') =
     (key = key_of (mg_meta db) \<and> uid = mg_uid db \<and> (\<exists>now. st' = halted_status now db st))"
| "halting db c = False"

definition in_halt :: "mongodb \<Rightarrow> op_state \<Rightarrow> bool" where
  "in_halt db s \<longleftrightarrow> odb s = db \<and> list_all (halting db) (calls s)"

lemma in_halt_snoc [simp]:
  "in_halt db s \<Longrightarrow> halting db c \<Longrightarrow> in_halt db (s\<lparr>calls := calls s @ [c]\<rparr>)"
  by (simp add: in_halt_def)

lemma keeps_in_halt_gets: "keeps (in_halt db) (f db) \<Longrightarrow> keeps (in_halt db) (bnd (gets odb) f)"
  by (rule keeps_bnd_gets) (simp add: in_halt_def)

lemma keeps_deleteMonitor: "keeps (in_halt db) (deleteMonitor E)"
  unfolding deleteMonitor_def by (intro keeps_in_halt_gets keeps_intros) simp_all

lemma keeps_haltDatabase: "keeps (in_halt db) (haltDatabase E)"
  unfolding haltDatabase_def
  by (intro keeps_in_halt_gets keeps_intros keeps_deleteMonitor) (simp_all add: halted_collections_def)

lemma keeps_waitUntilHalted: "keeps (in_halt db) (waitUntilHalted E)"
  unfolding waitUntilHalted_def WaitUntilPodDeletedBySelector_def
    WaitUntilServiceDeletedBySelector_def list_is_empty_def waitUntilRBACStuffDeleted_def
    WaitUntillServiceAccountDeleted_def waitUntilStatefulSetsDeleted_def Let_def
  by (intro keeps_in_halt_gets keeps_intros) simp_all

lemma keeps_halt: "keeps (in_halt db) (halt E)"
  unfolding halt_def updateStatus_def Let_def
  by (intro keeps_in_halt_gets keeps_intros keeps_haltDatabase keeps_waitUntilHalted)
    (auto intro!: in_halt_snoc)

text \<open>What has happened when the status is written.\<close>

definition collections_gone :: "op_env \<Rightarrow> mongodb \<Rightarrow> ohist \<Rightarrow> bool" where
  "collections_gone E db h \<longleftrightarrow>
     (\<forall>k \<in> set halted_collections.
        answered (\<lambda>h1. o_deleteCollection E h1 k (mg_namespace db) (OffshootSelectors db))
          (ODeleteCollection k (mg_namespace db) (OffshootSelectors db)) h)"

definition seen_empty :: "op_env \<Rightarrow> mongodb \<Rightarrow> obj_kind \<Rightarrow> ohist \<Rightarrow> bool" where
  "seen_empty E db k h \<longleftrightarrow>
     replied (\<lambda>h1. o_listNames E h1 k (mg_namespace db) (OffshootSelectors db) = Inr [])
       (OList k (mg_namespace db) (OffshootSelectors db)) h"

definition account_gone :: "op_env \<Rightarrow> mongodb \<Rightarrow> ohist \<Rightarrow> bool" where
  "account_gone E db h \<longleftrightarrow>
     replied (\<lambda>h1. \<exists>e. api_get (o_serviceAccounts E) h1 (key_of (mg_meta db)) = Inl e \<and> is_not_found e)
       (OGet OServiceAccount (key_of (mg_meta db))) h"

lemma gone_mono:
  "collections_gone E db h \<Longrightarrow> collections_gone E db (h @ cs)"
  "seen_empty E db k h \<Longrightarrow> seen_empty E db k (h @ cs)"
  "account_gone E db h \<Longrightarrow> account_gone E db (h @ cs)"
  unfolding collections_gone_def seen_empty_def account_gone_def
  by (blast intro: answered_mono replied_mono)+

text \<open>The program keeps the database and what is known about the calls.\<close>

definition grows :: "mongodb \<Rightarrow> (ohist \<Rightarrow> bool) \<Rightarrow> op_state \<Rightarrow> bool" where
  "grows db p s \<longleftrightarrow> odb s = db \<and> p (calls s)"

lemma grows_snoc:
  "(\<And>h cs. p h \<Longrightarrow> p (h @ cs)) \<Longrightarrow> grows db p s \<Longrightarrow> grows db p (s\<lparr>calls := calls s @ [c]\<rparr>)"
  by (simp add: grows_def)

lemma wp_for_each_collections:
  assumes "odb s = db"
    and "\<forall>k \<in> done. answered (\<lambda>h1. o_deleteCollection E h1 k ns sel) (ODeleteCollection k ns sel) (calls s)"
  shows "wp (for_each ks (\<lambda>k. perform (\<lambda>h. o_deleteCollection E h k ns sel) (ODeleteCollection k ns sel)))
    (\<lambda>r t. odb t = db \<and> (r = Inr () \<longrightarrow> (\<forall>k \<in> set ks \<union> done.
       answered (\<lambda>h1. o_deleteCollection E h1 k ns sel) (ODeleteCollection k ns sel) (calls t))))
    (\<lambda>_ t. odb t = db) s"
  using assms
proof (induction ks arbitrary: s "done")
  case Nil
  then show ?case by (simp add: wp_simps)
next
  case (Cons k ks)
  let ?t = "s\<lparr>calls := calls s @ [ODeleteCollection k ns sel]\<rparr>"
  show ?case
  proof (cases "o_deleteCollection E (calls s) k ns sel")
    case (Inl e)
    with Cons.prems(1) show ?thesis by (simp add: wp_simps)
  next
    case (Inr u)
    have "\<forall>k' \<in> insert k done. answered (\<lambda>h1. o_deleteCollection E h1 k' ns sel)
        (ODeleteCollection k' ns sel) (calls ?t)"
      using Cons.prems(2) Inr answered_now [of "\<lambda>h1. o_deleteCollection E h1 k ns sel"]
      by (auto intro: answered_mono)
    from Cons.IH [OF _ this] Cons.prems(1)
    have "wp (for_each ks (\<lambda>k. perform (\<lambda>h. o_deleteCollection E h k ns sel) (ODeleteCollection k ns sel)))
        (\<lambda>r t. odb t = db \<and> (r = Inr () \<longrightarrow> (\<forall>k \<in> set ks \<union> insert k done.
           answered (\<lambda>h1. o_deleteCollection E h1 k ns sel) (ODeleteCollection k ns sel) (calls t))))
        (\<lambda>_ t. odb t = db) ?t" by simp
    with Inr show ?thesis by (simp add: wp_simps)
  qed
qed

text \<open>Monotone knowledge is kept by every program that keeps the database.\<close>

definition monotone_on_calls :: "(ohist \<Rightarrow> bool) \<Rightarrow> bool" where
  "monotone_on_calls p \<longleftrightarrow> (\<forall>h cs. p h \<longrightarrow> p (h @ cs))"

lemma monotone_gone:
  "monotone_on_calls (collections_gone E db)" "monotone_on_calls (seen_empty E db k)"
  "monotone_on_calls (account_gone E db)"
  unfolding monotone_on_calls_def by (blast intro: gone_mono)+

lemma monotone_conj:
  "monotone_on_calls p \<Longrightarrow> monotone_on_calls q \<Longrightarrow> monotone_on_calls (\<lambda>h. p h \<and> q h)"
  by (simp add: monotone_on_calls_def)

lemma keeps_grows_perform:
  "monotone_on_calls p \<Longrightarrow> keeps (grows db p) (perform ans c)"
  by (rule keeps_perform) (simp add: grows_def monotone_on_calls_def)

lemma keeps_grows_gets: "keeps (grows db p) (f db) \<Longrightarrow> keeps (grows db p) (bnd (gets odb) f)"
  by (rule keeps_bnd_gets) (simp add: grows_def)

lemmas keeps_grows = keeps_grows_gets keeps_bnd keeps_bndE keeps_sum keeps_option keeps_if
  keeps_for_each keeps_ret keeps_grows_perform

lemma wp_haltDatabase:
  assumes "odb s = db"
  shows "wp (haltDatabase E) (\<lambda>r t. odb t = db \<and> (r = Inr () \<longrightarrow> collections_gone E db (calls t)))
    (\<lambda>_ _. True) s"
  unfolding haltDatabase_def wp_bnd wp_gets Let_def assms
proof (rule wp_bndE_then [where J = "\<lambda>t. odb t = db" and I = "\<lambda>_. grows db (collections_gone E db)"])
  show "wp (for_each halted_collections (\<lambda>k.
      perform (\<lambda>h. o_deleteCollection E h k (mg_namespace db) (OffshootSelectors db))
        (ODeleteCollection k (mg_namespace db) (OffshootSelectors db))))
    (\<lambda>r t. odb t = db \<and> (\<forall>a. r = Inr a \<longrightarrow> grows db (collections_gone E db) t)) (\<lambda>_ _. True) s"
    by (rule wp_conseq [OF wp_for_each_collections [OF assms, of "{}"]])
      (auto simp: grows_def collections_gone_def)
next
  fix t :: op_state
  assume I: "grows db (collections_gone E db) t"
  show "wp (bnd (perform (\<lambda>h. o_listNames E h OService (mg_namespace db) (OffshootSelectors db))
        (OList OService (mg_namespace db) (OffshootSelectors db))) (\<lambda>r.
      bndE (case r of Inl e \<Rightarrow> if is_not_found e then ret (Inr []) else ret (Inl e)
                    | Inr names \<Rightarrow> ret (Inr names)) (\<lambda>svcs.
      bndE (for_each svcs (\<lambda>name. perform (\<lambda>h. o_delete E h OService (mg_namespace db, name))
              (ODelete OService (mg_namespace db, name)))) (\<lambda>_.
        if mg_monitor db \<noteq> None then bnd (deleteMonitor E) (\<lambda>_. ret (Inr ()))
        else ret (Inr ())))))
    (\<lambda>r t. odb t = db \<and> (r = Inr () \<longrightarrow> collections_gone E db (calls t))) (\<lambda>_ _. True) t"
    unfolding deleteMonitor_def
    by (rule wp_keeps [where I = "grows db (collections_gone E db)"])
      (intro keeps_grows monotone_gone, use I in \<open>auto simp: grows_def\<close>)
qed simp_all

text \<open>A wait that is over has seen what it waits for.\<close>

lemma wp_wait:
  assumes "monotone_on_calls p" and "grows db p s"
    and "\<And>t. grows db p t \<Longrightarrow> wp c (\<lambda>r u. grows db p u \<and> (r = Inr True \<longrightarrow> q (calls u)))
      (\<lambda>_ u. grows db p u) t"
  shows "wp (PollImmediate n c) (\<lambda>r u. True \<and> (\<forall>a. r = Inr a \<longrightarrow> grows db (\<lambda>h. p h \<and> q h) u))
    (\<lambda>_ _. True) s"
  by (rule wp_conseq [OF wp_PollImmediate [where Q = "\<lambda>u. q (calls u)" and I = "grows db p", OF assms(3,2)]])
    (auto simp: grows_def)

lemma wp_list_is_empty:
  assumes "monotone_on_calls p" and "grows db p s"
  shows "wp (list_is_empty E k (mg_namespace db) (OffshootSelectors db))
    (\<lambda>r u. grows db p u \<and> (r = Inr True \<longrightarrow> seen_empty E db k (calls u))) (\<lambda>_ u. grows db p u) s"
  using assms
  by (auto simp: list_is_empty_def wp_simps grows_def monotone_on_calls_def seen_empty_def
      intro!: replied_now split: sum.splits)

definition halted_knowledge :: "op_env \<Rightarrow> mongodb \<Rightarrow> ohist \<Rightarrow> bool" where
  "halted_knowledge E db h \<longleftrightarrow>
     ((collections_gone E db h \<and> seen_empty E db OPod h) \<and> seen_empty E db OService h) \<and>
     account_gone E db h"

lemma monotone_halted: "monotone_on_calls (halted_knowledge E db)"
  unfolding halted_knowledge_def by (intro monotone_conj monotone_gone)

lemma wp_waitUntilHalted:
  assumes "grows db (collections_gone E db) s"
  shows "wp (waitUntilHalted E) (\<lambda>r t. r = Inr () \<longrightarrow> grows db (halted_knowledge E db) t)
    (\<lambda>_ _. True) s"
proof -
  let ?p1 = "\<lambda>h. collections_gone E db h \<and> seen_empty E db OPod h"
  let ?p2 = "\<lambda>h. ?p1 h \<and> seen_empty E db OService h"
  have p1: "monotone_on_calls ?p1" and p2: "monotone_on_calls ?p2"
    by (intro monotone_conj monotone_gone)+
  have db: "odb t = db" if "grows db p t" for p t using that by (simp add: grows_def)
  have account: "wp (waitUntilRBACStuffDeleted E)
      (\<lambda>r u. True \<and> (\<forall>a. r = Inr a \<longrightarrow> grows db (halted_knowledge E db) u)) (\<lambda>_ _. True) t"
    if "grows db ?p2 t" for t
    unfolding waitUntilRBACStuffDeleted_def WaitUntillServiceAccountDeleted_def wp_bnd wp_gets
      db [OF that] halted_knowledge_def
    by (rule wp_wait [OF p2 that])
      (use p2 in \<open>auto simp: wp_simps grows_def monotone_on_calls_def account_gone_def
          intro!: replied_now split: sum.splits\<close>)
  have sets: "wp (waitUntilStatefulSetsDeleted E)
      (\<lambda>r t. r = Inr () \<longrightarrow> grows db (halted_knowledge E db) t) (\<lambda>_ _. True) t"
    if "grows db (halted_knowledge E db) t" for t
    unfolding waitUntilStatefulSetsDeleted_def Let_def
    by (rule wp_keeps [where I = "grows db (halted_knowledge E db)"])
      (intro keeps_grows keeps_PollImmediate monotone_halted, use that in simp_all)
  have empty: "wp (PollImmediate n (list_is_empty E k (mg_namespace db) (OffshootSelectors db)))
      (\<lambda>r u. True \<and> (\<forall>a. r = Inr a \<longrightarrow> grows db (\<lambda>h. p h \<and> seen_empty E db k h) u)) (\<lambda>_ _. True) t"
    if "monotone_on_calls p" "grows db p t" for n k p t
    using that(1) by (intro wp_wait [OF that] wp_list_is_empty)
  show ?thesis
    unfolding waitUntilHalted_def WaitUntilPodDeletedBySelector_def
      WaitUntilServiceDeletedBySelector_def wp_bnd wp_gets Let_def db [OF assms]
  proof (rule wp_bndE_then [OF empty [OF monotone_gone(1) assms]])
    fix t assume t: "grows db ?p1 t"
    show "wp (bndE (PollImmediate (o_polls E)
          (list_is_empty E OService (mg_namespace db) (OffshootSelectors db)))
        (\<lambda>_. bndE (waitUntilRBACStuffDeleted E) (\<lambda>_. waitUntilStatefulSetsDeleted E)))
      (\<lambda>r t. r = Inr () \<longrightarrow> grows db (halted_knowledge E db) t) (\<lambda>_ _. True) t"
      by (rule wp_bndE_then [OF empty [OF p1 t]], rule wp_bndE_then [OF account])
        (auto intro: sets)
  qed simp
qed

text \<open>The guard of the status update: the policy, and what must have been seen.\<close>

definition halt_allowed :: "mongodb \<Rightarrow> bool" where
  "halt_allowed db \<longleftrightarrow> (mg_halted db \<longrightarrow> mg_terminationPolicy db = TerminationPolicyHalt)"

definition halt_ok :: "op_env \<Rightarrow> mongodb \<Rightarrow> op_state \<Rightarrow> bool" where
  "halt_ok E db s \<longleftrightarrow>
     trace_ok (update_guard (\<lambda>h. halt_allowed db \<and> halted_knowledge E db h)) (calls s)"

lemma keeps_halt_ok: "keeps (halt_ok E db) (haltDatabase E)" "keeps (halt_ok E db) (waitUntilHalted E)"
  unfolding haltDatabase_def deleteMonitor_def waitUntilHalted_def
    WaitUntilPodDeletedBySelector_def WaitUntilServiceDeletedBySelector_def list_is_empty_def
    waitUntilRBACStuffDeleted_def WaitUntillServiceAccountDeleted_def
    waitUntilStatefulSetsDeleted_def Let_def halt_ok_def
  by (rule keeps_trace_ok [where Q = "\<lambda>c. \<not> is_update c"],
      (intro emits_intros; simp), erule update_guard_other)+

lemma wp_halt_update:
  assumes "halt_ok E db s" and "halt_allowed db" and "grows db (halted_knowledge E db) s"
  shows "wp (updateStatus E db f) (\<lambda>_. halt_ok E db) (\<lambda>_. halt_ok E db) s"
  using assms monotone_halted [of E db]
  by (auto simp: updateStatus_def wp_simps Let_def trace_ok_snoc grows_def update_guard_def
      monotone_on_calls_def halt_ok_def split: sum.split)

lemma wp_halt_waited:
  assumes "halt_ok E db s" and "halt_allowed db" and "grows db (collections_gone E db) s"
  shows "wp (bndE (waitUntilHalted E) (\<lambda>_. bnd (gets calls) (\<lambda>h.
      updateStatus E db (halted_status (o_now E h) db)))) (\<lambda>_. halt_ok E db) (\<lambda>_. halt_ok E db) s"
proof (rule wp_bndE_then [where J = "halt_ok E db"
      and I = "\<lambda>_ u. halt_ok E db u \<and> grows db (halted_knowledge E db) u"])
  have "wp (waitUntilHalted E) (\<lambda>_. halt_ok E db) (\<lambda>_. halt_ok E db) s"
    using keeps_halt_ok(2) assms(1) by (simp add: keeps_def)
  from wp_conj [OF this wp_waitUntilHalted [OF assms(3)]]
  show "wp (waitUntilHalted E) (\<lambda>r u. halt_ok E db u \<and> (\<forall>a. r = Inr a \<longrightarrow>
      halt_ok E db u \<and> grows db (halted_knowledge E db) u)) (\<lambda>_. halt_ok E db) s"
    by (rule wp_conseq) auto
qed (use wp_halt_update assms(2) in \<open>auto simp: wp_simps\<close>)

lemma wp_halt:
  assumes "halt_ok E db s" and "odb s = db"
  shows "wp (halt E) (\<lambda>_. halt_ok E db) (\<lambda>_. halt_ok E db) s"
proof (cases "halt_allowed db")
  case True
  have "wp (haltDatabase E) (\<lambda>_. halt_ok E db) (\<lambda>_. halt_ok E db) s"
    using keeps_halt_ok(1) assms(1) by (simp add: keeps_def)
  from wp_conj [OF this wp_haltDatabase [OF assms(2)]]
  have "wp (haltDatabase E) (\<lambda>r u. halt_ok E db u \<and> (\<forall>a. r = Inr a \<longrightarrow>
      halt_ok E db u \<and> grows db (collections_gone E db) u)) (\<lambda>_. halt_ok E db) s"
    by (rule wp_conseq) (auto simp: grows_def)
  then have "wp (bndE (haltDatabase E) (\<lambda>_. bndE (waitUntilHalted E) (\<lambda>_. bnd (gets calls) (\<lambda>h.
      updateStatus E db (halted_status (o_now E h) db))))) (\<lambda>_. halt_ok E db) (\<lambda>_. halt_ok E db) s"
    by (rule wp_bndE_then [where J = "halt_ok E db"
          and I = "\<lambda>_ u. halt_ok E db u \<and> grows db (collections_gone E db) u"])
      (use True in \<open>auto intro: wp_halt_waited\<close>)
  with True assms(2) show ?thesis
    by (auto simp: halt_def wp_bnd wp_gets halt_allowed_def)
qed (use assms in \<open>simp add: halt_def wp_simps halt_allowed_def\<close>)

end
