(* ===== verification/OpTerminate.thy ===== *)
theory OpTerminate
  imports OpHalt "HOL-Library.List_Lexorder" "HOL-Library.Char_ord"
begin

text \<open>
  Deleting a database (\<open>terminate\<close> of \<open>mongodb.go\<close> and \<open>util.go\<close>): nothing is deleted here.
  The objects that outlive the database lose their owner reference to it, and those that are
  to be collected with it get one; which ones is decided by the termination policy.

  The set of secrets is a sorted list without duplicates, as \<open>sets.String.List\<close> gives it.
\<close>

definition set_list :: "string list \<Rightarrow> string list" where
  "set_list xs = sort (remdups xs)"

definition secretsUsedByPeers :: "op_env \<Rightarrow> (gerr + string list) op_prog" where
  "secretsUsedByPeers E =
     bnd (gets odb) (\<lambda>db.
     bndE (perform (\<lambda>h. o_listDBs E h (mg_namespace db)) (OListDBs (mg_namespace db))) (\<lambda>dbList.
       ret (Inr (concat (map GetPersistentSecrets
         [peer \<leftarrow> dbList. mg_name peer \<noteq> mg_name db])))))"

text \<open>
  A secret that does not exist: the answer beside the error is an empty object, and its empty
  name is what is taken out of the set.
\<close>

definition drop_unmanaged :: "op_env \<Rightarrow> string list \<Rightarrow> string \<Rightarrow> (gerr + string list) op_prog" where
  "drop_unmanaged E unused name =
     bnd (gets odb) (\<lambda>db.
       let key = (mg_namespace db, name)
       in bnd (perform (\<lambda>h. api_get (o_secrets E) h key) (OGet OSecret key)) (\<lambda>r.
            case r of
              Inl e \<Rightarrow>
                if is_not_found e then ret (Inr [s \<leftarrow> unused. s \<noteq> ''''])
                else ret (Inl (Err (''error in getting db secret: '' @ error_text e)))
            | Inr sec \<Rightarrow>
                if om_labels (sec_meta sec) ManagedByLabelKey \<noteq> Some GroupName
                then ret (Inr [s \<leftarrow> unused. s \<noteq> om_name (sec_meta sec)])
                else ret (Inr unused)))"

definition wrap_error :: "string \<Rightarrow> (gerr + 'a) op_prog \<Rightarrow> (gerr + 'a) op_prog" where
  "wrap_error msg m =
     bnd m (\<lambda>r. ret (case r of Inl e \<Rightarrow> Inl (Err (msg @ '': '' @ error_text e)) | Inr a \<Rightarrow> Inr a))"

definition wipeOutDatabase :: "op_env \<Rightarrow> string list \<Rightarrow> owner_ref \<Rightarrow> (gerr + unit) op_prog" where
  "wipeOutDatabase E secrets owner =
     bnd (gets odb) (\<lambda>db.
     bndE (wrap_error ''error in getting used secret list'' (secretsUsedByPeers E)) (\<lambda>secretUsed.
       let unusedSecrets = [s \<leftarrow> set_list secrets. s \<notin> set secretUsed]
       in bndE (for_fold unusedSecrets unusedSecrets (drop_unmanaged E)) (\<lambda>unused.
          perform (\<lambda>h. o_ensureOwnerForItems E h OSecret (mg_namespace db) unused owner)
            (OEnsureOwnerForItems OSecret (mg_namespace db) unused owner))))"

definition setOwnerReferenceToOffshoots :: "op_env \<Rightarrow> owner_ref \<Rightarrow> (gerr + unit) op_prog" where
  "setOwnerReferenceToOffshoots E owner =
     bnd (gets odb) (\<lambda>db.
       let ns = mg_namespace db; sel = OffshootSelectors db; secrets = GetPersistentSecrets db
       in bndE (if mg_terminationPolicy db = TerminationPolicyWipeOut
                then wrap_error ''error in wiping out database.'' (wipeOutDatabase E secrets owner)
                else perform (\<lambda>h. o_removeOwnerForItems E h OSecret ns secrets (mg_uid db))
                       (ORemoveOwnerForItems OSecret ns secrets (mg_uid db))) (\<lambda>_.
          perform (\<lambda>h. o_ensureOwnerForSelector E h OPersistentVolumeClaim ns sel owner)
            (OEnsureOwnerForSelector OPersistentVolumeClaim ns sel owner)))"

definition removeOwnerReferenceFromOffshoots :: "op_env \<Rightarrow> (gerr + unit) op_prog" where
  "removeOwnerReferenceFromOffshoots E =
     bnd (gets odb) (\<lambda>db.
       let ns = mg_namespace db; sel = OffshootSelectors db; secrets = GetPersistentSecrets db
       in bndE (perform (\<lambda>h. o_removeOwnerForSelector E h OPersistentVolumeClaim ns sel (mg_uid db))
                  (ORemoveOwnerForSelector OPersistentVolumeClaim ns sel (mg_uid db))) (\<lambda>_.
          perform (\<lambda>h. o_removeOwnerForItems E h OSecret ns secrets (mg_uid db))
            (ORemoveOwnerForItems OSecret ns secrets (mg_uid db))))"

text \<open>An error in deleting the monitor is only logged.\<close>

definition terminate :: "op_env \<Rightarrow> (gerr + unit) op_prog" where
  "terminate E =
     bnd (gets odb) (\<lambda>db.
     bndE (if mg_terminationPolicy db = TerminationPolicyHalt
           then removeOwnerReferenceFromOffshoots E
           else setOwnerReferenceToOffshoots E (db_owner db)) (\<lambda>_.
       if mg_monitor db \<noteq> None
       then bnd (deleteMonitor E) (\<lambda>_. ret (Inr ()))
       else ret (Inr ())))"

section \<open>Lemmas\<close>

lemma set_set_list [simp]: "set (set_list xs) = set xs"
  by (simp add: set_list_def)

lemma distinct_set_list: "distinct (set_list xs)"
  by (simp add: set_list_def)

text \<open>Which secrets a wipe-out may hand over to the garbage collector.\<close>

definition seen_secret :: "op_env \<Rightarrow> mongodb \<Rightarrow> ohist \<Rightarrow> string \<Rightarrow> bool" where
  "seen_secret E db h name \<longleftrightarrow>
     replied (\<lambda>h1. case api_get (o_secrets E) h1 (mg_namespace db, name) of
           Inl e \<Rightarrow> is_not_found e
         | Inr sec \<Rightarrow>
             om_labels (sec_meta sec) ManagedByLabelKey = Some GroupName \<or> om_name (sec_meta sec) \<noteq> name)
       (OGet OSecret (mg_namespace db, name)) h"

definition unused_by_peers :: "op_env \<Rightarrow> mongodb \<Rightarrow> ohist \<Rightarrow> string \<Rightarrow> bool" where
  "unused_by_peers E db h name \<longleftrightarrow>
     replied (\<lambda>h1. \<exists>dbs. o_listDBs E h1 (mg_namespace db) = Inr dbs \<and>
        (\<forall>peer \<in> set dbs. mg_name peer \<noteq> mg_name db \<longrightarrow> name \<notin> set (GetPersistentSecrets peer)))
       (OListDBs (mg_namespace db)) h"

definition may_collect :: "op_env \<Rightarrow> mongodb \<Rightarrow> ohist \<Rightarrow> string \<Rightarrow> bool" where
  "may_collect E db h name \<longleftrightarrow>
     name \<in> set (GetPersistentSecrets db) \<and> unused_by_peers E db h name \<and> seen_secret E db h name"

lemma seen_secret_mono: "seen_secret E db h name \<Longrightarrow> seen_secret E db (h @ cs) name"
  unfolding seen_secret_def by (rule replied_mono)

lemma unused_mono: "unused_by_peers E db h name \<Longrightarrow> unused_by_peers E db (h @ cs) name"
  unfolding unused_by_peers_def by (rule replied_mono)

lemma seen_secret_now:
  "(case api_get (o_secrets E) h (mg_namespace db, name) of
      Inl e \<Rightarrow> is_not_found e
    | Inr sec \<Rightarrow>
        om_labels (sec_meta sec) ManagedByLabelKey = Some GroupName \<or> om_name (sec_meta sec) \<noteq> name) \<Longrightarrow>
   seen_secret E db (h @ [OGet OSecret (mg_namespace db, name)]) name"
  unfolding seen_secret_def by (rule replied_now)

lemma wp_drop_unmanaged:
  assumes "odb s = db"
  shows "wp (drop_unmanaged E unused name)
    (\<lambda>r t. odb t = db \<and> calls t = calls s @ [OGet OSecret (mg_namespace db, name)] \<and>
      (\<forall>left. r = Inr left \<longrightarrow> set left \<subseteq> set unused \<and>
         (name \<in> set left \<longrightarrow> seen_secret E db (calls t) name)))
    (\<lambda>_ _. False) s"
  using assms
  by (auto simp: drop_unmanaged_def wp_simps Let_def split: sum.split intro!: seen_secret_now)

lemma wp_for_fold_drop:
  assumes "odb s = db" and "\<forall>name \<in> set unused. name \<in> set todo \<or> seen_secret E db (calls s) name"
  shows "wp (for_fold todo unused (drop_unmanaged E))
    (\<lambda>r t. odb t = db \<and> (\<exists>cs. calls t = calls s @ cs) \<and>
      (\<forall>left. r = Inr left \<longrightarrow> set left \<subseteq> set unused \<and>
         (\<forall>name \<in> set left. seen_secret E db (calls t) name)))
    (\<lambda>_ _. False) s"
  using assms
proof (induction todo arbitrary: s unused)
  case Nil
  then show ?case by (simp add: wp_simps)
next
  case (Cons name todo)
  show ?case
    unfolding for_fold.simps wp_bndE
  proof (rule wp_conseq [OF wp_drop_unmanaged [OF Cons.prems(1)]])
    fix r :: "gerr + string list" and t :: op_state
    assume t: "odb t = db \<and> calls t = calls s @ [OGet OSecret (mg_namespace db, name)] \<and>
      (\<forall>left. r = Inr left \<longrightarrow> set left \<subseteq> set unused \<and>
         (name \<in> set left \<longrightarrow> seen_secret E db (calls t) name))"
    show "case r of
        Inl e \<Rightarrow> odb t = db \<and> (\<exists>cs. calls t = calls s @ cs) \<and>
          (\<forall>left. Inl e = Inr left \<longrightarrow> set left \<subseteq> set unused \<and>
             (\<forall>name \<in> set left. seen_secret E db (calls t) name))
      | Inr acc \<Rightarrow> wp (for_fold todo acc (drop_unmanaged E))
          (\<lambda>r t. odb t = db \<and> (\<exists>cs. calls t = calls s @ cs) \<and>
            (\<forall>left. r = Inr left \<longrightarrow> set left \<subseteq> set unused \<and>
               (\<forall>name \<in> set left. seen_secret E db (calls t) name)))
          (\<lambda>_ _. False) t"
    proof (cases r)
      case (Inr acc)
      have kept: "n \<in> set todo \<or> seen_secret E db (calls t) n" if "n \<in> set acc" for n
      proof -
        from that t Inr have "n \<in> set unused" and now: "n = name \<Longrightarrow> seen_secret E db (calls t) n"
          by auto
        with Cons.prems(2) consider "n = name" | "n \<in> set todo" | "seen_secret E db (calls s) n"
          by auto
        then show ?thesis
          by cases (use now t seen_secret_mono [of E db "calls s" n] in simp_all)
      qed
      then have "\<forall>n \<in> set acc. n \<in> set todo \<or> seen_secret E db (calls t) n" by blast
      then have "wp (for_fold todo acc (drop_unmanaged E))
          (\<lambda>r t'. odb t' = db \<and> (\<exists>cs. calls t' = calls t @ cs) \<and>
            (\<forall>left. r = Inr left \<longrightarrow> set left \<subseteq> set acc \<and>
               (\<forall>name \<in> set left. seen_secret E db (calls t') name)))
          (\<lambda>_ _. False) t"
        using t by (intro Cons.IH) simp_all
      then have "wp (for_fold todo acc (drop_unmanaged E))
          (\<lambda>r t. odb t = db \<and> (\<exists>cs. calls t = calls s @ cs) \<and>
            (\<forall>left. r = Inr left \<longrightarrow> set left \<subseteq> set unused \<and>
               (\<forall>name \<in> set left. seen_secret E db (calls t) name)))
          (\<lambda>_ _. False) t"
        by (rule wp_conseq) (use t Inr in auto)
      with Inr show ?thesis by simp
    qed (use t in auto)
  qed simp
qed

definition collect_guard :: "op_env \<Rightarrow> mongodb \<Rightarrow> ohist \<Rightarrow> op_call \<Rightarrow> bool" where
  "collect_guard E db h c \<longleftrightarrow>
     (\<forall>k ns names owner. c = OEnsureOwnerForItems k ns names owner \<longrightarrow>
        (\<forall>name \<in> set names. mg_terminationPolicy db = TerminationPolicyWipeOut \<and> k = OSecret \<and>
           ns = mg_namespace db \<and> owner = db_owner db \<and> may_collect E db h name))"

fun hands_over :: "op_call \<Rightarrow> bool" where
  "hands_over (OEnsureOwnerForItems k ns names owner) = True"
| "hands_over c = False"

lemma collect_guard_other: "\<not> hands_over c \<Longrightarrow> collect_guard E db h c"
  by (auto simp: collect_guard_def)

definition collect_ok :: "op_env \<Rightarrow> mongodb \<Rightarrow> op_state \<Rightarrow> bool" where
  "collect_ok E db s \<longleftrightarrow> trace_ok (collect_guard E db) (calls s)"

lemma collect_ok_snoc [simp]:
  "\<not> hands_over c \<Longrightarrow> collect_ok E db s \<Longrightarrow> collect_ok E db (s\<lparr>calls := calls s @ [c]\<rparr>)"
  by (simp add: collect_ok_def trace_ok_snoc collect_guard_other)

lemma keeps_collect_ok: "emits (\<lambda>c. \<not> hands_over c) m \<Longrightarrow> keeps (collect_ok E db) m"
  unfolding collect_ok_def by (erule keeps_trace_ok) (rule collect_guard_other)

lemma emits_drop: "emits (\<lambda>c. \<not> hands_over c) (for_fold todo unused (drop_unmanaged E))"
  unfolding drop_unmanaged_def Let_def by (intro emits_intros) simp_all

text \<open>From the list of candidates on: the call hands over what may be collected.\<close>

lemma wp_hand_over:
  fixes s :: op_state and db :: mongodb
  defines "t0 \<equiv> s\<lparr>calls := calls s @ [OListDBs (mg_namespace db)]\<rparr>"
  assumes "collect_ok E db s" and "odb s = db"
    and "mg_terminationPolicy db = TerminationPolicyWipeOut"
    and "o_listDBs E (calls s) (mg_namespace db) = Inr dbs"
    and "\<And>name. name \<in> set unused \<Longrightarrow> name \<in> set (GetPersistentSecrets db) \<and>
        (\<forall>peer \<in> set dbs. mg_name peer \<noteq> mg_name db \<longrightarrow> name \<notin> set (GetPersistentSecrets peer))"
  shows "wp (bndE (for_fold unused unused (drop_unmanaged E)) (\<lambda>unused.
          perform (\<lambda>h. o_ensureOwnerForItems E h OSecret (mg_namespace db) unused (db_owner db))
            (OEnsureOwnerForItems OSecret (mg_namespace db) unused (db_owner db))))
      (\<lambda>_. collect_ok E db) (\<lambda>_. collect_ok E db) t0"
proof (rule wp_bndE_then [where J = "collect_ok E db" and
      I = "\<lambda>left t. collect_ok E db t \<and> (\<forall>name \<in> set left. may_collect E db (calls t) name)"])
  have ok: "wp (for_fold unused unused (drop_unmanaged E)) (\<lambda>_. collect_ok E db)
      (\<lambda>_. collect_ok E db) t0"
    by (rule wp_keeps [OF keeps_collect_ok [OF emits_drop]]) (use assms(2) in \<open>simp_all add: t0_def\<close>)
  have unused_now: "unused_by_peers E db (calls t0) name" if "name \<in> set unused" for name
    using assms(6) [OF that] assms(5) by (auto simp: t0_def unused_by_peers_def intro!: replied_now)
  have "wp (for_fold unused unused (drop_unmanaged E))
      (\<lambda>r t. odb t = db \<and> (\<exists>cs. calls t = calls t0 @ cs) \<and>
        (\<forall>left. r = Inr left \<longrightarrow> set left \<subseteq> set unused \<and>
           (\<forall>name \<in> set left. seen_secret E db (calls t) name)))
      (\<lambda>_ _. False) t0"
    by (rule wp_for_fold_drop) (use assms(3) in \<open>simp_all add: t0_def\<close>)
  from wp_conj [OF ok this]
  show "wp (for_fold unused unused (drop_unmanaged E))
      (\<lambda>r t. collect_ok E db t \<and> (\<forall>left. r = Inr left \<longrightarrow>
         collect_ok E db t \<and> (\<forall>name \<in> set left. may_collect E db (calls t) name)))
      (\<lambda>_. collect_ok E db) t0"
  proof (rule wp_conseq)
    fix r :: "gerr + string list" and t :: op_state
    assume t: "collect_ok E db t \<and> odb t = db \<and> (\<exists>cs. calls t = calls t0 @ cs) \<and>
        (\<forall>left. r = Inr left \<longrightarrow> set left \<subseteq> set unused \<and>
           (\<forall>name \<in> set left. seen_secret E db (calls t) name))"
    then obtain cs where cs: "calls t = calls t0 @ cs" by blast
    have "unused_by_peers E db (calls t) name" if "name \<in> set unused" for name
      unfolding cs by (rule unused_mono [OF unused_now [OF that]])
    with t assms(6) show "collect_ok E db t \<and> (\<forall>left. r = Inr left \<longrightarrow>
        collect_ok E db t \<and> (\<forall>name \<in> set left. may_collect E db (calls t) name))"
      by (auto simp: may_collect_def subset_iff)
  qed simp
qed (use assms(4) in \<open>auto simp: wp_simps collect_ok_def trace_ok_snoc collect_guard_def\<close>)

lemma wp_wipeOutDatabase:
  assumes "collect_ok E db s" and "odb s = db"
    and "mg_terminationPolicy db = TerminationPolicyWipeOut"
  shows "wp (wipeOutDatabase E (GetPersistentSecrets db) (db_owner db))
    (\<lambda>_. collect_ok E db) (\<lambda>_. collect_ok E db) s"
proof -
  let ?s = "s\<lparr>calls := calls s @ [OListDBs (mg_namespace db)]\<rparr>"
  let ?used = "\<lambda>dbs. concat (map GetPersistentSecrets [peer \<leftarrow> dbs. mg_name peer \<noteq> mg_name db])"
  show ?thesis
    unfolding wipeOutDatabase_def wp_bnd wp_gets Let_def assms(2)
  proof (rule wp_bndE_then [where J = "collect_ok E db" and
        I = "\<lambda>used t. t = ?s \<and> (\<exists>dbs. o_listDBs E (calls s) (mg_namespace db) = Inr dbs \<and> used = ?used dbs)"])
    fix used t
    assume "t = ?s \<and> (\<exists>dbs. o_listDBs E (calls s) (mg_namespace db) = Inr dbs \<and> used = ?used dbs)"
    then obtain dbs where t: "t = ?s" and dbs: "o_listDBs E (calls s) (mg_namespace db) = Inr dbs"
      and used: "used = ?used dbs" by blast
    show "wp (bndE (for_fold [s \<leftarrow> set_list (GetPersistentSecrets db). s \<notin> set used]
          [s \<leftarrow> set_list (GetPersistentSecrets db). s \<notin> set used] (drop_unmanaged E)) (\<lambda>unused.
        perform (\<lambda>h. o_ensureOwnerForItems E h OSecret (mg_namespace db) unused (db_owner db))
          (OEnsureOwnerForItems OSecret (mg_namespace db) unused (db_owner db))))
      (\<lambda>_. collect_ok E db) (\<lambda>_. collect_ok E db) t"
      unfolding t by (rule wp_hand_over [OF assms dbs]) (auto simp: used)
  qed (use assms in \<open>auto simp: wrap_error_def secretsUsedByPeers_def wp_simps split: sum.split\<close>)
qed

text \<open>The same for the whole deletion, which never changes the object it works on.\<close>

definition in_terminate :: "op_env \<Rightarrow> mongodb \<Rightarrow> op_state \<Rightarrow> bool" where
  "in_terminate E db s \<longleftrightarrow> odb s = db \<and> collect_ok E db s"

lemma keeps_in_terminate_gets:
  "keeps (in_terminate E db) (f db) \<Longrightarrow> keeps (in_terminate E db) (bnd (gets odb) f)"
  by (rule keeps_bnd_gets) (simp add: in_terminate_def)

lemma keeps_in_terminate_perform:
  "\<not> hands_over c \<Longrightarrow> keeps (in_terminate E db) (perform ans c)"
  by (rule keeps_perform) (simp add: in_terminate_def)

lemma keeps_same_object: "keeps (\<lambda>s. odb s = db) (wipeOutDatabase E secrets owner)"
  unfolding wipeOutDatabase_def wrap_error_def secretsUsedByPeers_def drop_unmanaged_def Let_def
  by (intro keeps_intros) simp_all

lemma keeps_wipeOut:
  assumes "mg_terminationPolicy db = TerminationPolicyWipeOut"
  shows "keeps (in_terminate E db) (wipeOutDatabase E (GetPersistentSecrets db) (db_owner db))"
proof (rule keepsI)
  fix s assume s: "in_terminate E db s"
  have "wp (wipeOutDatabase E (GetPersistentSecrets db) (db_owner db))
      (\<lambda>_ t. odb t = db) (\<lambda>_ t. odb t = db) s"
    using keeps_same_object s by (simp add: keeps_def in_terminate_def)
  from wp_conj [OF this wp_wipeOutDatabase [of E db, OF _ _ assms]] s
  show "wp (wipeOutDatabase E (GetPersistentSecrets db) (db_owner db))
      (\<lambda>_. in_terminate E db) (\<lambda>_. in_terminate E db) s"
    by (simp add: in_terminate_def [abs_def])
qed

lemma keeps_terminate: "keeps (in_terminate E db) (terminate E)"
  unfolding terminate_def removeOwnerReferenceFromOffshoots_def deleteMonitor_def
    setOwnerReferenceToOffshoots_def wrap_error_def Let_def
  by (intro keeps_in_terminate_gets keeps_in_terminate_perform keeps_wipeOut keeps_bndE keeps_bnd
      keeps_if keeps_option keeps_sum keeps_ret) simp_all

end
