(* ===== verification/OpHealth.thy ===== *)
theory OpHealth
  imports OpTerminate
begin

text \<open>
  The health checker (\<open>health.go\<close>): for every database it connects to all parts of it, pings
  them, and keeps the conditions \<open>AcceptingConnection\<close> and \<open>Ready\<close>.

  The code checks all databases of a round in parallel. Here they come one after the other;
  as the answers to the calls are arbitrary, what is proved about the check of one database
  holds however the others are interleaved with it. Connecting is one call
  (\<open>NewKubeDBClientBuilder ... GetMongoClient\<close>); the timeout of the context is in its answers.
\<close>

section \<open>The status\<close>

definition DatabaseAcceptingConnectionRequest :: string where
  "DatabaseAcceptingConnectionRequest = ''DatabaseAcceptingConnectionRequest''"
definition DatabaseNotAcceptingConnectionRequest :: string where
  "DatabaseNotAcceptingConnectionRequest = ''DatabaseNotAcceptingConnectionRequest''"
definition ReadinessCheckSucceeded :: string where
  "ReadinessCheckSucceeded = ''ReadinessCheckSucceeded''"
definition ReadinessCheckFailed :: string where "ReadinessCheckFailed = ''ReadinessCheckFailed''"

definition accepting_condition :: "mongodb \<Rightarrow> condition" where
  "accepting_condition db =
     db_condition DatabaseAcceptingConnection ConditionTrue DatabaseAcceptingConnectionRequest
       (mg_generation db) (''The MongoDB: '' @ db_name db @ '' is accepting client requests.'')"

definition not_accepting_condition :: "mongodb \<Rightarrow> gerr \<Rightarrow> condition" where
  "not_accepting_condition db e =
     db_condition DatabaseAcceptingConnection ConditionFalse DatabaseNotAcceptingConnectionRequest
       (mg_generation db) (''The MongoDB: '' @ db_name db @
         '' is not accepting client requests. error: '' @ error_text e)"

definition ready_condition :: "mongodb \<Rightarrow> condition" where
  "ready_condition db =
     db_condition DatabaseReady ConditionTrue ReadinessCheckSucceeded (mg_generation db)
       (''The MongoDB: '' @ db_name db @ '' is ready.'')"

definition not_ready_condition :: "mongodb \<Rightarrow> condition" where
  "not_ready_condition db =
     db_condition DatabaseReady ConditionFalse ReadinessCheckFailed (mg_generation db)
       (''The MongoDB: '' @ db_name db @ '' is not ready.'')"

text \<open>The errors of these two updates are only logged.\<close>

definition updateErrorAcceptingConnections :: "op_env \<Rightarrow> gerr \<Rightarrow> unit op_prog" where
  "updateErrorAcceptingConnections E e =
     bnd (gets odb) (\<lambda>db.
     bnd (gets calls) (\<lambda>h.
     bnd (updateStatus E db
            (\<lambda>st. set_db_condition (o_now E h) (not_ready_condition db)
               (set_db_condition (o_now E h) (not_accepting_condition db e) st))) (\<lambda>_. ret ())))"

definition updateDatabaseReady :: "op_env \<Rightarrow> unit op_prog" where
  "updateDatabaseReady E =
     bnd (gets odb) (\<lambda>db.
     bnd (gets calls) (\<lambda>h.
     bnd (updateStatus E db (set_db_condition (o_now E h) (ready_condition db))) (\<lambda>_. ret ())))"

definition updateAcceptingConnection :: "op_env \<Rightarrow> (gerr + unit) op_prog" where
  "updateAcceptingConnection E =
     bnd (gets odb) (\<lambda>db.
     bnd (gets calls) (\<lambda>h.
       updateStatus E db (set_db_condition (o_now E h) (accepting_condition db))))"

section \<open>The check of one database\<close>

definition connect :: "op_env \<Rightarrow> string \<Rightarrow> string \<Rightarrow> (gerr + unit) op_prog" where
  "connect E url replSet = perform (\<lambda>h. o_connect E h url replSet) (OConnect url replSet)"

definition ping :: "op_env \<Rightarrow> string \<Rightarrow> (gerr + unit) op_prog" where
  "ping E url = perform (\<lambda>h. o_ping E h url) (OPing url)"

definition close :: "string \<Rightarrow> unit op_prog" where
  "close url = perform (\<lambda>h. ()) (OClose url)"

text \<open>
  Connecting, and what follows with the connection closed at the end; a failure to connect is
  reported and ends the check (\<open>Inl ()\<close>).
\<close>

definition with_client ::
  "op_env \<Rightarrow> string \<Rightarrow> string \<Rightarrow> (unit + 'a) op_prog \<Rightarrow> (unit + 'a) op_prog" where
  "with_client E url replSet body =
     bnd (connect E url replSet) (\<lambda>r.
       case r of
         Inl e \<Rightarrow> bnd (updateErrorAcceptingConnections E e) (\<lambda>_. ret (Inl ()))
       | Inr _ \<Rightarrow> with_defer body (close url))"

definition url_of :: "string list \<Rightarrow> string" where
  "url_of hosts = str_join '','' hosts"

text \<open>One round of the loop over the shards: the ping error of the shard is remembered.\<close>

definition check_shard :: "op_env \<Rightarrow> gerr option list \<Rightarrow> int \<Rightarrow> (unit + gerr option list) op_prog" where
  "check_shard E shardPingErrors i =
     bnd (gets odb) (\<lambda>db.
     bnd (deref (ShardHosts db i)) (\<lambda>hosts.
       with_client E (url_of hosts) (ShardRepSetName db i)
         (bnd (ping E (url_of hosts)) (\<lambda>r.
            ret (Inr (shardPingErrors @ [case r of Inl e \<Rightarrow> Some e | Inr _ \<Rightarrow> None]))))))"

text \<open>The last part: the status is updated, and the pings decide whether the database is ready.\<close>

definition check_ready :: "op_env \<Rightarrow> gerr option list \<Rightarrow> string list \<Rightarrow> (unit + unit) op_prog" where
  "check_ready E shardPingErrors urls =
     bnd (updateAcceptingConnection E) (\<lambda>r.
       case r of
         Inl e \<Rightarrow> ret (Inl ())
       | Inr _ \<Rightarrow>
           if \<exists>e \<in> set shardPingErrors. e \<noteq> None then ret (Inl ())
           else
             bndE (for_each urls (\<lambda>url.
                     bnd (ping E url) (\<lambda>r. ret (case r of Inl e \<Rightarrow> Inl () | Inr _ \<Rightarrow> Inr ())))) (\<lambda>_.
             bnd (updateDatabaseReady E) (\<lambda>_. ret (Inr ()))))"

text \<open>
  The goroutine of \<open>CheckMongoDBHealthOnce\<close>. \<open>Inl ()\<close> is an early return; a negative number of
  shards panics in \<open>make\<close>.
\<close>

definition check_database :: "op_env \<Rightarrow> (unit + unit) op_prog" where
  "check_database E =
     bnd (gets odb) (\<lambda>db.
       case mg_shardTopology db of
         None \<Rightarrow>
           bnd (deref (Hosts db)) (\<lambda>hosts.
             with_client E (url_of hosts) (RepSetName db) (check_ready E [] [url_of hosts]))
       | Some topology \<Rightarrow>
           bnd (deref (ConfigSvrHosts db)) (\<lambda>configHosts.
             with_client E (url_of configHosts) (ConfigSvrRepSetName db)
               (if st_shards topology < 0 then panic ''makeslice: len out of range''
                else
                  bndE (for_fold (int_range (st_shards topology)) [] (check_shard E)) (\<lambda>shardPingErrors.
                  bnd (deref (MongosHosts db)) (\<lambda>mongosHosts.
                    with_client E (url_of mongosHosts) ''''
                      (check_ready E shardPingErrors [url_of configHosts, url_of mongosHosts]))))))"

section \<open>All databases, again and again\<close>

definition skipped :: "mongodb \<Rightarrow> bool" where
  "skipped db \<longleftrightarrow> om_deletionTimestamp (mg_meta db) \<noteq> None \<or> mg_halted db"

definition CheckMongoDBHealthOnce :: "op_env \<Rightarrow> unit op_prog" where
  "CheckMongoDBHealthOnce E =
     bnd (perform (\<lambda>h. o_listDBs E h '''') (OListDBs '''')) (\<lambda>r.
       case r of
         Inl e \<Rightarrow> ret ()
       | Inr dbList \<Rightarrow>
           bnd (for_each [db \<leftarrow> dbList. \<not> skipped db] (\<lambda>db.
                  bnd (update (\<lambda>s. s\<lparr>odb := db\<rparr>)) (\<lambda>_.
                  bnd (check_database E) (\<lambda>_. ret (Inr () :: unit + unit))))) (\<lambda>_. ret ()))"

text \<open>
  The endless loop. \<open>stopped h\<close>: the stop channel is closed when \<open>h\<close> has happened. In Go the
  \<open>break\<close> of that case leaves the \<open>select\<close> and not the loop. The result is \<open>None\<close> when the
  loop does not return.
\<close>

partial_function (option) CheckMongoDBHealth ::
  "op_env \<Rightarrow> (ohist \<Rightarrow> bool) \<Rightarrow> op_state \<Rightarrow> (unit outcome \<times> op_state) option" where
  "CheckMongoDBHealth E stopped s =
     (if stopped (calls s) then CheckMongoDBHealth E stopped s
      else case CheckMongoDBHealthOnce E s of
             (Crash k, t) \<Rightarrow> Some (Crash k, t)
           | (Done u, t) \<Rightarrow> CheckMongoDBHealth E stopped t)"

section \<open>Lemmas\<close>

lemma not_ready_effect:
  "find_by cond_type DatabaseReady (ms_conditions (set_db_condition now (accepting_condition db) st)) =
     find_by cond_type DatabaseReady (ms_conditions st)"
  by (simp add: set_db_condition_def SetCondition_other accepting_condition_def db_condition_def
      database_condition_defs)

text \<open>The status updates of one check, as calls.\<close>

inductive status_call :: "mongodb \<Rightarrow> op_call \<Rightarrow> bool" where
  accepting: "status_call db (OUpdateStatus (key_of (mg_meta db)) (mg_uid db) st
     (set_db_condition now (accepting_condition db) st))"
| failed: "status_call db (OUpdateStatus (key_of (mg_meta db)) (mg_uid db) st
     (set_db_condition now (not_ready_condition db)
       (set_db_condition now (not_accepting_condition db e) st)))"
| ready: "status_call db (OUpdateStatus (key_of (mg_meta db)) (mg_uid db) st
     (set_db_condition now (ready_condition db) st))"

inductive_cases status_callE: "status_call db c"

text \<open>The calls of one check: connections, pings, and these updates.\<close>

fun checks :: "mongodb \<Rightarrow> op_call \<Rightarrow> bool" where
  "checks db (OConnect url replSet) = True"
| "checks db (OPing url) = True"
| "checks db (OClose url) = True"
| "checks db (OFetchStatus key) = (key = key_of (mg_meta db))"
| "checks db (OUpdateStatus key uid st st') = status_call db (OUpdateStatus key uid st st')"
| "checks db c = False"

text \<open>What one check does, as an invariant: it keeps the database and makes only those calls.\<close>

definition in_check :: "mongodb \<Rightarrow> ohist \<Rightarrow> op_state \<Rightarrow> bool" where
  "in_check db h s \<longleftrightarrow> odb s = db \<and> (\<exists>cs. calls s = h @ cs \<and> list_all (checks db) cs)"

lemma in_check_snoc [simp]:
  "in_check db h s \<Longrightarrow> checks db c \<Longrightarrow> in_check db h (s\<lparr>calls := calls s @ [c]\<rparr>)"
  unfolding in_check_def by auto

lemma in_check_db: "in_check db h s \<Longrightarrow> odb s = db"
  by (simp add: in_check_def)

lemma in_check_start: "odb s = db \<Longrightarrow> in_check db (calls s) s"
  by (simp add: in_check_def)

lemma keeps_in_check_gets:
  "(\<And>a. keeps (in_check db h) (f db)) \<Longrightarrow> keeps (in_check db h) (bnd (gets odb) f)"
  by (rule keeps_bnd_gets) (auto dest: in_check_db)

lemma keeps_updateStatus:
  assumes "\<And>st. status_call db (OUpdateStatus (key_of (mg_meta db)) (mg_uid db) st (f st))"
  shows "keeps (in_check db h) (updateStatus E db f)"
  unfolding updateStatus_def Let_def
  by (intro keeps_intros) (simp_all add: assms)

lemma keeps_check_parts:
  "keeps (in_check db h) (updateErrorAcceptingConnections E e)"
  "keeps (in_check db h) (updateDatabaseReady E)"
  "keeps (in_check db h) (updateAcceptingConnection E)"
  "keeps (in_check db h) (connect E url replSet)"
  "keeps (in_check db h) (ping E url)"
  "keeps (in_check db h) (close url)"
  unfolding updateErrorAcceptingConnections_def updateDatabaseReady_def
    updateAcceptingConnection_def connect_def ping_def close_def
  by (intro keeps_in_check_gets keeps_intros keeps_updateStatus;
      simp add: status_call.intros)+

lemma keeps_with_client:
  "keeps (in_check db h) body \<Longrightarrow> keeps (in_check db h) (with_client E url replSet body)"
  unfolding with_client_def by (intro keeps_intros keeps_check_parts)

lemma keeps_check_ready: "keeps (in_check db h) (check_ready E errs urls)"
  unfolding check_ready_def by (intro keeps_intros keeps_check_parts)

lemma keeps_check_shard: "keeps (in_check db h) (check_shard E errs i)"
  unfolding check_shard_def
  by (intro keeps_intros keeps_with_client keeps_check_parts)

lemma keeps_check_database: "keeps (in_check db h) (check_database E)"
  unfolding check_database_def
  by (intro keeps_intros keeps_with_client keeps_check_ready keeps_check_shard)

end
