(* ===== verification/OpProps.thy ===== *)
theory OpProps
  imports OpHealth
begin

text \<open>
  The properties of the operator's parts: what halting, deleting and checking a database may
  do and in which order, and what it tells the API server. Every theorem holds for arbitrary
  answers; the witnesses run the operator against \<open>demo_op_env\<close>, a cluster in which nothing
  exists and every call succeeds.
\<close>

section \<open>A cluster\<close>

definition missing_api :: "'a api" where
  "missing_api =
     \<lparr>api_get = (\<lambda>_ _. Inl (NotFound ''not found'')), api_create = (\<lambda>_ x. Inr x),
      api_patch = (\<lambda>_ _ x. Inr x), api_same = (\<lambda>_ _. False)\<rparr>"

definition demo_op_version :: mongodb_version where
  "demo_op_version =
     \<lparr>mv_version = ''4.2.3'', mv_dbImage = ''mongo'', mv_exporterImage = ''exporter'',
      mv_initContainerImage = ''init'', mv_replicationModeDetectorImage = ''detector'',
      mv_podSecurityPolicyName = '''', mv_deprecated = False, mv_restoreTask = '''', mv_stash = absent\<rparr>"

definition demo_op_env :: op_env where
  "demo_op_env =
     \<lparr>o_services = missing_api, o_serviceAccounts = missing_api, o_roles = missing_api,
      o_roleBindings = missing_api, o_appBindings = missing_api, o_secrets = missing_api,
      o_now = (\<lambda>h. length h), o_listNames = (\<lambda>_ _ _ _. Inr []), o_delete = (\<lambda>_ _ _. Inr ()),
      o_deleteCollection = (\<lambda>_ _ _ _. Inr ()), o_getVersion = (\<lambda>_ _. Inr demo_op_version),
      o_listDBs = (\<lambda>_ _. Inr []), o_patchDB = (\<lambda>_ _ x. Inr x), o_fetchDB = (\<lambda>_ _. Inr empty_mongodb),
      o_writeDB = (\<lambda>_ x. Inr x),
      o_fetchStatus = (\<lambda>_ _. Inr \<lparr>ms_phase = '''', ms_observedGeneration = 0, ms_conditions = []\<rparr>),
      o_updateStatus = (\<lambda>_ _ _ _. Inr ()), o_password = (\<lambda>_. ''secret''), o_token = (\<lambda>_. ''token''),
      o_resourcesExist = (\<lambda>_ _ _ _. Inr True), o_removeOwnerForItems = (\<lambda>_ _ _ _ _. Inr ()),
      o_removeOwnerForSelector = (\<lambda>_ _ _ _ _. Inr ()), o_ensureOwnerForItems = (\<lambda>_ _ _ _ _. Inr ()),
      o_ensureOwnerForSelector = (\<lambda>_ _ _ _ _. Inr ()), o_newAgent = (\<lambda>a. Inr a),
      o_agentUpdate = (\<lambda>_ _ _. Inr ()), o_agentDelete = (\<lambda>_ _ _. Inr ()),
      o_connect = (\<lambda>_ _ _. Inr ()), o_ping = (\<lambda>_ _. Inr ()),
      o_usersInfo = (\<lambda>_ _ _. Inr (Some 0)), o_createUser = (\<lambda>_ _ _. Inr ()),
      o_getReplConfig = (\<lambda>_ _. Inr []), o_reconfig = (\<lambda>_ _ _. Inr []),
      o_parseCertificate = Inr, o_pemDecode = Some, o_unmarshalObject = (\<lambda>_. Inr []),
      o_mergeDocuments = (\<lambda>current provided. current @ provided), o_statefulSets = missing_api,
      o_createPDB = (\<lambda>_ _. Inr ()), o_validate = (\<lambda>_ _. Inr ()),
      o_fromCache = (\<lambda>_ _. Inr None), o_phase = (\<lambda>_. ''Provisioning''), o_IPv6 = (\<lambda>_. Inr False),
      o_isZero = (\<lambda>r. r = absent), o_marshalTemplate = (\<lambda>_. Inr ''''),
      o_evalMap = (\<lambda>text _. Inr text), o_unmarshalTemplate = (\<lambda>_ t. Inr t), o_loggerFlags = [],
      o_parse = (\<lambda>_. Inr \<lparr>sv_major = 4, sv_minor = 2, sv_patch = 3, sv_pre = ''''\<rparr>),
      o_polls = 3, o_defaultHost = ''host-0''\<rparr>"

definition demo_op_db :: mongodb where
  "demo_op_db = empty_mongodb\<lparr>mg_meta := (meta_of ''demo'' ''mg'')\<lparr>om_uid := ''uid-1''\<rparr>,
     mg_version := ''4.2.3''\<rparr>"

lemmas op_program_defs = perform_def bnd_def bndE_def ret_def gets_def update_def deref_def
  panic_def with_defer_def Let_def op_start_def
lemmas demo_op_defs = demo_op_env_def demo_op_db_def missing_api_def empty_mongodb_def meta_of_def

section \<open>Halting\<close>

text \<open>C35. Halting a database deletes only the collections of derived objects and the services,
  in the namespace and under the labels of the database, and writes nothing but its status:
  volume claims and secrets stay.\<close>

theorem halt_keeps_data:
  assumes "halt E (op_start db) = (r, t)" and "c \<in> set (calls t)"
  shows "halting db c"
proof -
  have "in_halt db (op_start db)" by (simp add: in_halt_def)
  from keepsD [OF keeps_halt this assms(1)] assms(2) show ?thesis
    by (simp add: in_halt_def list_all_iff)
qed

definition halted_demo_db :: mongodb where
  "halted_demo_db = demo_op_db\<lparr>mg_halted := True, mg_terminationPolicy := TerminationPolicyHalt\<rparr>"

lemma halted_demo_run:
  "\<exists>t st'. halt demo_op_env (op_start halted_demo_db) = (Done (Inr ()), t) \<and>
     calls t = map (\<lambda>k. ODeleteCollection k ''demo'' (OffshootSelectors halted_demo_db))
         halted_collections @
       [OList OService ''demo'' (OffshootSelectors halted_demo_db),
        OList OPod ''demo'' (OffshootSelectors halted_demo_db),
        OList OService ''demo'' (OffshootSelectors halted_demo_db),
        OGet OServiceAccount (''demo'', ''mg''),
        OList OStatefulSet ''demo'' (OffshootSelectors halted_demo_db),
        OFetchStatus (''demo'', ''mg''),
        OUpdateStatus (''demo'', ''mg'') ''uid-1''
          \<lparr>ms_phase = '''', ms_observedGeneration = 0, ms_conditions = []\<rparr> st'] \<and>
     HasCondition (ms_conditions st') DatabaseHalted"
proof -
  have "mg_halted halted_demo_db" "mg_terminationPolicy halted_demo_db = TerminationPolicyHalt"
    "mg_namespace halted_demo_db = ''demo''" "mg_name halted_demo_db = ''mg''"
    "mg_uid halted_demo_db = ''uid-1''" "mg_monitor halted_demo_db = None"
    by (simp_all add: halted_demo_db_def demo_op_defs)
  then show ?thesis
    by (simp add: halt_def haltDatabase_def waitUntilHalted_def WaitUntilPodDeletedBySelector_def
        WaitUntilServiceDeletedBySelector_def list_is_empty_def waitUntilRBACStuffDeleted_def
        WaitUntillServiceAccountDeleted_def waitUntilStatefulSetsDeleted_def updateStatus_def
        halted_collections_def key_of_def op_program_defs demo_op_env_def missing_api_def
        eval_nat_numeral halted_status_def set_db_condition_def halted_conditions_def
        db_condition_def database_condition_defs)
qed

theorem halt_keeps_data_witness:
  "\<exists>t. halt demo_op_env (op_start halted_demo_db) = (Done (Inr ()), t) \<and>
     list_all (halting halted_demo_db) (calls t) \<and> length (calls t) = 14"
proof -
  from halted_demo_run obtain t st' where
    run: "halt demo_op_env (op_start halted_demo_db) = (Done (Inr ()), t)" and
    len: "length (calls t) = 14" by (auto simp: halted_collections_def)
  from run len halt_keeps_data [OF run] show ?thesis by (auto simp: list_all_iff)
qed



text \<open>Waiting for the StatefulSets to be deleted ends at once, as if they were gone, when the
  API server fails to list them, whatever the error is.\<close>

theorem statefulset_wait_accepts_any_error:
  assumes "o_listNames E (calls s) OStatefulSet (mg_namespace (odb s)) (OffshootSelectors (odb s)) = Inl e"
  shows "waitUntilStatefulSetsDeleted E s =
    (Done (Inr ()), s\<lparr>calls := calls s @
       [OList OStatefulSet (mg_namespace (odb s)) (OffshootSelectors (odb s))]\<rparr>)"
  using assms
  by (cases "o_polls E") (simp_all add: waitUntilStatefulSetsDeleted_def op_program_defs)

theorem statefulset_wait_accepts_any_error_witness:
  "fst (waitUntilStatefulSetsDeleted
     (demo_op_env\<lparr>o_listNames := (\<lambda>_ _ _ _. Inl (Err ''connection refused''))\<rparr>)
     (op_start demo_op_db)) = Done (Inr ())"
  using statefulset_wait_accepts_any_error
    [of "demo_op_env\<lparr>o_listNames := (\<lambda>_ _ _ _. Inl (Err ''connection refused''))\<rparr>"
      "op_start demo_op_db" "Err ''connection refused''"]
  by simp

section \<open>Deleting\<close>




end
