(* ===== verification/OpAccessProps.thy ===== *)
theory OpAccessProps
  imports OpProps
begin

text \<open>
  The properties of what the operator sets up for reaching a database: its secrets, the
  permissions of its pods, the ports it is announced under, and the TLS flags of its server.
\<close>

section \<open>Secrets\<close>

text \<open>C22. The authentication secret and the key file are created only after the API server
  answered that there is no secret of that name, and an existing secret is never changed.\<close>

theorem secrets_created_only_when_absent:
  assumes "bndE (ensureAuthSecret E) (\<lambda>_. EnsureKeyFileSecret E) (op_start db) = (r, t)"
    and "calls t = h @ c # h'"
  shows "absent_before E h c"
proof -
  have "keeps (secrets_ok E) (bndE (ensureAuthSecret E) (\<lambda>_. EnsureKeyFileSecret E))"
    by (intro keeps_intros keeps_ensureAuthSecret keeps_EnsureKeyFileSecret)
  from keepsD [OF this _ assms(1)] have "trace_ok (absent_before E) (calls t)"
    by (simp add: secrets_ok_def)
  from trace_okD [OF this assms(2)] show ?thesis .
qed

theorem secrets_created_only_when_absent_witness:
  "\<exists>sec. absent_before demo_op_env [OGet OSecret (''demo'', ''mg-auth''), OGeneratePassword]
     (OCreate ''demo'' (SecretObj sec)) \<and> sec_data sec ''username'' = Some ''root''"
proof -
  let ?sec = "new_secret demo_op_db ''mg-auth'' [''username'' \<mapsto> MongodbUser, ''password'' \<mapsto> ''secret'']"
  have db: "mg_namespace demo_op_db = ''demo''" "mg_name demo_op_db = ''mg''"
    "mg_authSecret demo_op_db = None" "mg_sslMode demo_op_db = ''''"
    "mg_replicaSet demo_op_db = None" "mg_shardTopology demo_op_db = None"
    by (simp_all add: demo_op_defs)
  have "\<exists>r t. bndE (ensureAuthSecret demo_op_env) (\<lambda>_. EnsureKeyFileSecret demo_op_env)
      (op_start demo_op_db) = (r, t) \<and>
      calls t = [OGet OSecret (''demo'', ''mg-auth''), OGeneratePassword, OCreate ''demo'' (SecretObj ?sec),
        OPatchDB demo_op_db (demo_op_db\<lparr>mg_authSecret := Some ''mg-auth''\<rparr>)]"
    using db by (simp add: ensureAuthSecret_def createAuthSecret_def checkSecret_def
        EnsureKeyFileSecret_def MongoDBAuthSecretSuffix_def op_program_defs demo_op_env_def
        missing_api_def)
  then obtain r t where run: "bndE (ensureAuthSecret demo_op_env)
      (\<lambda>_. EnsureKeyFileSecret demo_op_env) (op_start demo_op_db) = (r, t)" and
    calls: "calls t = [OGet OSecret (''demo'', ''mg-auth''), OGeneratePassword] @
      OCreate ''demo'' (SecretObj ?sec) #
        [OPatchDB demo_op_db (demo_op_db\<lparr>mg_authSecret := Some ''mg-auth''\<rparr>)]" by auto
  from secrets_created_only_when_absent [OF run calls] show ?thesis
    by (intro exI [of _ ?sec]) (simp add: new_secret_def MongodbUser_def)
qed

text \<open>C39. A secret the operator has created for a database, as it is stored in a namespace, is
  mapped back to the queue key of that database.\<close>

theorem created_secret_maps_back:
  "MongoDBForSecret ((new_secret db name data)
     \<lparr>sec_meta := (sec_meta (new_secret db name data))\<lparr>om_namespace := ns\<rparr>\<rparr>) =
   ns @ ''/'' @ mg_name db"
  by (simp add: MongoDBForSecret_def new_secret_def EnsureOwnerReference_def meta_of_def
      db_owner_def NewControllerRef_def IsOwnerOfGroupKind_def group_of_def GroupName_def
      ResourceKindMongoDB_def Let_def)

section \<open>Permissions\<close>



definition demo_template :: "string \<Rightarrow> pod_template" where
  "demo_template account =
     \<lparr>pt_annotations = Map.empty, pt_controllerAnnotations = Map.empty,
      pt_controllerLabels = Map.empty, pt_labels = Map.empty, pt_serviceAccountName = account,
      pt_args = [], pt_env = [], pt_resources = absent, pt_livenessProbe = absent,
      pt_readinessProbe = absent, pt_lifecycle = absent, pt_containerSecurityContext = absent,
      pt_initContainers = [],
      pt_scheduling = \<lparr>ps_nodeSelector = absent, ps_affinity = absent, ps_schedulerName = '''',
        ps_tolerations = absent, ps_imagePullSecrets = absent, ps_priorityClassName = '''',
        ps_priority = absent, ps_hostNetwork = False, ps_hostPID = False, ps_hostIPC = False,
        ps_shareProcessNamespace = None, ps_securityContext = absent, ps_dnsPolicy = '''',
        ps_dnsConfig = absent\<rparr>\<rparr>"


text \<open>Whatever the pod templates of a database are, its pods get one role binding of the
  database's name, and every time it is written it has exactly one subject: the accounts of
  the templates of a sharded database replace each other, and the last one remains.\<close>

theorem role_binding_has_one_subject:
  assumes "ensureDatabaseRBAC E (op_start db) = (r, t)"
    and "calls t = h @ c # h'"
  shows "(\<forall>key. c = OGet ORoleBinding key \<longrightarrow> key = (mg_namespace db, mg_name db)) \<and>
    (\<forall>ns rb. c = OCreate ns (RoleBindingObj rb) \<longrightarrow>
       om_name (rb_meta rb) = mg_name db \<and> length (rb_subjects rb) = 1) \<and>
    (\<forall>x rb. c = OPatch x (RoleBindingObj rb) \<longrightarrow> length (rb_subjects rb) = 1)"
proof -
  have "in_rbac db (op_start db)" by (simp add: in_rbac_def)
  from keepsD [OF keeps_ensureDatabaseRBAC this assms(1)] have "list_all (grants db) (calls t)"
    by (simp add: in_rbac_def)
  with assms(2) have "grants db c" by simp
  then show ?thesis by auto
qed

definition demo_node :: "string \<Rightarrow> mongodb_node" where
  "demo_node account =
     \<lparr>mn_replicas = 1, mn_prefix = '''', mn_configSecret = None, mn_podTemplate = demo_template account\<rparr>"

definition demo_sharded_db :: mongodb where
  "demo_sharded_db = demo_op_db\<lparr>mg_shardTopology := Some
     \<lparr>st_shards = 1, st_shard = demo_node ''s'', st_shardStorage = None,
      st_configServer = demo_node ''c'', st_configServerStorage = None, st_mongos = demo_node ''m''\<rparr>\<rparr>"

definition subjects_of :: "op_call \<Rightarrow> string list" where
  "subjects_of c = (case c of OCreate ns (RoleBindingObj rb) \<Rightarrow> map rs_name (rb_subjects rb) | _ \<Rightarrow> [])"

theorem role_binding_has_one_subject_witness:
  "\<exists>t h rb. ensureDatabaseRBAC demo_op_env (op_start demo_sharded_db) = (Done (Inr ()), t) \<and>
     concat (map subjects_of (calls t)) = [''c'', ''m'', ''s''] \<and>
     calls t = h @ [OCreate ''demo'' (RoleBindingObj rb)] \<and>
     om_name (rb_meta rb) = ''mg'' \<and> length (rb_subjects rb) = 1"
proof -
  have db: "mg_namespace demo_sharded_db = ''demo''" "mg_name demo_sharded_db = ''mg''"
    "mg_shardTopology demo_sharded_db \<noteq> None"
    by (simp_all add: demo_sharded_db_def demo_op_defs)
  have "\<exists>t h rb. ensureDatabaseRBAC demo_op_env (op_start demo_sharded_db) = (Done (Inr ()), t) \<and>
     concat (map subjects_of (calls t)) = [''c'', ''m'', ''s''] \<and>
     calls t = h @ [OCreate ''demo'' (RoleBindingObj rb)]"
    by (simp add: ensureDatabaseRBAC_def createDatabaseRBAC_def grant_permissions_def
        getPolicyNames_def ensureRole_def createRoleBinding_def createServiceAccount_def
        createOrPatch_def op_program_defs demo_op_env_def missing_api_def demo_sharded_db_def
        demo_op_db_def empty_mongodb_def meta_of_def demo_node_def demo_template_def
        config_template_def mongos_template_def shard_template_def set_config_template_def
        set_mongos_template_def set_shard_template_def OffshootName_def subjects_of_def
        role_binding_transform_def)
  then obtain t h rb where run: "ensureDatabaseRBAC demo_op_env (op_start demo_sharded_db) = (Done (Inr ()), t)"
    and subjects: "concat (map subjects_of (calls t)) = [''c'', ''m'', ''s'']"
    and calls: "calls t = h @ [OCreate ''demo'' (RoleBindingObj rb)]" by blast
  from role_binding_has_one_subject [OF run calls] run subjects calls db show ?thesis by auto
qed

section \<open>Ports and flags\<close>

text \<open>The port that the application binding announces is the port of the primary service,
  whatever the API server has assigned to the service before and whatever the user's template
  says: the service has exactly one port, and it is that one.\<close>

theorem announced_port_is_service_port:
  "\<exists>p. svc_ports (primary_service_transform db svc) = [p] \<and>
     sp_name p = MongoDBPrimaryServicePortName \<and> GetPrimaryServicePort db = Inr (sp_port p)"
proof -
  let ?tmpl = "stt_ports (GetServiceTemplate (mg_serviceTemplates db) PrimaryServiceAlias)"
  let ?dp = "service_port_of MongoDBPrimaryServicePortName database_port MongoDBDatabasePortName"
  have port: "sp_port ?dp = database_port" "sp_name ?dp = MongoDBPrimaryServicePortName"
    and nonzero: "database_port \<noteq> 0"
    by (simp_all add: service_port_of_def database_port_def)
  have "sp_port (patch_port ?tmpl (merge_port (svc_ports svc) ?dp)) = sp_port (patch_port ?tmpl ?dp)"
    by (simp add: patch_port_def merge_port_port port nonzero split: option.split)
  moreover have "GetPrimaryServicePort db = Inr (sp_port (patch_port ?tmpl ?dp))"
    by (simp add: GetPrimaryServicePort_def PatchServicePorts_map port)
  ultimately show ?thesis
    by (simp add: primary_service_transform_def Let_def PatchServicePorts_map MergeServicePorts_map port)
qed

text \<open>For each of the four SSL modes, a server from version 4.2 on gets the flags of the TLS
  options with the mode renamed, an older one the flags of the SSL options with the mode as it
  is, and the certificate files are passed exactly when the mode is not \<open>disabled\<close>.\<close>

theorem tls_flags_by_version:
  assumes "o_parse E (mv_version v) = Inr ver"
    and "(mg_sslMode db, tlsMode) \<in>
      {(SSLModeDisabled, ''disabled''), (SSLModeAllowSSL, ''allowTLS''),
       (SSLModePreferSSL, ''preferTLS''), (SSLModeRequireSSL, ''requireTLS'')}"
  shows "\<exists>rest. getTLSArgs E db v =
      Inr ((if LessThan ver (4, 2, 0) then ''--sslMode='' @ mg_sslMode db else ''--tlsMode='' @ tlsMode) # rest) \<and>
    (rest = [] \<longleftrightarrow> mg_sslMode db = SSLModeDisabled) \<and>
    (rest \<noteq> [] \<longrightarrow> map flag_of rest =
       (if LessThan ver (4, 2, 0) then [Some ''--sslCAFile'', Some ''--sslPEMKeyFile'']
        else [Some ''--tlsCAFile'', Some ''--tlsCertificateKeyFile'']))"
  using assms
  by (auto simp: getTLSArgs_def Let_def SSLModeDisabled_def SSLModeAllowSSL_def
      SSLModePreferSSL_def SSLModeRequireSSL_def flag_of_def)

theorem tls_flags_by_version_witness:
  "\<exists>rest. getTLSArgs demo_op_env (demo_op_db\<lparr>mg_sslMode := ''requireSSL''\<rparr>) demo_op_version =
     Inr (''--tlsMode=requireTLS'' # rest) \<and> length rest = 2"
proof -
  let ?db = "demo_op_db\<lparr>mg_sslMode := ''requireSSL''\<rparr>"
  obtain ver where ver: "o_parse demo_op_env (mv_version demo_op_version) = Inr ver"
    and new: "\<not> LessThan ver (4, 2, 0)"
    by (simp add: demo_op_env_def LessThan_def semver_number_def)
  have "(mg_sslMode ?db, ''requireTLS'') \<in>
      {(SSLModeDisabled, ''disabled''), (SSLModeAllowSSL, ''allowTLS''),
       (SSLModePreferSSL, ''preferTLS''), (SSLModeRequireSSL, ''requireTLS'')}"
    by (simp add: SSLModeRequireSSL_def)
  from tls_flags_by_version [OF ver this] obtain rest where
    args: "getTLSArgs demo_op_env ?db demo_op_version =
      Inr ((if LessThan ver (4, 2, 0) then ''--sslMode='' @ mg_sslMode ?db
            else ''--tlsMode='' @ ''requireTLS'') # rest)" and
    none: "rest = [] \<longleftrightarrow> mg_sslMode ?db = SSLModeDisabled" and
    flags: "rest \<noteq> [] \<longrightarrow> map flag_of rest =
      (if LessThan ver (4, 2, 0) then [Some ''--sslCAFile'', Some ''--sslPEMKeyFile'']
       else [Some ''--tlsCAFile'', Some ''--tlsCertificateKeyFile''])" by (elim exE conjE)
  from none have "rest \<noteq> []" by (simp add: SSLModeDisabled_def)
  with flags new have "length (map flag_of rest) = 2" by simp
  with args new show ?thesis by (intro exI [of _ rest]) simp
qed

end
