(* ===== verification/OpHealthProps.thy ===== *)
theory OpHealthProps
  imports OpAccessProps
begin

text \<open>
  The properties of the health checker. The condition \<open>Ready\<close> is the one the operator waits
  for before it reports a database as provisioned; here is what stands behind it.
\<close>

section \<open>What a check has seen\<close>

definition connected :: "op_env \<Rightarrow> string \<Rightarrow> string \<Rightarrow> ohist \<Rightarrow> bool" where
  "connected E url rs h \<longleftrightarrow> answered (\<lambda>h1. o_connect E h1 url rs) (OConnect url rs) h"

definition pinged :: "op_env \<Rightarrow> string \<Rightarrow> ohist \<Rightarrow> bool" where
  "pinged E url h \<longleftrightarrow> answered (\<lambda>h1. o_ping E h1 url) (OPing url) h"

definition part_ok :: "op_env \<Rightarrow> string list option \<Rightarrow> string \<Rightarrow> ohist \<Rightarrow> bool" where
  "part_ok E hosts rs h \<longleftrightarrow>
     (case hosts of None \<Rightarrow> False | Some hs \<Rightarrow> connected E (url_of hs) rs h \<and> pinged E (url_of hs) h)"

definition shard_ok :: "op_env \<Rightarrow> mongodb \<Rightarrow> ohist \<Rightarrow> int \<Rightarrow> bool" where
  "shard_ok E db h i = part_ok E (ShardHosts db i) (ShardRepSetName db i) h"

text \<open>All parts of the database were connected to and answered a ping.\<close>

definition healthy :: "op_env \<Rightarrow> mongodb \<Rightarrow> ohist \<Rightarrow> bool" where
  "healthy E db h \<longleftrightarrow>
     (case mg_shardTopology db of
        None \<Rightarrow> part_ok E (Hosts db) (RepSetName db) h
      | Some topology \<Rightarrow>
          part_ok E (ConfigSvrHosts db) (ConfigSvrRepSetName db) h \<and>
          (\<forall>i \<in> set (int_range (st_shards topology)). shard_ok E db h i) \<and>
          part_ok E (MongosHosts db) '''' h)"

lemma connected_mono: "connected E url rs h \<Longrightarrow> connected E url rs (h @ cs)"
  and pinged_mono: "pinged E url h \<Longrightarrow> pinged E url (h @ cs)"
  unfolding connected_def pinged_def by (erule answered_mono)+

lemma part_ok_mono: "part_ok E hosts rs h \<Longrightarrow> part_ok E hosts rs (h @ cs)"
  by (auto simp: part_ok_def intro: connected_mono pinged_mono split: option.splits)

lemma monotone_health [simp]:
  "monotone_on_calls (\<lambda>_. True)" "monotone_on_calls (connected E url rs)"
  "monotone_on_calls (pinged E url)" "monotone_on_calls (part_ok E hosts rs)"
  "monotone_on_calls (\<lambda>h. shard_ok E db h i)"
  by (auto simp: monotone_on_calls_def shard_ok_def intro: connected_mono pinged_mono part_ok_mono)

text \<open>An update that makes the condition \<open>Ready\<close> true, or changes it while it is true.\<close>

definition raises_ready :: "mongodb_status \<Rightarrow> mongodb_status \<Rightarrow> bool" where
  "raises_ready st st' \<longleftrightarrow>
     (\<exists>c. find_by cond_type DatabaseReady (ms_conditions st') = Some c \<and>
        cond_status c = ConditionTrue \<and>
        find_by cond_type DatabaseReady (ms_conditions st) \<noteq> Some c)"

definition ready_guard :: "op_env \<Rightarrow> mongodb \<Rightarrow> ohist \<Rightarrow> op_call \<Rightarrow> bool" where
  "ready_guard E db h c \<longleftrightarrow>
     (\<forall>key uid st st'. c = OUpdateStatus key uid st st' \<longrightarrow> raises_ready st st' \<longrightarrow> healthy E db h)"

lemma ready_guard_other: "\<not> is_update c \<Longrightarrow> ready_guard E db h c"
  by (auto simp: ready_guard_def)

lemma accepting_keeps_ready: "\<not> raises_ready st (set_db_condition now (accepting_condition db) st)"
  by (simp add: raises_ready_def not_ready_effect)

lemma failed_lowers_ready:
  "\<not> raises_ready st (set_db_condition now (not_ready_condition db)
     (set_db_condition now (not_accepting_condition db e) st))"
proof -
  have ready: "cond_type (not_ready_condition db) = DatabaseReady"
    and status: "cond_status (not_ready_condition db) = ConditionFalse"
    and other: "DatabaseReady \<noteq> cond_type (not_accepting_condition db e)"
    by (simp_all add: not_ready_condition_def not_accepting_condition_def db_condition_def
        database_condition_defs)
  let ?cs = "SetCondition now (ms_conditions st) (not_accepting_condition db e)"
  have "find_by cond_type DatabaseReady ?cs = find_by cond_type DatabaseReady (ms_conditions st)"
    by (rule SetCondition_other [OF other])
  moreover have "find_by cond_type DatabaseReady (SetCondition now ?cs (not_ready_condition db)) =
      Some (case find_by cond_type DatabaseReady ?cs of
        None \<Rightarrow> (not_ready_condition db)\<lparr>cond_time := now\<rparr>
      | Some cur \<Rightarrow> merge_condition cur ((not_ready_condition db)\<lparr>cond_time := now\<rparr>))"
    using SetCondition_same [of "not_ready_condition db" now ?cs] by (simp add: ready)
  ultimately show ?thesis
    by (auto simp: raises_ready_def set_db_condition_def merge_condition_def status
        split: option.splits if_splits)
qed

section \<open>The steps of a check\<close>

text \<open>The state of a check: the guard has held so far, and the calls satisfy \<open>p\<close>.\<close>

definition health_inv :: "op_env \<Rightarrow> mongodb \<Rightarrow> (ohist \<Rightarrow> bool) \<Rightarrow> op_state \<Rightarrow> bool" where
  "health_inv E db p s \<longleftrightarrow> odb s = db \<and> trace_ok (ready_guard E db) (calls s) \<and> p (calls s)"

lemma health_inv_weaken: "health_inv E db p s \<Longrightarrow> (\<And>h. p h \<Longrightarrow> q h) \<Longrightarrow> health_inv E db q s"
  by (simp add: health_inv_def)

lemma health_inv_db: "health_inv E db p s \<Longrightarrow> odb s = db"
  by (simp add: health_inv_def)

lemma keeps_health_perform:
  "monotone_on_calls p \<Longrightarrow> \<not> is_update c \<Longrightarrow> keeps (health_inv E db p) (perform ans c)"
  by (rule keeps_perform)
    (simp add: health_inv_def trace_ok_snoc ready_guard_other monotone_on_calls_def)

lemma keeps_health_gets: "keeps (health_inv E db p) (f db) \<Longrightarrow> keeps (health_inv E db p) (bnd (gets odb) f)"
  by (rule keeps_bnd_gets) (simp add: health_inv_def)

lemma keeps_health_update:
  assumes "monotone_on_calls p" and "\<And>st. raises_ready st (f st) \<Longrightarrow> (\<And>h. p h \<Longrightarrow> healthy E db h)"
  shows "keeps (health_inv E db p) (updateStatus E db f)"
  unfolding updateStatus_def Let_def
  by (intro keeps_bndE keeps_perform)
    (use assms in \<open>auto simp: health_inv_def trace_ok_snoc ready_guard_other ready_guard_def
       monotone_on_calls_def\<close>)

lemma keeps_health_parts:
  assumes "monotone_on_calls p"
  shows "keeps (health_inv E db p) (updateErrorAcceptingConnections E e)"
    and "keeps (health_inv E db p) (updateAcceptingConnection E)"
    and "keeps (health_inv E db p) (close url)"
  unfolding updateErrorAcceptingConnections_def updateAcceptingConnection_def close_def
  by (intro keeps_health_gets keeps_bnd keeps_gets keeps_ret keeps_health_update
      keeps_health_perform assms; simp add: accepting_keeps_ready failed_lowers_ready)+

lemma keeps_health_ready:
  "monotone_on_calls p \<Longrightarrow> (\<And>h. p h \<Longrightarrow> healthy E db h) \<Longrightarrow>
   keeps (health_inv E db p) (updateDatabaseReady E)"
  unfolding updateDatabaseReady_def
  by (intro keeps_health_gets keeps_bnd keeps_gets keeps_ret keeps_health_update) auto

abbreviation safe :: "op_env \<Rightarrow> mongodb \<Rightarrow> op_state \<Rightarrow> bool" where
  "safe E db \<equiv> health_inv E db (\<lambda>_. True)"

text \<open>A call whose answer is remembered.\<close>

lemma wp_health_call:
  assumes "monotone_on_calls p" and "health_inv E db p s" and "\<not> is_update c"
  shows "wp (perform ans c) (\<lambda>r t. health_inv E db p t \<and>
    (\<forall>a. r = Inr a \<longrightarrow> health_inv E db (\<lambda>h. p h \<and> answered ans c h) t)) (\<lambda>_. safe E db) s"
  by (insert assms, auto simp: wp_simps health_inv_def trace_ok_snoc ready_guard_other
      monotone_on_calls_def intro: answered_now)

lemma wp_with_client:
  assumes p: "monotone_on_calls p" and s: "health_inv E db p s"
    and body: "\<And>t. health_inv E db (\<lambda>h. p h \<and> connected E url rs h) t \<Longrightarrow>
      wp body (\<lambda>r. health_inv E db (q r)) (\<lambda>_. safe E db) t"
    and q: "\<And>r. monotone_on_calls (q r)" "\<And>h. q (Inl ()) h"
  shows "wp (with_client E url rs body) (\<lambda>r. health_inv E db (q r)) (\<lambda>_. safe E db) s"
  unfolding with_client_def wp_bnd connect_def
proof (rule wp_conseq [OF wp_health_call [OF p s]])
  fix r :: "gerr + unit" and t :: op_state
  assume t: "health_inv E db p t \<and> (\<forall>a. r = Inr a \<longrightarrow> health_inv E db (\<lambda>h. p h \<and>
      answered (\<lambda>h. o_connect E h url rs) (OConnect url rs) h) t)"
  have failed: "wp (bnd (updateErrorAcceptingConnections E e) (\<lambda>_. ret (Inl ())))
      (\<lambda>r. health_inv E db (q r)) (\<lambda>_. safe E db) t" for e
    unfolding wp_bnd wp_ret
    by (rule wp_keeps [OF keeps_health_parts(1) [OF p]])
      (use t q(2) in \<open>auto intro: health_inv_weaken\<close>)
  have closed: "wp (close url) (\<lambda>_. health_inv E db (q r)) (\<lambda>_. safe E db) u"
    if "health_inv E db (q r) u" for r u
    by (rule wp_keeps [OF keeps_health_parts(3) [OF q(1)]])
      (use that in \<open>auto intro: health_inv_weaken\<close>)
  have crashed: "wp (close url) (\<lambda>_. safe E db) (\<lambda>_. safe E db) u" if "safe E db u" for u
    by (rule wp_keeps [OF keeps_health_parts(3), of "\<lambda>_. True"]) (use that in auto)
  have run: "wp (with_defer body (close url)) (\<lambda>r. health_inv E db (q r)) (\<lambda>_. safe E db) t"
    if "r = Inr ()"
    unfolding wp_with_defer
    by (rule wp_conseq [OF body])
      (use t that closed crashed in \<open>auto simp: connected_def split: crash.split\<close>)
  show "wp (case r of Inl e \<Rightarrow> bnd (updateErrorAcceptingConnections E e) (\<lambda>_. ret (Inl ()))
      | Inr _ \<Rightarrow> with_defer body (close url)) (\<lambda>r. health_inv E db (q r)) (\<lambda>_. safe E db) t"
    using failed run by (simp add: wp_sum split: sum.split)
qed simp_all

text \<open>What is known after some shards: if no ping has failed, those shards are all right.\<close>

definition shards_ok :: "op_env \<Rightarrow> mongodb \<Rightarrow> (ohist \<Rightarrow> bool) \<Rightarrow> int set \<Rightarrow> gerr option list \<Rightarrow> ohist \<Rightarrow> bool" where
  "shards_ok E db p done errs h \<longleftrightarrow>
     p h \<and> ((\<forall>e \<in> set errs. e = None) \<longrightarrow> (\<forall>i \<in> done. shard_ok E db h i))"

fun after_shards ::
  "op_env \<Rightarrow> mongodb \<Rightarrow> (ohist \<Rightarrow> bool) \<Rightarrow> int set \<Rightarrow> unit + gerr option list \<Rightarrow> ohist \<Rightarrow> bool" where
  "after_shards E db p done (Inl u) h = True"
| "after_shards E db p done (Inr errs) h = shards_ok E db p done errs h"

lemma monotone_shards:
  assumes "monotone_on_calls p"
  shows "monotone_on_calls (shards_ok E db p done errs)"
    and "monotone_on_calls (after_shards E db p done r)"
proof -
  show ok: "monotone_on_calls (shards_ok E db p done errs)" for errs
    using assms by (auto simp: monotone_on_calls_def shards_ok_def shard_ok_def intro: part_ok_mono)
  show "monotone_on_calls (after_shards E db p done r)"
    using ok by (cases r) (simp_all add: monotone_on_calls_def)
qed

lemma wp_check_shard:
  assumes "monotone_on_calls p" and "health_inv E db (shards_ok E db p done errs) s"
  shows "wp (check_shard E errs i) (\<lambda>r. health_inv E db (after_shards E db p (insert i done) r))
    (\<lambda>_. safe E db) s"
proof -
  have db: "odb s = db" using assms(2) by (rule health_inv_db)
  have body: "wp (bnd (ping E (url_of hosts)) (\<lambda>r.
        ret (Inr (errs @ [case r of Inl e \<Rightarrow> Some e | Inr _ \<Rightarrow> None]))))
      (\<lambda>r. health_inv E db (after_shards E db p (insert i done) r)) (\<lambda>_. safe E db) t"
    if hosts: "ShardHosts db i = Some hosts" and
      t: "health_inv E db (\<lambda>h. shards_ok E db p done errs h \<and>
        connected E (url_of hosts) (ShardRepSetName db i) h) t" for hosts t
    unfolding wp_bnd wp_ret ping_def
  proof (rule wp_conseq [OF wp_health_call [OF monotone_conj [OF monotone_shards(1) [OF assms(1)]] t]])
    fix r :: "gerr + unit" and u :: op_state
    assume "health_inv E db (\<lambda>h. shards_ok E db p done errs h \<and>
        connected E (url_of hosts) (ShardRepSetName db i) h) u \<and>
      (\<forall>a. r = Inr a \<longrightarrow> health_inv E db (\<lambda>h. (shards_ok E db p done errs h \<and>
        connected E (url_of hosts) (ShardRepSetName db i) h) \<and>
        answered (\<lambda>h. o_ping E h (url_of hosts)) (OPing (url_of hosts)) h) u)"
    then show "health_inv E db (after_shards E db p (insert i done)
        (Inr (errs @ [case r of Inl e \<Rightarrow> Some e | Inr _ \<Rightarrow> None]))) u"
      by (cases r) (auto simp: health_inv_def shards_ok_def shard_ok_def part_ok_def hosts pinged_def)
  qed simp_all
  have safe: "safe E db s" using assms(2) by (rule health_inv_weaken) simp
  show ?thesis
    unfolding check_shard_def wp_bnd wp_gets wp_deref db
    using safe body
    by (auto split: option.split intro!: wp_with_client [OF monotone_shards(1) [OF assms(1)] assms(2)]
        monotone_shards assms)
qed

lemma wp_check_shards:
  assumes "monotone_on_calls p" and "health_inv E db (shards_ok E db p done errs) s"
  shows "wp (for_fold is errs (check_shard E))
    (\<lambda>r. health_inv E db (after_shards E db p (set is \<union> done) r)) (\<lambda>_. safe E db) s"
  using assms(2)
proof (induction "is" arbitrary: s errs "done")
  case Nil
  then show ?case by (simp add: wp_simps health_inv_def)
next
  case (Cons i "is")
  show ?case
    unfolding for_fold.simps wp_bndE
  proof (rule wp_conseq [OF wp_check_shard [OF assms(1) Cons.prems]])
    fix r t
    assume t: "health_inv E db (after_shards E db p (insert i done) r) t"
    show "case r of Inl e \<Rightarrow> health_inv E db (after_shards E db p (set (i # is) \<union> done) (Inl e)) t
      | Inr acc \<Rightarrow> wp (for_fold is acc (check_shard E))
          (\<lambda>r. health_inv E db (after_shards E db p (set (i # is) \<union> done) r)) (\<lambda>_. safe E db) t"
    proof (cases r)
      case (Inr acc)
      with t have "health_inv E db (shards_ok E db p (insert i done) acc) t"
        by (auto elim!: health_inv_weaken)
      from Cons.IH [OF this] Inr show ?thesis by simp
    qed (use t in \<open>auto elim!: health_inv_weaken\<close>)
  qed simp
qed

text \<open>The pings of the last part.\<close>

lemma wp_ping_all:
  assumes "monotone_on_calls p" and "health_inv E db p s"
  shows "wp (for_each urls (\<lambda>url. bnd (ping E url) (\<lambda>r.
      ret (case r of Inl e \<Rightarrow> Inl () | Inr _ \<Rightarrow> Inr ()))))
    (\<lambda>r t. safe E db t \<and> (\<forall>a. r = Inr a \<longrightarrow> health_inv E db (\<lambda>h. p h \<and> (\<forall>url \<in> set urls. pinged E url h)) t))
    (\<lambda>_. safe E db) s"
  using assms
proof (induction urls arbitrary: s p)
  case Nil
  then show ?case by (auto simp: wp_simps elim: health_inv_weaken)
next
  case (Cons url urls)
  let ?q = "\<lambda>h. p h \<and> pinged E url h"
  have q: "monotone_on_calls ?q" using Cons.prems(1) by (intro monotone_conj) simp_all
  show ?case
    unfolding for_each.simps wp_bndE wp_bnd wp_ret ping_def
  proof (rule wp_conseq [OF wp_health_call [OF Cons.prems]])
    fix r :: "gerr + unit" and t :: op_state
    assume t: "health_inv E db p t \<and> (\<forall>a. r = Inr a \<longrightarrow>
        health_inv E db (\<lambda>h. p h \<and> answered (\<lambda>h. o_ping E h url) (OPing url) h) t)"
    have rest: "wp (for_each urls (\<lambda>url. bnd (ping E url) (\<lambda>r.
          ret (case r of Inl e \<Rightarrow> Inl () | Inr _ \<Rightarrow> Inr ()))))
        (\<lambda>r t. safe E db t \<and> (\<forall>a. r = Inr a \<longrightarrow>
          health_inv E db (\<lambda>h. p h \<and> (\<forall>url \<in> set (url # urls). pinged E url h)) t))
        (\<lambda>_. safe E db) t" if "health_inv E db ?q t"
      by (rule wp_conseq [OF Cons.IH [OF q that]]) (auto simp: elim: health_inv_weaken)
    have "safe E db t" using t by (auto elim: health_inv_weaken)
    with t rest show "case case r of Inl e \<Rightarrow> Inl () | Inr _ \<Rightarrow> Inr () of
        Inl e \<Rightarrow> safe E db t \<and> (\<forall>a. Inl e = Inr a \<longrightarrow>
          health_inv E db (\<lambda>h. p h \<and> (\<forall>url \<in> set (url # urls). pinged E url h)) t)
      | Inr a \<Rightarrow> wp (for_each urls (\<lambda>url. bnd (perform (\<lambda>h. o_ping E h url) (OPing url)) (\<lambda>r.
            ret (case r of Inl e \<Rightarrow> Inl () | Inr _ \<Rightarrow> Inr ()))))
          (\<lambda>r t. safe E db t \<and> (\<forall>a. r = Inr a \<longrightarrow>
            health_inv E db (\<lambda>h. p h \<and> (\<forall>url \<in> set (url # urls). pinged E url h)) t))
          (\<lambda>_. safe E db) t"
      by (cases r) (auto simp: pinged_def ping_def)
  qed simp_all
qed

lemma wp_check_ready:
  assumes p: "monotone_on_calls p" and s: "health_inv E db p s"
    and healthy: "\<And>h. p h \<Longrightarrow> (\<forall>e \<in> set errs. e = None) \<Longrightarrow> (\<forall>url \<in> set urls. pinged E url h) \<Longrightarrow>
      healthy E db h"
  shows "wp (check_ready E errs urls) (\<lambda>_. safe E db) (\<lambda>_. safe E db) s"
proof -
  have ready: "wp (bndE (for_each urls (\<lambda>url. bnd (ping E url) (\<lambda>r.
        ret (case r of Inl e \<Rightarrow> Inl () | Inr _ \<Rightarrow> Inr ())))) (\<lambda>_.
      bnd (updateDatabaseReady E) (\<lambda>_. ret (Inr ())))) (\<lambda>_. safe E db) (\<lambda>_. safe E db) t"
    if "health_inv E db p t" "\<forall>e \<in> set errs. e = None" for t
  proof (rule wp_bndE_then [OF wp_ping_all [OF p that(1)]])
    fix u
    let ?q = "\<lambda>h. p h \<and> (\<forall>url \<in> set urls. pinged E url h)"
    assume u: "health_inv E db ?q u"
    have q: "monotone_on_calls ?q"
      using p by (auto simp: monotone_on_calls_def intro: pinged_mono)
    show "wp (bnd (updateDatabaseReady E) (\<lambda>_. ret (Inr ()))) (\<lambda>_. safe E db) (\<lambda>_. safe E db) u"
      unfolding wp_bnd wp_ret
      by (rule wp_keeps [OF keeps_health_ready [OF q]])
        (use u healthy that(2) in \<open>auto elim: health_inv_weaken\<close>)
  qed auto
  show ?thesis
    unfolding check_ready_def wp_bnd
    by (rule wp_keeps [OF keeps_health_parts(2) [OF p] s])
      (use ready in \<open>auto simp: wp_simps elim: health_inv_weaken split: sum.split\<close>)
qed

lemma wp_check_database:
  assumes "odb s = db" and "calls s = []"
  shows "wp (check_database E) (\<lambda>_. safe E db) (\<lambda>_. safe E db) s"
proof -
  have s: "safe E db s"
    using assms by (simp add: health_inv_def trace_ok_def)
  have whole: "wp (with_client E (url_of hosts) (RepSetName db) (check_ready E [] [url_of hosts]))
      (\<lambda>_. safe E db) (\<lambda>_. safe E db) s"
    if "mg_shardTopology db = None" "Hosts db = Some hosts" for hosts
    by (rule wp_with_client [OF _ s], simp_all,
        rule wp_check_ready [where p = "\<lambda>h. True \<and> connected E (url_of hosts) (RepSetName db) h"])
      (simp_all add: that healthy_def part_ok_def monotone_conj)
  have sharded: "wp (with_client E (url_of cfg) (ConfigSvrRepSetName db)
      (bndE (for_fold (int_range (st_shards tp)) [] (check_shard E)) (\<lambda>errs.
       bnd (deref (MongosHosts db)) (\<lambda>ms.
         with_client E (url_of ms) '''' (check_ready E errs [url_of cfg, url_of ms])))))
      (\<lambda>_. safe E db) (\<lambda>_. safe E db) s"
    if tp: "mg_shardTopology db = Some tp" and cfg: "ConfigSvrHosts db = Some cfg" for tp cfg
  proof (rule wp_with_client [OF _ s], simp_all)
    let ?p = "connected E (url_of cfg) (ConfigSvrRepSetName db)"
    fix t assume t: "health_inv E db ?p t"
    have start: "health_inv E db (shards_ok E db ?p {} []) t"
      using t by (rule health_inv_weaken) (simp add: shards_ok_def)
    have last: "wp (with_client E (url_of ms) '''' (check_ready E errs [url_of cfg, url_of ms]))
        (\<lambda>_. safe E db) (\<lambda>_. safe E db) u"
      if ms: "MongosHosts db = Some ms" and
        u: "health_inv E db (shards_ok E db ?p (set (int_range (st_shards tp))) errs) u"
      for ms errs u
      by (rule wp_with_client [OF monotone_shards(1) u], simp_all,
          rule wp_check_ready [where p = "\<lambda>h. shards_ok E db ?p (set (int_range (st_shards tp))) errs h \<and>
            connected E (url_of ms) '''' h"],
          intro monotone_conj monotone_shards)
        (simp_all add: tp cfg ms healthy_def part_ok_def shards_ok_def)
    show "wp (bndE (for_fold (int_range (st_shards tp)) [] (check_shard E)) (\<lambda>errs.
       bnd (deref (MongosHosts db)) (\<lambda>ms.
         with_client E (url_of ms) '''' (check_ready E errs [url_of cfg, url_of ms]))))
      (\<lambda>_. safe E db) (\<lambda>_. safe E db) t"
      unfolding wp_bndE
    proof (rule wp_conseq [OF wp_check_shards [OF _ start]])
      fix r u
      assume "health_inv E db (after_shards E db ?p (set (int_range (st_shards tp)) \<union> {}) r) u"
      moreover from this have "safe E db u" by (rule health_inv_weaken) simp
      ultimately show "case r of Inl e \<Rightarrow> safe E db u
        | Inr errs \<Rightarrow> wp (bnd (deref (MongosHosts db)) (\<lambda>ms.
            with_client E (url_of ms) '''' (check_ready E errs [url_of cfg, url_of ms])))
            (\<lambda>_. safe E db) (\<lambda>_. safe E db) u"
        using last by (cases r) (auto simp: wp_bnd wp_deref health_inv_def split: option.split)
    qed simp_all
  qed
  have refused: "wp (with_client E url rs (panic m)) (\<lambda>_. safe E db) (\<lambda>_. safe E db) s"
    for url rs m
    by (rule wp_with_client [OF _ s]) (auto simp: wp_panic elim: health_inv_weaken)
  show ?thesis
    unfolding check_database_def wp_bnd wp_gets assms(1)
    using s whole sharded refused
    by (auto simp: wp_bnd wp_deref split: option.split)
qed

section \<open>What keeps a database ready\<close>

definition is_ready :: "mongodb_status \<Rightarrow> bool" where
  "is_ready st \<longleftrightarrow> (\<exists>c. find_by cond_type DatabaseReady (ms_conditions st) = Some c \<and>
     cond_status c = ConditionTrue)"

definition ready_stays :: "op_call \<Rightarrow> bool" where
  "ready_stays c \<longleftrightarrow>
     (\<forall>key uid st st'. c = OUpdateStatus key uid st st' \<longrightarrow> is_ready st \<longrightarrow> is_ready st')"

lemma ready_stays_other: "\<not> is_update c \<Longrightarrow> ready_stays c"
  by (auto simp: ready_stays_def)

definition is_ready_kept :: "mongodb \<Rightarrow> op_state \<Rightarrow> bool" where
  "is_ready_kept db s \<longleftrightarrow> odb s = db \<and> list_all ready_stays (calls s)"

lemma set_accepting_ready: "is_ready st \<Longrightarrow> is_ready (set_db_condition now (accepting_condition db) st)"
  by (simp add: is_ready_def not_ready_effect)

lemma set_ready_ready: "is_ready st \<Longrightarrow> is_ready (set_db_condition now (ready_condition db) st)"
proof -
  have "cond_type (ready_condition db) = DatabaseReady" "cond_status (ready_condition db) = ConditionTrue"
    by (simp_all add: ready_condition_def db_condition_def)
  then show "is_ready st \<Longrightarrow> ?thesis"
    using SetCondition_same [of "ready_condition db" now "ms_conditions st"]
    by (auto simp: is_ready_def set_db_condition_def merge_condition_def split: option.split)
qed

lemma keeps_ready_perform: "\<not> is_update c \<Longrightarrow> keeps (is_ready_kept db) (perform ans c)"
  by (rule keeps_perform) (simp add: is_ready_kept_def ready_stays_other)

lemma keeps_ready_gets:
  "keeps (is_ready_kept db) (f db) \<Longrightarrow> keeps (is_ready_kept db) (bnd (gets odb) f)"
  by (rule keeps_bnd_gets) (simp add: is_ready_kept_def)

lemma keeps_ready_update:
  assumes "\<And>st. is_ready st \<Longrightarrow> is_ready (f st)"
  shows "keeps (is_ready_kept db) (updateStatus E db f)"
  unfolding updateStatus_def Let_def
  by (intro keeps_bndE keeps_perform)
    (use assms in \<open>auto simp: is_ready_kept_def ready_stays_def\<close>)

text \<open>A connection that is opened: only the body and the closing count.\<close>

lemma keeps_ready_with_client:
  assumes "\<And>h. o_connect E h url rs = Inr ()" and "keeps (is_ready_kept db) body"
  shows "keeps (is_ready_kept db) (with_client E url rs body)"
proof -
  have "with_client E url rs body =
      bnd (perform (\<lambda>h. ()) (OConnect url rs)) (\<lambda>_. with_defer body (close url))"
    using assms(1) by (simp add: fun_eq_iff with_client_def connect_def bnd_def perform_def)
  moreover have "keeps (is_ready_kept db) (bnd (perform (\<lambda>h. ()) (OConnect url rs))
      (\<lambda>_. with_defer body (close url)))"
    unfolding close_def by (intro keeps_bnd keeps_with_defer keeps_ready_perform assms(2)) simp_all
  ultimately show ?thesis by simp
qed

lemma keeps_ready_parts:
  "keeps (is_ready_kept db) (updateDatabaseReady E)"
  "keeps (is_ready_kept db) (updateAcceptingConnection E)"
  "keeps (is_ready_kept db) (ping E url)"
  unfolding updateDatabaseReady_def updateAcceptingConnection_def ping_def
  by (intro keeps_ready_gets keeps_bnd keeps_gets keeps_ret keeps_ready_update keeps_ready_perform;
      simp add: set_accepting_ready set_ready_ready)+

lemma keeps_ready_check:
  assumes "\<And>h url rs. o_connect E h url rs = Inr ()"
  shows "keeps (is_ready_kept db) (check_database E)"
  unfolding check_database_def check_ready_def check_shard_def
  by (intro keeps_ready_gets keeps_intros keeps_ready_with_client keeps_ready_parts assms)

section \<open>The properties\<close>

lemma demo_hosts: "Hosts demo_op_db = Some [''mg-0.mg-pods.demo.svc'']"
  by (simp add: Hosts_def GoverningServiceName_def OffshootName_def demo_op_defs)

text \<open>C13. The condition Ready of a database is made true only when every part of the database, the
  config servers, each shard and the routers or the one replica set, was connected to and
  answered a ping in the same check, whatever the servers answer otherwise.\<close>
theorem ready_only_after_pings:
  assumes "calls (snd (check_database E (op_start db))) = h @ OUpdateStatus key uid st st' # rest"
    and "raises_ready st st'"
  shows "healthy E db h"
proof -
  have "safe E db (snd (check_database E (op_start db)))"
    using wp_check_database [of "op_start db" db E]
    by (auto simp: wp_def op_start_def split: prod.splits outcome.splits)
  then have "trace_ok (ready_guard E db) (h @ OUpdateStatus key uid st st' # rest)"
    unfolding health_inv_def assms(1) by blast
  then have "ready_guard E db h (OUpdateStatus key uid st st')"
    by (rule trace_okD) simp
  then show ?thesis using assms(2) by (simp add: ready_guard_def)
qed

theorem ready_only_after_pings_witness:
  "\<exists>h st st' url. calls (snd (check_database demo_op_env (op_start demo_op_db))) =
       h @ [OUpdateStatus (''demo'', ''mg'') ''uid-1'' st st', OClose url] \<and>
     raises_ready st st' \<and> Hosts demo_op_db = Some [url] \<and>
     pinged demo_op_env url h"
proof -
  let ?run = "check_database demo_op_env (op_start demo_op_db)"
  have db: "mg_shardTopology demo_op_db = None"
    by (simp add: demo_op_defs)
  obtain url where hosts: "Hosts demo_op_db = Some [url]" using demo_hosts by blast
  let ?st = "\<lparr>ms_phase = '''', ms_observedGeneration = 0, ms_conditions = []\<rparr>"
  let ?set = "\<lambda>c. OUpdateStatus (''demo'', ''mg'') ''uid-1'' ?st (set_db_condition (snd c) (fst c) ?st)"
  define h where "h = [OConnect url (RepSetName demo_op_db), OFetchStatus (''demo'', ''mg''),
    ?set (accepting_condition demo_op_db, 1), OPing url, OFetchStatus (''demo'', ''mg'')]"
  define st' where "st' = set_db_condition 4 (ready_condition demo_op_db) ?st"
  have "mg_namespace demo_op_db = ''demo''" "mg_name demo_op_db = ''mg''" "mg_uid demo_op_db = ''uid-1''"
    by (simp_all add: demo_op_defs)
  then have calls: "calls (snd ?run) = h @ [OUpdateStatus (''demo'', ''mg'') ''uid-1'' ?st st', OClose url]"
    by (simp add: h_def st'_def check_database_def db hosts with_client_def check_ready_def
        connect_def ping_def close_def updateAcceptingConnection_def updateDatabaseReady_def
        updateStatus_def op_program_defs demo_op_env_def url_of_def key_of_def eval_nat_numeral)
  have raised: "raises_ready ?st st'"
    by (simp add: st'_def raises_ready_def set_db_condition_def SetCondition_def
        ready_condition_def db_condition_def)
  from ready_only_after_pings [of demo_op_env demo_op_db h _ _ ?st st' "[OClose url]"] calls raised
  have "healthy demo_op_env demo_op_db h" by simp
  then have "pinged demo_op_env url h"
    by (simp add: healthy_def db hosts part_ok_def url_of_def)
  with calls raised hosts show ?thesis by blast
qed



text \<open>A failing ping does not withdraw the condition Ready: as long as the connections can be
  opened, no update of a check lowers it, so a database that stops answering pings stays
  Ready.\<close>
theorem failed_ping_keeps_ready:
  assumes "\<And>h url rs. o_connect E h url rs = Inr ()"
    and "OUpdateStatus key uid st st' \<in> set (calls (snd (check_database E (op_start db))))"
    and "find_by cond_type DatabaseReady (ms_conditions st) = Some c"
    and "cond_status c = ConditionTrue"
  shows "\<exists>c'. find_by cond_type DatabaseReady (ms_conditions st') = Some c' \<and>
    cond_status c' = ConditionTrue"
proof -
  have "is_ready_kept db (op_start db)" by (simp add: is_ready_kept_def)
  from keepsD [OF keeps_ready_check [OF assms(1)] this]
  have "is_ready_kept db (snd (check_database E (op_start db)))" by (metis prod.collapse)
  then have "ready_stays (OUpdateStatus key uid st st')"
    using assms(2) by (auto simp: is_ready_kept_def list_all_iff)
  with assms(3,4) show ?thesis by (simp add: ready_stays_def is_ready_def)
qed

definition silent_env :: op_env where
  "silent_env = demo_op_env\<lparr>o_ping := (\<lambda>_ _. Inl (Err ''timeout'')),
     o_fetchStatus := (\<lambda>_ _. Inr \<lparr>ms_phase = ''Ready'', ms_observedGeneration = 1,
       ms_conditions = [(ready_condition demo_op_db)\<lparr>cond_time := 7\<rparr>]\<rparr>)\<rparr>"

theorem failed_ping_keeps_ready_witness:
  "\<exists>st st' c. calls (snd (check_database silent_env (op_start demo_op_db))) =
       [OConnect ''mg-0.mg-pods.demo.svc'' (RepSetName demo_op_db), OFetchStatus (''demo'', ''mg''),
        OUpdateStatus (''demo'', ''mg'') ''uid-1'' st st', OPing ''mg-0.mg-pods.demo.svc'',
        OClose ''mg-0.mg-pods.demo.svc''] \<and>
     find_by cond_type DatabaseReady (ms_conditions st') = Some c \<and> cond_status c = ConditionTrue"
proof -
  let ?c = "(ready_condition demo_op_db)\<lparr>cond_time := 7\<rparr>"
  let ?st = "\<lparr>ms_phase = ''Ready'', ms_observedGeneration = 1, ms_conditions = [?c]\<rparr>"
  let ?st' = "set_db_condition 1 (accepting_condition demo_op_db) ?st"
  have db: "mg_shardTopology demo_op_db = None" "mg_namespace demo_op_db = ''demo''"
    "mg_name demo_op_db = ''mg''" "mg_uid demo_op_db = ''uid-1''"
    by (simp_all add: demo_op_defs)
  have ready: "find_by cond_type DatabaseReady (ms_conditions ?st) = Some ?c"
    "cond_status ?c = ConditionTrue"
    by (simp_all add: ready_condition_def db_condition_def)
  have calls: "calls (snd (check_database silent_env (op_start demo_op_db))) =
       [OConnect ''mg-0.mg-pods.demo.svc'' (RepSetName demo_op_db), OFetchStatus (''demo'', ''mg''),
        OUpdateStatus (''demo'', ''mg'') ''uid-1'' ?st ?st', OPing ''mg-0.mg-pods.demo.svc'',
        OClose ''mg-0.mg-pods.demo.svc'']"
    by (simp add: check_database_def db demo_hosts with_client_def check_ready_def
        connect_def ping_def close_def updateAcceptingConnection_def updateDatabaseReady_def
        updateStatus_def op_program_defs silent_env_def demo_op_env_def url_of_def key_of_def)
  moreover have "o_connect silent_env h url rs = Inr ()" for h url rs
    by (simp add: silent_env_def demo_op_env_def)
  ultimately show ?thesis
    using failed_ping_keeps_ready [of silent_env _ _ ?st ?st' demo_op_db ?c] ready by auto
qed

text \<open>C40. The health checker never returns, whether or not it is asked to stop and whatever the
  servers answer: the \<open>break\<close> of the stop case leaves only the \<open>select\<close>.\<close>
theorem health_loop_never_returns:
  "CheckMongoDBHealth E stopped s \<noteq> Some (Done u, t)"
proof
  assume "CheckMongoDBHealth E stopped s = Some (Done u, t)"
  then have "fst (Done u, t) \<noteq> Done u"
    by (rule CheckMongoDBHealth.raw_induct [where P = "\<lambda>E stopped s r. fst r \<noteq> Done u", rotated])
      (auto split: if_splits prod.splits outcome.splits)
  then show False by simp
qed

end
