(* ===== verification/OpStatefulSet.thy ===== *)
theory OpStatefulSet
  imports OpWorkload OpTerminate
begin

text \<open>
  The StatefulSets of a database (\<open>statefulset.go\<close>, \<open>mongos.go\<close>): one for a standalone server or
  a replica set; for a sharded cluster those of the config servers, of each shard and of the
  routers, which wait for the others. \<open>Reconcile\<close> answers what it has done or that a StatefulSet
  is not ready yet.

  A default access mode is also written into the database object in memory, through the pointer
  in the options; \<open>wo_setPvc\<close> of \<open>ensureStatefulSet\<close> is where that pointer leads.
\<close>

section \<open>One StatefulSet\<close>

definition checkStatefulSet :: "op_env \<Rightarrow> string \<Rightarrow> (gerr + unit) op_prog" where
  "checkStatefulSet E stsName =
     bnd (gets odb) (\<lambda>db.
       let key = (mg_namespace db, stsName)
       in bnd (perform (\<lambda>h. api_get (o_statefulSets E) h key) (OGet OStatefulSet key)) (\<lambda>r.
            case r of
              Inl e \<Rightarrow> if is_not_found e then ret (Inr ()) else ret (Inl e)
            | Inr sts \<Rightarrow>
                if lookup_or_empty (om_labels (sts_meta sts)) NameLabelKey \<noteq> ResourceFQN \<or>
                   lookup_or_empty (om_labels (sts_meta sts)) InstanceLabelKey \<noteq> mg_name db
                then ret (Inl (Err (''intended statefulSet \"'' @ mg_namespace db @ ''/'' @ stsName @
                  ''\" already exists'')))
                else ret (Inr ())))"

definition getVersion :: "op_env \<Rightarrow> string \<Rightarrow> (gerr + mongodb_version) op_prog" where
  "getVersion E v = perform (\<lambda>h. o_getVersion E h v) (OGetVersion v)"

text \<open>The template of a user who gave none: the zero value.\<close>

definition empty_scheduling :: pod_scheduling where
  "empty_scheduling =
     \<lparr>ps_nodeSelector = absent, ps_affinity = absent, ps_schedulerName = '''', ps_tolerations = absent,
      ps_imagePullSecrets = absent, ps_priorityClassName = '''', ps_priority = absent,
      ps_hostNetwork = False, ps_hostPID = False, ps_hostIPC = False, ps_shareProcessNamespace = None,
      ps_securityContext = absent, ps_dnsPolicy = '''', ps_dnsConfig = absent\<rparr>"

definition empty_template :: pod_template where
  "empty_template =
     \<lparr>pt_annotations = Map.empty, pt_controllerAnnotations = Map.empty,
      pt_controllerLabels = Map.empty, pt_labels = Map.empty, pt_serviceAccountName = '''',
      pt_args = [], pt_env = [], pt_resources = absent, pt_livenessProbe = absent,
      pt_readinessProbe = absent, pt_lifecycle = absent, pt_containerSecurityContext = absent,
      pt_initContainers = [], pt_scheduling = empty_scheduling\<rparr>"

definition new_stateful_set :: "nsname \<Rightarrow> stateful_set" where
  "new_stateful_set key =
     \<lparr>sts_meta = meta_of (fst key) (snd key), sts_replicas = None, sts_serviceName = '''',
      sts_selector = Map.empty,
      sts_template = \<lparr>pd_labels = Map.empty, pd_annotations = Map.empty, pd_initContainers = [],
        pd_containers = [], pd_volumes = [], pd_scheduling = empty_scheduling,
        pd_serviceAccountName = ''''\<rparr>,
      sts_claims = [], sts_updateStrategy = '''', sts_readyReplicas = 0\<rparr>"

text \<open>A probe whose fields are all zero is dropped.\<close>

definition set_probe :: "op_env \<Rightarrow> raw \<Rightarrow> raw" where
  "set_probe E probe = (if probe \<noteq> absent \<and> o_isZero E probe then absent else probe)"

definition database_container ::
  "op_env \<Rightarrow> mongodb_version \<Rightarrow> pod_template \<Rightarrow> workload_options \<Rightarrow> container" where
  "database_container E v pt opts =
     (new_container MongoDBContainerName)
       \<lparr>c_image := mv_dbImage v, c_imagePullPolicy := ''IfNotPresent'', c_command := wo_cmd opts,
        c_args := UpsertArgumentList (wo_args opts) (pt_args pt) [],
        c_ports := container_port MongoDBDatabasePortName database_port,
        c_env := UpsertEnvVars (wo_envList opts) (pt_env pt), c_resources := pt_resources pt,
        c_securityContext := pt_containerSecurityContext pt, c_lifecycle := pt_lifecycle pt,
        c_livenessProbe := set_probe E (pt_livenessProbe pt),
        c_readinessProbe := set_probe E (pt_readinessProbe pt),
        c_volumeMounts := wo_volumeMount opts\<rparr>"

definition detector_container :: "op_env \<Rightarrow> mongodb \<Rightarrow> mongodb_version \<Rightarrow> container" where
  "detector_container E db v =
     (new_container ReplicationModeDetectorContainerName)
       \<lparr>c_image := mv_replicationModeDetectorImage v, c_imagePullPolicy := ''IfNotPresent'',
        c_args := [''run'', ''--db-name='' @ mg_name db, ''--db-kind='' @ ResourceKindMongoDB] @ o_loggerFlags E,
        c_resources := mg_coordinatorResources db, c_securityContext := mg_coordinatorSecurityContext db\<rparr>"

text \<open>The exporter, when the database is monitored by Prometheus; its settings may be nil.\<close>

definition with_exporter :: "mongodb \<Rightarrow> mongodb_version \<Rightarrow> container list \<Rightarrow> container list option" where
  "with_exporter db v cs =
     (case mg_monitor db of
        None \<Rightarrow> Some cs
      | Some monitor \<Rightarrow>
          if Vendor (ag_agent monitor) \<noteq> VendorPrometheus then Some cs
          else map_option (\<lambda>ex. UpsertContainer cs (getExporterContainer db v ex)) (ag_prometheus monitor))"

text \<open>The settings of the pod that are copied one by one; the scheduler's name only if it is set.\<close>

definition copy_scheduling :: "pod_scheduling \<Rightarrow> pod_scheduling \<Rightarrow> pod_scheduling" where
  "copy_scheduling new old =
     old\<lparr>ps_nodeSelector := ps_nodeSelector new, ps_affinity := ps_affinity new,
       ps_schedulerName := (if ps_schedulerName new \<noteq> '''' then ps_schedulerName new else ps_schedulerName old),
       ps_tolerations := ps_tolerations new, ps_imagePullSecrets := ps_imagePullSecrets new,
       ps_priorityClassName := ps_priorityClassName new, ps_priority := ps_priority new,
       ps_hostNetwork := ps_hostNetwork new, ps_hostPID := ps_hostPID new, ps_hostIPC := ps_hostIPC new,
       ps_securityContext :=
         (if ps_securityContext new = absent then Node [] else ps_securityContext new)\<rparr>"

text \<open>The containers and volumes of the pod, before the environment is added.\<close>

definition pod_parts ::
  "op_env \<Rightarrow> mongodb \<Rightarrow> mongodb_version \<Rightarrow> pod_template \<Rightarrow> workload_options \<Rightarrow> pod_spec \<Rightarrow> pod_spec option" where
  "pod_parts E db v pt opts pod =
     (let cs = UpsertContainer (pd_containers pod) (database_container E v pt opts);
          members = (if mg_replicaSet db \<noteq> None then UpsertContainer cs (detector_container E db v) else cs)
      in map_option
        (\<lambda>containers. pod\<lparr>pd_labels := wo_selectors opts, pd_annotations := pt_annotations pt,
           pd_initContainers := UpsertContainers
             (UpsertContainers (pd_initContainers pod) (pt_initContainers pt)) (wo_initContainers opts),
           pd_containers := containers,
           pd_volumes := UpsertVolume (pd_volumes pod) (wo_volumes opts)\<rparr>)
        (with_exporter db v members))"

text \<open>The last part: the configuration and the settings of the pod.\<close>

definition finish_pod :: "pod_template \<Rightarrow> workload_options \<Rightarrow> pod_spec \<Rightarrow> pod_spec" where
  "finish_pod pt opts pod =
     (let configured = (case wo_configSecret opts of
            None \<Rightarrow> pod | Some secret \<Rightarrow> upsertConfigSecretVolume pod secret)
      in configured\<lparr>pd_scheduling := copy_scheduling (pt_scheduling pt) (pd_scheduling configured),
           pd_serviceAccountName := pt_serviceAccountName pt\<rparr>)"

text \<open>The transform function of \<open>ensureStatefulSet\<close>.\<close>

definition stateful_set_transform ::
  "op_env \<Rightarrow> mongodb \<Rightarrow> mongodb_version \<Rightarrow> pod_template \<Rightarrow> workload_options \<Rightarrow> stateful_set \<Rightarrow> stateful_set option" where
  "stateful_set_transform E db v pt opts sts =
     Option.bind (pod_parts E db v pt opts (sts_template sts)) (\<lambda>pod.
     Option.bind (upsertEnv pod db) (\<lambda>with_env.
       let base = sts\<lparr>
             sts_meta := EnsureOwnerReference ((sts_meta sts)
               \<lparr>om_labels := wo_labels opts, om_annotations := pt_controllerAnnotations pt\<rparr>) (db_owner db),
             sts_replicas := wo_replicas opts, sts_serviceName := wo_gvrSvcName opts,
             sts_selector := wo_selectors opts, sts_template := with_env,
             sts_updateStrategy := ''OnDelete''\<rparr>
       in map_option (\<lambda>stored. stored\<lparr>sts_template := finish_pod pt opts (sts_template stored)\<rparr>)
            (if wo_isMongos opts then Some base
             else upsertDataVolume base (wo_pvcSpec opts) (mg_storageType db))))"

text \<open>The mount of the certificates, for every mode but \<open>disabled\<close>.\<close>

definition with_cert_mount :: "mongodb \<Rightarrow> workload_options \<Rightarrow> workload_options" where
  "with_cert_mount db opts =
     (if mg_sslMode db \<noteq> SSLModeDisabled \<and> mg_tls db \<noteq> None
      then opts\<lparr>wo_volumeMount :=
        UpsertVolumeMount (wo_volumeMount opts) [mount MongoDBCertDirectoryName MongoCertDirectory]\<rparr>
      else opts)"

definition ensureStatefulSet ::
  "op_env \<Rightarrow> (pvc_spec \<Rightarrow> mongodb \<Rightarrow> mongodb) \<Rightarrow> workload_options \<Rightarrow> (gerr + stateful_set \<times> verb) op_prog" where
  "ensureStatefulSet E wo_setPvc opts =
     bnd (gets odb) (\<lambda>db.
       let pt = (case wo_podTemplate opts of None \<Rightarrow> empty_template | Some pt \<Rightarrow> pt);
           key = (mg_namespace db, wo_stsName opts)
       in
     bndE (checkStatefulSet E (wo_stsName opts)) (\<lambda>_.
     bndE (getVersion E (mg_version db)) (\<lambda>v.
     bndE (createOrPatchPartial (o_statefulSets E) StatefulSetObj OStatefulSet key (new_stateful_set key)
             (stateful_set_transform E db v pt (with_cert_mount db opts))) (\<lambda>(sts, vt).
     bnd (case wo_pvcSpec opts of
            None \<Rightarrow> ret ()
          | Some pvc \<Rightarrow>
              if wo_isMongos opts \<or> mg_storageType db = StorageTypeEphemeral then ret ()
              else update (\<lambda>s. s\<lparr>odb := wo_setPvc (default_access_modes pvc) (odb s)\<rparr>)) (\<lambda>_.
     bndE (perform (\<lambda>h. o_createPDB E h sts) (OCreatePDB (key_of (sts_meta sts)))) (\<lambda>_.
       ret (Inr (sts, vt))))))))"

section \<open>The nodes\<close>

definition ipv6_flag :: "bool \<Rightarrow> string list" where
  "ipv6_flag enabled = (if enabled then [''--ipv6''] else [])"

text \<open>Outside of a sharded cluster the members of a replica set run the initial script.\<close>

definition member_script :: "mongodb \<Rightarrow> raw option" where
  "member_script db = (if mg_shardTopology db = None then init_script db else None)"

definition with_script_volume :: "raw option \<Rightarrow> volume list \<Rightarrow> volume list" where
  "with_script_volume script volumes =
     (case script of None \<Rightarrow> volumes | Some source \<Rightarrow> UpsertVolume volumes [script_volume source])"

definition with_script_mount :: "raw option \<Rightarrow> volume_mount list \<Rightarrow> volume_mount list" where
  "with_script_mount script mounts =
     (case script of None \<Rightarrow> mounts | Some source \<Rightarrow> UpsertVolumeMount mounts [script_mount])"

definition set_config_storage :: "pvc_spec \<Rightarrow> mongodb \<Rightarrow> mongodb" where
  "set_config_storage pvc db = db\<lparr>mg_shardTopology := map_option
     (\<lambda>t. t\<lparr>st_configServerStorage := Some pvc\<rparr>) (mg_shardTopology db)\<rparr>"

definition set_shard_storage :: "pvc_spec \<Rightarrow> mongodb \<Rightarrow> mongodb" where
  "set_shard_storage pvc db = db\<lparr>mg_shardTopology := map_option
     (\<lambda>t. t\<lparr>st_shardStorage := Some pvc\<rparr>) (mg_shardTopology db)\<rparr>"

definition set_storage :: "pvc_spec \<Rightarrow> mongodb \<Rightarrow> mongodb" where
  "set_storage pvc db = db\<lparr>mg_storage := Some pvc\<rparr>"

text \<open>The options of the config servers; \<open>extra\<close> are the arguments for IPv6 and TLS.\<close>

definition config_options ::
  "mongodb \<Rightarrow> shard_topology \<Rightarrow> string list \<Rightarrow> container \<Rightarrow> volume list \<Rightarrow> pod_template \<Rightarrow> string \<Rightarrow> string \<Rightarrow>
   workload_options" where
  "config_options db topology extra initContnr initvolumes pt service secret =
     (let node = st_configServer topology in
      \<lparr>wo_stsName = ConfigSvrNodeName db, wo_labels = ConfigSvrLabels db,
       wo_selectors = ConfigSvrSelectors db, wo_cmd = [''mongod''],
       wo_args = server_args @
         [''--configsvr'', ''--replSet='' @ ConfigSvrRepSetName db,
          ''--clusterAuthMode='' @ default_clusterAuth db, keyFile_flag] @ extra,
       wo_envList = UpsertEnvVars (member_env db (ConfigSvrRepSetName db) secret) (pt_env pt),
       wo_volumeMount = with_script_mount (member_script db) member_mounts,
       wo_configSecret = mn_configSecret node, wo_replicas = Some (mn_replicas node),
       wo_gvrSvcName = service, wo_podTemplate = Some pt,
       wo_pvcSpec = st_configServerStorage topology, wo_initContainers = [initContnr],
       wo_volumes = with_script_volume (member_script db) (with_key_file db initvolumes),
       wo_isMongos = False\<rparr>)"

definition ensureConfigNode :: "op_env \<Rightarrow> bool \<Rightarrow> (gerr + stateful_set \<times> verb) op_prog" where
  "ensureConfigNode E ipv6 =
     bnd (gets odb) (\<lambda>db.
     bndE (getVersion E (mg_version db)) (\<lambda>v.
     bndE (ret (getTLSArgs E db v)) (\<lambda>sslArgs.
     bnd (deref (mg_shardTopology db)) (\<lambda>topology.
     let node = st_configServer topology; name = ConfigSvrNodeName db in
     bnd (deref (installInitContainer db v (Some (mn_podTemplate node)) name)) (\<lambda>(initContnr, initvolumes).
     bnd (deref (mg_authSecret db)) (\<lambda>secret.
     bnd (deref (GoverningServiceName name)) (\<lambda>service.
     let pt = (mn_podTemplate node)\<lparr>pt_lifecycle := peer_finder ''configdb.sh'' service\<rparr> in
     bnd (update (\<lambda>s. s\<lparr>odb := set_config_template pt (odb s)\<rparr>)) (\<lambda>_.
       ensureStatefulSet E set_config_storage
         (config_options db topology (ipv6_flag ipv6 @ sslArgs) initContnr initvolumes pt service secret)))))))))"

text \<open>
  \<open>parseAffinityTemplate\<close>: the number of the shard is substituted in the whole template,
  encoded as JSON.
\<close>

definition parseAffinityTemplate :: "op_env \<Rightarrow> pod_template \<Rightarrow> int \<Rightarrow> gerr + pod_template" where
  "parseAffinityTemplate E pt nodeNum =
     (if ps_affinity (pt_scheduling pt) = absent then Inr pt
      else case o_marshalTemplate E pt of
             Inl e \<Rightarrow> Inl e
           | Inr text \<Rightarrow>
               (case o_evalMap E text [MongoDBShardAffinityTemplateVar \<mapsto> itoa nodeNum] of
                  Inl e \<Rightarrow> Inl e
                | Inr resolved \<Rightarrow> o_unmarshalTemplate E resolved pt))"

definition in_memory_args :: "mongodb \<Rightarrow> string list" where
  "in_memory_args db =
     (if mg_storageEngine db = StorageEngineInMemory then [''--storageEngine=inMemory''] else [])"

text \<open>The options of one shard; \<open>env\<close> are the variables of the template before the affinity is parsed.\<close>

definition shard_options ::
  "mongodb \<Rightarrow> shard_topology \<Rightarrow> int \<Rightarrow> string list \<Rightarrow> container \<Rightarrow> volume list \<Rightarrow> env_var list \<Rightarrow> pod_template \<Rightarrow>
   string \<Rightarrow> string \<Rightarrow> workload_options" where
  "shard_options db topology nodeNum extra initContnr initvolumes env podTemplate service secret =
     (let node = st_shard topology in
      \<lparr>wo_stsName = ShardNodeName db nodeNum, wo_labels = ShardLabels db nodeNum,
       wo_selectors = ShardSelectors db nodeNum, wo_cmd = [''mongod''],
       wo_args = server_args @
         [''--shardsvr'', ''--replSet='' @ ShardRepSetName db nodeNum,
          ''--clusterAuthMode='' @ default_clusterAuth db, keyFile_flag] @ extra,
       wo_envList = UpsertEnvVars (member_env db (ShardRepSetName db nodeNum) secret) env,
       wo_volumeMount = with_script_mount (member_script db) member_mounts,
       wo_configSecret = mn_configSecret node, wo_replicas = Some (mn_replicas node),
       wo_gvrSvcName = service, wo_podTemplate = Some podTemplate,
       wo_pvcSpec = st_shardStorage topology, wo_initContainers = [initContnr],
       wo_volumes = with_script_volume (member_script db) (with_key_file db initvolumes),
       wo_isMongos = False\<rparr>)"

definition shardSts :: "op_env \<Rightarrow> bool \<Rightarrow> int \<Rightarrow> (gerr + stateful_set \<times> verb) op_prog" where
  "shardSts E ipv6 nodeNum =
     bnd (gets odb) (\<lambda>db.
     bndE (getVersion E (mg_version db)) (\<lambda>v.
     bndE (ret (getTLSArgs E db v)) (\<lambda>sslArgs.
     bnd (deref (mg_shardTopology db)) (\<lambda>topology.
     let node = st_shard topology; name = ShardNodeName db nodeNum in
     bnd (deref (installInitContainer db v (Some (mn_podTemplate node)) name)) (\<lambda>(initContnr, initvolumes).
     bnd (deref (mg_authSecret db)) (\<lambda>secret.
     bnd (deref (GoverningServiceName name)) (\<lambda>service.
     let pt = (mn_podTemplate node)\<lparr>pt_lifecycle := peer_finder ''sharding.sh'' service\<rparr> in
     bnd (update (\<lambda>s. s\<lparr>odb := set_shard_template pt (odb s)\<rparr>)) (\<lambda>_.
     bndE (wrap_error ''error while templating affinity for shard nodes''
             (ret (parseAffinityTemplate E pt nodeNum))) (\<lambda>podTemplate.
       ensureStatefulSet E set_shard_storage
         (shard_options db topology nodeNum (ipv6_flag ipv6 @ sslArgs @ in_memory_args db) initContnr
            initvolumes (pt_env pt) podTemplate service secret))))))))))"

text \<open>The verb is that of the last shard that was changed.\<close>

definition ensureShardNode :: "op_env \<Rightarrow> bool \<Rightarrow> (gerr + stateful_set list \<times> verb) op_prog" where
  "ensureShardNode E ipv6 =
     bnd (gets odb) (\<lambda>db.
     bnd (deref (mg_shardTopology db)) (\<lambda>topology.
       for_fold (int_range (st_shards topology)) ([], VerbUnchanged) (\<lambda>acc i.
         bndE (shardSts E ipv6 i) (\<lambda>(st, vt1).
           ret (Inr (fst acc @ [st], if vt1 \<noteq> VerbUnchanged then vt1 else snd acc))))))"

text \<open>The shards as the routers are told about them; an address that cannot be built panics.\<close>

definition shard_dsns :: "mongodb \<Rightarrow> shard_topology \<Rightarrow> string option" where
  "shard_dsns db topology =
     map_option (str_join '' '') (all_some (map (ShardDSN db) (int_range (st_shards topology))))"

definition mongos_env :: "mongodb \<Rightarrow> string \<Rightarrow> string \<Rightarrow> env_var list" where
  "mongos_env db configDSN shardDsn =
     [env_value ''CONFIGDB_REPSET'' configDSN, env_value ''SHARD_REPSETS'' shardDsn,
      env_value ''SERVICE_NAME'' (ServiceName db)]"

definition ensureMongosNode :: "op_env \<Rightarrow> bool \<Rightarrow> (gerr + stateful_set \<times> verb) op_prog" where
  "ensureMongosNode E ipv6 =
     bnd (gets odb) (\<lambda>db.
     bndE (getVersion E (mg_version db)) (\<lambda>v.
     bndE (ret (getTLSArgs E db v)) (\<lambda>sslArgs.
     bnd (deref (mg_shardTopology db)) (\<lambda>topology.
     let node = st_mongos topology; name = MongosNodeName db in
     bnd (deref (shard_dsns db topology)) (\<lambda>shardDsn.
     bnd (deref (ConfigSvrDSN db)) (\<lambda>configDSN.
     bnd (deref (installInitContainer db v (Some (mn_podTemplate node)) name)) (\<lambda>(initContnr, initvolumes).
     bnd (deref (mongosInitContainer db v (mn_podTemplate node) (mongos_env db configDSN shardDsn)
                   ''mongos.sh'')) (\<lambda>(bootstrpContnr, bootstrpVol).
     bnd (deref (GoverningServiceName name)) (\<lambda>service.
       ensureStatefulSet E set_storage
         \<lparr>wo_stsName = name, wo_labels = MongosLabels db, wo_selectors = MongosSelectors db,
          wo_cmd = [''mongos''],
          wo_args = [''--bind_ip_all'', ''--port='' @ MongoDBDatabasePort,
             ''--configdb=$(CONFIGDB_REPSET)'', ''--clusterAuthMode='' @ default_clusterAuth db,
             keyFile_flag] @ ipv6_flag ipv6 @ sslArgs,
          wo_envList = mongos_env db configDSN shardDsn,
          wo_volumeMount = with_script_mount (init_script db)
            [mount MongoDBConfigDirectoryName MongoDBConfigDirectoryPath],
          wo_configSecret = mn_configSecret node, wo_replicas = Some (mn_replicas node),
          wo_gvrSvcName = service, wo_podTemplate = Some (mn_podTemplate node),
          wo_pvcSpec = mg_storage db, wo_initContainers = [initContnr, bootstrpContnr],
          wo_volumes = UpsertVolume
            (with_script_volume (init_script db)
              (UpsertVolume [empty_dir MongoDBConfigDirectoryName] initvolumes)) bootstrpVol,
          wo_isMongos = True\<rparr>)))))))))"

section \<open>The cluster\<close>

definition sts_event :: "verb \<Rightarrow> string \<Rightarrow> string \<Rightarrow> unit op_prog" where
  "sts_event vt ns name =
     event EventTypeNormal EventReasonSuccessful
       (''Successfully '' @ verb_text vt @ '' StatefulSet '' @ ns @ ''/'' @ name)"

text \<open>As long as the database is not provisioned every member has to be ready.\<close>

definition wait_for_members ::
  "mongodb \<Rightarrow> verb \<Rightarrow> verb \<Rightarrow> stateful_set list \<Rightarrow> (gerr + unit) op_prog" where
  "wait_for_members db vt1 vt2 members =
     for_each members (\<lambda>st.
       if \<not> IsConditionTrue (mg_conditions db) DatabaseProvisioned \<and> \<not> IsStatefulSetReady st
       then ret (Inl StsNotReady)
       else if vt1 \<noteq> VerbUnchanged \<or> vt2 \<noteq> VerbUnchanged
       then bnd (sts_event vt2 (mg_namespace db) (om_name (sts_meta st))) (\<lambda>_. ret (Inr ()))
       else ret (Inr ()))"

definition ensureTopologyCluster :: "op_env \<Rightarrow> bool \<Rightarrow> (gerr + verb) op_prog" where
  "ensureTopologyCluster E ipv6 =
     bndE (ensureConfigNode E ipv6) (\<lambda>(st, vt1).
     bndE (ensureShardNode E ipv6) (\<lambda>(sts, vt2).
     bnd (gets odb) (\<lambda>db.
     bndE (wait_for_members db vt1 vt2 (sts @ [st])) (\<lambda>_.
     bndE (ensureMongosNode E ipv6) (\<lambda>(mongosSts, vt3).
     bndE (if vt3 = VerbUnchanged then ret (Inr ())
           else if \<not> IsStatefulSetReady mongosSts then ret (Inl StsNotReady)
           else bnd (sts_event vt3 (mg_namespace db) (om_name (sts_meta mongosSts))) (\<lambda>_. ret (Inr ()))) (\<lambda>_.
       ret (Inr (if vt1 = VerbCreated \<and> vt2 = VerbCreated \<and> vt3 = VerbCreated then VerbCreated
                 else if vt1 \<noteq> VerbUnchanged \<or> vt2 \<noteq> VerbUnchanged \<or> vt3 \<noteq> VerbUnchanged
                 then VerbPatched
                 else VerbUnchanged))))))))"

text \<open>A replica set has more arguments, variables, mounts and volumes than a standalone server.\<close>

definition standalone_options ::
  "mongodb \<Rightarrow> bool \<Rightarrow> string list \<Rightarrow> container \<Rightarrow> volume list \<Rightarrow> pod_template \<Rightarrow> string \<Rightarrow> workload_options" where
  "standalone_options db ipv6 sslArgs initContnr initvolumes pt service =
     \<lparr>wo_stsName = OffshootName db, wo_labels = OffshootLabels db,
      wo_selectors = OffshootSelectors db, wo_cmd = [],
      wo_args = server_args @ ipv6_flag ipv6 @ sslArgs,
      wo_envList = UpsertEnvVars [env_value ''SSL_MODE'' (default_sslMode db)] (pt_env pt),
      wo_volumeMount = (case init_script db of None \<Rightarrow> [] | Some _ \<Rightarrow> [script_mount]),
      wo_configSecret = mg_configSecret db, wo_replicas = mg_replicas db, wo_gvrSvcName = service,
      wo_podTemplate = Some pt, wo_pvcSpec = mg_storage db, wo_initContainers = [initContnr],
      wo_volumes = with_script_volume (init_script db) (UpsertVolume [] initvolumes),
      wo_isMongos = False\<rparr>"

definition replica_options :: "mongodb \<Rightarrow> string \<Rightarrow> string \<Rightarrow> workload_options \<Rightarrow> workload_options" where
  "replica_options db secret service opts =
     opts\<lparr>wo_cmd := [''mongod''],
       wo_args := UpsertArgumentList (wo_args opts)
         [''--replSet='' @ RepSetName db, keyFile_flag, ''--clusterAuthMode='' @ default_clusterAuth db] [] @
         in_memory_args db,
       wo_envList := UpsertEnvVars (member_env db (RepSetName db) secret) (wo_envList opts),
       wo_volumeMount := with_script_mount (member_script db)
         (UpsertVolumeMount (wo_volumeMount opts) member_mounts),
       wo_volumes := with_script_volume (member_script db) (with_key_file db (wo_volumes opts)),
       wo_podTemplate := map_option (\<lambda>pt. pt\<lparr>pt_lifecycle := peer_finder ''replicaset.sh'' service\<rparr>)
         (wo_podTemplate opts)\<rparr>"

definition ensureNonTopology :: "op_env \<Rightarrow> bool \<Rightarrow> (gerr + verb) op_prog" where
  "ensureNonTopology E ipv6 =
     bnd (gets odb) (\<lambda>db.
     bndE (getVersion E (mg_version db)) (\<lambda>v.
     bnd (deref (mg_podTemplate db)) (\<lambda>pt.
     bndE (ret (getTLSArgs E db v)) (\<lambda>sslArgs.
     bnd (deref (installInitContainer db v (Some pt) '''')) (\<lambda>(initContnr, initvolumes).
     bnd (deref (GoverningServiceName (OffshootName db))) (\<lambda>service.
     let standalone = standalone_options db ipv6 sslArgs initContnr initvolumes pt service in
     bnd (if mg_replicaSet db = None then ret standalone
          else bnd (deref (mg_authSecret db)) (\<lambda>secret.
               ret (replica_options db secret service standalone))) (\<lambda>opts.
     bnd (update (\<lambda>s. s\<lparr>odb := (odb s)\<lparr>mg_podTemplate := wo_podTemplate opts\<rparr>\<rparr>)) (\<lambda>_.
     bndE (ensureStatefulSet E set_storage opts) (\<lambda>(st, vt).
       if vt = VerbUnchanged then ret (Inr vt)
       else if \<not> IsStatefulSetReady st then ret (Inl StsNotReady)
       else bnd (sts_event vt (mg_namespace db) (wo_stsName opts)) (\<lambda>_. ret (Inr vt)))))))))))"

definition Reconciler_Reconcile :: "op_env \<Rightarrow> (gerr + verb) op_prog" where
  "Reconciler_Reconcile E =
     bndE (gets (\<lambda>s. o_IPv6 E (calls s))) (\<lambda>ipv6.
     bnd (gets odb) (\<lambda>db.
       if mg_shardTopology db \<noteq> None then ensureTopologyCluster E ipv6 else ensureNonTopology E ipv6))"

end
