(* ===== verification/OpClient.thy ===== *)
theory OpClient
  imports OpHealth
begin

text \<open>
  What the operator does inside a provisioned database (\<open>client.go\<close>): it creates the user of
  the client certificate, and merges the replica set configuration of the API user into the
  running one, whose version it increments as a 32-bit integer.
\<close>

section \<open>The user of the certificate\<close>

definition CreateTLSUser :: "op_env \<Rightarrow> string \<Rightarrow> string \<Rightarrow> string \<Rightarrow> (gerr + unit) op_prog" where
  "CreateTLSUser E url repSetName tlsUserName =
     bndE (connect E url repSetName) (\<lambda>_.
       with_defer
         (bndE (perform (\<lambda>h. o_usersInfo E h url tlsUserName) (OUsersInfo url tlsUserName)) (\<lambda>users.
            if users = Some 0
            then perform (\<lambda>h. o_createUser E h url tlsUserName) (OCreateUser url tlsUserName)
            else ret (Inr ())))
         (close url))"

definition CreateTLSUsers :: "op_env \<Rightarrow> (gerr + unit) op_prog" where
  "CreateTLSUsers E =
     bnd (gets odb) (\<lambda>db.
     bnd (deref (GetCertSecretName db MongoDBClientCert '''')) (\<lambda>secretName.
     let key = (mg_namespace db, secretName) in
     bndE (perform (\<lambda>h. api_get (o_secrets E) h key) (OGet OSecret key)) (\<lambda>certSecret.
     bnd (deref (o_pemDecode E (lookup_or_empty (sec_data certSecret) ''tls.crt''))) (\<lambda>blk.
     bndE (ret (o_parseCertificate E blk)) (\<lambda>tlsUserName.
       case mg_shardTopology db of
         Some topology \<Rightarrow>
           bnd (deref (MongosHosts db)) (\<lambda>hosts.
           bndE (CreateTLSUser E (url_of hosts) '''' tlsUserName) (\<lambda>_.
             for_each (int_range (st_shards topology)) (\<lambda>i.
               bnd (deref (ShardHosts db i)) (\<lambda>hosts.
                 CreateTLSUser E (url_of hosts) (ShardRepSetName db i) tlsUserName))))
       | None \<Rightarrow>
           bnd (deref (Hosts db)) (\<lambda>hosts.
             CreateTLSUser E (url_of hosts) (RepSetName db) tlsUserName))))))"

section \<open>The replica set configuration\<close>

fun set_entry :: "string \<Rightarrow> bson \<Rightarrow> document \<Rightarrow> document" where
  "set_entry k v [] = [(k, v)]"
| "set_entry k v ((l, w) # d) = (if l = k then (k, v) # d else (l, w) # set_entry k v d)"

lemma set_entry_map_of [simp]: "map_of (set_entry k v d) = (map_of d)(k \<mapsto> v)"
  by (induction k v d rule: set_entry.induct) auto

text \<open>The type assertions of the code; they panic on any other value.\<close>

definition as_document :: "bson option \<Rightarrow> document option" where
  "as_document v = (case v of Some (Document d) \<Rightarrow> Some d | _ \<Rightarrow> None)"

definition as_int32 :: "bson option \<Rightarrow> 32 word option" where
  "as_int32 v = (case v of Some (Int32 i) \<Rightarrow> Some i | _ \<Rightarrow> None)"

definition one :: bson where "one = Double ''1''"

text \<open>The new configuration: the two merged, with the next version.\<close>

definition next_config :: "op_env \<Rightarrow> document \<Rightarrow> document \<Rightarrow> document option" where
  "next_config E currentConfig providedConfig =
     (let config = o_mergeDocuments E currentConfig providedConfig
      in map_option (\<lambda>version. set_entry ''version'' (Int32 (version + 1)) config)
           (as_int32 (map_of config ''version'')))"

definition reconfigure :: "op_env \<Rightarrow> string \<Rightarrow> document \<Rightarrow> (gerr + unit) op_prog" where
  "reconfigure E url providedConfig =
     bnd (gets odb) (\<lambda>db.
     bndE (perform (\<lambda>h. o_getReplConfig E h url) (OGetReplConfig url)) (\<lambda>info.
       if map_of info ''ok'' \<noteq> None \<and> map_of info ''ok'' \<noteq> Some one
       then ret (Inl (Err ''failed to get replset config.''))
       else
         bnd (deref (as_document (map_of info ''config''))) (\<lambda>currentConfig.
         bnd (deref (next_config E currentConfig providedConfig)) (\<lambda>config.
         bndE (perform (\<lambda>h. o_reconfig E h url config) (OReconfig url config)) (\<lambda>info.
           if map_of info ''ok'' = Some one then ret (Inr ())
           else ret (Inl (Err (''failed to run reconfig for mongodb database '' @ db_name db))))))))"

definition SetupReplicaSetConfig ::
  "op_env \<Rightarrow> string \<Rightarrow> string \<Rightarrow> string option \<Rightarrow> (gerr + unit) op_prog" where
  "SetupReplicaSetConfig E url repSetName configSecretRef =
     (case configSecretRef of
        None \<Rightarrow> ret (Inr ())
      | Some name \<Rightarrow>
          bnd (gets odb) (\<lambda>db.
          let key = (mg_namespace db, name) in
          bndE (perform (\<lambda>h. api_get (o_secrets E) h key) (OGet OSecret key)) (\<lambda>secret.
            case sec_data secret ''replicaset.json'' of
              None \<Rightarrow> ret (Inr ())
            | Some text \<Rightarrow>
                bndE (ret (o_unmarshalObject E text)) (\<lambda>providedConfig.
                bndE (connect E url repSetName) (\<lambda>_.
                  with_defer (reconfigure E url providedConfig) (close url))))))"

definition SetupReplicaSetsConfig :: "op_env \<Rightarrow> (gerr + unit) op_prog" where
  "SetupReplicaSetsConfig E =
     bnd (gets odb) (\<lambda>db.
       case mg_shardTopology db of
         Some topology \<Rightarrow>
           bnd (deref (ConfigSvrHosts db)) (\<lambda>hosts.
           bndE (SetupReplicaSetConfig E (url_of hosts) (ConfigSvrRepSetName db)
                   (mn_configSecret (st_configServer topology))) (\<lambda>_.
             for_each (int_range (st_shards topology)) (\<lambda>i.
               bnd (deref (ShardHosts db i)) (\<lambda>hosts.
                 SetupReplicaSetConfig E (url_of hosts) (ShardRepSetName db i)
                   (mn_configSecret (st_shard topology))))))
       | None \<Rightarrow>
           if mg_replicaSet db \<noteq> None
           then bnd (deref (Hosts db)) (\<lambda>hosts.
                  SetupReplicaSetConfig E (url_of hosts) (RepSetName db) (mg_configSecret db))
           else ret (Inr ()))"

end
