(* ===== verification/OpRun.thy ===== *)
theory OpRun
  imports OpStatefulSet OpClient
begin

text \<open>
  The work queue of the operator (\<open>workqueue.go\<close>) and the creation of a database
  (\<open>create\<close> in \<open>mongodb.go\<close>): \<open>runMongoDB\<close> is what one pass over one database does. The phase
  of a list of conditions (\<open>phase.PhaseFromCondition\<close>) and the validation are outside the
  repository.
\<close>

section \<open>Constants\<close>

text \<open>The reasons of events are outside the repository; each stands for itself.\<close>

definition EventReasonInvalid :: string where "EventReasonInvalid = ''EventReasonInvalid''"
definition EventReasonFailedToCreate :: string where "EventReasonFailedToCreate = ''EventReasonFailedToCreate''"
definition EventReasonFailedToStart :: string where "EventReasonFailedToStart = ''EventReasonFailedToStart''"
definition DatabaseSuccessfullyProvisioned :: string where
  "DatabaseSuccessfullyProvisioned = ''DatabaseSuccessfullyProvisioned''"
definition DatabaseProvisioningStartedSuccessfully :: string where
  "DatabaseProvisioningStartedSuccessfully = ''DatabaseProvisioningStartedSuccessfully''"

section \<open>Creating a database\<close>

definition set_conditions_in :: "op_env \<Rightarrow> (mongodb \<Rightarrow> condition) \<Rightarrow> (gerr + unit) op_prog" where
  "set_conditions_in E new =
     bnd (gets odb) (\<lambda>db.
     bnd (gets calls) (\<lambda>h.
       updateStatus E db (set_db_condition (o_now E h) (new db))))"

definition provisioned_condition :: "mongodb \<Rightarrow> condition" where
  "provisioned_condition db =
     db_condition DatabaseProvisioned ConditionTrue DatabaseSuccessfullyProvisioned (mg_generation db)
       (''The MongoDB: '' @ db_name db @ '' is successfully provisioned.'')"

text \<open>All that is needed is there, and the database is not yet recorded as provisioned.\<close>

definition newly_provisioned :: "mongodb \<Rightarrow> bool" where
  "newly_provisioned db \<longleftrightarrow>
     IsConditionTrue (mg_conditions db) DatabaseReplicaReady \<and>
     IsConditionTrue (mg_conditions db) DatabaseAcceptingConnection \<and>
     IsConditionTrue (mg_conditions db) DatabaseReady \<and>
     \<not> IsConditionTrue (mg_conditions db) DatabaseProvisioned"

text \<open>An external initializer still has to restore the data.\<close>

definition waits_for_restore :: "mongodb \<Rightarrow> bool" where
  "waits_for_restore db \<longleftrightarrow>
     (case mg_init db of None \<Rightarrow> False | Some init \<Rightarrow> mi_waitForInitialRestore init) \<and>
     \<not> HasCondition (mg_conditions db) DatabaseProvisioned \<and>
     \<not> IsConditionTrue (mg_conditions db) DatabaseDataRestored"

text \<open>
  \<open>in.Spec.Init.Initialized = true\<close> panics on an object without \<open>init\<close>, and so on the empty one
  that \<open>CreateOrPatchMongoDB\<close> hands to it when the database is gone.
\<close>

definition set_initialized :: "mongodb \<Rightarrow> mongodb option" where
  "set_initialized db = map_option
     (\<lambda>init. db\<lparr>mg_init := Some (init\<lparr>mi_initialized := True\<rparr>)\<rparr>) (mg_init db)"

definition mark_initialized :: "op_env \<Rightarrow> (gerr + unit) op_prog" where
  "mark_initialized E =
     bnd (gets odb) (\<lambda>db.
       if (case mg_init db of None \<Rightarrow> False | Some init \<Rightarrow> \<not> mi_initialized init) \<and>
          IsConditionTrue (mg_conditions db) DatabaseProvisioned
       then
         let key = key_of (mg_meta db)
         in bnd (perform (\<lambda>h. o_fetchDB E h key) (OFetchDB key)) (\<lambda>r.
              case r of
                Inl e \<Rightarrow> if is_not_found e then panic ''nil pointer dereference'' else ret (Inl e)
              | Inr cur \<Rightarrow>
                  bnd (deref (set_initialized cur)) (\<lambda>new.
                  bndE (perform (\<lambda>h. o_writeDB E h new) (OWriteDB new)) (\<lambda>_. ret (Inr ()))))
       else ret (Inr ()))"

text \<open>The end of \<open>create\<close>, after monitoring is set up.\<close>

definition finish_provisioning :: "op_env \<Rightarrow> (gerr + unit) op_prog" where
  "finish_provisioning E =
     bnd (gets odb) (\<lambda>db.
     bndE (if newly_provisioned db then set_conditions_in E provisioned_condition else ret (Inr ())) (\<lambda>_.
     bndE (if mg_tls db \<noteq> None then CreateTLSUsers E else ret (Inr ())) (\<lambda>_.
     bndE (SetupReplicaSetsConfig E) (\<lambda>_.
       mark_initialized E))))"

text \<open>A failure of the monitoring is reported and ends the pass without an error.\<close>

definition monitoring_failed :: "gerr \<Rightarrow> unit op_prog" where
  "monitoring_failed e =
     event EventTypeWarning EventReasonFailedToCreate
       (''Failed to manage monitoring system. Reason: '' @ error_text e)"

definition set_up_monitoring :: "op_env \<Rightarrow> (gerr + unit) op_prog" where
  "set_up_monitoring E =
     bnd (ensureStatsService E) (\<lambda>r.
       case r of
         Inl e \<Rightarrow> bnd (monitoring_failed e) (\<lambda>_. ret (Inr ()))
       | Inr _ \<Rightarrow>
           bnd (manageMonitor E) (\<lambda>r.
             case r of
               Inl e \<Rightarrow> bnd (monitoring_failed e) (\<lambda>_. ret (Inr ()))
             | Inr _ \<Rightarrow> finish_provisioning E))"

definition create_event :: "verb \<Rightarrow> verb \<Rightarrow> unit op_prog" where
  "create_event vt1 vt2 =
     (if vt1 = VerbCreated \<and> vt2 = VerbCreated
      then event EventTypeNormal EventReasonSuccessful ''Successfully created MongoDB''
      else if vt1 = VerbPatched \<or> vt2 = VerbPatched
      then event EventTypeNormal EventReasonSuccessful ''Successfully patched MongoDB''
      else ret ())"

text \<open>From the StatefulSets on; a StatefulSet that is not ready ends the pass.\<close>

definition create_workload :: "op_env \<Rightarrow> verb \<Rightarrow> (gerr + unit) op_prog" where
  "create_workload E vt1 =
     bnd (Reconciler_Reconcile E) (\<lambda>r.
       case r of
         Inl e \<Rightarrow> if e = StsNotReady then ret (Inr ()) else ret (Inl e)
       | Inr vt2 \<Rightarrow>
           bnd (create_event vt1 vt2) (\<lambda>_.
           bndE (ensureAppBinding E) (\<lambda>_.
           bnd (gets odb) (\<lambda>db.
             if waits_for_restore db then ret (Inr ()) else set_up_monitoring E))))"

definition create :: "op_env \<Rightarrow> (gerr + unit) op_prog" where
  "create E =
     bnd (gets odb) (\<lambda>db.
     bnd (perform (\<lambda>h. o_validate E h db) (OValidate (key_of (mg_meta db)))) (\<lambda>r.
       case r of
         Inl e \<Rightarrow> bnd (event EventTypeWarning EventReasonInvalid (error_text e)) (\<lambda>_. ret (Inr ()))
       | Inr _ \<Rightarrow>
           bnd (EnsureGoverningService E) (\<lambda>r.
             case r of
               Inl e \<Rightarrow> ret (Inl (Err (''failed to create governing Service for \"'' @ db_name db @
                 ''\". Reason: '' @ error_text e)))
             | Inr _ \<Rightarrow>
                 bndE (ensureDatabaseRBAC E) (\<lambda>_.
                 bndE (ensureService E) (\<lambda>vt1.
                 bndE (ensureAuthSecret E) (\<lambda>_.
                 bndE (EnsureKeyFileSecret E) (\<lambda>_.
                 bndE (IsCertificateSecretsCreated E) (\<lambda>ok.
                   if \<not> ok then ret (Inr ()) else create_workload E vt1))))))))"

section \<open>One pass\<close>

definition pushFailureEvent :: "string \<Rightarrow> unit op_prog" where
  "pushFailureEvent reason =
     bnd (gets odb) (\<lambda>db.
       event EventTypeWarning EventReasonFailedToStart
         (''Fail to be ready MongoDB: \"'' @ mg_name db @ ''\". Reason: '' @ reason))"

text \<open>\<open>util.PatchMongoDB\<close>: the database is replaced by the answer.\<close>

definition patchMongoDB :: "op_env \<Rightarrow> (mongodb \<Rightarrow> mongodb) \<Rightarrow> (gerr + mongodb) op_prog" where
  "patchMongoDB E f =
     bnd (gets odb) (\<lambda>db. perform (\<lambda>h. o_patchDB E h db (f db)) (OPatchDB db (f db)))"

definition add_finalizer :: "mongodb \<Rightarrow> mongodb" where
  "add_finalizer db = db\<lparr>mg_meta := AddFinalizer (mg_meta db) MongoDBFinalizer\<rparr>"

definition remove_finalizer :: "mongodb \<Rightarrow> mongodb" where
  "remove_finalizer db = db\<lparr>mg_meta := RemoveFinalizer (mg_meta db) MongoDBFinalizer\<rparr>"

definition set_phase :: "mongodb \<Rightarrow> string \<Rightarrow> mongodb_status \<Rightarrow> mongodb_status" where
  "set_phase db phase st = st\<lparr>ms_phase := phase, ms_observedGeneration := mg_generation db\<rparr>"

definition started_condition :: "mongodb \<Rightarrow> condition" where
  "started_condition db =
     db_condition DatabaseProvisioningStarted ConditionTrue DatabaseProvisioningStartedSuccessfully 0
       (''The KubeDB operator has started the provisioning of MongoDB: '' @ db_name db)"

definition drop_halted :: "mongodb_status \<Rightarrow> mongodb_status" where
  "drop_halted st = st\<lparr>ms_conditions := RemoveCondition (ms_conditions st) DatabaseHalted\<rparr>"

text \<open>A failed step is reported in an event before its error is returned.\<close>

definition reporting :: "(gerr + unit) op_prog \<Rightarrow> (gerr + unit) op_prog" where
  "reporting m =
     bnd m (\<lambda>r. case r of
       Inl e \<Rightarrow> bnd (pushFailureEvent (error_text e)) (\<lambda>_. ret (Inl e))
     | Inr _ \<Rightarrow> ret (Inr ()))"

definition cleanup :: "op_env \<Rightarrow> (gerr + unit) op_prog" where
  "cleanup E =
     bndE (terminate E) (\<lambda>_.
     bndE (patchMongoDB E remove_finalizer) (\<lambda>_. ret (Inr ())))"

definition process :: "op_env \<Rightarrow> (gerr + unit) op_prog" where
  "process E =
     bnd (gets odb) (\<lambda>db.
       if mg_phase db \<noteq> o_phase E (mg_conditions db)
       then reporting (updateStatus E db (set_phase db (o_phase E (mg_conditions db))))
       else if mg_conditions db = [] then set_conditions_in E started_condition
       else if IsConditionTrue (mg_conditions db) DatabasePaused then ret (Inr ())
       else if mg_halted db then reporting (halt E)
       else if HasCondition (mg_conditions db) DatabaseHalted then updateStatus E db drop_halted
       else reporting (create E))"

text \<open>
  The object is fetched from the informer's cache and copied; the initial \<open>odb\<close> is not used.
\<close>

definition runMongoDB :: "op_env \<Rightarrow> string \<Rightarrow> (gerr + unit) op_prog" where
  "runMongoDB E key =
     bndE (perform (\<lambda>h. o_fromCache E h key) (OGetFromCache key)) (\<lambda>obj.
       case obj of
         None \<Rightarrow> ret (Inr ())
       | Some db \<Rightarrow>
           bnd (update (\<lambda>s. s\<lparr>odb := db\<rparr>)) (\<lambda>_.
             if om_deletionTimestamp (mg_meta db) \<noteq> None
             then if HasFinalizer (mg_meta db) MongoDBFinalizer then cleanup E else ret (Inr ())
             else bndE (patchMongoDB E add_finalizer) (\<lambda>patched.
                  bnd (update (\<lambda>s. s\<lparr>odb := patched\<rparr>)) (\<lambda>_. process E))))"

section \<open>Events\<close>

definition IsOwnerOfGroup :: "owner_ref option \<Rightarrow> string \<Rightarrow> gerr + bool \<times> string" where
  "IsOwnerOfGroup ctrl grp =
     (case ctrl of
        None \<Rightarrow> Inr (False, '''')
      | Some owner \<Rightarrow>
          (case group_of (or_apiVersion owner) of
             Inl e \<Rightarrow> Inl e
           | Inr g \<Rightarrow> Inr (if g \<noteq> grp then (False, '''') else (True, or_kind owner))))"

text \<open>
  What the handlers of the informers put into the queue. The kind of the owner is compared
  only when the owner is not of the group at all.
\<close>

definition sts_handler :: "stateful_set \<Rightarrow> string option" where
  "sts_handler sts =
     (let owner = GetControllerOf (om_ownerReferences (sts_meta sts))
      in case IsOwnerOfGroup owner GroupName of
           Inl e \<Rightarrow> None
         | Inr (ok, kind) \<Rightarrow>
             if \<not> ok \<and> kind \<noteq> ResourceKindMongoDB then None
             else if IsStatefulSetReady sts
             then map_option (\<lambda>o'. om_namespace (sts_meta sts) @ ''/'' @ or_name o') owner
             else None)"

definition secret_handler :: "secret \<Rightarrow> string option" where
  "secret_handler s = (let key = MongoDBForSecret s in if key \<noteq> '''' then Some key else None)"

end
