(* ===== verification/OpRunLemmas.thy ===== *)
theory OpRunLemmas
  imports OpRun
begin

text \<open>
  What a pass may do, as invariants over its parts: \<open>creating m\<close> are the calls of the creation of
  the database with metadata \<open>m\<close>, and \<open>status_step\<close> the changes of its status.
\<close>

section \<open>Owners\<close>

definition owner_of :: "object_meta \<Rightarrow> owner_ref" where
  "owner_of m = NewControllerRef m (GroupName @ ''/v1alpha2'') ResourceKindMongoDB"

lemma db_owner_of: "db_owner db = owner_of (mg_meta db)"
  by (simp add: db_owner_def owner_of_def)

lemma meta_setters [simp]:
  "mg_meta (set_config_storage pvc db) = mg_meta db" "mg_meta (set_shard_storage pvc db) = mg_meta db"
  "mg_meta (set_storage pvc db) = mg_meta db"
  "mg_conditions (set_config_storage pvc db) = mg_conditions db"
  "mg_conditions (set_shard_storage pvc db) = mg_conditions db"
  "mg_conditions (set_storage pvc db) = mg_conditions db"
  "mg_conditions (set_config_template p db) = mg_conditions db"
  "mg_conditions (set_mongos_template p db) = mg_conditions db"
  "mg_conditions (set_shard_template p db) = mg_conditions db"
  "mg_conditions (set_template p db) = mg_conditions db"
  by (simp_all add: set_config_storage_def set_shard_storage_def set_storage_def
      set_config_template_def set_mongos_template_def set_shard_template_def set_template_def)

text \<open>A StatefulSet that is written has the metadata it had, its new labels and its owner.\<close>

lemma upsertDataVolume_meta:
  "upsertDataVolume sts pvc storageType = Some sts' \<Longrightarrow> sts_meta sts' = sts_meta sts"
  by (auto simp: upsertDataVolume_def mount_data_def Let_def split: if_splits)

lemma stateful_set_meta:
  assumes "stateful_set_transform E db v pt opts sts = Some sts'"
  shows "sts_meta sts' = EnsureOwnerReference ((sts_meta sts)
    \<lparr>om_labels := wo_labels opts, om_annotations := pt_controllerAnnotations pt\<rparr>) (db_owner db)"
  using assms
  by (auto simp: stateful_set_transform_def Let_def Option.bind_eq_Some_conv
      dest!: upsertDataVolume_meta split: if_splits)

interpretation database_set: owned_partial StatefulSetObj "stateful_set_transform E db v pt opts"
    "db_owner db" for E db v pt opts
  by unfold_locales
    (auto dest!: stateful_set_meta simp: controlled_def db_owner_find key_of_def)

section \<open>The calls of a creation\<close>

fun creating :: "object_meta \<Rightarrow> op_call \<Rightarrow> bool" where
  "creating m (OCreate ns x) = (ns = om_namespace m \<and> controlled (owner_of m) x)"
| "creating m (OPatch x y) =
     (key_of (object_metadata y) = key_of (object_metadata x) \<and>
      (controlled (owner_of m) y \<or>
       om_ownerReferences (object_metadata y) = om_ownerReferences (object_metadata x)))"
| "creating m (OPatchDB old new) = (mg_meta old = m \<and> mg_meta new = m)"
| "creating m (OUpdateStatus key uid st st') = False"
| "creating m (ODelete k key) = False"
| "creating m (ODeleteCollection k ns sel) = False"
| "creating m (ORemoveOwnerForItems k ns names uid) = False"
| "creating m (ORemoveOwnerForSelector k ns sel uid) = False"
| "creating m (OEnsureOwnerForItems k ns names owner) = False"
| "creating m (OEnsureOwnerForSelector k ns sel owner) = False"
| "creating m c = True"

definition in_create :: "object_meta \<Rightarrow> condition list \<Rightarrow> ohist \<Rightarrow> op_state \<Rightarrow> bool" where
  "in_create m cn h s \<longleftrightarrow> mg_meta (odb s) = m \<and> mg_conditions (odb s) = cn \<and>
     (\<exists>cs. calls s = h @ cs \<and> list_all (creating m) cs)"

lemma in_create_start: "in_create (mg_meta (odb s)) (mg_conditions (odb s)) (calls s) s"
  by (simp add: in_create_def)

lemma in_create_snoc [simp]:
  "in_create m cn h s \<Longrightarrow> creating m c \<Longrightarrow> in_create m cn h (s\<lparr>calls := calls s @ [c]\<rparr>)"
  unfolding in_create_def by auto

lemma in_create_meta: "in_create m cn h s \<Longrightarrow> mg_meta (odb s) = m \<and> mg_conditions (odb s) = cn"
  by (simp add: in_create_def)

lemma keeps_create_gets:
  "(\<And>db. mg_meta db = m \<Longrightarrow> mg_conditions db = cn \<Longrightarrow> keeps (in_create m cn h) (f db)) \<Longrightarrow>
   keeps (in_create m cn h) (bnd (gets odb) f)"
  by (rule keeps_bnd_gets) (auto dest: in_create_meta)

lemma keeps_create_write:
  "(\<And>db. mg_meta (f db) = mg_meta db \<and> mg_conditions (f db) = mg_conditions db) \<Longrightarrow> in_create m cn h s \<Longrightarrow> in_create m cn h (s\<lparr>odb := f (odb s)\<rparr>)"
  by (simp add: in_create_def)

lemma keeps_create_perform: "creating m c \<Longrightarrow> keeps (in_create m cn h) (perform ans c)"
  by (rule keeps_perform) simp

lemma keeps_create_partial:
  assumes "owned_partial wrap f (db_owner db)" and "mg_meta db = m" and "fst key = om_namespace m"
  shows "keeps (in_create m cn h) (createOrPatchPartial A wrap k key new f)"
proof -
  have "controlled (owner_of m) (wrap y)" "key_of (object_metadata (wrap y)) = key_of (object_metadata (wrap x))"
    if "f x = Some y" for x y
    using that owned_partial.partial_owner [OF assms(1)] owned_partial.partial_key [OF assms(1)] assms(2)
    by (auto simp: db_owner_of)
  then show ?thesis
    unfolding createOrPatchPartial_def
    by (intro keeps_bnd keeps_deref_then keeps_bndE keeps_sum keeps_if keeps_ret keeps_create_perform)
      (simp_all add: assms(3))
qed

lemma keeps_create_total:
  assumes "owned_kind wrap f (db_owner db)" and "mg_meta db = m" and "fst key = om_namespace m"
  shows "keeps (in_create m cn h) (createOrPatch A wrap k key new f)"
proof -
  have "owned_partial wrap (\<lambda>x. Some (f x)) (db_owner db)"
    using assms(1) by (auto simp: owned_partial_def owned_kind_def)
  then show ?thesis
    unfolding createOrPatch_partial using assms(2,3) by (rule keeps_create_partial)
qed

lemmas create_contracts =
  keeps_create_total [OF primary_service.owned_kind_axioms]
  keeps_create_total [OF stats_service.owned_kind_axioms]
  keeps_create_total [OF governing.owned_kind_axioms]
  keeps_create_total [OF service_account.owned_kind_axioms]
  keeps_create_total [OF permission_role.owned_kind_axioms]
  keeps_create_total [OF permission_binding.owned_kind_axioms]
  keeps_create_total [OF binding.owned_kind_axioms]
  keeps_create_partial [OF database_set.owned_partial_axioms]

lemmas create_intros = keeps_create_gets create_contracts keeps_deref_then keeps_create_perform
  keeps_create_write keeps_bnd keeps_bndE keeps_sum keeps_option keeps_prod keeps_if keeps_let
  keeps_ret keeps_gets keeps_deref keeps_panic keeps_update keeps_with_defer keeps_for_each
  keeps_for_fold

lemma keeps_create_event: "keeps (in_create m cn h) (event kind reason msg)"
  unfolding event_def by (rule keeps_create_perform) simp

lemma keeps_create_services:
  "keeps (in_create m cn h) (EnsureGoverningService E)"
  "keeps (in_create m cn h) (ensureService E)"
  "keeps (in_create m cn h) (ensureStatsService E)"
  unfolding EnsureGoverningService_def governing_service_def ensureService_def
    ensurePrimaryService_def ensureStatsService_def Let_def
  by (intro create_intros keeps_create_event; simp)+

lemma keeps_create_rbac: "keeps (in_create m cn h) (ensureDatabaseRBAC E)"
  unfolding ensureDatabaseRBAC_def createDatabaseRBAC_def grant_permissions_def getPolicyNames_def
    ensureRole_def createRoleBinding_def createServiceAccount_def Let_def
  by (intro create_intros keeps_create_event; simp)

lemma new_secret_controlled_by [simp]: "mg_meta db = m \<Longrightarrow> controlled (owner_of m) (SecretObj (new_secret db name data))"
  using db_owner_find [of db] by (auto simp: controlled_def new_secret_def db_owner_of owner_of_def NewControllerRef_def)

lemma keeps_create_secrets:
  "keeps (in_create m cn h) (ensureAuthSecret E)"
  "keeps (in_create m cn h) (EnsureKeyFileSecret E)"
  "keeps (in_create m cn h) (IsCertificateSecretsCreated E)"
  unfolding ensureAuthSecret_def createAuthSecret_def checkSecret_def EnsureKeyFileSecret_def
    ensureKeyFileSecret_def IsCertificateSecretsCreated_def Let_def
  by (intro create_intros keeps_create_event; simp)+

lemma keeps_create_appbinding: "keeps (in_create m cn h) (ensureAppBinding E)"
  unfolding ensureAppBinding_def ca_bundle_def Let_def
  by (intro create_intros keeps_create_event; simp)

lemma keeps_create_monitor: "keeps (in_create m cn h) (manageMonitor E)"
  unfolding manageMonitor_def getOldAgent_def addOrUpdateMonitor_def setNewAgent_def Let_def
  by (intro create_intros; simp add: set_agent_annotation_def key_of_def)

lemma keeps_create_sts: "keeps (in_create m cn h) (ensureStatefulSet E setPvc opts)"
  if "\<And>pvc db. mg_meta (setPvc pvc db) = mg_meta db \<and> mg_conditions (setPvc pvc db) = mg_conditions db"
  unfolding ensureStatefulSet_def checkStatefulSet_def getVersion_def Let_def
  by (intro create_intros; simp add: that)

lemma keeps_create_workload:
  "keeps (in_create m cn h) (ensureConfigNode E ipv6)"
  "keeps (in_create m cn h) (shardSts E ipv6 i)"
  "keeps (in_create m cn h) (ensureMongosNode E ipv6)"
  unfolding ensureConfigNode_def shardSts_def ensureMongosNode_def getVersion_def wrap_error_def Let_def
  by (intro create_intros keeps_create_sts; simp)+

lemma keeps_create_reconcile: "keeps (in_create m cn h) (Reconciler_Reconcile E)"
  unfolding Reconciler_Reconcile_def ensureTopologyCluster_def wait_for_members_def ensureShardNode_def
    ensureNonTopology_def sts_event_def getVersion_def Let_def
  by (intro create_intros keeps_create_workload keeps_create_sts keeps_create_event; simp)

lemma keeps_create_client:
  "keeps (in_create m cn h) (CreateTLSUsers E)"
  "keeps (in_create m cn h) (SetupReplicaSetsConfig E)"
  unfolding CreateTLSUsers_def CreateTLSUser_def SetupReplicaSetsConfig_def SetupReplicaSetConfig_def
    reconfigure_def connect_def close_def Let_def
  by (intro create_intros; simp)+

lemma keeps_create_initialized: "keeps (in_create m cn h) (mark_initialized E)"
  unfolding mark_initialized_def Let_def by (intro create_intros; simp)

section \<open>The changes of the status\<close>

text \<open>
  The abstract machine of the status of a database: what one pass may change, and when. The
  phase follows the conditions; a database starts, is halted and revived, and is provisioned.
\<close>

inductive status_step :: "(condition list \<Rightarrow> string) \<Rightarrow> mongodb \<Rightarrow> mongodb_status \<Rightarrow> mongodb_status \<Rightarrow> bool"
  for phase :: "condition list \<Rightarrow> string" and db :: mongodb where
  phase_step: "mg_phase db \<noteq> phase (mg_conditions db) \<Longrightarrow>
    status_step phase db st (set_phase db (phase (mg_conditions db)) st)"
| start_step: "mg_phase db = phase (mg_conditions db) \<Longrightarrow> mg_conditions db = [] \<Longrightarrow>
    status_step phase db st (set_db_condition now (started_condition db) st)"
| halt_step: "mg_phase db = phase (mg_conditions db) \<Longrightarrow>
    \<not> IsConditionTrue (mg_conditions db) DatabasePaused \<Longrightarrow> mg_halted db \<Longrightarrow>
    mg_terminationPolicy db = TerminationPolicyHalt \<Longrightarrow>
    status_step phase db st (halted_status now db st)"
| revive_step: "mg_phase db = phase (mg_conditions db) \<Longrightarrow>
    \<not> IsConditionTrue (mg_conditions db) DatabasePaused \<Longrightarrow> \<not> mg_halted db \<Longrightarrow>
    HasCondition (mg_conditions db) DatabaseHalted \<Longrightarrow>
    status_step phase db st (drop_halted st)"
| provision_step: "mg_phase db = phase (mg_conditions db) \<Longrightarrow>
    \<not> IsConditionTrue (mg_conditions db) DatabasePaused \<Longrightarrow> \<not> mg_halted db \<Longrightarrow>
    \<not> HasCondition (mg_conditions db) DatabaseHalted \<Longrightarrow> newly_provisioned db \<Longrightarrow>
    status_step phase db st (set_db_condition now (provisioned_condition db) st)"

text \<open>The updates among the calls of a pass: none, or one that is a step of the machine.\<close>

definition stutters_or_steps :: "(mongodb_status \<Rightarrow> mongodb_status \<Rightarrow> bool) \<Rightarrow> mongodb \<Rightarrow> op_call list \<Rightarrow> bool" where
  "stutters_or_steps step db cs \<longleftrightarrow>
     [c \<leftarrow> cs. is_update c] = [] \<or>
     (\<exists>st st'. [c \<leftarrow> cs. is_update c] = [OUpdateStatus (key_of (mg_meta db)) (mg_uid db) st st'] \<and> step st st')"

definition view :: "mongodb \<Rightarrow> object_meta \<times> condition list" where
  "view db = (mg_meta db, mg_conditions db)"

definition in_pass :: "(mongodb_status \<Rightarrow> mongodb_status \<Rightarrow> bool) \<Rightarrow> mongodb \<Rightarrow> ohist \<Rightarrow> op_state \<Rightarrow> bool" where
  "in_pass step db h s \<longleftrightarrow> view (odb s) = view db \<and> (\<exists>cs. calls s = h @ cs \<and> stutters_or_steps step db cs)"

text \<open>The part of a pass before its update.\<close>

definition no_update :: "mongodb \<Rightarrow> ohist \<Rightarrow> op_state \<Rightarrow> bool" where
  "no_update db h s \<longleftrightarrow> view (odb s) = view db \<and>
     (\<exists>cs. calls s = h @ cs \<and> [c \<leftarrow> cs. is_update c] = [])"

lemma creating_no_update: "creating m c \<Longrightarrow> \<not> is_update c"
  by (cases c) simp_all

lemma creating_filter: "list_all (creating m) cs \<Longrightarrow> [c \<leftarrow> cs. is_update c] = []"
  by (induction cs) (auto dest: creating_no_update)

lemma no_update_start: "odb s = db \<Longrightarrow> no_update db (calls s) s"
  by (simp add: no_update_def)

lemma no_update_snoc: "no_update db h s \<Longrightarrow> \<not> is_update c \<Longrightarrow> no_update db h (s\<lparr>calls := calls s @ [c]\<rparr>)"
  by (auto simp: no_update_def)

lemma no_update_pass: "no_update db h s \<Longrightarrow> in_pass step db h s"
  by (auto simp: no_update_def in_pass_def stutters_or_steps_def)

lemma no_update_step:
  assumes "no_update db h s" and "step st st'"
  shows "in_pass step db h (s\<lparr>calls := calls s @ [OUpdateStatus (key_of (mg_meta db)) (mg_uid db) st st']\<rparr>)"
  using assms by (auto simp: no_update_def in_pass_def stutters_or_steps_def)

text \<open>A part of the creation can come before the update and after it.\<close>

lemma in_create_extends:
  assumes "\<And>h. keeps (in_create (fst (view db)) (snd (view db)) h) m" and "view (odb s) = view db"
  shows "wp m (\<lambda>_ t. view (odb t) = view db \<and> (\<exists>ds. calls t = calls s @ ds \<and> [c \<leftarrow> ds. is_update c] = []))
    (\<lambda>_ t. view (odb t) = view db \<and> (\<exists>ds. calls t = calls s @ ds \<and> [c \<leftarrow> ds. is_update c] = [])) s"
  by (rule wp_keeps [OF assms(1), of "calls s"])
    (use assms(2) in \<open>auto simp: in_create_def view_def dest: creating_filter\<close>)

lemma keeps_in_pass:
  assumes "\<And>h. keeps (in_create (mg_meta db) (mg_conditions db) h) m"
  shows "keeps (in_pass step db h) m"
  by (rule keepsI, rule wp_conseq [OF in_create_extends [of db]])
    (use assms in \<open>auto simp: view_def in_pass_def stutters_or_steps_def\<close>)

lemma keeps_no_update:
  assumes "\<And>h. keeps (in_create (mg_meta db) (mg_conditions db) h) m"
  shows "keeps (no_update db h) m"
  by (rule keepsI, rule wp_conseq [OF in_create_extends [of db]])
    (use assms in \<open>auto simp: view_def no_update_def\<close>)

lemma wp_update_pass:
  assumes "no_update db h s" and "mg_meta db' = mg_meta db" and "\<And>st. step st (f st)"
  shows "wp (updateStatus E db' f) (\<lambda>_. in_pass step db h) (\<lambda>_. in_pass step db h) s"
proof -
  let ?key = "key_of (mg_meta db)"
  have fetched: "no_update db h (s\<lparr>calls := calls s @ [OFetchStatus ?key]\<rparr>)"
    using assms(1) by (simp add: no_update_snoc)
  have "in_pass step db h (s\<lparr>calls := calls s @ [OFetchStatus ?key, OUpdateStatus ?key (mg_uid db) st (f st)]\<rparr>)" for st
    using no_update_step [OF fetched, where step = step and st = st and st' = "f st"] assms(3) by simp
  with no_update_pass [OF fetched] show ?thesis
    unfolding updateStatus_def Let_def assms(2)
    by (auto simp: wp_bndE wp_perform assms(2) split: sum.split)
qed

section \<open>A pass\<close>

lemma leads_update:
  "mg_meta db' = mg_meta db \<Longrightarrow> (\<And>st. step st (f st)) \<Longrightarrow>
   leads (no_update db h) (in_pass step db h) (updateStatus E db' f)"
  by (simp add: leads_def wp_update_pass)

lemma leads_no_update_gets:
  assumes "\<And>db'. mg_meta db' = mg_meta db \<Longrightarrow> mg_conditions db' = mg_conditions db \<Longrightarrow>
      leads (no_update db h) J (f db')"
  shows "leads (no_update db h) J (bnd (gets odb) f)"
  by (rule leads_bnd_gets) (auto simp: no_update_def view_def intro: assms)

lemma leads_finish:
  assumes "\<And>now st. newly_provisioned db \<Longrightarrow> step st (set_db_condition now (provisioned_condition db) st)"
  shows "leads (no_update db h) (in_pass step db h) (finish_provisioning E)"
proof -
  have same: "newly_provisioned db' = newly_provisioned db" "provisioned_condition db' = provisioned_condition db"
    if "mg_meta db' = mg_meta db" "mg_conditions db' = mg_conditions db" for db'
    using that by (simp_all add: newly_provisioned_def provisioned_condition_def db_name_def)
  have provision: "leads (no_update db h) (in_pass step db h)
      (if newly_provisioned db' then set_conditions_in E provisioned_condition else ret (Inr ()))"
    if db': "mg_meta db' = mg_meta db" "mg_conditions db' = mg_conditions db" for db'
  proof (cases "newly_provisioned db")
    case True
    have "leads (no_update db h) (in_pass step db h) (set_conditions_in E provisioned_condition)"
      unfolding set_conditions_in_def
    proof (intro leads_no_update_gets leads_bnd_gets leads_update)
      fix db'' :: mongodb and s :: op_state and st
      assume "mg_meta db'' = mg_meta db" "mg_conditions db'' = mg_conditions db"
      from same(2) [OF this] assms [OF True]
      show "step st (set_db_condition (o_now E (calls s)) (provisioned_condition db'') st)"
        by (simp only:)
    qed
    then show ?thesis by (simp add: same [OF db'] True)
  next
    case False
    then show ?thesis
      by (simp add: same [OF db'] leads_keeps keeps_ret no_update_pass)
  qed
  show ?thesis
    unfolding finish_provisioning_def
    by (intro leads_no_update_gets leads_thenE provision keeps_in_pass keeps_bndE keeps_if keeps_ret
        keeps_create_client keeps_create_initialized)
qed

lemma leads_create:
  assumes "\<And>now st. newly_provisioned db \<Longrightarrow> step st (set_db_condition now (provisioned_condition db) st)"
  shows "leads (no_update db h) (in_pass step db h) (create E)"
  unfolding create_def create_workload_def create_event_def set_up_monitoring_def monitoring_failed_def
  by (intro leads_no_update_gets leads_bnd leads_bndE leads_sum leads_if leads_finish
      leads_keeps keeps_no_update keeps_create_services keeps_create_rbac
      keeps_create_secrets keeps_create_appbinding keeps_create_monitor keeps_create_reconcile
      keeps_create_event create_intros no_update_pass; (assumption | simp add: assms))

lemma keeps_halting_no_update:
  "keeps (no_update db h) (haltDatabase E)" "keeps (no_update db h) (waitUntilHalted E)"
  unfolding haltDatabase_def deleteMonitor_def waitUntilHalted_def WaitUntilPodDeletedBySelector_def
    WaitUntilServiceDeletedBySelector_def list_is_empty_def waitUntilRBACStuffDeleted_def
    WaitUntillServiceAccountDeleted_def waitUntilStatefulSetsDeleted_def Let_def
  by (intro keeps_intros no_update_snoc; simp)+

lemma leads_halt:
  assumes "\<And>now st. mg_terminationPolicy db = TerminationPolicyHalt \<Longrightarrow> step st (halted_status now db st)"
    and "mg_halted db"
  shows "leads (\<lambda>s. no_update db h s \<and> odb s = db) (in_pass step db h) (halt E)"
proof (unfold halt_def, rule leads_bnd_gets)
  fix s :: op_state
  assume "no_update db h s \<and> odb s = db"
  then have "odb s = db" by simp
  have wait: "leads (no_update db h) (in_pass step db h)
      (bndE (haltDatabase E) (\<lambda>_. bndE (waitUntilHalted E) (\<lambda>_. bnd (gets calls) (\<lambda>h'.
         updateStatus E db (halted_status (o_now E h') db)))))"
    if "mg_terminationPolicy db = TerminationPolicyHalt"
    by (intro leads_bndE leads_bnd_gets leads_update keeps_halting_no_update no_update_pass
        assms(1) that refl)
  show "leads (\<lambda>s. no_update db h s \<and> odb s = db) (in_pass step db h)
     (if mg_halted (odb s) \<and> mg_terminationPolicy (odb s) \<noteq> TerminationPolicyHalt
      then ret (Inl (Err (''can't halt db. 'spec.terminationPolicy' is not 'Halt'' @ [CHR 0x27])))
      else bndE (haltDatabase E) (\<lambda>_. bndE (waitUntilHalted E) (\<lambda>_. bnd (gets calls) (\<lambda>h'.
         updateStatus E (odb s) (halted_status (o_now E h') (odb s))))))"
    unfolding \<open>odb s = db\<close>
    using assms(2) wait
    by (cases "mg_terminationPolicy db = TerminationPolicyHalt")
      (auto simp: leads_def wp_ret no_update_pass)
qed

lemma keeps_pushFailureEvent: "keeps (in_pass step db h) (pushFailureEvent reason)"
  unfolding pushFailureEvent_def
  by (intro keeps_in_pass create_intros keeps_create_event)

lemma leads_reporting:
  "leads I (in_pass step db h) m \<Longrightarrow> leads I (in_pass step db h) (reporting m)"
  unfolding reporting_def
  by (intro leads_then keeps_sum keeps_bnd keeps_ret keeps_pushFailureEvent)

text \<open>From the fetched and patched object on, a pass makes at most one step.\<close>

lemma leads_process:
  "leads (\<lambda>s. no_update db h s \<and> odb s = db) (in_pass (status_step (o_phase E) db) db h) (process E)"
proof (unfold process_def, rule leads_bnd_gets)
  fix s :: op_state
  assume "no_update db h s \<and> odb s = db"
  then have "odb s = db" by simp
  let ?I = "\<lambda>s. no_update db h s \<and> odb s = db" and ?step = "status_step (o_phase E) db"
  have weak: "leads ?I (in_pass ?step db h) m" if "leads (no_update db h) (in_pass ?step db h) m"
    for m :: "(gerr + unit) op_prog"
    using that by (simp add: leads_def)
  have none: "leads ?I (in_pass ?step db h) (ret (Inr ()) :: (gerr + unit) op_prog)"
    by (rule leads_keeps) (simp_all add: keeps_ret no_update_pass)
  let ?phase = "o_phase E (mg_conditions db)"
  have phase: "leads ?I (in_pass ?step db h) (reporting (updateStatus E db (set_phase db ?phase)))"
    if "mg_phase db \<noteq> ?phase"
    using that by (intro weak leads_reporting leads_update refl status_step.phase_step)
  have start: "leads ?I (in_pass ?step db h) (set_conditions_in E started_condition)"
    if "mg_phase db = ?phase" "mg_conditions db = []"
    unfolding set_conditions_in_def
  proof (intro weak leads_no_update_gets leads_bnd_gets leads_update)
    fix db' :: mongodb and s :: op_state and st
    assume "mg_meta db' = mg_meta db"
    then have "started_condition db' = started_condition db"
      by (simp add: started_condition_def db_name_def)
    with status_step.start_step [where phase = "o_phase E", OF that]
    show "?step st (set_db_condition (o_now E (calls s)) (started_condition db') st)"
      by (simp only:)
  qed
  have halted: "leads ?I (in_pass ?step db h) (reporting (halt E))"
    if "mg_phase db = ?phase" "\<not> IsConditionTrue (mg_conditions db) DatabasePaused" "mg_halted db"
    using that by (intro leads_reporting leads_halt status_step.halt_step)
  have revived: "leads ?I (in_pass ?step db h) (updateStatus E db drop_halted)"
    if "mg_phase db = ?phase" "\<not> IsConditionTrue (mg_conditions db) DatabasePaused" "\<not> mg_halted db"
      "HasCondition (mg_conditions db) DatabaseHalted"
    using that by (intro weak leads_update refl status_step.revive_step)
  have created: "leads ?I (in_pass ?step db h) (reporting (create E))"
    if "mg_phase db = ?phase" "\<not> IsConditionTrue (mg_conditions db) DatabasePaused" "\<not> mg_halted db"
      "\<not> HasCondition (mg_conditions db) DatabaseHalted"
    using that by (intro weak leads_reporting leads_create status_step.provision_step)
  show "leads ?I (in_pass ?step db h)
     (if mg_phase (odb s) \<noteq> o_phase E (mg_conditions (odb s))
      then reporting (updateStatus E (odb s) (set_phase (odb s) (o_phase E (mg_conditions (odb s)))))
      else if mg_conditions (odb s) = [] then set_conditions_in E started_condition
      else if IsConditionTrue (mg_conditions (odb s)) DatabasePaused then ret (Inr ())
      else if mg_halted (odb s) then reporting (halt E)
      else if HasCondition (mg_conditions (odb s)) DatabaseHalted then updateStatus E (odb s) drop_halted
      else reporting (create E))"
    unfolding \<open>odb s = db\<close> using none phase start halted revived created by simp
qed

section \<open>The whole creation\<close>

text \<open>Everything a creation does, its update included, stays with its own objects.\<close>

definition inside :: "object_meta \<Rightarrow> ohist \<Rightarrow> op_state \<Rightarrow> bool" where
  "inside m h s \<longleftrightarrow> mg_meta (odb s) = m \<and>
     (\<exists>cs. calls s = h @ cs \<and> list_all (\<lambda>c. creating m c \<or> is_update c) cs)"

lemma keeps_inside:
  assumes "\<And>cn h. keeps (in_create m cn h) p"
  shows "keeps (inside m h) p"
proof (rule keepsI)
  fix s :: op_state
  assume s: "inside m h s"
  then have start: "in_create m (mg_conditions (odb s)) (calls s) s"
    by (simp add: inside_def in_create_def)
  have all: "inside m h t" if "in_create m (mg_conditions (odb s)) (calls s) t" for t
    using that s by (auto simp: in_create_def inside_def list_all_iff) 
  show "wp p (\<lambda>_. inside m h) (\<lambda>_. inside m h) s"
    by (rule wp_keeps [OF assms start]) (simp_all add: all)
qed

lemma keeps_inside_create: "keeps (inside m h) (create E)"
proof -
  have update: "keeps (inside m h) (set_conditions_in E new)" for new
    unfolding set_conditions_in_def updateStatus_def Let_def
    by (intro keeps_bnd keeps_gets keeps_bndE keeps_perform) (auto simp: inside_def)
  have finish: "keeps (inside m h) (finish_provisioning E)"
    unfolding finish_provisioning_def
    by (intro keeps_bnd keeps_gets keeps_bndE keeps_if keeps_ret update keeps_inside
        keeps_create_client keeps_create_initialized)
  have monitoring: "keeps (inside m h) (set_up_monitoring E)"
    unfolding set_up_monitoring_def monitoring_failed_def
    by (intro keeps_bnd keeps_sum keeps_ret finish keeps_inside keeps_create_event
        keeps_create_services keeps_create_monitor)
  have workload: "keeps (inside m h) (create_workload E vt)" for vt
    unfolding create_workload_def create_event_def
    by (intro keeps_bnd keeps_sum keeps_if keeps_ret keeps_bndE keeps_gets monitoring keeps_inside
        keeps_create_event keeps_create_reconcile keeps_create_appbinding)
  have validate: "keeps (inside m h) (bnd (perform (\<lambda>h. o_validate E h db) (OValidate key)) f)"
    if "\<And>r. keeps (inside m h) (f r)" for db key and f :: "gerr + unit \<Rightarrow> (gerr + unit) op_prog"
    by (intro keeps_bnd that keeps_inside keeps_create_perform) simp
  show ?thesis
    unfolding create_def
    by (intro keeps_bnd keeps_gets validate keeps_sum keeps_if keeps_ret keeps_bndE workload keeps_inside
        keeps_create_services keeps_create_rbac keeps_create_secrets keeps_create_event)
qed

text \<open>Whatever a part writes to the database object, it leaves the metadata alone.\<close>

definition keeps_metadata :: "op_call \<Rightarrow> bool" where
  "keeps_metadata c \<longleftrightarrow> (\<forall>old new. c = OPatchDB old new \<longrightarrow> mg_meta new = mg_meta old)"

definition calm :: "ohist \<Rightarrow> op_state \<Rightarrow> bool" where
  "calm h s \<longleftrightarrow> (\<exists>cs. calls s = h @ cs \<and> list_all keeps_metadata cs)"

lemma calm_snoc: "calm h s \<Longrightarrow> keeps_metadata c \<Longrightarrow> calm h (s\<lparr>calls := calls s @ [c]\<rparr>)"
  by (auto simp: calm_def)

lemma calm_parts:
  assumes "keeps (inside (mg_meta (odb s)) (calls s)) p" and "calm h s"
  shows "wp p (\<lambda>_. calm h) (\<lambda>_. calm h) s"
proof -
  have start: "inside (mg_meta (odb s)) (calls s) s" by (simp add: inside_def)
  have one: "keeps_metadata c" if "creating m c \<or> is_update c" for m c
    using that by (cases c) (auto simp: keeps_metadata_def)
  have all: "calm h t" if "inside (mg_meta (odb s)) (calls s) t" for t
    using that assms(2) one by (fastforce simp: inside_def calm_def list_all_iff)
  show ?thesis by (rule wp_keeps [OF assms(1) start]) (simp_all add: all)
qed

lemma calm_create: "keeps (calm h) (create E)"
  by (rule keepsI, rule calm_parts) (rule keeps_inside_create)

lemma calm_halt: "keeps (calm h) (halt E)"
  unfolding halt_def haltDatabase_def deleteMonitor_def waitUntilHalted_def
    WaitUntilPodDeletedBySelector_def WaitUntilServiceDeletedBySelector_def list_is_empty_def
    waitUntilRBACStuffDeleted_def WaitUntillServiceAccountDeleted_def
    waitUntilStatefulSetsDeleted_def updateStatus_def Let_def
  by (intro keeps_intros calm_snoc; simp add: keeps_metadata_def)

lemma calm_process: "keeps (calm h) (process E)"
  unfolding process_def reporting_def pushFailureEvent_def event_def set_conditions_in_def
    updateStatus_def Let_def
  by (intro keeps_intros calm_create calm_halt calm_snoc; simp add: keeps_metadata_def)

end
