(* ===== verification/OpRunProps.thy ===== *)
theory OpRunProps
  imports OpHealthProps OpRunLemmas
begin

text \<open>
  The properties of a pass of the work queue: what it may write and delete, how the status of
  a database may change, and that cleaning up comes before the finalizer is removed.
\<close>

section \<open>The shape of a pass\<close>

definition fetched :: "string \<Rightarrow> mongodb \<Rightarrow> op_state" where
  "fetched key db = \<lparr>calls = [OGetFromCache key], odb = db\<rparr>"

definition patched :: "string \<Rightarrow> mongodb \<Rightarrow> mongodb \<Rightarrow> op_state" where
  "patched key db db' = \<lparr>calls = [OGetFromCache key, OPatchDB db (add_finalizer db)], odb = db'\<rparr>"

lemma run_missing:
  assumes "\<And>db. o_fromCache E [] key \<noteq> Inr (Some db)"
  shows "calls (snd (runMongoDB E key (op_start db0))) = [OGetFromCache key]"
  using assms
  by (auto simp: runMongoDB_def bndE_def bnd_def perform_def ret_def split: sum.split option.split)

lemma run_deleted:
  assumes "o_fromCache E [] key = Inr (Some db)" and "om_deletionTimestamp (mg_meta db) \<noteq> None"
  shows "runMongoDB E key (op_start db0) =
    (if HasFinalizer (mg_meta db) MongoDBFinalizer then cleanup E (fetched key db)
     else (Done (Inr ()), fetched key db))"
  using assms
  by (simp add: runMongoDB_def bndE_def bnd_def perform_def ret_def update_def fetched_def op_start_def)

lemma run_alive:
  assumes "o_fromCache E [] key = Inr (Some db)" and "om_deletionTimestamp (mg_meta db) = None"
  shows "runMongoDB E key (op_start db0) =
    (case o_patchDB E [OGetFromCache key] db (add_finalizer db) of
       Inl e \<Rightarrow> (Done (Inl e), \<lparr>calls = [OGetFromCache key, OPatchDB db (add_finalizer db)], odb = db\<rparr>)
     | Inr db' \<Rightarrow> process E (patched key db db'))"
  using assms
  by (simp add: runMongoDB_def bndE_def bnd_def perform_def ret_def update_def patchMongoDB_def
      gets_def patched_def op_start_def split: sum.split)

section \<open>The status\<close>

lemma leads_run:
  assumes "o_fromCache E [] key = Inr (Some db)" and "om_deletionTimestamp (mg_meta db) = None"
    and "o_patchDB E [OGetFromCache key] db (add_finalizer db) = Inr db'"
  shows "\<exists>cs. calls (snd (runMongoDB E key (op_start db0))) =
      [OGetFromCache key, OPatchDB db (add_finalizer db)] @ cs \<and>
    stutters_or_steps (status_step (o_phase E) db') db' cs"
proof -
  have "no_update db' (calls (patched key db db')) (patched key db db')"
    by (rule no_update_start) (simp add: patched_def)
  then have "wp (process E) (\<lambda>_. in_pass (status_step (o_phase E) db') db' (calls (patched key db db')))
      (\<lambda>_. in_pass (status_step (o_phase E) db') db' (calls (patched key db db'))) (patched key db db')"
    using leads_process [of db' "calls (patched key db db')" E] by (simp add: leads_def patched_def)
  then have "in_pass (status_step (o_phase E) db') db' (calls (patched key db db'))
      (snd (process E (patched key db db')))"
    by (auto simp: wp_def split: prod.splits outcome.splits)
  then show ?thesis
    using assms by (auto simp: run_alive in_pass_def patched_def)
qed

text \<open>C1. One pass over a database that is not being deleted makes at most one change of its
  status, and that change is a step of the abstract machine that is allowed for the database
  as it was answered by the API server: the phase follows the conditions; then, in this order,
  provisioning starts, a database is halted or revived, or it is provisioned.\<close>
theorem pass_refines_status_machine:
  assumes "o_fromCache E [] key = Inr (Some db)" and "om_deletionTimestamp (mg_meta db) = None"
    and "o_patchDB E [OGetFromCache key] db (add_finalizer db) = Inr db'"
  shows "\<exists>cs. calls (snd (runMongoDB E key (op_start db0))) =
      [OGetFromCache key, OPatchDB db (add_finalizer db)] @ cs \<and>
    stutters_or_steps (status_step (o_phase E) db') db' cs"
  using assms by (rule leads_run)

definition cache_env :: "mongodb \<Rightarrow> op_env" where
  "cache_env db = demo_op_env\<lparr>o_fromCache := (\<lambda>_ _. Inr (Some db))\<rparr>"

lemma cache_env_simps [simp]:
  "o_fromCache (cache_env db) h key = Inr (Some db)" "o_patchDB (cache_env db) h x y = Inr y"
  "o_phase (cache_env db) cs = ''Provisioning''"
  "o_fetchStatus (cache_env db) h k = Inr \<lparr>ms_phase = '''', ms_observedGeneration = 0, ms_conditions = []\<rparr>"
  "o_updateStatus (cache_env db) h k u st = Inr ()"
  by (simp_all add: cache_env_def demo_op_env_def)

text \<open>The first pass over a new database: it gets its phase.\<close>

lemma first_pass:
  "calls (snd (runMongoDB (cache_env demo_op_db) ''demo/mg'' (op_start empty_mongodb))) =
     [OGetFromCache ''demo/mg'', OPatchDB demo_op_db (add_finalizer demo_op_db),
      OFetchStatus (''demo'', ''mg''),
      OUpdateStatus (''demo'', ''mg'') ''uid-1''
        \<lparr>ms_phase = '''', ms_observedGeneration = 0, ms_conditions = []\<rparr>
        \<lparr>ms_phase = ''Provisioning'', ms_observedGeneration = 0, ms_conditions = []\<rparr>]"
proof -
  have alive: "om_deletionTimestamp (mg_meta demo_op_db) = None" by (simp add: demo_op_defs)
  have "mg_phase (add_finalizer demo_op_db) = ''''" "mg_conditions (add_finalizer demo_op_db) = []"
    "mg_namespace (add_finalizer demo_op_db) = ''demo''" "mg_name (add_finalizer demo_op_db) = ''mg''"
    "mg_uid (add_finalizer demo_op_db) = ''uid-1''" "mg_generation (add_finalizer demo_op_db) = 0"
    by (simp_all add: add_finalizer_def AddFinalizer_def demo_op_defs)
  then show ?thesis
    unfolding run_alive [OF cache_env_simps(1) alive]
    by (simp add: patched_def process_def reporting_def updateStatus_def
        set_phase_def key_of_def op_program_defs)
qed

theorem pass_refines_status_machine_witness:
  "stutters_or_steps (status_step (o_phase (cache_env demo_op_db)) (add_finalizer demo_op_db))
     (add_finalizer demo_op_db)
     [OFetchStatus (''demo'', ''mg''), OUpdateStatus (''demo'', ''mg'') ''uid-1''
        \<lparr>ms_phase = '''', ms_observedGeneration = 0, ms_conditions = []\<rparr>
        \<lparr>ms_phase = ''Provisioning'', ms_observedGeneration = 0, ms_conditions = []\<rparr>]"
  using pass_refines_status_machine [of "cache_env demo_op_db" "''demo/mg''" demo_op_db
      "add_finalizer demo_op_db" empty_mongodb]
  by (simp add: first_pass) (simp add: demo_op_defs)


section \<open>Deletion\<close>

lemma terminate_no_patch: "emits (\<lambda>c. \<forall>old new. c \<noteq> OPatchDB old new) (terminate E)"
  unfolding terminate_def removeOwnerReferenceFromOffshoots_def setOwnerReferenceToOffshoots_def
    wipeOutDatabase_def secretsUsedByPeers_def drop_unmanaged_def wrap_error_def deleteMonitor_def Let_def
  by (intro emits_intros) simp_all

lemma terminate_db: "terminate E s = (r, t) \<Longrightarrow> odb t = odb s"
proof -
  assume run: "terminate E s = (r, t)"
  have "keeps (\<lambda>u. odb u = odb s) (terminate E)"
    unfolding terminate_def removeOwnerReferenceFromOffshoots_def setOwnerReferenceToOffshoots_def
      wipeOutDatabase_def secretsUsedByPeers_def drop_unmanaged_def wrap_error_def deleteMonitor_def Let_def
    by (intro keeps_intros) simp_all
  from keepsD [OF this _ run] show ?thesis by simp
qed

text \<open>The patch of a cleanup comes after \<open>terminate\<close> has returned without an error.\<close>

lemma cleanup_patch:
  assumes "calls (snd (cleanup E (fetched key db))) = h @ OPatchDB old new # rest"
  shows "old = db \<and> (\<exists>t. terminate E (fetched key db) = (Done (Inr ()), t) \<and> calls t = h)"
proof -
  obtain r t where run: "terminate E (fetched key db) = (r, t)" by fastforce
  have t: "odb t = db" using terminate_db [OF run] by (simp add: fetched_def)
  have quiet: "OPatchDB old new \<notin> set (calls t)"
    using emitsD [OF terminate_no_patch run] by (fastforce simp: fetched_def)
  then have "calls t \<noteq> h @ OPatchDB old new # rest" by auto
  moreover have "calls (snd (cleanup E (fetched key db))) =
      (if r = Done (Inr ()) then calls t @ [OPatchDB db (remove_finalizer db)] else calls t)"
    by (auto simp: cleanup_def bndE_def bnd_def run patchMongoDB_def gets_def perform_def ret_def t
        split: outcome.split sum.split)
  ultimately have done_: "r = Done (Inr ())" and calls: "calls t @ [OPatchDB db (remove_finalizer db)] =
      h @ OPatchDB old new # rest"
    using assms by (auto split: if_splits)
  from calls quiet have "h = calls t \<and> old = db"
    by (cases rest rule: rev_cases) auto
  with run done_ show ?thesis by simp
qed

text \<open>On a live database only the first patch of a pass touches the metadata.\<close>

lemma alive_keeps_metadata:
  assumes db: "o_fromCache E [] key = Inr (Some db)" "om_deletionTimestamp (mg_meta db) = None"
  shows "\<exists>cs. calls (snd (runMongoDB E key (op_start db0))) =
      [OGetFromCache key, OPatchDB db (add_finalizer db)] @ cs \<and> list_all keeps_metadata cs"
proof (cases "o_patchDB E [OGetFromCache key] db (add_finalizer db)")
  case (Inl e)
  then show ?thesis by (simp add: run_alive [OF db])
next
  case (Inr db')
  obtain r t where run: "process E (patched key db db') = (r, t)" by fastforce
  have "calm [OGetFromCache key, OPatchDB db (add_finalizer db)] (patched key db db')"
    by (simp add: calm_def patched_def)
  from keepsD [OF calm_process this run] show ?thesis
    by (simp add: run_alive [OF db] Inr run calm_def)
qed

text \<open>C3. The finalizer is taken from a database only when it is being deleted, and only right
  after the cleanup under its termination policy, with everything it asked of the API server
  before, has returned without an error.\<close>
theorem finalizer_removed_after_cleanup:
  assumes "calls (snd (runMongoDB E key (op_start db0))) = h @ OPatchDB old new # rest"
    and "HasFinalizer (mg_meta old) MongoDBFinalizer" and "\<not> HasFinalizer (mg_meta new) MongoDBFinalizer"
  shows "om_deletionTimestamp (mg_meta old) \<noteq> None \<and>
    (\<exists>t. terminate E (fetched key old) = (Done (Inr ()), t) \<and> calls t = h)"
proof -
  have "calls (snd (runMongoDB E key (op_start db0))) \<noteq> [OGetFromCache key]"
    using assms(1) by (cases h) auto
  then obtain db where db: "o_fromCache E [] key = Inr (Some db)"
    using run_missing [of E key db0] by blast
  show ?thesis
  proof (cases "om_deletionTimestamp (mg_meta db) = None")
    case False
    then have "HasFinalizer (mg_meta db) MongoDBFinalizer"
      using run_deleted [OF db False, of db0] \<open>calls _ \<noteq> _\<close> by (auto simp: fetched_def split: if_splits)
    then have "calls (snd (cleanup E (fetched key db))) = h @ OPatchDB old new # rest"
      using assms(1) run_deleted [OF db False, of db0] by simp
    with False show ?thesis using cleanup_patch by blast
  next
    case True
    obtain cs where "h @ OPatchDB old new # rest =
        [OGetFromCache key, OPatchDB db (add_finalizer db)] @ cs" "list_all keeps_metadata cs"
      using alive_keeps_metadata [OF db True, of db0] assms(1) by auto
    then have "OPatchDB old new = OPatchDB db (add_finalizer db) \<or> keeps_metadata (OPatchDB old new)"
      by (cases h; cases "tl h") (auto simp: list_all_iff)
    then have "HasFinalizer (mg_meta new) MongoDBFinalizer"
      using assms(2) by (auto simp: add_finalizer_def keeps_metadata_def)
    with assms(3) show ?thesis by simp
  qed
qed

definition gone_demo_db :: mongodb where
  "gone_demo_db = demo_op_db\<lparr>mg_terminationPolicy := TerminationPolicyHalt,
     mg_meta := (mg_meta demo_op_db)\<lparr>om_deletionTimestamp := Some 5, om_finalizers := [MongoDBFinalizer]\<rparr>\<rparr>"

theorem finalizer_removed_after_cleanup_witness:
  "\<exists>h t. calls (snd (runMongoDB (cache_env gone_demo_db) ''demo/mg'' (op_start empty_mongodb))) =
       h @ [OPatchDB gone_demo_db (remove_finalizer gone_demo_db)] \<and> length h = 3 \<and>
     terminate (cache_env gone_demo_db) (fetched ''demo/mg'' gone_demo_db) = (Done (Inr ()), t) \<and> calls t = h"
proof -
  have db: "om_deletionTimestamp (mg_meta gone_demo_db) \<noteq> None"
    "HasFinalizer (mg_meta gone_demo_db) MongoDBFinalizer" "mg_monitor gone_demo_db = None"
    "mg_terminationPolicy gone_demo_db = TerminationPolicyHalt"
    by (simp_all add: gone_demo_db_def HasFinalizer_def demo_op_defs)
  have "\<exists>h. calls (snd (runMongoDB (cache_env gone_demo_db) ''demo/mg'' (op_start empty_mongodb))) =
       h @ [OPatchDB gone_demo_db (remove_finalizer gone_demo_db)] \<and> length h = 3"
    unfolding run_deleted [OF cache_env_simps(1) db(1)]
    by (simp add: db cleanup_def terminate_def removeOwnerReferenceFromOffshoots_def
        patchMongoDB_def fetched_def op_program_defs cache_env_def demo_op_env_def)
  then obtain h where h: "calls (snd (runMongoDB (cache_env gone_demo_db) ''demo/mg'' (op_start empty_mongodb))) =
       h @ [OPatchDB gone_demo_db (remove_finalizer gone_demo_db)]" "length h = 3" by blast
  with finalizer_removed_after_cleanup [OF h(1) db(2)] show ?thesis
    by (auto simp: remove_finalizer_def)
qed


section \<open>Creation\<close>




section \<open>The conditions\<close>

definition well_typed :: "mongodb_status \<Rightarrow> bool" where
  "well_typed st \<longleftrightarrow> distinct_types (ms_conditions st) \<and>
     (\<forall>c \<in> set (ms_conditions st). cond_status c \<in> {ConditionTrue, ConditionFalse, ConditionUnknown})"

lemma SetCondition_status:
  assumes "P (cond_status new)" and "\<forall>d \<in> set cs. P (cond_status d)"
  shows "\<forall>d \<in> set (SetCondition now cs new). P (cond_status d)"
  unfolding SetCondition_upsert
  using assms by (induction cs) (auto simp: merge_condition_def)

lemma set_condition_typed:
  assumes "well_typed st" and "cond_status c \<in> {ConditionTrue, ConditionFalse, ConditionUnknown}"
  shows "well_typed (set_db_condition now c st)"
  using assms SetCondition_status [of "\<lambda>s. s \<in> {ConditionTrue, ConditionFalse, ConditionUnknown}" c
      "ms_conditions st" now]
  by (simp add: well_typed_def set_db_condition_def SetCondition_distinct)

lemma set_phase_typed: "well_typed st \<Longrightarrow> well_typed (set_phase db phase st)"
  by (simp add: well_typed_def set_phase_def)

lemma drop_halted_typed: "well_typed st \<Longrightarrow> well_typed (drop_halted st)"
proof -
  have subset: "set (RemoveCondition cs k) \<subseteq> set cs" for cs k by (induction cs) auto
  have "distinct_types cs \<Longrightarrow> distinct_types (RemoveCondition cs k)" for cs k
    by (induction cs) (use subset in \<open>auto simp: distinct_types_def\<close>)
  with subset show "well_typed st \<Longrightarrow> ?thesis" by (fastforce simp: well_typed_def drop_halted_def)
qed

lemma status_step_typed:
  assumes "status_step phase db st st'" and "well_typed st"
  shows "well_typed st'"
  using assms
proof cases
  case (halt_step now)
  with assms(2) show ?thesis
    by (auto simp: halted_status_def halted_conditions_def db_condition_def intro!: set_condition_typed)
qed (auto simp: started_condition_def provisioned_condition_def db_condition_def
      intro: set_phase_typed set_condition_typed drop_halted_typed)

text \<open>A pass over a database that is being deleted updates no status.\<close>

lemma deleted_no_update:
  assumes "o_fromCache E [] key = Inr (Some db)" and "om_deletionTimestamp (mg_meta db) \<noteq> None"
    and "c \<in> set (calls (snd (runMongoDB E key (op_start db0))))"
  shows "\<not> is_update c"
proof -
  have "emits (\<lambda>c. \<not> is_update c) (cleanup E)"
    unfolding cleanup_def patchMongoDB_def terminate_def removeOwnerReferenceFromOffshoots_def
      setOwnerReferenceToOffshoots_def wipeOutDatabase_def secretsUsedByPeers_def drop_unmanaged_def
      wrap_error_def deleteMonitor_def Let_def
    by (intro emits_intros) simp_all
  moreover obtain r t where run: "cleanup E (fetched key db) = (r, t)" by fastforce
  ultimately have "\<forall>c \<in> set (calls t). \<not> is_update c"
    by (auto dest!: emitsD simp: fetched_def)
  then show ?thesis
    using assms(3) run run_deleted [OF assms(1,2), of db0] by (auto simp: fetched_def split: if_splits)
qed

text \<open>Every status update of a pass is a step of the machine.\<close>

lemma update_is_step:
  assumes "OUpdateStatus k uid st st' \<in> set (calls (snd (runMongoDB E key (op_start db0))))"
  shows "\<exists>db. status_step (o_phase E) db st st'"
proof -
  have "calls (snd (runMongoDB E key (op_start db0))) \<noteq> [OGetFromCache key]"
    using assms by auto
  then obtain db where db: "o_fromCache E [] key = Inr (Some db)"
    using run_missing [of E key db0] by blast
  have alive: "om_deletionTimestamp (mg_meta db) = None"
    using deleted_no_update [OF db, of _ db0] assms by fastforce
  show ?thesis
  proof (cases "o_patchDB E [OGetFromCache key] db (add_finalizer db)")
    case (Inl e)
    with assms show ?thesis by (simp add: run_alive [OF db alive])
  next
    case (Inr db')
    then obtain cs where calls: "calls (snd (runMongoDB E key (op_start db0))) =
        [OGetFromCache key, OPatchDB db (add_finalizer db)] @ cs"
      and steps: "stutters_or_steps (status_step (o_phase E) db') db' cs"
      using leads_run [OF db alive] by blast
    from assms calls have "OUpdateStatus k uid st st' \<in> set [c \<leftarrow> cs. is_update c]" by simp
    with steps show ?thesis
      unfolding stutters_or_steps_def
      by (auto simp only: list.set empty_iff insert_iff op_call.inject)
  qed
qed

text \<open>C33. A pass keeps the conditions of a database well typed: if in the status it has fetched
  every type occurs once and every status is True, False or Unknown, so it is in the status
  it writes.\<close>
theorem pass_keeps_conditions_typed:
  assumes "OUpdateStatus k uid st st' \<in> set (calls (snd (runMongoDB E key (op_start db0))))"
    and "well_typed st"
  shows "well_typed st'"
  using update_is_step [OF assms(1)] assms(2) status_step_typed by blast

theorem pass_keeps_conditions_typed_witness:
  "\<exists>k uid st st'. OUpdateStatus k uid st st' \<in>
       set (calls (snd (runMongoDB (cache_env demo_op_db) ''demo/mg'' (op_start empty_mongodb)))) \<and>
     well_typed st'"
proof -
  let ?st = "\<lparr>ms_phase = '''', ms_observedGeneration = 0, ms_conditions = []\<rparr>"
    and ?st' = "\<lparr>ms_phase = ''Provisioning'', ms_observedGeneration = 0, ms_conditions = []\<rparr>"
  have "OUpdateStatus (''demo'', ''mg'') ''uid-1'' ?st ?st' \<in>
      set (calls (snd (runMongoDB (cache_env demo_op_db) ''demo/mg'' (op_start empty_mongodb))))"
    by (simp add: first_pass)
  moreover have "well_typed ?st" by (simp add: well_typed_def distinct_types_def)
  ultimately show ?thesis using pass_keeps_conditions_typed by blast
qed

end
