(* ===== verification/OpProgress.thy ===== *)
theory OpProgress
  imports OpRunProps
begin

text \<open>
  Progress: when the API server answers and what is to be deleted is gone in time, halting a
  database ends and reports it. \<open>ends\<close> is the total-correctness counterpart of \<open>keeps\<close>.
\<close>

section \<open>Halting ends\<close>
















end
