(* ===== verification/OpQueueProps.thy ===== *)
theory OpQueueProps
  imports OpRunProps
begin

text \<open>
  The reconfiguration of a replica set with the configuration of the API user, and what the
  handler of StatefulSets puts into the work queue.
\<close>

section \<open>The replica set configuration\<close>











text \<open>A replica set that is at the last version.\<close>

definition config_env :: "32 word \<Rightarrow> document \<Rightarrow> op_env" where
  "config_env v provided = demo_op_env\<lparr>
     o_secrets := missing_api\<lparr>api_get := (\<lambda>_ key. Inr (new_secret demo_op_db (snd key) [''replicaset.json'' \<mapsto> ''...'']))\<rparr>,
     o_unmarshalObject := (\<lambda>_. Inr provided), o_mergeDocuments := (\<lambda>current provided. provided @ current),
     o_getReplConfig := (\<lambda>_ _. Inr [(''ok'', one), (''config'', Document [(''version'', Int32 v)])])\<rparr>"

definition configured_demo_db :: mongodb where
  "configured_demo_db = demo_op_db\<lparr>mg_replicaSet := Some ''rs'', mg_replicas := Some 1,
     mg_configSecret := Some ''conf''\<rparr>"

lemma configured_demo_simps:
  "mg_shardTopology configured_demo_db = None" "mg_replicaSet configured_demo_db = Some ''rs''"
  "mg_configSecret configured_demo_db = Some ''conf''" "mg_namespace configured_demo_db = ''demo''"
  "Hosts configured_demo_db = Some [''mg-0.mg-pods.demo.svc'']"
  by (simp_all add: configured_demo_db_def Hosts_def pod_hosts_def GoverningServiceName_def
      OffshootName_def int_range_def itoa_def digit_char_def demo_op_defs)

lemma config_env_simps:
  "api_get (o_secrets (config_env v p)) h k =
     Inr (new_secret demo_op_db (snd k) [''replicaset.json'' \<mapsto> ''...''])"
  "o_unmarshalObject (config_env v p) text = Inr p"
  "o_mergeDocuments (config_env v p) current provided = provided @ current"
  "o_getReplConfig (config_env v p) h u = Inr [(''ok'', one), (''config'', Document [(''version'', Int32 v)])]"
  "o_connect (config_env v p) h u r = Inr ()" "o_reconfig (config_env v p) h u c = Inr []"
  by (simp_all add: config_env_def demo_op_env_def)

lemmas setup_defs = SetupReplicaSetsConfig_def SetupReplicaSetConfig_def reconfigure_def next_config_def
  as_document_def as_int32_def connect_def close_def url_of_def op_program_defs new_secret_def


text \<open>The user's version panics the operator: a number of JSON is not a 32-bit integer.\<close>

lemma provided_version_panics:
  "\<exists>msg. fst (SetupReplicaSetsConfig (config_env 1 [(''version'', Double ''2'')]) (op_start configured_demo_db)) =
     Crash (Panic msg)"
  by (simp add: setup_defs configured_demo_simps config_env_simps)

section \<open>The handler of StatefulSets\<close>

text \<open>The key that a StatefulSet puts into the queue is the namespace of the StatefulSet and
  the name of its controller, exactly when it is ready and its controller belongs to the API
  group of KubeDB, whatever the kind of that controller is.\<close>
theorem sts_handler_ignores_kind:
  "sts_handler sts =
     (case GetControllerOf (om_ownerReferences (sts_meta sts)) of
        None \<Rightarrow> None
      | Some owner \<Rightarrow>
          if group_of (or_apiVersion owner) = Inr GroupName \<and> IsStatefulSetReady sts
          then Some (om_namespace (sts_meta sts) @ ''/'' @ or_name owner)
          else None)"
  by (auto simp: sts_handler_def IsOwnerOfGroup_def Let_def ResourceKindMongoDB_def
      split: option.split sum.split)

end
