(* ===== verification/OpWorkloadProps.thy ===== *)
theory OpWorkloadProps
  imports OpRunProps
begin

text \<open>
  The pods of a database: every volume that the server or its first init container mounts is
  declared by the pod or claimed by the StatefulSet. \<open>options_backed\<close> is what each kind of node
  promises of the options it hands to \<open>ensureStatefulSet\<close>, and \<open>set_backed\<close> what the StatefulSet
  that is written has in return.
\<close>

section \<open>Names of volumes and mounts\<close>

lemma mount_names [simp]:
  "vm_name ` set (UpsertVolumeMount ms nv) = vm_name ` set nv \<union> vm_name ` set ms"
  by (simp add: UpsertVolumeMount_upserts mounts.upserts_key_set)

lemma volume_names [simp]:
  "vol_name ` set (UpsertVolume vs nv) = vol_name ` set nv \<union> vol_name ` set vs"
  by (simp add: UpsertVolume_upserts volumes.upserts_key_set)

lemma add_mounts_simps [simp]:
  "c_name (add_mounts ms c) = c_name c"
  "vm_name ` set (c_volumeMounts (add_mounts ms c)) = vm_name ` set ms \<union> vm_name ` set (c_volumeMounts c)"
  by (simp_all add: add_mounts_def)

lemma script_names [simp]:
  "vol_name (script_volume source) = ''initial-script''" "vm_name script_mount = ''initial-script''"
  by (simp_all add: script_volume_def script_mount_def)

text \<open>The names a container mounts.\<close>

abbreviation mounted :: "container \<Rightarrow> string set" where
  "mounted c \<equiv> vm_name ` set (c_volumeMounts c)"

section \<open>Containers\<close>

lemma find_on_containers:
  assumes "\<And>c. c_name (f c) = c_name c"
  shows "find_by c_name k (on_containers p f cs) =
    map_option (\<lambda>c. if p (c_name c) then f c else c) (find_by c_name k cs)"
  unfolding on_containers_def by (induction cs) (auto simp: assms)

lemma find_on_first:
  assumes "\<And>c. c_name (f c) = c_name c"
  shows "find_by c_name k (on_first n f cs) =
    map_option (\<lambda>c. if k = n then f c else c) (find_by c_name k cs)"
  by (induction cs) (auto simp: assms option.map_ident dest: find_by_key)

lemma find_UpsertContainer:
  "find_by c_name k (UpsertContainer cs c) =
     (if k = c_name c
      then Some (case find_by c_name k cs of None \<Rightarrow> c | Some old \<Rightarrow> merge_container old c)
      else find_by c_name k cs)"
  unfolding UpsertContainer_def by (simp add: containers.find_same containers.find_other)

lemma mounted_merge [simp]: "mounted (merge_container old new) = mounted new"
  by (simp add: merge_container_def)

text \<open>What the container found under \<open>k\<close> mounts.\<close>

definition mounts_of :: "string \<Rightarrow> container list \<Rightarrow> string set option" where
  "mounts_of k cs = map_option mounted (find_by c_name k cs)"

lemma mounts_of_UpsertContainer [simp]:
  "mounts_of k (UpsertContainer cs c) = (if k = c_name c then Some (mounted c) else mounts_of k cs)"
  by (simp add: mounts_of_def find_UpsertContainer split: option.split)

lemma mounts_of_UpsertContainers:
  "k \<notin> c_name ` set cs' \<Longrightarrow> k = c_name c \<Longrightarrow>
   mounts_of k (UpsertContainers cs (c # cs')) = Some (mounted c)"
  using mounts_of_UpsertContainer [of k cs c]
  by (simp add: mounts_of_def UpsertContainers_upserts containers.upserts_Cons
      containers.upserts_find_other UpsertContainer_def)

lemma mounts_of_on_containers:
  assumes "\<And>c. c_name (f c) = c_name c" and "\<And>c. mounted (f c) = extra \<union> mounted c"
  shows "mounts_of k (on_containers p f cs) =
    map_option (\<lambda>m. if p k then extra \<union> m else m) (mounts_of k cs)"
  unfolding mounts_of_def find_on_containers [OF assms(1)]
  by (cases "find_by c_name k cs") (auto simp: assms(2) dest: find_by_key)

lemma mounts_of_on_first:
  "mounts_of k (on_first n (add_mounts ms) cs) =
    map_option (\<lambda>m. if k = n then vm_name ` set ms \<union> m else m) (mounts_of k cs)"
  unfolding mounts_of_def by (subst find_on_first) (simp_all add: option.map_comp comp_def if_distrib cong: if_cong)

section \<open>One StatefulSet\<close>

definition offered :: "stateful_set \<Rightarrow> string set" where
  "offered sts = vol_name ` set (pd_volumes (sts_template sts)) \<union> vc_name ` set (sts_claims sts)"

text \<open>\<open>covered k cs vs\<close>: there is a container \<open>k\<close>, and all it mounts is in \<open>vs\<close>.\<close>

definition covered :: "string \<Rightarrow> container list \<Rightarrow> string set \<Rightarrow> bool" where
  "covered k cs vs \<longleftrightarrow> (case mounts_of k cs of None \<Rightarrow> False | Some m \<Rightarrow> m \<subseteq> vs)"

definition set_backed :: "stateful_set \<Rightarrow> bool" where
  "set_backed sts \<longleftrightarrow>
     covered MongoDBContainerName (pd_containers (sts_template sts)) (offered sts) \<and>
     covered MongoDBInitInstallContainerName (pd_initContainers (sts_template sts)) (offered sts)"

text \<open>The volumes that \<open>ensureStatefulSet\<close> adds by itself, for every node but a router.\<close>

definition own_volumes :: "workload_options \<Rightarrow> string set" where
  "own_volumes opts =
     (if wo_isMongos opts then {} else {MongoDBDataDirectoryName, MongoDBConfigDirectoryName})"

definition options_backed :: "workload_options \<Rightarrow> bool" where
  "options_backed opts \<longleftrightarrow>
     (let volumes = vol_name ` set (wo_volumes opts) in
      vm_name ` set (wo_volumeMount opts) \<subseteq> volumes \<union> own_volumes opts \<and>
      MongoDBCertDirectoryName \<in> volumes \<and> MongoDBInitScriptDirectoryName \<in> volumes \<and>
      (\<exists>c cs. wo_initContainers opts = c # cs \<and> c_name c = MongoDBInitInstallContainerName \<and>
         MongoDBInitInstallContainerName \<notin> c_name ` set cs \<and> mounted c \<subseteq> volumes \<union> own_volumes opts))"

lemma options_backed_cert: "options_backed opts \<Longrightarrow> options_backed (with_cert_mount db opts)"
  by (auto simp: options_backed_def with_cert_mount_def own_volumes_def Let_def)

text \<open>The steps of the transform, each on the containers and on what is offered.\<close>

lemma pod_parts_mounts:
  assumes "pod_parts E db v pt opts pod = Some pod'" and "options_backed opts"
  shows "covered MongoDBContainerName (pd_containers pod')
      (vol_name ` set (pd_volumes pod') \<union> own_volumes opts)"
    and "covered MongoDBInitInstallContainerName (pd_initContainers pod')
      (vol_name ` set (pd_volumes pod') \<union> own_volumes opts)"
    and "MongoDBInitScriptDirectoryName \<in> vol_name ` set (pd_volumes pod')"
proof -
  have names: "c_name (database_container E v pt opts) = MongoDBContainerName"
    "c_name (detector_container E db v) = ReplicationModeDetectorContainerName"
    "c_name (getExporterContainer db v ex) = ContainerExporterName"
    "MongoDBContainerName \<noteq> ReplicationModeDetectorContainerName"
    "MongoDBContainerName \<noteq> ContainerExporterName"
    "mounted (database_container E v pt opts) = vm_name ` set (wo_volumeMount opts)" for ex
    by (simp_all add: database_container_def detector_container_def getExporterContainer_def
        new_container_def container_name_defs Let_def)
  have "mounts_of MongoDBContainerName (pd_containers pod') = Some (vm_name ` set (wo_volumeMount opts))"
    using assms(1) names
    by (auto simp: pod_parts_def with_exporter_def Let_def split: option.splits if_splits)
  moreover have volumes: "pd_volumes pod' = UpsertVolume (pd_volumes pod) (wo_volumes opts)"
    using assms(1) by (auto simp: pod_parts_def Let_def)
  ultimately show "covered MongoDBContainerName (pd_containers pod')
      (vol_name ` set (pd_volumes pod') \<union> own_volumes opts)"
    using assms(2) by (auto simp: covered_def options_backed_def Let_def)
  obtain c cs where c: "wo_initContainers opts = c # cs" "c_name c = MongoDBInitInstallContainerName"
    "MongoDBInitInstallContainerName \<notin> c_name ` set cs"
    "mounted c \<subseteq> vol_name ` set (wo_volumes opts) \<union> own_volumes opts"
    using assms(2) by (auto simp: options_backed_def Let_def)
  have "mounts_of MongoDBInitInstallContainerName (pd_initContainers pod') = Some (mounted c)"
    using assms(1) c by (auto simp: pod_parts_def Let_def mounts_of_UpsertContainers)
  with c volumes show "covered MongoDBInitInstallContainerName (pd_initContainers pod')
      (vol_name ` set (pd_volumes pod') \<union> own_volumes opts)"
    by (auto simp: covered_def)
  show "MongoDBInitScriptDirectoryName \<in> vol_name ` set (pd_volumes pod')"
    using assms(2) volumes by (auto simp: options_backed_def Let_def)
qed

lemma covered_mono: "covered k cs vs \<Longrightarrow> vs \<subseteq> ws \<Longrightarrow> covered k cs ws"
  by (auto simp: covered_def split: option.splits)

lemma covered_same:
  assumes "\<And>c. c_name (f c) = c_name c" and "\<And>c. c_volumeMounts (f c) = c_volumeMounts c"
  shows "covered k (on_containers p f cs) vs = covered k cs vs"
  using mounts_of_on_containers [of f "{}" k p cs] assms
  by (simp add: covered_def option.map_ident cong: if_cong)

lemma covered_add:
  assumes "covered k cs vs" and "vm_name ` set ms \<subseteq> vs"
  shows "covered k (on_containers p (add_mounts ms) cs) vs" "covered k (on_first n (add_mounts ms) cs) vs"
  using assms mounts_of_on_containers [of "add_mounts ms" "vm_name ` set ms" k p cs]
  by (auto simp: covered_def mounts_of_on_first split: option.splits)

lemma covered_name: "covered k cs vs \<Longrightarrow> k \<in> c_name ` set cs"
  by (auto simp: covered_def mounts_of_def dest: find_by_key split: option.splits)

lemma upsertEnv_covered:
  assumes "upsertEnv pod db = Some pod'"
  shows "covered k (pd_containers pod') vs = covered k (pd_containers pod) vs"
    "pd_initContainers pod' = pd_initContainers pod" "pd_volumes pod' = pd_volumes pod"
  using assms by (auto simp: upsertEnv_def covered_same)

lemma upsertDataVolume_backed:
  assumes "upsertDataVolume sts pvc storageType = Some sts'"
    and vs: "vs = vol_name ` set (pd_volumes (sts_template sts)) \<union>
      {MongoDBDataDirectoryName, MongoDBConfigDirectoryName}"
    and "covered MongoDBContainerName (pd_containers (sts_template sts)) vs"
    and "covered MongoDBInitInstallContainerName (pd_initContainers (sts_template sts)) vs"
    and "MongoDBInitScriptDirectoryName \<in> vol_name ` set (pd_volumes (sts_template sts))"
  shows "set_backed sts'"
proof -
  have "pd_containers (sts_template sts') = on_first MongoDBContainerName (add_mounts data_mounts)
      (pd_containers (sts_template sts))"
    "pd_initContainers (sts_template sts') = pd_initContainers (sts_template sts)"
    using assms(1) covered_name [OF assms(3)]
    by (auto simp: upsertDataVolume_def mount_data_def Let_def split: if_splits)
  moreover have "vs \<subseteq> offered sts'"
    using assms(1) covered_name [OF assms(3)] unfolding vs
    by (auto simp: upsertDataVolume_def mount_data_def Let_def offered_def ephemeral_volume_def
        UpsertVolumeClaim_def claims.key_set data_claim_def MongoDBDefaultVolumeClaimTemplateName_def
        split: if_splits)
  moreover have "vm_name ` set data_mounts \<subseteq> vs"
    using assms(5) by (auto simp: vs data_mounts_def)
  ultimately show ?thesis
    using covered_add(2) [OF assms(3)] covered_mono [OF assms(4)]
    by (simp add: set_backed_def) (blast intro: covered_mono)
qed

lemma finish_pod_backed:
  assumes "set_backed sts"
  shows "set_backed (sts\<lparr>sts_template := finish_pod pt opts (sts_template sts)\<rparr>)"
proof (cases "wo_configSecret opts")
  case None
  with assms show ?thesis by (simp add: set_backed_def offered_def finish_pod_def Let_def)
next
  case (Some secret)
  let ?sts = "sts\<lparr>sts_template := finish_pod pt opts (sts_template sts)\<rparr>"
  have "offered ?sts = insert MongoDBInitialConfigDirectoryName (offered sts)"
    by (auto simp: offered_def finish_pod_def Some upsertConfigSecretVolume_def)
  then have "offered sts \<subseteq> offered ?sts" "vm_name ` set [mount MongoDBInitialConfigDirectoryName
      MongoDBInitialConfigDirectoryPath] \<subseteq> offered ?sts"
    by auto
  then have "covered MongoDBContainerName (pd_containers (sts_template sts)) (offered ?sts)"
    and "covered MongoDBInitInstallContainerName (on_containers p (add_mounts
      [mount MongoDBInitialConfigDirectoryName MongoDBInitialConfigDirectoryPath])
      (pd_initContainers (sts_template sts))) (offered ?sts)" for p
    using assms covered_mono covered_add(1) unfolding set_backed_def by meson+
  then show ?thesis
    unfolding set_backed_def by (simp add: finish_pod_def Some upsertConfigSecretVolume_def covered_same)
qed

lemma transform_backed:
  assumes "stateful_set_transform E db v pt opts sts = Some sts'" and "options_backed opts"
  shows "set_backed sts'"
proof -
  obtain pod pod' base stored where pod: "pod_parts E db v pt opts (sts_template sts) = Some pod"
    and env: "upsertEnv pod db = Some pod'" and base: "sts_template base = pod'"
    and stored: "(if wo_isMongos opts then Some base
      else upsertDataVolume base (wo_pvcSpec opts) (mg_storageType db)) = Some stored"
    and sts': "sts' = stored\<lparr>sts_template := finish_pod pt opts (sts_template stored)\<rparr>"
  proof -
    from assms(1) obtain pod pod' where pods: "pod_parts E db v pt opts (sts_template sts) = Some pod"
      "upsertEnv pod db = Some pod'"
      by (auto simp: stateful_set_transform_def Option.bind_eq_Some_conv)
    let ?base = "sts\<lparr>
        sts_meta := EnsureOwnerReference ((sts_meta sts)
          \<lparr>om_labels := wo_labels opts, om_annotations := pt_controllerAnnotations pt\<rparr>) (db_owner db),
        sts_replicas := wo_replicas opts, sts_serviceName := wo_gvrSvcName opts,
        sts_selector := wo_selectors opts, sts_template := pod', sts_updateStrategy := ''OnDelete''\<rparr>"
    from assms(1) pods have "map_option (\<lambda>stored. stored\<lparr>sts_template := finish_pod pt opts (sts_template stored)\<rparr>)
        (if wo_isMongos opts then Some ?base
         else upsertDataVolume ?base (wo_pvcSpec opts) (mg_storageType db)) = Some sts'"
      by (simp only: stateful_set_transform_def Option.bind.simps Let_def)
    then show thesis
      unfolding map_option_eq_Some using that [OF pods, of ?base] by auto
  qed
  note parts = pod_parts_mounts [OF pod assms(2)] and same = upsertEnv_covered [OF env]
  have "set_backed stored"
  proof (cases "wo_isMongos opts")
    case True
    then have "vol_name ` set (pd_volumes pod) \<union> own_volumes opts \<subseteq> offered stored"
      using stored base same by (auto simp: offered_def own_volumes_def)
    with True stored base parts same show ?thesis
      by (simp add: set_backed_def covered_mono)
  next
    case False
    with stored have "upsertDataVolume base (wo_pvcSpec opts) (mg_storageType db) = Some stored" by simp
    from upsertDataVolume_backed [OF this refl] False base parts same show ?thesis
      by (simp add: own_volumes_def)
  qed
  then show ?thesis unfolding sts' by (rule finish_pod_backed)
qed

section \<open>The nodes\<close>

text \<open>The first init container mounts only what its volumes and the configuration provide.\<close>

lemma with_certificates_backed:
  assumes "with_certificates db name (c, vs) = Some (c', vs')"
  shows "c_name c' = c_name c" and "vol_name ` set vs \<subseteq> vol_name ` set vs'"
    and "mounted c' \<subseteq> mounted c \<union> vol_name ` set vs'"
proof -
  let ?ms = "[mount MongoDBClientCertDirectoryName MongoDBClientCertDirectoryPath,
      mount MongoDBServerCertDirectoryName MongoDBServerCertDirectoryPath]"
    and ?vs = "\<lambda>client server. [secret_volume MongoDBClientCertDirectoryName client,
        secret_volume MongoDBServerCertDirectoryName server]"
  have "(c', vs') = (c, vs) \<or> (\<exists>client server. (c', vs') = (add_mounts ?ms c, UpsertVolume vs (?vs client server)))"
  proof (cases "mg_tls db")
    case None
    with assms show ?thesis by (simp add: with_certificates_def)
  next
    case (Some tls)
    with assms show ?thesis
      unfolding with_certificates_def
      by (cases "GetCertSecretName db MongoDBClientCert ''''"; cases "GetCertSecretName db MongoDBServerCert name")
        (simp_all, blast)
  qed
  then have "c_name c' = c_name c \<and> vol_name ` set vs \<subseteq> vol_name ` set vs' \<and>
    mounted c' \<subseteq> mounted c \<union> vol_name ` set vs'"
  proof (elim disjE exE)
    fix client server
    assume "(c', vs') = (add_mounts ?ms c, UpsertVolume vs (?vs client server))"
    then have c': "c' = add_mounts ?ms c" and vs': "vs' = UpsertVolume vs (?vs client server)" by blast+
    show ?thesis unfolding c' vs' add_mounts_simps volume_names by auto
  qed auto
  then show "c_name c' = c_name c" "vol_name ` set vs \<subseteq> vol_name ` set vs'"
    "mounted c' \<subseteq> mounted c \<union> vol_name ` set vs'"
    by blast+
qed

lemma install_names:
  "c_name (install_container db v resources) = MongoDBInitInstallContainerName"
  "mounted (install_container db v resources) =
     {MongoDBConfigDirectoryName, MongoDBInitScriptDirectoryName, MongoDBCertDirectoryName}"
  "vol_name ` set install_volumes =
     {MongoDBWorkDirectoryName, MongoDBInitScriptDirectoryName, MongoDBCertDirectoryName}"
  by (simp_all add: install_container_def install_volumes_def new_container_def)

lemma installInitContainer_backed:
  assumes "installInitContainer db v pt name = Some (c, vs)"
  shows "c_name c = MongoDBInitInstallContainerName"
    and "mounted c \<subseteq> insert MongoDBConfigDirectoryName (vol_name ` set vs)"
    and "{MongoDBWorkDirectoryName, MongoDBInitScriptDirectoryName, MongoDBCertDirectoryName} \<subseteq>
      vol_name ` set vs"
proof -
  obtain resources c' vs' where certs: "with_certificates db name
      (install_container db v resources, install_volumes) = Some (c', vs')"
    and c: "c = (if mg_keyFileSecret db = None then c'
        else add_mounts [mount MongoDBInitialKeyDirectoryName MongoDBInitialKeyDirectoryPath] c')"
    and vs: "vs = with_key_file db vs'"
    using assms unfolding installInitContainer_def map_option_eq_Some by auto
  note backed = with_certificates_backed [OF certs, unfolded install_names]
  show "c_name c = MongoDBInitInstallContainerName" using backed(1) by (simp add: c)
  show "{MongoDBWorkDirectoryName, MongoDBInitScriptDirectoryName, MongoDBCertDirectoryName} \<subseteq>
      vol_name ` set vs"
    using backed(2) by (simp add: vs with_key_file_def split: option.split)
  show "mounted c \<subseteq> insert MongoDBConfigDirectoryName (vol_name ` set vs)"
    using backed(2,3) by (cases "mg_keyFileSecret db") (auto simp: c vs with_key_file_def simp del: set_map)
qed

lemma mongosInitContainer_name:
  "mongosInitContainer db v pt env script = Some (c, vs) \<Longrightarrow> c_name c = MongoDBInitBootstrapContainerName"
  by (auto simp: mongosInitContainer_def new_container_def)

lemma with_names [simp]:
  "vol_name ` set (with_script_volume script vs) =
     (case script of None \<Rightarrow> {} | Some _ \<Rightarrow> {''initial-script''}) \<union> vol_name ` set vs"
  "vm_name ` set (with_script_mount script ms) =
     (case script of None \<Rightarrow> {} | Some _ \<Rightarrow> {''initial-script''}) \<union> vm_name ` set ms"
  by (simp_all add: with_script_volume_def with_script_mount_def split: option.split)

lemma with_key_file_names: "vol_name ` set vs \<subseteq> vol_name ` set (with_key_file db vs)"
  by (auto simp: with_key_file_def split: option.split)

lemma member_mounts_names: "vm_name ` set member_mounts =
    {MongoDBWorkDirectoryName, MongoDBConfigDirectoryName, MongoDBDataDirectoryName,
     MongoDBInitScriptDirectoryName}"
  by (simp add: member_mounts_def)

text \<open>The members of a replica set, a config server or a shard.\<close>

lemma member_backed:
  assumes "installInitContainer db v pt name = Some (c, vs)"
    and "wo_isMongos opts = False" "wo_initContainers opts = [c]"
    and "wo_volumes opts = with_script_volume script (with_key_file db vs)"
    and "wo_volumeMount opts = with_script_mount script member_mounts"
  shows "options_backed opts"
  using assms(2-) installInitContainer_backed [OF assms(1)] with_key_file_names [of vs db]
  by (auto simp: options_backed_def own_volumes_def member_mounts_names Let_def split: option.splits)

lemma router_backed:
  assumes "installInitContainer db v pt name = Some (c, vs)"
    and "mongosInitContainer db v pt' env text = Some (boot, bvs)"
    and "wo_isMongos opts = True" "wo_initContainers opts = [c, boot]"
    and "wo_volumes opts = UpsertVolume (with_script_volume script
      (UpsertVolume [empty_dir MongoDBConfigDirectoryName] vs)) bvs"
    and "wo_volumeMount opts = with_script_mount script [mount MongoDBConfigDirectoryName MongoDBConfigDirectoryPath]"
  shows "options_backed opts"
  using assms(3-) installInitContainer_backed [OF assms(1)] mongosInitContainer_name [OF assms(2)]
  by (auto simp: options_backed_def own_volumes_def Let_def container_name_defs split: option.splits)

lemma standalone_backed:
  assumes "installInitContainer db v pt name = Some (c, vs)"
  shows "options_backed (standalone_options db ipv6 sslArgs c vs pt' service)"
  using installInitContainer_backed [OF assms]
  by (auto simp: options_backed_def own_volumes_def standalone_options_def Let_def split: option.splits)

lemma options_backed_more:
  assumes "options_backed opts" and "vol_name ` set (wo_volumes opts) \<subseteq> vol_name ` set (wo_volumes opts')"
    and "vm_name ` set (wo_volumeMount opts') \<subseteq> vol_name ` set (wo_volumes opts') \<union> own_volumes opts'"
    and "wo_isMongos opts' = wo_isMongos opts" "wo_initContainers opts' = wo_initContainers opts"
  shows "options_backed opts'"
proof -
  have "own_volumes opts' = own_volumes opts" by (simp add: own_volumes_def assms(4))
  moreover obtain c cs where c: "wo_initContainers opts = c # cs" "c_name c = MongoDBInitInstallContainerName"
    "MongoDBInitInstallContainerName \<notin> c_name ` set cs"
    "mounted c \<subseteq> vol_name ` set (wo_volumes opts) \<union> own_volumes opts"
    using assms(1) by (auto simp: options_backed_def Let_def)
  ultimately have "mounted c \<subseteq> vol_name ` set (wo_volumes opts') \<union> own_volumes opts'"
    using assms(2) by blast
  with c assms(1,2,3,5) show ?thesis
    unfolding options_backed_def Let_def by (simp add: subset_iff)
qed

lemma replica_backed:
  assumes "options_backed opts" and "\<not> wo_isMongos opts"
    and "MongoDBWorkDirectoryName \<in> vol_name ` set (wo_volumes opts)"
  shows "options_backed (replica_options db secret service opts)"
proof (rule options_backed_more [OF assms(1)])
  let ?opts = "replica_options db secret service opts"
  show volumes: "vol_name ` set (wo_volumes opts) \<subseteq> vol_name ` set (wo_volumes ?opts)"
    using with_key_file_names [of "wo_volumes opts" db] by (simp add: replica_options_def le_supI2)
  have "vm_name ` set (wo_volumeMount ?opts) \<subseteq> (case member_script db of None \<Rightarrow> {} | Some _ \<Rightarrow> {''initial-script''}) \<union>
      vm_name ` set member_mounts \<union> vm_name ` set (wo_volumeMount opts)"
    unfolding replica_options_def by simp blast
  also have "\<dots> \<subseteq> vol_name ` set (wo_volumes ?opts) \<union> own_volumes ?opts"
  proof -
    have "own_volumes ?opts = {MongoDBDataDirectoryName, MongoDBConfigDirectoryName}"
      "own_volumes opts = {MongoDBDataDirectoryName, MongoDBConfigDirectoryName}"
      using assms(2) by (simp_all add: own_volumes_def replica_options_def)
    moreover have "(case member_script db of None \<Rightarrow> {} | Some _ \<Rightarrow> {''initial-script''}) \<subseteq>
        vol_name ` set (wo_volumes ?opts)"
      by (simp add: replica_options_def)
    moreover have "vm_name ` set (wo_volumeMount opts) \<subseteq> vol_name ` set (wo_volumes opts) \<union> own_volumes opts"
      "MongoDBInitScriptDirectoryName \<in> vol_name ` set (wo_volumes opts)"
      using assms(1) by (simp_all add: options_backed_def Let_def)
    ultimately show ?thesis
      using volumes assms(3) unfolding member_mounts_names by blast
  qed
  finally show "vm_name ` set (wo_volumeMount ?opts) \<subseteq> vol_name ` set (wo_volumes ?opts) \<union> own_volumes ?opts" .
qed (simp_all add: replica_options_def)

section \<open>What is written\<close>

fun written_set :: "op_call \<Rightarrow> stateful_set option" where
  "written_set (OCreate ns (StatefulSetObj sts)) = Some sts"
| "written_set (OPatch x (StatefulSetObj sts)) = Some sts"
| "written_set c = None"

definition backs :: "op_call \<Rightarrow> bool" where
  "backs c \<longleftrightarrow> (case written_set c of None \<Rightarrow> True | Some sts \<Rightarrow> set_backed sts)"

lemma backs_ensure: "options_backed opts \<Longrightarrow> emits backs (ensureStatefulSet E setPvc opts)"
  unfolding ensureStatefulSet_def checkStatefulSet_def getVersion_def createOrPatchPartial_def Let_def
  by (intro emits_intros emits_deref_then)
    (auto simp: backs_def intro: transform_backed options_backed_cert)

lemma backs_config: "emits backs (ensureConfigNode E ipv6)"
  unfolding ensureConfigNode_def getVersion_def Let_def
  by (intro emits_intros emits_deref_then backs_ensure) (simp_all add: backs_def member_backed config_options_def Let_def)

lemma backs_shard: "emits backs (shardSts E ipv6 i)"
  unfolding shardSts_def getVersion_def wrap_error_def Let_def
  by (intro emits_intros emits_deref_then backs_ensure) (simp_all add: backs_def member_backed shard_options_def Let_def)

lemma backs_router: "emits backs (ensureMongosNode E ipv6)"
  unfolding ensureMongosNode_def getVersion_def Let_def
  by (intro emits_intros emits_deref_then backs_ensure) (simp_all add: backs_def router_backed)

lemma emits_choice:
  assumes "b \<Longrightarrow> emits P (f x)" and "\<And>y. \<not> b \<Longrightarrow> p = Some y \<Longrightarrow> emits P (f (g y))"
  shows "emits P (bnd (if b then ret x else bnd (deref p) (\<lambda>y. ret (g y))) f)"
  using assms by (cases b; cases p) (simp_all add: emits_def bnd_def ret_def deref_def panic_def)

lemma backs_standalone: "emits backs (ensureNonTopology E ipv6)"
proof -
  have "options_backed (replica_options db secret service (standalone_options db ipv6 args c vs pt service))"
    and "options_backed (standalone_options db ipv6 args c vs pt service)"
    if "installInitContainer db v (Some pt) '''' = Some (c, vs)" for db v secret service args c vs pt
    using standalone_backed [OF that] installInitContainer_backed(3) [OF that]
    by (auto intro!: replica_backed simp: standalone_options_def)
  then show ?thesis
    unfolding ensureNonTopology_def sts_event_def event_def getVersion_def Let_def
    by (intro emits_intros emits_deref_then emits_choice backs_ensure) (simp_all add: backs_def)
qed

lemma backs_reconcile: "emits backs (Reconciler_Reconcile E)"
  unfolding Reconciler_Reconcile_def ensureTopologyCluster_def wait_for_members_def ensureShardNode_def sts_event_def event_def Let_def
  by (intro emits_intros backs_config backs_shard backs_router backs_standalone) (simp_all add: backs_def)

text \<open>C18. Every StatefulSet that is created or patched has a database container and an install
  container, and each volume either of them mounts is a volume of the pod or a claim of the
  StatefulSet: whatever the topology, TLS, storage and configuration, no pod waits forever for a
  volume that nobody declares.\<close>
theorem mounted_volumes_declared:
  assumes "Reconciler_Reconcile E s = (r, t)"
    and "c \<in> set (drop (length (calls s)) (calls t))" and "written_set c = Some sts"
  shows "set_backed sts"
proof -
  obtain cs where "calls t = calls s @ cs" "\<forall>c \<in> set cs. backs c"
    using emitsD [OF backs_reconcile assms(1)] by blast
  with assms(2,3) show ?thesis by (auto simp: backs_def)
qed

lemma transform_total:
  assumes "mg_authSecret db \<noteq> None" "mg_monitor db = None" "mg_storageType db = StorageTypeEphemeral"
  shows "stateful_set_transform E db v pt opts sts = None \<longleftrightarrow> False"
  using assms by (auto simp: stateful_set_transform_def pod_parts_def with_exporter_def upsertEnv_def
      upsertDataVolume_def Let_def)

definition stored_demo_db :: mongodb where
  "stored_demo_db = demo_op_db\<lparr>mg_podTemplate := Some empty_template, mg_authSecret := Some ''mg-auth'',
     mg_sslMode := SSLModeDisabled, mg_storageType := StorageTypeEphemeral\<rparr>"

lemma stored_demo_parts:
  obtains c vs args service sts
  where "getTLSArgs demo_op_env stored_demo_db demo_op_version = Inr args"
    "GoverningServiceName (OffshootName stored_demo_db) = Some service"
    "installInitContainer stored_demo_db demo_op_version (Some empty_template) '''' = Some (c, vs)"
    "let db = stored_demo_db\<lparr>mg_podTemplate := Some empty_template\<rparr>;
         opts = standalone_options stored_demo_db False args c vs empty_template service
     in stateful_set_transform demo_op_env db demo_op_version empty_template (with_cert_mount db opts)
          (new_stateful_set (''demo'', wo_stsName opts)) = Some sts"
    "OCreate ''demo'' (StatefulSetObj sts) \<in>
       set (calls (snd (Reconciler_Reconcile demo_op_env (op_start stored_demo_db))))"
proof -
  let ?run = "Reconciler_Reconcile demo_op_env (op_start stored_demo_db)"
  have db: "mg_shardTopology stored_demo_db = None" "mg_podTemplate stored_demo_db = Some empty_template"
    "mg_authSecret stored_demo_db = Some ''mg-auth''" "mg_sslMode stored_demo_db = SSLModeDisabled"
    "mg_tls stored_demo_db = None" "mg_replicaSet stored_demo_db = None" "mg_keyFileSecret stored_demo_db = None"
    by (simp_all add: stored_demo_db_def demo_op_defs)
  have db': "mg_namespace stored_demo_db = ''demo''" "mg_monitor stored_demo_db = None"
    "mg_storageType stored_demo_db = StorageTypeEphemeral" "mg_version stored_demo_db = ''4.2.3''"
    by (simp_all add: stored_demo_db_def demo_op_defs)
  have env: "o_IPv6 demo_op_env = (\<lambda>_. Inr False)" "o_getVersion demo_op_env = (\<lambda>_ _. Inr demo_op_version)"
    "o_statefulSets demo_op_env = missing_api" "o_createPDB demo_op_env = (\<lambda>_ _. Inr ())"
    by (simp_all add: demo_op_env_def)
  obtain args where tls: "getTLSArgs demo_op_env stored_demo_db demo_op_version = Inr args"
    by (simp add: getTLSArgs_def demo_op_env_def Let_def)
  obtain c vs where init: "installInitContainer stored_demo_db demo_op_version (Some empty_template) '''' = Some (c, vs)"
    by (simp add: installInitContainer_def with_certificates_def db)
  obtain service where service: "GoverningServiceName (OffshootName stored_demo_db) = Some service"
    by (simp add: GoverningServiceName_def OffshootName_def stored_demo_db_def demo_op_defs)
  let ?opts = "standalone_options stored_demo_db False args c vs empty_template service"
    and ?db = "stored_demo_db\<lparr>mg_podTemplate := Some empty_template\<rparr>"
  have opts: "wo_podTemplate ?opts = Some empty_template" "wo_pvcSpec ?opts = None"
    by (simp_all add: standalone_options_def stored_demo_db_def demo_op_defs)
  obtain sts where sts: "stateful_set_transform demo_op_env ?db demo_op_version empty_template
      (with_cert_mount ?db ?opts) (new_stateful_set (''demo'', wo_stsName ?opts)) = Some sts"
    using transform_total [of ?db] db db' by (simp add: option.split) (metis not_None_eq)
  have "OCreate ''demo'' (StatefulSetObj sts) \<in> set (calls (snd ?run))"
    by (simp add: Reconciler_Reconcile_def ensureNonTopology_def ensureStatefulSet_def checkStatefulSet_def
        getVersion_def createOrPatchPartial_def db db' tls init service op_program_defs env missing_api_def
        opts sts sts_event_def event_def)
  with tls service init sts show thesis by (intro that) (simp_all add: Let_def)
qed

lemma stored_demo_creates:
  "\<exists>sts. OCreate ''demo'' (StatefulSetObj sts) \<in>
       set (calls (snd (Reconciler_Reconcile demo_op_env (op_start stored_demo_db))))"
  by (rule stored_demo_parts) blast

theorem mounted_volumes_declared_witness:
  "\<exists>sts. OCreate ''demo'' (StatefulSetObj sts) \<in>
       set (calls (snd (Reconciler_Reconcile demo_op_env (op_start stored_demo_db)))) \<and> set_backed sts"
proof -
  let ?run = "Reconciler_Reconcile demo_op_env (op_start stored_demo_db)"
  obtain sts where "OCreate ''demo'' (StatefulSetObj sts) \<in> set (calls (snd ?run))"
    using stored_demo_creates by blast
  with mounted_volumes_declared [of demo_op_env "op_start stored_demo_db" "fst ?run" "snd ?run" _ sts]
  show ?thesis by force
qed

section \<open>The order of a sharded cluster\<close>

lemma wait_for_members_stops:
  assumes "\<not> IsConditionTrue (mg_conditions db) DatabaseProvisioned"
    and "st \<in> set members" and "\<not> IsStatefulSetReady st"
  shows "fst (wait_for_members db vt1 vt2 members s) = Done (Inl StsNotReady)"
  using assms(2)
proof (induction members arbitrary: s)
  case (Cons m members)
  show ?case
  proof (cases "IsStatefulSetReady m")
    case True
    with Cons.prems assms(3) have "st \<in> set members" by auto
    from Cons.IH [OF this] True assms(1) show ?thesis
      by (simp add: wait_for_members_def bndE_def bnd_def ret_def sts_event_def event_def perform_def)
  next
    case False
    with assms(1) show ?thesis
      by (simp add: wait_for_members_def bndE_def bnd_def ret_def)
  qed
qed simp

lemma wait_for_members_events: "emits (\<lambda>c. written_set c = None) (wait_for_members db vt1 vt2 members)"
  unfolding wait_for_members_def sts_event_def event_def
  by (intro emits_intros) simp_all

text \<open>C17. The routers of a sharded cluster wait for its members: as long as the database is not
  provisioned and one config server or shard is not ready, the pass ends with that answer and
  no StatefulSet is written after the members'.\<close>
theorem routers_wait_for_members:
  assumes "ensureConfigNode E ipv6 s = (Done (Inr (st, vt1)), s1)"
    and "ensureShardNode E ipv6 s1 = (Done (Inr (sts, vt2)), s2)"
    and "\<not> IsConditionTrue (mg_conditions (odb s2)) DatabaseProvisioned"
    and "x \<in> set (sts @ [st])" and "\<not> IsStatefulSetReady x"
  shows "\<exists>t cs. ensureTopologyCluster E ipv6 s = (Done (Inl StsNotReady), t) \<and>
    calls t = calls s2 @ cs \<and> (\<forall>c \<in> set cs. written_set c = None)"
proof -
  obtain r t where run: "wait_for_members (odb s2) vt1 vt2 (sts @ [st]) s2 = (r, t)" by fastforce
  with wait_for_members_stops [OF assms(3-5), of vt1 vt2 s2] have "r = Done (Inl StsNotReady)" by simp
  then have "ensureTopologyCluster E ipv6 s = (Done (Inl StsNotReady), t)"
    using assms(1,2) run unfolding ensureTopologyCluster_def wait_for_members_def
    by (simp add: bndE_def bnd_def gets_def ret_def)
  then show ?thesis using emitsD [OF wait_for_members_events run] by blast
qed

text \<open>A cluster without shards whose config server has just been created.\<close>

definition cluster_node :: mongodb_node where
  "cluster_node = \<lparr>mn_replicas = 1, mn_prefix = '''', mn_configSecret = None, mn_podTemplate = empty_template\<rparr>"

definition cluster_demo_db :: mongodb where
  "cluster_demo_db = stored_demo_db\<lparr>mg_shardTopology := Some
     \<lparr>st_shards = 0, st_shard = cluster_node, st_shardStorage = None, st_configServer = cluster_node,
      st_configServerStorage = None, st_mongos = cluster_node\<rparr>\<rparr>"

lemma transform_replicas:
  assumes "stateful_set_transform E db v pt opts sts = Some sts'"
  shows "sts_replicas sts' = wo_replicas opts" "sts_readyReplicas sts' = sts_readyReplicas sts"
proof -
  have "sts_replicas x' = sts_replicas x \<and> sts_readyReplicas x' = sts_readyReplicas x"
    if "upsertDataVolume x pvc storageType = Some x'" for x x' pvc storageType
    using that by (auto simp: upsertDataVolume_def mount_data_def Let_def split: if_splits)
  with assms show "sts_replicas sts' = wo_replicas opts" "sts_readyReplicas sts' = sts_readyReplicas sts"
    by (fastforce simp: stateful_set_transform_def Let_def Option.bind_eq_Some_conv split: if_splits)+
qed

text \<open>In a cluster where nothing exists, an ephemeral StatefulSet is created and not ready.\<close>

lemma demo_sts_env: "o_getVersion demo_op_env = (\<lambda>_ _. Inr demo_op_version)"
  "o_statefulSets demo_op_env = missing_api" "o_createPDB demo_op_env = (\<lambda>_ _. Inr ())"
  "o_IPv6 demo_op_env = (\<lambda>_. Inr False)"
  by (simp_all add: demo_op_env_def)

lemma ensureStatefulSet_creates:
  assumes "mg_authSecret db \<noteq> None" "mg_monitor db = None" "mg_storageType db = StorageTypeEphemeral"
    and "odb s = db" and "wo_pvcSpec opts = None"
  shows "\<exists>sts s1. ensureStatefulSet demo_op_env setPvc opts s = (Done (Inr (sts, VerbCreated)), s1) \<and>
    sts_replicas sts = wo_replicas opts \<and> sts_readyReplicas sts = 0 \<and> odb s1 = db \<and>
    OCreate (mg_namespace db) (StatefulSetObj sts) \<in> set (calls s1)"
proof -
  let ?opts = "with_cert_mount db opts" and ?pt = "case wo_podTemplate opts of None \<Rightarrow> empty_template | Some pt \<Rightarrow> pt"
  obtain sts where sts: "stateful_set_transform demo_op_env db demo_op_version ?pt ?opts
      (new_stateful_set (mg_namespace db, wo_stsName opts)) = Some sts"
    using transform_total [OF assms(1-3)] by (metis not_None_eq)
  have "sts_replicas sts = wo_replicas opts" "sts_readyReplicas sts = 0"
    using transform_replicas [OF sts] by (simp_all add: with_cert_mount_def new_stateful_set_def)
  then show ?thesis
    by (simp add: ensureStatefulSet_def checkStatefulSet_def getVersion_def createOrPatchPartial_def
        op_program_defs demo_sts_env missing_api_def assms(4,5) sts)
qed

lemma cluster_demo_simps:
  "mg_authSecret cluster_demo_db = Some ''mg-auth''" "mg_sslMode cluster_demo_db = SSLModeDisabled"
  "mg_tls cluster_demo_db = None" "mg_keyFileSecret cluster_demo_db = None"
  "mg_namespace cluster_demo_db = ''demo''" "mg_monitor cluster_demo_db = None" "mg_conditions cluster_demo_db = []"
  "mg_storageType cluster_demo_db = StorageTypeEphemeral" "mg_version cluster_demo_db = ''4.2.3''"
  "mg_shardTopology cluster_demo_db = Some
     \<lparr>st_shards = 0, st_shard = cluster_node, st_shardStorage = None, st_configServer = cluster_node,
      st_configServerStorage = None, st_mongos = cluster_node\<rparr>"
  "GoverningServiceName (ConfigSvrNodeName cluster_demo_db) \<noteq> None"
  by (simp_all add: cluster_demo_db_def stored_demo_db_def demo_op_defs ConfigSvrNodeName_def GoverningServiceName_def)

lemma config_node_created:
  "\<exists>sts s1. ensureConfigNode demo_op_env False (op_start cluster_demo_db) =
     (Done (Inr (sts, VerbCreated)), s1) \<and> \<not> IsStatefulSetReady sts \<and>
     mg_conditions (odb s1) = [] \<and> (\<exists>t. mg_shardTopology (odb s1) = Some t \<and> st_shards t = 0)"
proof -
  obtain args where tls: "getTLSArgs demo_op_env cluster_demo_db demo_op_version = Inr args"
    by (simp add: getTLSArgs_def demo_op_env_def Let_def)
  obtain c vs where init: "installInitContainer cluster_demo_db demo_op_version (Some empty_template)
      (ConfigSvrNodeName cluster_demo_db) = Some (c, vs)"
    by (simp add: installInitContainer_def with_certificates_def cluster_demo_simps)
  obtain service where service: "GoverningServiceName (ConfigSvrNodeName cluster_demo_db) = Some service"
    using cluster_demo_simps by blast
  define db where "db = set_config_template (empty_template\<lparr>pt_lifecycle := peer_finder ''configdb.sh'' service\<rparr>) cluster_demo_db"
  then have db: "mg_authSecret db \<noteq> None" "mg_monitor db = None" "mg_storageType db = StorageTypeEphemeral"
    "mg_conditions db = []" "\<exists>t. mg_shardTopology db = Some t \<and> st_shards t = 0"
    by (auto simp: set_config_template_def cluster_demo_simps)
  have "\<exists>opts s. ensureConfigNode demo_op_env False (op_start cluster_demo_db) =
      ensureStatefulSet demo_op_env set_config_storage opts s \<and>
      odb s = db \<and> wo_pvcSpec opts = None \<and> wo_replicas opts = Some 1"
    unfolding ensureConfigNode_def config_options_def db_def Let_def
    by (simp add: getVersion_def op_program_defs demo_sts_env cluster_demo_simps tls init service cluster_node_def)
      (intro exI conjI, rule refl, simp_all)
  then obtain opts s where "odb s = db" "wo_pvcSpec opts = None" "wo_replicas opts = Some 1"
    and run: "ensureConfigNode demo_op_env False (op_start cluster_demo_db) =
      ensureStatefulSet demo_op_env set_config_storage opts s"
    by blast
  with ensureStatefulSet_creates [OF db(1-3), of s opts set_config_storage] db(4,5) show ?thesis
    by (auto simp: IsStatefulSetReady_def)
qed

theorem routers_wait_for_members_witness:
  "\<exists>t. ensureTopologyCluster demo_op_env False (op_start cluster_demo_db) = (Done (Inl StsNotReady), t)"
proof -
  obtain sts s1 where config: "ensureConfigNode demo_op_env False (op_start cluster_demo_db) =
      (Done (Inr (sts, VerbCreated)), s1)" "\<not> IsStatefulSetReady sts"
    and s1: "mg_conditions (odb s1) = []" "\<exists>t. mg_shardTopology (odb s1) = Some t \<and> st_shards t = 0"
    using config_node_created by blast
  from s1(2) have "ensureShardNode demo_op_env False s1 = (Done (Inr ([], VerbUnchanged)), s1)"
    by (auto simp: ensureShardNode_def op_program_defs int_range_def)
  from routers_wait_for_members [OF config(1) this _ _ config(2)] s1(1) show ?thesis
    by auto
qed

end
