(* ===== verification/OpAddressProps.thy ===== *)
theory OpAddressProps
  imports OpWorkloadProps
begin

text \<open>
  Names and addresses: what the parts of the operator say about the same nodes fits together.
  The StatefulSet of a node, its governing service and the list of hosts under which the
  health checker and the routers reach it are built by different functions from the database;
  here they are shown to name the same pods. \<open>node\<close> enumerates the StatefulSets of a database.
\<close>

section \<open>The nodes of a database\<close>

datatype node = ServerNode | ConfigNode | ShardNode int | RouterNode


fun node_name :: "mongodb \<Rightarrow> node \<Rightarrow> string" where
  "node_name db ServerNode = OffshootName db"
| "node_name db ConfigNode = ConfigSvrNodeName db"
| "node_name db (ShardNode i) = ShardNodeName db i"
| "node_name db RouterNode = MongosNodeName db"

fun node_selector :: "mongodb \<Rightarrow> node \<Rightarrow> selector" where
  "node_selector db ServerNode = OffshootSelectors db"
| "node_selector db ConfigNode = ConfigSvrSelectors db"
| "node_selector db (ShardNode i) = ShardSelectors db i"
| "node_selector db RouterNode = MongosSelectors db"

fun node_replicas :: "mongodb \<Rightarrow> node \<Rightarrow> int option" where
  "node_replicas db ServerNode = mg_replicas db"
| "node_replicas db ConfigNode = map_option (\<lambda>t. mn_replicas (st_configServer t)) (mg_shardTopology db)"
| "node_replicas db (ShardNode i) = map_option (\<lambda>t. mn_replicas (st_shard t)) (mg_shardTopology db)"
| "node_replicas db RouterNode = map_option (\<lambda>t. mn_replicas (st_mongos t)) (mg_shardTopology db)"





section \<open>What a pass leaves alone\<close>

text \<open>Pod templates and storage change during a pass; what names and counts depend on does not.\<close>

definition topology_shape :: "shard_topology \<Rightarrow> int \<times> (string \<times> int) list" where
  "topology_shape t = (st_shards t, map (\<lambda>n. (mn_prefix n, mn_replicas n)) [st_shard t, st_configServer t, st_mongos t])"

definition alike :: "mongodb \<Rightarrow> mongodb \<Rightarrow> bool" where
  "alike db db' \<longleftrightarrow> mg_meta db' = mg_meta db \<and> mg_replicaSet db' = mg_replicaSet db \<and>
     mg_replicas db' = mg_replicas db \<and>
     map_option topology_shape (mg_shardTopology db') = map_option topology_shape (mg_shardTopology db)"

lemma alike_refl [simp]: "alike db db"
  by (simp add: alike_def)

lemma alike_writes [simp]:
  "alike db d \<Longrightarrow> alike db (set_config_template p d)" "alike db d \<Longrightarrow> alike db (set_shard_template p d)"
  "alike db d \<Longrightarrow> alike db (set_config_storage q d)" "alike db d \<Longrightarrow> alike db (set_shard_storage q d)"
  "alike db d \<Longrightarrow> alike db (set_storage q d)" "alike db d \<Longrightarrow> alike db (d\<lparr>mg_podTemplate := x\<rparr>)"
  by (cases "mg_shardTopology d"; cases "mg_shardTopology db";
      simp add: alike_def set_config_template_def set_shard_template_def set_config_storage_def
        set_shard_storage_def set_storage_def topology_shape_def)+


section \<open>One StatefulSet\<close>

lemma finish_labels [simp]: "pd_labels (finish_pod pt opts pod) = pd_labels pod"
  by (simp add: finish_pod_def upsertConfigSecretVolume_def Let_def split: option.split)



text \<open>What the options of node \<open>n\<close> say.\<close>

definition options_for :: "mongodb \<Rightarrow> node \<Rightarrow> workload_options \<Rightarrow> bool" where
  "options_for db n opts \<longleftrightarrow> wo_stsName opts = node_name db n \<and>
     GoverningServiceName (node_name db n) = Some (wo_gvrSvcName opts) \<and>
     wo_replicas opts = node_replicas db n \<and> wo_selectors opts = node_selector db n"

lemma options_for_cert [simp]: "options_for db n (with_cert_mount d opts) = options_for db n opts"
  by (simp add: options_for_def with_cert_mount_def)


















section \<open>The hosts\<close>








section \<open>The governing services\<close>












end
