(* ===== verification/OpStatusProps.thy ===== *)
theory OpStatusProps
  imports OpRunProps
begin

text \<open>
  The status of a database over time. Two parts of the operator write it concurrently: the
  passes of the work queue and the health checker. \<open>writes_status\<close> is one update of either, in
  any cluster and at any time; its closure is every interleaving of the two, on the status as
  the API server holds it.
\<close>

section \<open>The updates\<close>

inductive writes_status :: "mongodb_status \<Rightarrow> mongodb_status \<Rightarrow> bool" where
  by_pass: "OUpdateStatus k uid st st' \<in> set (calls (snd (runMongoDB E key (op_start db)))) \<Longrightarrow>
    writes_status st st'"
| by_check: "OUpdateStatus k uid st st' \<in> set (calls (snd (check_database E (op_start db)))) \<Longrightarrow>
    writes_status st st'"

inductive_cases writes_statusE: "writes_status st st'"

lemma check_is_call:
  assumes "OUpdateStatus k uid st st' \<in> set (calls (snd (check_database E (op_start db))))"
  shows "status_call db (OUpdateStatus k uid st st')"
proof -
  obtain r t where run: "check_database E (op_start db) = (r, t)" by fastforce
  have "in_check db [] (op_start db)" by (simp add: in_check_def)
  from keepsD [OF keeps_check_database this run] assms run show ?thesis
    by (auto simp: in_check_def list_all_iff)
qed

text \<open>The conditions that the operator itself keeps.\<close>

definition operator_conditions :: "string set" where
  "operator_conditions = {DatabaseProvisioningStarted, DatabaseProvisioned, DatabaseHalted,
     DatabaseAcceptingConnection, DatabaseReady}"

definition own_condition :: "condition \<Rightarrow> bool" where
  "own_condition c \<longleftrightarrow> cond_type c \<in> operator_conditions \<and>
     (cond_type c = DatabaseProvisioned \<longrightarrow> cond_status c = ConditionTrue)"

lemma own_conditions [simp]:
  "own_condition (started_condition db)" "own_condition (provisioned_condition db)"
  "own_condition (accepting_condition db)" "own_condition (not_accepting_condition db e)"
  "own_condition (ready_condition db)" "own_condition (not_ready_condition db)"
  "\<forall>c \<in> set (halted_conditions db). own_condition c"
  by (simp_all add: own_condition_def operator_conditions_def database_condition_defs db_condition_def
      started_condition_def provisioned_condition_def accepting_condition_def not_accepting_condition_def
      ready_condition_def not_ready_condition_def halted_conditions_def ConditionTrue_def)

text \<open>An update as the conditions it sets, or the one it removes.\<close>

inductive sets_own :: "mongodb_status \<Rightarrow> mongodb_status \<Rightarrow> bool" where
  phase: "ms_conditions st' = ms_conditions st \<Longrightarrow> sets_own st st'"
| conditions: "\<forall>c \<in> set cs. own_condition c \<Longrightarrow> sets_own st (fold (set_db_condition now) cs st)"
| revive: "sets_own st (drop_halted st)"

lemma set_one: "own_condition c \<Longrightarrow> sets_own st (set_db_condition now c st)"
  using conditions [of "[c]" st now] by simp

lemma set_two: "own_condition c \<Longrightarrow> own_condition d \<Longrightarrow>
    sets_own st (set_db_condition now d (set_db_condition now c st))"
  using conditions [of "[c, d]" st now] by simp

lemma step_sets_own: "status_step phase db st st' \<Longrightarrow> sets_own st st'"
  by (induction rule: status_step.induct)
    (simp_all add: set_one revive halted_status_def conditions phase set_phase_def)

lemma call_sets_own: "status_call db (OUpdateStatus k uid st st') \<Longrightarrow> sets_own st st'"
  by (erule status_call.cases) (simp_all add: set_one set_two)

lemma writes_sets_own: "writes_status st st' \<Longrightarrow> sets_own st st'"
  by (erule writes_statusE) (auto dest!: update_is_step check_is_call intro: step_sets_own call_sets_own)

section \<open>What they keep\<close>

lemma set_other:
  "cond_type c \<noteq> typ \<Longrightarrow>
   find_by cond_type typ (ms_conditions (set_db_condition now c st)) = find_by cond_type typ (ms_conditions st)"
  by (simp add: set_db_condition_def SetCondition_other)

lemma fold_other:
  "\<forall>c \<in> set cs. cond_type c \<noteq> typ \<Longrightarrow>
   find_by cond_type typ (ms_conditions (fold (set_db_condition now) cs st)) = find_by cond_type typ (ms_conditions st)"
  by (induction cs arbitrary: st) (simp_all add: set_other)

lemma sets_own_other:
  assumes "sets_own st st'" and "typ \<notin> operator_conditions"
  shows "find_by cond_type typ (ms_conditions st') = find_by cond_type typ (ms_conditions st)"
  using assms(1)
proof cases
  case (conditions cs now)
  with assms(2) show ?thesis by (auto simp: own_condition_def intro!: fold_other)
next
  case revive
  have "typ \<noteq> DatabaseHalted" using assms(2) by (auto simp: operator_conditions_def)
  with revive show ?thesis by (simp add: drop_halted_def RemoveCondition_other)
qed simp

text \<open>C6. However the passes of the work queue and the checks of the health checker are
  interleaved, and whatever the cluster answers: a condition of another controller (paused, data
  restored, replicas ready) stays as it is in the status.\<close>
theorem foreign_conditions_untouched:
  assumes "writes_status\<^sup>*\<^sup>* st st'" and "typ \<notin> operator_conditions"
  shows "find_by cond_type typ (ms_conditions st') = find_by cond_type typ (ms_conditions st)"
  using assms(1)
  by (induction rule: rtranclp_induct) (auto dest!: writes_sets_own simp: sets_own_other [OF _ assms(2)])

lemma set_true_again:
  assumes "IsConditionTrue cs typ" and "cond_type c = typ \<longrightarrow> cond_status c = ConditionTrue"
  shows "IsConditionTrue (SetCondition now cs c) typ"
proof (cases "cond_type c = typ")
  case True
  with assms show ?thesis
    unfolding SetCondition_upsert by (induction cs) (auto simp: merge_condition_def split: if_splits)
next
  case False
  with assms(1) show ?thesis by (simp add: IsConditionTrue_other)
qed

lemma fold_provisioned:
  "\<forall>c \<in> set cs. own_condition c \<Longrightarrow> IsConditionTrue (ms_conditions st) DatabaseProvisioned \<Longrightarrow>
   IsConditionTrue (ms_conditions (fold (set_db_condition now) cs st)) DatabaseProvisioned"
  by (induction cs arbitrary: st) (simp_all add: set_db_condition_def set_true_again own_condition_def)

lemma RemoveCondition_true:
  "typ \<noteq> k \<Longrightarrow> IsConditionTrue cs typ \<Longrightarrow> IsConditionTrue (RemoveCondition cs k) typ"
  by (induction cs) (auto split: if_splits)

lemma sets_own_provisioned:
  assumes "sets_own st st'" and "IsConditionTrue (ms_conditions st) DatabaseProvisioned"
  shows "IsConditionTrue (ms_conditions st') DatabaseProvisioned"
proof -
  have "DatabaseProvisioned \<noteq> DatabaseHalted" by (simp add: database_condition_defs)
  with assms show ?thesis by cases (simp_all add: fold_provisioned drop_halted_def RemoveCondition_true)
qed

text \<open>C4. A database that has once been provisioned stays so: no interleaving of passes and
  health checks, of halting and reviving, takes the condition back or makes it false.\<close>
theorem provisioned_is_stable:
  assumes "writes_status\<^sup>*\<^sup>* st st'" and "IsConditionTrue (ms_conditions st) DatabaseProvisioned"
  shows "IsConditionTrue (ms_conditions st') DatabaseProvisioned"
  using assms by (induction rule: rtranclp_induct) (auto dest: writes_sets_own sets_own_provisioned)

text \<open>A run: the first pass over a database whose status has conditions already.\<close>

definition status_env :: "mongodb \<Rightarrow> mongodb_status \<Rightarrow> op_env" where
  "status_env db st = (cache_env db)\<lparr>o_fetchStatus := (\<lambda>_ _. Inr st)\<rparr>"

lemma demo_update:
  "writes_status st (st\<lparr>ms_phase := ''Provisioning'', ms_observedGeneration := 0\<rparr>)"
proof (rule by_pass)
  have alive: "om_deletionTimestamp (mg_meta demo_op_db) = None" by (simp add: demo_op_defs)
  have env: "o_fromCache (status_env demo_op_db st) h key = Inr (Some demo_op_db)"
    "o_patchDB (status_env demo_op_db st) h x y = Inr y" "o_phase (status_env demo_op_db st) cs = ''Provisioning''"
    "o_fetchStatus (status_env demo_op_db st) h k = Inr st" "o_updateStatus (status_env demo_op_db st) h k u st' = Inr ()"
    for h key x y cs k u st'
    by (simp_all add: status_env_def)
  have "mg_phase (add_finalizer demo_op_db) = ''''" "mg_conditions (add_finalizer demo_op_db) = []"
    "mg_generation (add_finalizer demo_op_db) = 0"
    by (simp_all add: add_finalizer_def AddFinalizer_def demo_op_defs)
  then show "OUpdateStatus (key_of (mg_meta (add_finalizer demo_op_db))) (mg_uid (add_finalizer demo_op_db)) st
      (st\<lparr>ms_phase := ''Provisioning'', ms_observedGeneration := 0\<rparr>) \<in>
      set (calls (snd (runMongoDB (status_env demo_op_db st) ''demo/mg'' (op_start empty_mongodb))))"
    unfolding run_alive [OF env(1) alive]
    by (simp add: env patched_def process_def reporting_def updateStatus_def set_phase_def op_program_defs)
qed

definition demo_status :: mongodb_status where
  "demo_status = \<lparr>ms_phase = ''NotReady'', ms_observedGeneration = 0,
     ms_conditions = [db_condition DatabaseProvisioned ConditionTrue ''done'' 0 '''',
       db_condition DatabasePaused ConditionFalse ''running'' 0 '''']\<rparr>"

theorem foreign_conditions_untouched_witness:
  "\<exists>st. writes_status demo_status st \<and> ms_phase st = ''Provisioning'' \<and>
     find_by cond_type DatabasePaused (ms_conditions st) = Some (db_condition DatabasePaused ConditionFalse ''running'' 0 '''')"
proof -
  let ?st = "demo_status\<lparr>ms_phase := ''Provisioning'', ms_observedGeneration := 0\<rparr>"
  have "DatabasePaused \<notin> operator_conditions" by (simp add: operator_conditions_def database_condition_defs)
  with foreign_conditions_untouched [OF r_into_rtranclp [where r = writes_status], OF demo_update]
  have "find_by cond_type DatabasePaused (ms_conditions ?st) = find_by cond_type DatabasePaused (ms_conditions demo_status)"
    by blast
  then have "find_by cond_type DatabasePaused (ms_conditions ?st) =
      Some (db_condition DatabasePaused ConditionFalse ''running'' 0 '''')"
    by (simp add: demo_status_def db_condition_def database_condition_defs)
  with demo_update [of demo_status] show ?thesis by (intro exI [of _ ?st]) simp
qed

theorem provisioned_is_stable_witness:
  "\<exists>st. writes_status demo_status st \<and> ms_phase st = ''Provisioning'' \<and>
     IsConditionTrue (ms_conditions st) DatabaseProvisioned"
proof -
  let ?st = "demo_status\<lparr>ms_phase := ''Provisioning'', ms_observedGeneration := 0\<rparr>"
  have "IsConditionTrue (ms_conditions demo_status) DatabaseProvisioned"
    by (simp add: demo_status_def db_condition_def)
  with provisioned_is_stable [OF r_into_rtranclp [where r = writes_status], OF demo_update]
  have "IsConditionTrue (ms_conditions ?st) DatabaseProvisioned" by blast
  with demo_update [of demo_status] show ?thesis by (intro exI [of _ ?st]) simp
qed

end
