(* ===== verification/OpSettles.thy ===== *)
theory OpSettles
  imports OpRunProps
begin

text \<open>
  Convergence: the objects of a database settle. Every transform that the operator hands to
  \<open>CreateOrPatch\<close> is idempotent (the locale \<open>settling\<close>), so an object that an earlier pass has
  written is only read by the next one, and the next one neither patches nor announces it.
\<close>

section \<open>The contract\<close>

locale settling =
  fixes f :: "'a \<Rightarrow> 'a"
  assumes settled: "f (f x) = f x"
begin

lemma unchanged:
  assumes "api_get A (calls s) key = Inr (f x)" and "api_same A (f x) (f x)"
  shows "createOrPatch A wrap k key new f s =
    (Done (Inr (f x, VerbUnchanged)), s\<lparr>calls := calls s @ [OGet k key]\<rparr>)"
  using assms by (simp add: createOrPatch_def bnd_def perform_def ret_def settled)

end

section \<open>Owners and ports\<close>

lemma upsert_same_key:
  "(\<And>x. key x = key new \<Longrightarrow> merge x new = new) \<Longrightarrow>
   upsert_by key merge new (upsert_by key merge new xs) = upsert_by key merge new xs"
  by (induction xs) auto

lemma EnsureOwnerReference_settled [simp]:
  "EnsureOwnerReference (EnsureOwnerReference m ref) ref = EnsureOwnerReference m ref"
  by (simp add: EnsureOwnerReference_def upsert_same_key)

text \<open>The metadata of an object: the owner is set, then labels and annotations are replaced.\<close>

lemma EnsureOwnerReference_labels [simp]:
  "EnsureOwnerReference (m\<lparr>om_labels := l\<rparr>) ref = (EnsureOwnerReference m ref)\<lparr>om_labels := l\<rparr>"
  "EnsureOwnerReference (m\<lparr>om_annotations := a\<rparr>) ref = (EnsureOwnerReference m ref)\<lparr>om_annotations := a\<rparr>"
  by (simp_all add: EnsureOwnerReference_def)

lemma OverwriteKeys_settled [simp]: "OverwriteKeys (OverwriteKeys m n) n = OverwriteKeys m n"
  by (auto simp: OverwriteKeys_def map_add_def fun_eq_iff split: option.split)

text \<open>One desired port, merged with the current ones and patched by the template.\<close>

lemma ports_settled [simp]:
  "PatchServicePorts (MergeServicePorts (PatchServicePorts (MergeServicePorts cur [dp]) tps) [dp]) tps =
     PatchServicePorts (MergeServicePorts cur [dp]) tps"
  by (auto simp: PatchServicePorts_map MergeServicePorts_map merge_port_def patch_port_def last_by_def
      split: option.splits)

lemma merged_settled [simp]:
  "MergeServicePorts (MergeServicePorts cur [dp]) [dp] = MergeServicePorts cur [dp]"
  by (auto simp: MergeServicePorts_map merge_port_def last_by_def split: option.splits)

section \<open>The transforms\<close>

interpretation primary_settles: settling "primary_service_transform db" for db
  by unfold_locales (simp add: primary_service_transform_def template_settings_def Let_def)

interpretation stats_settles: settling "stats_service_transform db exporter" for db exporter
  by unfold_locales (simp add: stats_service_transform_def template_settings_def Let_def)

interpretation governing_settles: settling "governing_service_transform db labels selectors"
  for db labels selectors
  by unfold_locales (simp add: governing_service_transform_def)

interpretation account_settles: settling "service_account_transform db" for db
  by unfold_locales (simp add: service_account_transform_def)

interpretation role_settles: settling "role_transform db pspName" for db pspName
  by unfold_locales (simp add: role_transform_def)

interpretation role_binding_settles: settling "role_binding_transform db roleName saName"
  for db roleName saName
  by unfold_locales (simp add: role_binding_transform_def)

interpretation app_binding_settles: settling
    "app_binding_transform db v port params caBundle secretName" for db v port params caBundle secretName
  by unfold_locales (simp add: app_binding_transform_def)

section \<open>A second pass\<close>

text \<open>
  \<open>stores A key f\<close>: whenever it is asked, the API server answers an object that \<open>f\<close> has been
  applied to, and the patch between equal objects is empty.
\<close>

definition stores :: "'a api \<Rightarrow> nsname \<Rightarrow> ('a \<Rightarrow> 'a) \<Rightarrow> bool" where
  "stores A key f \<longleftrightarrow> (\<forall>h. \<exists>x. api_get A h key = Inr (f x)) \<and> (\<forall>x. api_same A x x)"

lemma createOrPatch_settled:
  assumes "settling f" and "stores A key f"
  shows "\<exists>x. createOrPatch A wrap k key new f s =
    (Done (Inr (f x, VerbUnchanged)), s\<lparr>calls := calls s @ [OGet k key]\<rparr>)"
  using assms settling.unchanged [OF assms(1)] unfolding stores_def by blast

text \<open>The settled run of a part: it answers \<open>r\<close> after exactly the calls \<open>cs\<close>, and leaves the
  database as it is but for the name of the service account.\<close>

definition account_of :: "mongodb \<Rightarrow> pod_template \<Rightarrow> string" where
  "account_of db tmpl =
     (if pt_serviceAccountName tmpl = '''' then OffshootName db else pt_serviceAccountName tmpl)"

definition with_account :: "mongodb \<Rightarrow> pod_template \<Rightarrow> mongodb" where
  "with_account db tmpl = set_template (tmpl\<lparr>pt_serviceAccountName := account_of db tmpl\<rparr>) db"

lemma with_account_simps [simp]:
  "mg_meta (with_account db tmpl) = mg_meta db" "mg_version (with_account db tmpl) = mg_version db"
  "mg_shardTopology (with_account db tmpl) = mg_shardTopology db"
  "mg_replicaSet (with_account db tmpl) = mg_replicaSet db"
  "mg_serviceTemplates (with_account db tmpl) = mg_serviceTemplates db"
  "OffshootName (with_account db tmpl) = OffshootName db"
  "db_owner (with_account db tmpl) = db_owner db"
  by (simp_all add: with_account_def set_template_def OffshootName_def db_owner_def)

lemma with_account_mongos [simp]: "MongosNodeName (with_account db tmpl) = MongosNodeName db"
  by (simp add: MongosNodeName_def split: option.split)

lemma with_account_transforms [simp]:
  "OffshootSelectors (with_account db tmpl) = OffshootSelectors db"
  "OffshootLabels (with_account db tmpl) = OffshootLabels db"
  "role_transform (with_account db tmpl) psp = role_transform db psp"
  "role_binding_transform (with_account db tmpl) r a = role_binding_transform db r a"
  "primary_service_transform (with_account db tmpl) = primary_service_transform db"
  by (simp_all add: fun_eq_iff role_transform_def role_binding_transform_def primary_service_transform_def
      primary_selector_def OffshootLabels_def OffshootSelectors_def MongosSelectors_def Let_def)

text \<open>The objects of a pass, as an earlier one has left them.\<close>

definition settled_cluster :: "op_env \<Rightarrow> mongodb \<Rightarrow> string \<Rightarrow> string \<Rightarrow> string \<Rightarrow> bool" where
  "settled_cluster E db gov sa psp \<longleftrightarrow>
     stores (o_services E) (mg_namespace db, gov)
       (governing_service_transform db (OffshootLabels db) (OffshootSelectors db)) \<and>
     stores (o_services E) (mg_namespace db, OffshootName db) (primary_service_transform db) \<and>
     stores (o_serviceAccounts E) (mg_namespace db, sa) (service_account_transform db) \<and>
     stores (o_roles E) (mg_namespace db, OffshootName db) (role_transform db psp) \<and>
     stores (o_roleBindings E) (mg_namespace db, OffshootName db)
       (role_binding_transform db (OffshootName db) sa)"

lemma owned_account: "IsOwnedBy (sa_meta (service_account_transform db x)) (mg_meta db) = (True, True)"
  using EnsureOwnerReference_owned [of "sa_meta x" "mg_meta db"]
  by (simp add: service_account_transform_def db_owner_def IsOwnedBy_def)

lemma governing_settled:
  assumes "settled_cluster E db gov sa psp" and "mg_shardTopology db = None"
    and "GoverningServiceName (OffshootName db) = Some gov" and "odb s = db"
  shows "EnsureGoverningService E s = (Done (Inr ()), s\<lparr>calls := calls s @ [OGet OService (mg_namespace db, gov)]\<rparr>)"
proof -
  have "settling (governing_service_transform db (OffshootLabels db) (OffshootSelectors db))"
    by (rule governing_settles.settling_axioms)
  from createOrPatch_settled [OF this, where A = "o_services E" and key = "(mg_namespace db, gov)"
      and wrap = ServiceObj and k = OService and new = "new_service (mg_namespace db, gov)" and s = s]
  show ?thesis
    using assms by (auto simp: EnsureGoverningService_def governing_service_def settled_cluster_def
        gets_def bnd_def bndE_def deref_def ret_def Let_def)
qed

lemma primary_settled:
  assumes "settled_cluster E db gov sa psp"
    and "mg_namespace (odb s) = mg_namespace db" and "OffshootName (odb s) = OffshootName db"
    and "primary_service_transform (odb s) = primary_service_transform db"
  shows "ensureService E s = (Done (Inr VerbUnchanged),
    s\<lparr>calls := calls s @ [OGet OService (mg_namespace db, OffshootName db)]\<rparr>)"
proof -
  have "settling (primary_service_transform db)" by (rule primary_settles.settling_axioms)
  from createOrPatch_settled [OF this, where A = "o_services E" and key = "(mg_namespace db, OffshootName db)"
      and wrap = ServiceObj and k = OService and new = "new_service (mg_namespace db, OffshootName db)" and s = s]
  show ?thesis
    using assms by (auto simp: ensureService_def ensurePrimaryService_def settled_cluster_def
        gets_def bnd_def bndE_def ret_def Let_def)
qed

lemma role_settled:
  assumes "settled_cluster E db gov sa psp" and "mg_namespace (odb s) = mg_namespace db"
    and "role_transform (odb s) psp = role_transform db psp"
  shows "ensureRole E (OffshootName db) psp s =
    (Done (Inr ()), s\<lparr>calls := calls s @ [OGet ORole (mg_namespace db, OffshootName db)]\<rparr>)"
proof -
  let ?key = "(mg_namespace db, OffshootName db)"
  have "settling (role_transform db psp)" by (rule role_settles.settling_axioms)
  from createOrPatch_settled [OF this, where A = "o_roles E" and key = ?key and wrap = RoleObj and k = ORole
      and new = "\<lparr>ro_meta = meta_of (mg_namespace db) (OffshootName db), ro_rules = []\<rparr>" and s = s]
  show ?thesis
    using assms by (auto simp: ensureRole_def settled_cluster_def gets_def bnd_def bndE_def ret_def Let_def)
qed

lemma binding_settled:
  assumes "settled_cluster E db gov sa psp" and "mg_namespace (odb s) = mg_namespace db"
    and "role_binding_transform (odb s) (OffshootName db) sa = role_binding_transform db (OffshootName db) sa"
  shows "createRoleBinding E (OffshootName db) sa s =
    (Done (Inr ()), s\<lparr>calls := calls s @ [OGet ORoleBinding (mg_namespace db, OffshootName db)]\<rparr>)"
proof -
  let ?key = "(mg_namespace db, OffshootName db)"
  have "settling (role_binding_transform db (OffshootName db) sa)" by (rule role_binding_settles.settling_axioms)
  from createOrPatch_settled [OF this, where A = "o_roleBindings E" and key = ?key and wrap = RoleBindingObj
      and k = ORoleBinding and new = "new_role_binding ?key" and s = s]
  show ?thesis
    using assms by (auto simp: createRoleBinding_def settled_cluster_def gets_def bnd_def bndE_def ret_def Let_def)
qed

lemma permissions_settled:
  assumes cluster: "settled_cluster E db gov sa (mv_podSecurityPolicyName v)"
    and version: "\<And>h. o_getVersion E h (mg_version db) = Inr v"
    and db: "odb s = with_account db tmpl"
  shows "grant_permissions E sa s = (Done (Inr ()), s\<lparr>calls := calls s @
    [OGetVersion (mg_version db), OGet ORole (mg_namespace db, OffshootName db),
     OGet ORoleBinding (mg_namespace db, OffshootName db)]\<rparr>)"
  using db by (simp add: grant_permissions_def getPolicyNames_def gets_def bnd_def bndE_def ret_def perform_def
      version role_settled [OF cluster] binding_settled [OF cluster])

lemma rbac_settled:
  assumes cluster: "settled_cluster E db gov (account_of db tmpl) (mv_podSecurityPolicyName v)"
    and version: "\<And>h. o_getVersion E h (mg_version db) = Inr v"
    and "mg_shardTopology db = None" and "mg_podTemplate db = Some tmpl" and "odb s = db"
  shows "ensureDatabaseRBAC E s = (Done (Inr ()), s\<lparr>odb := with_account db tmpl, calls := calls s @
    [OGet OServiceAccount (mg_namespace db, account_of db tmpl), OGetVersion (mg_version db),
     OGet ORole (mg_namespace db, OffshootName db), OGet ORoleBinding (mg_namespace db, OffshootName db)]\<rparr>)"
proof -
  obtain x where x: "api_get (o_serviceAccounts E) (calls s) (mg_namespace db, account_of db tmpl) =
      Inr (service_account_transform db x)"
    using cluster unfolding settled_cluster_def stores_def by meson
  show ?thesis
    using assms(3-5) permissions_settled [OF cluster version, where tmpl = tmpl]
    by (simp add: ensureDatabaseRBAC_def createDatabaseRBAC_def gets_def bnd_def bndE_def ret_def
        perform_def update_def x owned_account with_account_def [symmetric] account_of_def [symmetric]
        Let_def)
qed

text \<open>The calls of the settled part of a pass.\<close>

definition only_reads :: "mongodb \<Rightarrow> string \<Rightarrow> pod_template \<Rightarrow> op_call list" where
  "only_reads db gov tmpl =
     [OGet OService (mg_namespace db, gov),
      OGet OServiceAccount (mg_namespace db, account_of db tmpl), OGetVersion (mg_version db),
      OGet ORole (mg_namespace db, OffshootName db), OGet ORoleBinding (mg_namespace db, OffshootName db),
      OGet OService (mg_namespace db, OffshootName db)]"

text \<open>What \<open>create\<close> does after the services and the permissions.\<close>

definition after_services :: "op_env \<Rightarrow> verb \<Rightarrow> (gerr + unit) op_prog" where
  "after_services E vt1 =
     bndE (ensureAuthSecret E) (\<lambda>_.
     bndE (EnsureKeyFileSecret E) (\<lambda>_.
     bndE (IsCertificateSecretsCreated E) (\<lambda>ok.
       if \<not> ok then ret (Inr ()) else create_workload E vt1)))"

text \<open>A pass over an unsharded database whose services and permissions an earlier pass has
  written only reads them: after the validation it fetches each object once, in this order, and
  goes on to the secrets; it writes and announces nothing on the way.\<close>
lemma services_settled:
  assumes "settled_cluster E db gov (account_of db tmpl) (mv_podSecurityPolicyName v)"
    and "\<forall>h. o_getVersion E h (mg_version db) = Inr v" and "o_validate E [] db = Inr ()"
    and "mg_shardTopology db = None" and "mg_podTemplate db = Some tmpl"
    and "GoverningServiceName (OffshootName db) = Some gov"
  shows "create E (op_start db) = after_services E VerbUnchanged
    \<lparr>calls = OValidate (key_of (mg_meta db)) # only_reads db gov tmpl, odb = with_account db tmpl\<rparr>"
  using assms
  by (simp add: create_def after_services_def bnd_def bndE_def ret_def op_start_def gets_def perform_def
      governing_settled rbac_settled primary_settled only_reads_def)

text \<open>An API server that answers the objects \<open>obj\<close>, whatever happens.\<close>

definition kept_api :: "('a \<Rightarrow> object) \<Rightarrow> (nsname \<Rightarrow> 'a) \<Rightarrow> 'a api" where
  "kept_api wrap obj =
     \<lparr>api_get = (\<lambda>_ key. Inr (obj key)), api_create = (\<lambda>_ x. Inr x), api_patch = (\<lambda>_ _ x. Inr x),
      api_same = (\<lambda>x y. wrap x = wrap y)\<rparr>"

lemma stores_kept: "\<exists>x. obj key = f x \<Longrightarrow> stores (kept_api wrap obj) key f"
  by (auto simp: stores_def kept_api_def)

end
