(* ===== verification/OpWorkloadSettles.thy ===== *)
theory OpWorkloadSettles
  imports OpSettles OpWorkloadProps
begin

text \<open>
  The StatefulSets settle: the transform of \<open>ensureStatefulSet\<close> upserts containers, init
  containers, volumes, variables, mounts, arguments and a volume claim, and then changes some of
  the containers again. Applied to a StatefulSet that it has made it changes nothing, so a second
  pass does not patch it.
\<close>

section \<open>Merging the same value again\<close>

text \<open>A struct has no two fields of the same name.\<close>

function wf_raw :: "raw \<Rightarrow> bool" where
  "wf_raw (Leaf s) = True"
| "wf_raw (Node fs) = (distinct (map fst fs) \<and> (\<forall>x \<in> set (map snd fs). wf_raw x))"
  by pat_completeness auto
termination
  by (relation "measure size") (auto simp: size_list_estimation' less_Suc_eq_le)

lemma put_field_map_of: "map_of (put_field k v fs) = (map_of fs)(k \<mapsto> v)"
  by (induction fs) (auto simp: fun_eq_iff)

lemma put_field_same: "map_of fs k = Some v \<Longrightarrow> put_field k v fs = fs"
  by (induction fs) (auto split: if_splits)

lemma mergo_fields_other:
  "k \<notin> fst ` set ss \<Longrightarrow> map_of (mergo_fields ds ss) k = map_of ds k"
  by (induction ss arbitrary: ds) (auto simp: put_field_map_of split: option.splits)

lemma mergo_fields_field:
  "distinct (map fst ss) \<Longrightarrow> (k, s) \<in> set ss \<Longrightarrow>
   map_of (mergo_fields ds ss) k = Some (case map_of ds k of None \<Rightarrow> s | Some d \<Rightarrow> mergo d s)"
proof (induction ss arbitrary: ds)
  case (Cons x ss)
  then show ?case
    by (cases x) (auto simp: put_field_map_of mergo_fields_other image_iff split: option.splits)
qed simp

lemma mergo_fields_settled:
  "(\<And>k s. (k, s) \<in> set ss \<Longrightarrow> \<exists>d. map_of ds k = Some d \<and> mergo d s = d) \<Longrightarrow> mergo_fields ds ss = ds"
proof (induction ss)
  case (Cons x ss)
  obtain k s where x: "x = (k, s)" by fastforce
  with Cons.prems [of k s] obtain d where "map_of ds k = Some d" "mergo d s = d" by auto
  with x Cons show ?case by (simp add: put_field_same)
qed simp

lemma mergo_settled: "wf_raw s \<Longrightarrow> mergo (mergo d s) s = mergo d s \<and> mergo s s = s"
proof (induction s arbitrary: d rule: wf_raw.induct)
  case (1 s)
  then show ?case by simp
next
  case (2 fs)
  then have dist: "distinct (map fst fs)" by simp
  have field: "mergo (mergo d' s) s = mergo d' s" "mergo s s = s" if "(k, s) \<in> set fs" for k s d'
    using 2 that by force+
  have same: "mergo_fields fs fs = fs"
    using dist field by (intro mergo_fields_settled) (auto simp: map_of_is_SomeI)
  show ?case
  proof (cases d)
    case (Leaf x)
    with same show ?thesis by simp
  next
    case (Node ds)
    have "mergo_fields (mergo_fields ds fs) fs = mergo_fields ds fs"
    proof (rule mergo_fields_settled)
      fix k s assume mem: "(k, s) \<in> set fs"
      from mergo_fields_field [OF dist mem] field [OF mem]
      show "\<exists>d. map_of (mergo_fields ds fs) k = Some d \<and> mergo d s = d"
        by (auto split: option.split)
    qed
    with Node same show ?thesis by simp
  qed
qed

section \<open>Keyed lists\<close>

text \<open>
  Upserts of \<open>news\<close> followed by a change \<open>P\<close> of every element settle if merging a new element
  again into what \<open>P\<close> has left of it restores it.
\<close>

locale reworked = keyed_upsert key merge upsert
  for key :: "'a \<Rightarrow> 'k" and merge :: "'a \<Rightarrow> 'a \<Rightarrow> 'a" and upsert :: "'a \<Rightarrow> 'a list \<Rightarrow> 'a list" +
  fixes news :: "'a list"
    and P :: "'a \<Rightarrow> 'a"
  assumes is_upsert: "upsert = upsert_by key merge"
    and news_distinct: "distinct (map key news)"
    and P_key: "key (P x) = key x"
    and P_settled: "P (P x) = P x"
    and merged_again: "s \<in> set news \<Longrightarrow> key x = key s \<Longrightarrow> merge (P (merge x s)) s = merge x s"
    and new_again: "s \<in> set news \<Longrightarrow> merge (P s) s = s"
begin

lemma find_map: "find_by key k (map P xs) = map_option P (find_by key k xs)"
  by (induction xs) (auto simp: P_key)

lemma map_upsert:
  "find_by key (key s) xs = Some y \<Longrightarrow> P (merge y s) = P y \<Longrightarrow> map P (upsert s xs) = map P xs"
  unfolding is_upsert by (induction xs) (auto split: if_splits)

lemma map_upserts:
  assumes "distinct (map key ss)"
    and "\<And>s. s \<in> set ss \<Longrightarrow> \<exists>y. find_by key (key s) xs = Some y \<and> P (merge y s) = P y"
  shows "map P (upserts ss xs) = map P xs"
  using assms
proof (induction ss arbitrary: xs)
  case Nil
  show ?case by (simp add: upserts_Nil)
next
  case (Cons s ss)
  have "map P (upserts ss (upsert s xs)) = map P (upsert s xs)"
  proof (rule Cons.IH)
    show "distinct (map key ss)" using Cons.prems(1) by simp
    fix s' assume "s' \<in> set ss"
    with Cons.prems(1) have "key s' \<noteq> key s" by (auto simp: image_iff)
    with Cons.prems(2) [of s'] \<open>s' \<in> set ss\<close>
    show "\<exists>y. find_by key (key s') (upsert s xs) = Some y \<and> P (merge y s') = P y"
      by (simp add: find_other)
  qed
  also have "\<dots> = map P xs" using Cons.prems(2) [of s] map_upsert by auto
  finally show ?case by (simp add: upserts_Cons)
qed

lemma find_upserted:
  assumes "distinct (map key ss)" and "s \<in> set ss"
  shows "find_by key (key s) (upserts ss xs) =
    Some (case find_by key (key s) xs of None \<Rightarrow> s | Some y \<Rightarrow> merge y s)"
  using assms
proof (induction ss arbitrary: xs)
  case (Cons t ss)
  show ?case
  proof (cases "s = t")
    case True
    with Cons.prems have "key s \<notin> key ` set ss" by auto
    then show ?thesis unfolding True by (simp add: upserts_Cons upserts_find_other find_same)
  next
    case False
    with Cons.prems have "s \<in> set ss" "key s \<noteq> key t" by (auto simp: image_iff)
    with Cons show ?thesis by (simp add: upserts_Cons find_other)
  qed
qed simp

lemma reworked_settled: "map P (upserts news (map P (upserts news xs))) = map P (upserts news xs)"
proof -
  have "map P (upserts news (map P (upserts news xs))) = map P (map P (upserts news xs))"
  proof (rule map_upserts [OF news_distinct])
    fix s assume s: "s \<in> set news"
    let ?e = "case find_by key (key s) xs of None \<Rightarrow> s | Some y \<Rightarrow> merge y s"
    have "merge (P ?e) s = ?e"
      using merged_again [OF s] new_again [OF s] find_by_key [of key "key s" xs]
      by (auto split: option.split)
    moreover have "find_by key (key s) (map P (upserts news xs)) = Some (P ?e)"
      by (simp add: find_map find_upserted [OF news_distinct s])
    ultimately show "\<exists>y. find_by key (key s) (map P (upserts news xs)) = Some y \<and> P (merge y s) = P y"
      by (simp add: P_settled)
  qed
  then show ?thesis by (simp add: P_settled)
qed

end

section \<open>Variables, mounts and arguments\<close>

definition pod_credentials :: "string \<Rightarrow> env_var list" where
  "pod_credentials secret = root_credentials secret @ [env_field ''POD_NAME'' ''metadata.name'']"

interpretation data_mounts_twice: reworked vm_name "\<lambda>old new. new" "upsert_by vm_name (\<lambda>old new. new)"
    data_mounts "\<lambda>m. m"
  by unfold_locales (auto simp: data_mounts_def volume_name_defs)

interpretation credentials_twice: reworked ev_name "\<lambda>old new. new" "upsert_by ev_name (\<lambda>old new. new)"
    "pod_credentials secret" "\<lambda>x. x" for secret
  by unfold_locales (auto simp: pod_credentials_def root_credentials_def)

lemma data_mounts_settled [simp]:
  "UpsertVolumeMount (UpsertVolumeMount ms data_mounts) data_mounts = UpsertVolumeMount ms data_mounts"
  using data_mounts_twice.reworked_settled [of ms] by (simp add: UpsertVolumeMount_upserts)

lemma one_mount_settled [simp]:
  "UpsertVolumeMount (UpsertVolumeMount ms [m]) [m] = UpsertVolumeMount ms [m]"
  by (simp add: UpsertVolumeMount_def upsert_same_key)

lemma credentials_default: "map default_field_ref (pod_credentials secret) = pod_credentials secret"
  by (simp add: pod_credentials_def root_credentials_def env_secret_def env_field_def default_field_ref_def)

lemma credentials_settled [simp]:
  "UpsertEnvVars (UpsertEnvVars vs (pod_credentials secret)) (pod_credentials secret) =
     UpsertEnvVars vs (pod_credentials secret)"
  using credentials_twice.reworked_settled [of secret vs]
  by (simp add: UpsertEnvVars_upserts credentials_default)

lemma base_map_append:
  "base_map i (xs @ ys) m = base_map (i + length xs) ys (base_map i xs m)"
  by (induction xs arbitrary: i m) auto

lemma base_map_snoc:
  "base_map 0 (xs @ [y]) Map.empty f =
     (if flag_of y = Some f then Some (length xs) else base_map 0 xs Map.empty f)"
  by (simp add: base_map_append split: option.split)

lemma base_map_update:
  assumes "flag_of arg = Some f"
  shows "base_map 0 xs Map.empty f = Some j \<Longrightarrow>
    j < length xs \<and> base_map 0 (xs[j := arg]) Map.empty f = Some j"
  by (induction xs rule: rev_induct)
    (auto simp: base_map_snoc assms list_update_append split: if_splits)

lemma one_argument_settled:
  assumes "flag_of arg = Some f"
  shows "UpsertArgumentList (UpsertArgumentList xs [arg] []) [arg] [] = UpsertArgumentList xs [arg] []"
  using base_map_update [OF assms, of xs]
  by (simp add: UpsertArgumentList_def assms base_map_snoc split: option.split)

section \<open>The transform\<close>

text \<open>What the code hands to the upserts: struct fields are not repeated, and a variable from a
  field names its API version.\<close>

definition tidy_container :: "container \<Rightarrow> bool" where
  "tidy_container c \<longleftrightarrow> map default_field_ref (c_env c) = c_env c \<and>
     list_all wf_raw [c_ports c, c_resources c, c_livenessProbe c, c_readinessProbe c, c_lifecycle c,
       c_securityContext c, c_rest c]"

lemma merge_string_twice [simp]: "merge_string (merge_string a b) b = merge_string a b"
  by (simp add: merge_string_def)

lemma merge_container_again:
  assumes "tidy_container s"
  shows "merge_container ((merge_container x s)\<lparr>c_args := a, c_env := e, c_volumeMounts := m\<rparr>) s = merge_container x s"
    and "merge_container (s\<lparr>c_args := a, c_env := e, c_volumeMounts := m\<rparr>) s = s"
  using assms by (simp_all add: merge_container_def tidy_container_def mergo_settled)

lemma merge_volume_again:
  assumes "wf_raw (vol_source s)"
  shows "merge_volume (merge_volume x s) s = merge_volume x s" and "merge_volume s s = s"
  using assms by (simp_all add: merge_volume_def mergo_settled)

lemma merge_claim_again:
  assumes "wf_raw (pvc_rest (vc_spec s))"
  shows "merge_claim (merge_claim x s) s = merge_claim x s" and "merge_claim s s = s"
  using assms
  by (auto simp: merge_claim_def merge_pvc_spec_def mergo_settled map_add_def fun_eq_iff
      split: option.split)

lemma claim_settled:
  "wf_raw (pvc_rest (vc_spec c)) \<Longrightarrow>
   UpsertVolumeClaim (UpsertVolumeClaim cs c) c = UpsertVolumeClaim cs c"
  unfolding UpsertVolumeClaim_def
  by (induction cs) (auto simp: merge_claim_again merge_claim_def [THEN arg_cong [where f = vc_name]])

text \<open>What is done to the containers after the upserts.\<close>

definition config_argument :: string where
  "config_argument = ''--config='' @ MongoDBConfigDirectoryPath @ ''/'' @ MongoDBCustomConfigFile"

lemma config_flag: "flag_of config_argument = Some ''--config''"
  by (simp add: config_argument_def flag_of_def)

definition rework_container :: "workload_options \<Rightarrow> string \<Rightarrow> container \<Rightarrow> container" where
  "rework_container opts secret c =
     (let db = (c_name c = MongoDBContainerName);
          member = (db \<or> c_name c = ContainerExporterName \<or> c_name c = ReplicationModeDetectorContainerName)
      in c\<lparr>c_args := (if db \<and> wo_configSecret opts \<noteq> None
             then UpsertArgumentList (c_args c)
               [config_argument] []
             else c_args c),
           c_env := (if member then UpsertEnvVars (c_env c) (pod_credentials secret) else c_env c),
           c_volumeMounts := (if db \<and> \<not> wo_isMongos opts
             then UpsertVolumeMount (c_volumeMounts c) data_mounts else c_volumeMounts c)\<rparr>)"

definition rework_init :: "workload_options \<Rightarrow> container \<Rightarrow> container" where
  "rework_init opts c =
     c\<lparr>c_args := c_args c, c_env := c_env c,
       c_volumeMounts := (if c_name c = MongoDBInitInstallContainerName \<and> wo_configSecret opts \<noteq> None
         then UpsertVolumeMount (c_volumeMounts c)
           [mount MongoDBInitialConfigDirectoryName MongoDBInitialConfigDirectoryPath]
         else c_volumeMounts c)\<rparr>"

lemma rework_settled [simp]:
  "c_name (rework_container opts secret c) = c_name c" "c_name (rework_init opts c) = c_name c"
  "rework_container opts secret (rework_container opts secret c) = rework_container opts secret c"
  "rework_init opts (rework_init opts c) = rework_init opts c"
  by (cases c; cases "wo_configSecret opts"; cases "wo_isMongos opts";
      simp add: rework_container_def rework_init_def Let_def one_argument_settled [OF config_flag])+

lemma rework_form:
  "\<exists>a e m. rework_container opts secret c = c\<lparr>c_args := a, c_env := e, c_volumeMounts := m\<rparr>"
  "\<exists>a e m. rework_init opts c = c\<lparr>c_args := a, c_env := e, c_volumeMounts := m\<rparr>"
  unfolding rework_container_def rework_init_def Let_def by blast+

lemma reworkedI:
  assumes "distinct (map c_name news)" and "\<And>c. c \<in> set news \<Longrightarrow> tidy_container c"
    and "\<And>c. \<exists>a e m. P c = c\<lparr>c_args := a, c_env := e, c_volumeMounts := m\<rparr>" and "\<And>c. P (P c) = P c"
  shows "reworked c_name merge_container (upsert_by c_name merge_container) news P"
proof
  fix s x
  show "upsert_by c_name merge_container = upsert_by c_name merge_container" by (rule refl)
  show "distinct (map c_name news)" by (rule assms(1))
  show "P (P x) = P x" by (rule assms(4))
  show "c_name (P x) = c_name x" using assms(3) [of x] by auto
  assume s: "s \<in> set news"
  then show "merge_container (P s) s = s"
    using merge_container_again(2) assms(2,3) by metis
  show "merge_container (P (merge_container x s)) s = merge_container x s"
    using s merge_container_again(1) assms(2,3) by metis
qed

lemma reworked_volumes:
  assumes "distinct (map vol_name news)" and "\<And>v. v \<in> set news \<Longrightarrow> wf_raw (vol_source v)"
  shows "reworked vol_name merge_volume (upsert_by vol_name merge_volume) news (\<lambda>v. v)"
  using assms by unfold_locales (simp_all add: merge_volume_again)

text \<open>The containers and volumes that are upserted.\<close>

definition pod_containers ::
  "op_env \<Rightarrow> mongodb \<Rightarrow> mongodb_version \<Rightarrow> pod_template \<Rightarrow> workload_options \<Rightarrow> container list option" where
  "pod_containers E db v pt opts =
     (let cs = database_container E v pt opts #
            (if mg_replicaSet db \<noteq> None then [detector_container E db v] else [])
      in case mg_monitor db of
           None \<Rightarrow> Some cs
         | Some monitor \<Rightarrow>
             if Vendor (ag_agent monitor) \<noteq> VendorPrometheus then Some cs
             else map_option (\<lambda>ex. cs @ [getExporterContainer db v ex]) (ag_prometheus monitor))"

definition pod_volumes :: "mongodb \<Rightarrow> workload_options \<Rightarrow> volume list" where
  "pod_volumes db opts =
     wo_volumes opts @
     (if wo_isMongos opts then []
      else empty_dir MongoDBConfigDirectoryName #
        (if mg_storageType db = StorageTypeEphemeral then [ephemeral_volume (wo_pvcSpec opts)] else [])) @
     (case wo_configSecret opts of
        None \<Rightarrow> []
      | Some secret \<Rightarrow>
          [\<lparr>vol_name = MongoDBInitialConfigDirectoryName, vol_source = SecretVolumeSource secret\<rparr>])"

definition claims_data :: "mongodb \<Rightarrow> workload_options \<Rightarrow> bool" where
  "claims_data db opts \<longleftrightarrow> \<not> wo_isMongos opts \<and> mg_storageType db \<noteq> StorageTypeEphemeral"

text \<open>The transform in one piece, when nothing that it dereferences is nil.\<close>

definition shaped ::
  "mongodb \<Rightarrow> pod_template \<Rightarrow> workload_options \<Rightarrow> container list \<Rightarrow> string \<Rightarrow> stateful_set \<Rightarrow> stateful_set" where
  "shaped db pt opts news secret sts =
     (let pod = sts_template sts
      in sts\<lparr>
        sts_meta := EnsureOwnerReference ((sts_meta sts)
          \<lparr>om_labels := wo_labels opts, om_annotations := pt_controllerAnnotations pt\<rparr>) (db_owner db),
        sts_replicas := wo_replicas opts, sts_serviceName := wo_gvrSvcName opts,
        sts_selector := wo_selectors opts,
        sts_template := pod\<lparr>pd_labels := wo_selectors opts, pd_annotations := pt_annotations pt,
          pd_initContainers := map (rework_init opts)
            (UpsertContainers (pd_initContainers pod) (pt_initContainers pt @ wo_initContainers opts)),
          pd_containers := map (rework_container opts secret) (UpsertContainers (pd_containers pod) news),
          pd_volumes := UpsertVolume (pd_volumes pod) (pod_volumes db opts),
          pd_scheduling := copy_scheduling (pt_scheduling pt) (pd_scheduling pod),
          pd_serviceAccountName := pt_serviceAccountName pt\<rparr>,
        sts_claims := (if claims_data db opts
          then UpsertVolumeClaim (sts_claims sts) (data_claim (the (wo_pvcSpec opts))) else sts_claims sts),
        sts_updateStrategy := ''OnDelete''\<rparr>)"

lemma on_first_distinct:
  "distinct (map c_name cs) \<Longrightarrow> on_first n f cs = on_containers (\<lambda>k. k = n) f cs"
proof (induction cs)
  case (Cons c cs)
  have "map (\<lambda>d. if c_name d = n then f d else d) cs = cs" if "n \<notin> c_name ` set cs"
    using that by (intro map_idI) auto
  with Cons show ?case by (auto simp: on_containers_def)
qed (simp add: on_containers_def)

lemma UpsertContainers_split:
  "UpsertContainers cs (xs @ ys) = UpsertContainers (UpsertContainers cs xs) ys"
  "UpsertContainers cs [] = cs" "UpsertContainers cs (c # xs) = UpsertContainers (UpsertContainer cs c) xs"
  by (simp_all add: UpsertContainers_def UpsertContainer_def)

lemma UpsertVolume_split:
  "UpsertVolume vs (xs @ ys) = UpsertVolume (UpsertVolume vs xs) ys" "UpsertVolume vs [] = vs"
  "UpsertVolume vs (x # y # xs) = UpsertVolume (UpsertVolume vs [x]) (y # xs)"
  by (simp_all add: UpsertVolume_def)

lemma with_exporter_containers:
  "with_exporter db v (if mg_replicaSet db \<noteq> None
       then UpsertContainer (UpsertContainer cs (database_container E v pt opts)) (detector_container E db v)
       else UpsertContainer cs (database_container E v pt opts)) =
     map_option (UpsertContainers cs) (pod_containers E db v pt opts)"
  by (cases "mg_replicaSet db"; simp add: with_exporter_def pod_containers_def Let_def
      UpsertContainers_split option.map_comp comp_def split: option.split)

lemma pod_containers_db:
  assumes "pod_containers E db v pt opts = Some news"
  shows "MongoDBContainerName \<in> c_name ` set news"
proof -
  have "c_name (database_container E v pt opts) = MongoDBContainerName"
    by (simp add: database_container_def new_container_def)
  then show ?thesis
    using assms by (auto simp: pod_containers_def Let_def split: option.splits if_splits)
qed

lemma names_kept: "map c_name (on_containers p f cs) = map c_name cs" if "\<And>c. c_name (f c) = c_name c"
  using that by (simp add: on_containers_def comp_def if_distrib cong: if_cong)

lemma add_mounts_name [simp]: "c_name (add_mounts ms c) = c_name c"
  by (simp add: add_mounts_def)

definition with_credentials :: "string \<Rightarrow> container list \<Rightarrow> container list" where
  "with_credentials secret cs = on_containers
     (\<lambda>n. n = MongoDBContainerName \<or> n = ContainerExporterName \<or> n = ReplicationModeDetectorContainerName)
     (\<lambda>c. c\<lparr>c_env := UpsertEnvVars (c_env c) (pod_credentials secret)\<rparr>) cs"

lemma rework_containers:
  assumes "distinct (map c_name cs)"
  shows "map (rework_container opts secret) cs =
    (let mounted = (if wo_isMongos opts then with_credentials secret cs
           else on_first MongoDBContainerName (add_mounts data_mounts) (with_credentials secret cs))
     in if wo_configSecret opts = None then mounted
        else on_containers (\<lambda>n. n = MongoDBContainerName)
          (\<lambda>c. c\<lparr>c_args := UpsertArgumentList (c_args c) [config_argument] []\<rparr>) mounted)"
proof -
  have "distinct (map c_name (with_credentials secret cs))"
    using assms by (simp add: with_credentials_def names_kept)
  then show ?thesis
    by (auto simp: on_first_distinct with_credentials_def on_containers_def rework_container_def
        add_mounts_def Let_def)
qed

lemma pod_parts_form:
  "pod_parts E db v pt opts pod = map_option
     (\<lambda>news. pod\<lparr>pd_labels := wo_selectors opts, pd_annotations := pt_annotations pt,
        pd_initContainers := UpsertContainers (pd_initContainers pod) (pt_initContainers pt @ wo_initContainers opts),
        pd_containers := UpsertContainers (pd_containers pod) news,
        pd_volumes := UpsertVolume (pd_volumes pod) (wo_volumes opts)\<rparr>)
     (pod_containers E db v pt opts)"
  using with_exporter_containers [of db v "pd_containers pod" E pt opts]
  by (simp add: pod_parts_def Let_def UpsertContainers_split option.map_comp comp_def)

lemma upsertEnv_form:
  "upsertEnv pod db = map_option
     (\<lambda>secret. pod\<lparr>pd_containers := with_credentials secret (pd_containers pod)\<rparr>) (mg_authSecret db)"
  by (simp add: upsertEnv_def with_credentials_def pod_credentials_def)

lemma rework_init_none: "wo_configSecret opts = None \<Longrightarrow> rework_init opts = (\<lambda>c. c)"
  by (simp add: fun_eq_iff rework_init_def)

lemma finish_form:
  "finish_pod pt opts pod = pod\<lparr>
     pd_initContainers := map (rework_init opts) (pd_initContainers pod),
     pd_containers := (if wo_configSecret opts = None then pd_containers pod
       else on_containers (\<lambda>n. n = MongoDBContainerName)
         (\<lambda>c. c\<lparr>c_args := UpsertArgumentList (c_args c) [config_argument] []\<rparr>) (pd_containers pod)),
     pd_volumes := UpsertVolume (pd_volumes pod) (case wo_configSecret opts of
        None \<Rightarrow> []
      | Some secret \<Rightarrow> [\<lparr>vol_name = MongoDBInitialConfigDirectoryName, vol_source = SecretVolumeSource secret\<rparr>]),
     pd_scheduling := copy_scheduling (pt_scheduling pt) (pd_scheduling pod),
     pd_serviceAccountName := pt_serviceAccountName pt\<rparr>"
  by (auto simp: finish_pod_def upsertConfigSecretVolume_def config_argument_def rework_init_def
      rework_init_none on_containers_def add_mounts_def UpsertVolume_split Let_def split: option.split)

lemma transform_shaped:
  assumes dist: "distinct (map c_name (pd_containers (sts_template sts)))"
    and run: "stateful_set_transform E db v pt opts sts = Some sts'"
  obtains news secret where "pod_containers E db v pt opts = Some news" "mg_authSecret db = Some secret"
    "claims_data db opts \<Longrightarrow> wo_pvcSpec opts \<noteq> None" "sts' = shaped db pt opts news secret sts"
proof -
  from run obtain news secret where news: "pod_containers E db v pt opts = Some news"
    and secret: "mg_authSecret db = Some secret"
    by (auto simp: stateful_set_transform_def pod_parts_form upsertEnv_form split: bind_splits)
  let ?cs = "UpsertContainers (pd_containers (sts_template sts)) news"
  have names: "distinct (map c_name ?cs)"
    using dist by (simp add: UpsertContainers_upserts containers.upserts_keeps_distinct)
  have "set (map c_name (with_credentials secret ?cs)) = set (map c_name ?cs)"
    unfolding with_credentials_def by (subst names_kept) simp_all
  then have here: "MongoDBContainerName \<in> c_name ` set (with_credentials secret ?cs)"
    using pod_containers_db [OF news] by (simp add: UpsertContainers_upserts containers.upserts_key_set)
  show thesis
  proof (rule that [OF news secret])
    show "wo_pvcSpec opts \<noteq> None" if "claims_data db opts"
      using run that here
      by (auto simp: stateful_set_transform_def pod_parts_form upsertEnv_form news secret Let_def
          claims_data_def upsertDataVolume_def)
    show "sts' = shaped db pt opts news secret sts"
      using run here
      by (auto simp: stateful_set_transform_def pod_parts_form upsertEnv_form news secret Let_def
          claims_data_def upsertDataVolume_def finish_form shaped_def rework_containers [OF names]
          mount_data_def pod_volumes_def UpsertVolume_split split: option.splits if_splits)
  qed
qed

text \<open>The parts that the database hands over are well formed, and no name is used twice.\<close>

definition tidy_pod ::
  "op_env \<Rightarrow> mongodb \<Rightarrow> mongodb_version \<Rightarrow> pod_template \<Rightarrow> workload_options \<Rightarrow> bool" where
  "tidy_pod E db v pt opts \<longleftrightarrow>
     distinct (map c_name (pt_initContainers pt @ wo_initContainers opts)) \<and>
     list_all tidy_container (pt_initContainers pt @ wo_initContainers opts) \<and>
     (case pod_containers E db v pt opts of None \<Rightarrow> True | Some cs \<Rightarrow> list_all tidy_container cs) \<and>
     distinct (map vol_name (pod_volumes db opts)) \<and>
     list_all (\<lambda>x. wf_raw (vol_source x)) (pod_volumes db opts) \<and>
     (case wo_pvcSpec opts of None \<Rightarrow> True | Some pvc \<Rightarrow> wf_raw (pvc_rest pvc))"

lemma container_literals [simp]:
  "c_name (database_container E v pt opts) = MongoDBContainerName"
  "c_name (detector_container E db v) = ReplicationModeDetectorContainerName"
  "c_name (getExporterContainer db v ex) = ContainerExporterName"
  by (simp_all add: database_container_def detector_container_def getExporterContainer_def
      new_container_def Let_def)

lemma pod_containers_distinct: "pod_containers E db v pt opts = Some news \<Longrightarrow> distinct (map c_name news)"
  by (auto simp: pod_containers_def Let_def container_name_defs split: option.splits if_splits)

lemma copy_scheduling_settled [simp]:
  "copy_scheduling new (copy_scheduling new old) = copy_scheduling new old"
  by (simp add: copy_scheduling_def)

lemma shaped_settled:
  assumes news: "pod_containers E db v pt opts = Some news" and tidy: "tidy_pod E db v pt opts"
    and pvc: "claims_data db opts \<Longrightarrow> wo_pvcSpec opts \<noteq> None"
  shows "shaped db pt opts news secret (shaped db pt opts news secret sts) = shaped db pt opts news secret sts"
proof -
  let ?inits = "pt_initContainers pt @ wo_initContainers opts"
  have "reworked c_name merge_container (upsert_by c_name merge_container) news (rework_container opts secret)"
    using tidy news by (intro reworkedI pod_containers_distinct rework_form rework_settled)
      (auto simp: tidy_pod_def list_all_iff)
  note members = reworked.reworked_settled [OF this, folded UpsertContainers_upserts]
  have "reworked c_name merge_container (upsert_by c_name merge_container) ?inits (rework_init opts)"
    using tidy by (intro reworkedI rework_form rework_settled) (auto simp: tidy_pod_def list_all_iff)
  note inits = reworked.reworked_settled [OF this, folded UpsertContainers_upserts]
  have "reworked vol_name merge_volume (upsert_by vol_name merge_volume) (pod_volumes db opts) (\<lambda>v. v)"
    using tidy by (intro reworked_volumes) (auto simp: tidy_pod_def list_all_iff)
  note vols = reworked.reworked_settled [OF this, folded UpsertVolume_upserts, simplified]
  have claims: "UpsertVolumeClaim (UpsertVolumeClaim cs (data_claim (the (wo_pvcSpec opts))))
      (data_claim (the (wo_pvcSpec opts))) = UpsertVolumeClaim cs (data_claim (the (wo_pvcSpec opts)))"
    if "claims_data db opts" for cs
    using that pvc tidy
    by (intro claim_settled) (auto simp: tidy_pod_def data_claim_def default_access_modes_def split: option.splits)
  show ?thesis
    by (simp add: shaped_def Let_def members inits vols claims EnsureOwnerReference_labels)
qed

lemma transform_defined:
  assumes "pod_containers E db v pt opts = Some news" and "mg_authSecret db = Some secret"
    and "claims_data db opts \<Longrightarrow> wo_pvcSpec opts \<noteq> None"
  shows "\<exists>y. stateful_set_transform E db v pt opts x = Some y"
  using assms
  by (auto simp: stateful_set_transform_def pod_parts_form upsertEnv_form claims_data_def
      upsertDataVolume_def Let_def)

lemma transform_settled:
  assumes "distinct (map c_name (pd_containers (sts_template sts)))" and "tidy_pod E db v pt opts"
    and "stateful_set_transform E db v pt opts sts = Some sts'"
  shows "stateful_set_transform E db v pt opts sts' = Some sts'"
proof -
  obtain news secret where news: "pod_containers E db v pt opts = Some news" "mg_authSecret db = Some secret"
    and pvc: "claims_data db opts \<Longrightarrow> wo_pvcSpec opts \<noteq> None" and sts': "sts' = shaped db pt opts news secret sts"
    by (rule transform_shaped [OF assms(1,3)]) blast
  have dist: "distinct (map c_name (pd_containers (sts_template sts')))"
    using assms(1) unfolding sts'
    by (simp add: shaped_def Let_def comp_def UpsertContainers_upserts containers.upserts_keeps_distinct)
  obtain y where y: "stateful_set_transform E db v pt opts sts' = Some y"
    using transform_defined [OF news pvc] by blast
  then obtain news' secret' where "pod_containers E db v pt opts = Some news'" "mg_authSecret db = Some secret'"
    "y = shaped db pt opts news' secret' sts'"
    by (rule transform_shaped [OF dist])
  with news have "y = shaped db pt opts news secret sts'" by simp
  with y sts' shaped_settled [OF news(1) assms(2) pvc] show ?thesis by simp
qed

section \<open>What the database hands over\<close>

lemma put_field_keys: "fst ` set (put_field k v fs) = insert k (fst ` set fs)"
proof (induction fs)
  case (Cons x fs)
  then show ?case by (cases x; cases "fst x = k") (simp_all add: insert_commute)
qed simp

lemma put_field_in: "x \<in> set (put_field k v fs) \<Longrightarrow> x = (k, v) \<or> x \<in> set fs"
  by (induction fs) (auto split: if_splits)

lemma put_field_distinct: "distinct (map fst fs) \<Longrightarrow> distinct (map fst (put_field k v fs))"
  by (induction fs) (auto simp: put_field_keys)

lemma wf_put_field:
  "wf_raw (Node fs) \<Longrightarrow> wf_raw v \<Longrightarrow> wf_raw (Node (put_field k v fs))"
proof -
  assume fs: "wf_raw (Node fs)" and v: "wf_raw v"
  have "wf_raw (snd x)" if "x \<in> set (put_field k v fs)" for x
    using put_field_in [OF that] fs v by auto
  moreover have "distinct (map fst (put_field k v fs))"
    using fs by (intro put_field_distinct) simp
  ultimately show ?thesis by simp
qed

lemma wf_field: "wf_raw (Node ds) \<Longrightarrow> map_of ds k = Some d \<Longrightarrow> wf_raw d"
proof -
  assume ds: "wf_raw (Node ds)" and "map_of ds k = Some d"
  then have "d \<in> set (map snd ds)" by (metis map_of_SomeD image_eqI list.set_map snd_conv)
  with ds show ?thesis unfolding wf_raw.simps by blast
qed

lemma wf_mergo:
  "wf_raw d \<Longrightarrow> wf_raw s \<Longrightarrow> wf_raw (mergo d s)"
  "wf_raw (Node ds) \<Longrightarrow> \<forall>x \<in> set (map snd ss). wf_raw x \<Longrightarrow> wf_raw (Node (mergo_fields ds ss))"
proof (induction d s and ds ss rule: mergo_mergo_fields.induct)
  case (5 ds k s ss)
  then have rest: "\<forall>x \<in> set (map snd ss). wf_raw x" and "wf_raw s" by simp_all
  show ?case
  proof (cases "map_of ds k")
    case None
    have "wf_raw (Node (put_field k s ds))" using 5(3) \<open>wf_raw s\<close> by (rule wf_put_field)
    with 5(2) rest None show ?thesis by (simp del: wf_raw.simps)
  next
    case (Some d)
    have "wf_raw (mergo d s)" using 5(1) [OF Some] wf_field [OF 5(3) Some] \<open>wf_raw s\<close> by blast
    with 5(3) have "wf_raw (Node (put_field k (mergo d s) ds))" by (rule wf_put_field)
    with 5(2) rest Some show ?thesis by (simp del: wf_raw.simps)
  qed
qed auto

end
