(* ===== verification/OpWorkloadPass.thy ===== *)
theory OpWorkloadPass
  imports OpWorkloadSettles
begin

text \<open>
  A second pass over the StatefulSet of an unsharded database. The parts that the code itself puts
  together are well formed; with a well-formed resource of the user the pass therefore finds the
  StatefulSet of an earlier one unchanged, and only reads.
\<close>

section \<open>The parts the code puts together\<close>

lemma upsert_by_all:
  assumes "P new" and "\<And>x. P x \<Longrightarrow> P (merge x new)"
  shows "\<forall>x \<in> set xs. P x \<Longrightarrow> \<forall>x \<in> set (upsert_by key merge new xs). P x"
  using assms by (induction xs) auto

lemma upserted_all:
  assumes merged: "\<And>x y. P x \<Longrightarrow> P y \<Longrightarrow> P (merge x y)"
    and "\<forall>x \<in> set xs. P x" and "\<forall>y \<in> set nv. P (g y)"
  shows "\<forall>x \<in> set (fold (\<lambda>y. upsert_by key merge (g y)) nv xs). P x"
  using assms(2,3)
proof (induction nv arbitrary: xs)
  case (Cons y nv)
  have "\<forall>x \<in> set (upsert_by key merge (g y) xs). P x"
    using Cons.prems by (intro upsert_by_all merged) auto
  with Cons show ?case by simp
qed simp

lemma default_field_ref_twice [simp]: "default_field_ref (default_field_ref e) = default_field_ref e"
  by (auto simp: default_field_ref_def split: option.split env_source.split)

lemma defaulted_iff: "map f xs = xs \<longleftrightarrow> (\<forall>x \<in> set xs. f x = x)"
  by (induction xs) auto

lemma UpsertEnvVars_defaulted:
  "map default_field_ref vs = vs \<Longrightarrow> map default_field_ref (UpsertEnvVars vs nv) = UpsertEnvVars vs nv"
  unfolding defaulted_iff UpsertEnvVars_def by (rule upserted_all) simp_all

text \<open>The names of the volumes that the options may hold; the others are added by the transform.\<close>

definition option_volumes :: "string set" where
  "option_volumes =
     {MongoDBWorkDirectoryName, MongoDBInitScriptDirectoryName, MongoDBCertDirectoryName,
      MongoDBClientCertDirectoryName, MongoDBServerCertDirectoryName, MongoDBInitialKeyDirectoryName,
      ''initial-script''}"

definition tidy_volume :: "volume \<Rightarrow> bool" where
  "tidy_volume x \<longleftrightarrow> wf_raw (vol_source x) \<and> vol_name x \<in> option_volumes"

definition tidy_volumes :: "volume list \<Rightarrow> bool" where
  "tidy_volumes vs \<longleftrightarrow> distinct (map vol_name vs) \<and> (\<forall>x \<in> set vs. tidy_volume x)"

lemma merge_volume_tidy: "tidy_volume x \<Longrightarrow> tidy_volume y \<Longrightarrow> tidy_volume (merge_volume x y)"
  by (simp add: tidy_volume_def merge_volume_def merge_string_def wf_mergo)

lemma UpsertVolume_tidy:
  assumes "tidy_volumes vs" and "\<forall>x \<in> set nv. tidy_volume x"
  shows "tidy_volumes (UpsertVolume vs nv)"
proof -
  have "\<forall>x \<in> set (UpsertVolume vs nv). tidy_volume x"
    unfolding UpsertVolume_def using assms
    by (intro upserted_all [where g = "\<lambda>x. x"] merge_volume_tidy) (simp_all add: tidy_volumes_def)
  then show ?thesis
    using assms(1) by (simp add: tidy_volumes_def UpsertVolume_upserts volumes.upserts_keeps_distinct)
qed

lemma literal_volumes [simp]:
  "tidy_volume (secret_volume n s) \<longleftrightarrow> n \<in> option_volumes"
  "tidy_volume (empty_dir n) \<longleftrightarrow> n \<in> option_volumes"
  "tidy_volume (script_volume source) \<longleftrightarrow> wf_raw source"
  by (simp_all add: tidy_volume_def secret_volume_def empty_dir_def script_volume_def option_volumes_def
      EmptyDirVolumeSource_def)

lemma option_names [simp]:
  "MongoDBWorkDirectoryName \<in> option_volumes" "MongoDBInitScriptDirectoryName \<in> option_volumes"
  "MongoDBCertDirectoryName \<in> option_volumes" "MongoDBClientCertDirectoryName \<in> option_volumes"
  "MongoDBServerCertDirectoryName \<in> option_volumes" "MongoDBInitialKeyDirectoryName \<in> option_volumes"
  by (simp_all add: option_volumes_def)

lemma with_key_file_tidy: "tidy_volumes vs \<Longrightarrow> tidy_volumes (with_key_file db vs)"
  by (simp add: with_key_file_def UpsertVolume_tidy split: option.split)

lemma with_script_tidy:
  "tidy_volumes vs \<Longrightarrow> (\<And>s. script = Some s \<Longrightarrow> wf_raw s) \<Longrightarrow> tidy_volumes (with_script_volume script vs)"
  by (simp add: with_script_volume_def UpsertVolume_tidy split: option.split)

lemma installInitContainer_tidy:
  assumes "installInitContainer db v (Some pt) name = Some (c, vs)" and "wf_raw (pt_resources pt)"
  shows "tidy_container c" and "tidy_volumes vs"
proof -
  have start: "tidy_container (install_container db v (pt_resources pt))" "tidy_volumes install_volumes"
    using assms(2) by (simp_all add: tidy_container_def install_container_def new_container_def absent_def
        env_value_def default_field_ref_def tidy_volumes_def install_volumes_def option_volumes_def volume_name_defs)
  have mounts: "tidy_container (add_mounts ms c) = tidy_container c" for ms c
    by (simp add: tidy_container_def add_mounts_def)
  obtain c' vs' where certs: "with_certificates db name
      (install_container db v (pt_resources pt), install_volumes) = Some (c', vs')"
    and c: "tidy_container c = tidy_container c'" and vs: "vs = with_key_file db vs'"
    using assms(1) unfolding installInitContainer_def map_option_eq_Some
    by (auto simp: mounts split: if_splits)
  from certs start have "tidy_container c' \<and> tidy_volumes vs'"
    by (auto simp: with_certificates_def mounts intro!: UpsertVolume_tidy split: option.splits)
  with c vs show "tidy_container c" "tidy_volumes vs" by (simp_all add: with_key_file_tidy)
qed

section \<open>What the user hands over\<close>

text \<open>
  The user's parts are well formed: the names of the init containers are distinct and not that of
  the operator's own one, no struct repeats a field, and variables from fields name their version.
\<close>

definition tidy_db :: "mongodb \<Rightarrow> pod_template \<Rightarrow> bool" where
  "tidy_db db pt \<longleftrightarrow>
     distinct (MongoDBInitInstallContainerName # map c_name (pt_initContainers pt)) \<and>
     list_all tidy_container (pt_initContainers pt) \<and>
     list_all wf_raw
       [pt_resources pt, pt_livenessProbe pt, pt_readinessProbe pt, pt_lifecycle pt,
        pt_containerSecurityContext pt, mg_coordinatorResources db, mg_coordinatorSecurityContext db] \<and>
     (case init_script db of None \<Rightarrow> True | Some source \<Rightarrow> wf_raw source) \<and>
     (case mg_storage db of None \<Rightarrow> True | Some pvc \<Rightarrow> wf_raw (pvc_rest pvc)) \<and>
     (case Option.bind (mg_monitor db) ag_prometheus of
        None \<Rightarrow> True
      | Some ex \<Rightarrow> map default_field_ref (ex_env ex) = ex_env ex \<and>
          wf_raw (ex_resources ex) \<and> wf_raw (ex_securityContext ex))"

lemma wf_literals [simp]: "wf_raw absent" "wf_raw (container_port n p)" "wf_raw (peer_finder script service)"
  "wf_raw (SecretVolumeSource secret)"
  by (simp_all add: absent_def container_port_def raw_list_def peer_finder_def exec_post_start_def
      SecretVolumeSource_def)

lemma pod_containers_tidy:
  assumes "tidy_db db pt" and "map default_field_ref (wo_envList opts) = wo_envList opts"
    and "pod_containers E db v pt opts = Some cs"
  shows "list_all tidy_container cs"
proof -
  have "tidy_container (database_container E v pt opts)"
    using assms(1,2) by (simp add: tidy_container_def database_container_def new_container_def tidy_db_def
        set_probe_def UpsertEnvVars_defaulted)
  moreover have "tidy_container (detector_container E db v)"
    using assms(1) by (simp add: tidy_container_def detector_container_def new_container_def tidy_db_def)
  moreover have "tidy_container (getExporterContainer db v ex)"
    if "mg_monitor db = Some m" "ag_prometheus m = Some ex" for m ex
    using assms(1) that by (simp add: tidy_container_def getExporterContainer_def new_container_def tidy_db_def
        Let_def)
  ultimately show ?thesis
    using assms(3) by (auto simp: pod_containers_def Let_def split: option.splits if_splits)
qed

lemma pod_volumes_tidy:
  assumes "tidy_volumes (wo_volumes opts)"
  shows "distinct (map vol_name (pod_volumes db opts))"
    and "list_all (\<lambda>x. wf_raw (vol_source x)) (pod_volumes db opts)"
proof -
  have "{MongoDBConfigDirectoryName, MongoDBDataDirectoryName, MongoDBInitialConfigDirectoryName} \<inter>
      option_volumes = {}"
    by (simp add: option_volumes_def volume_name_defs)
  moreover have "distinct [MongoDBConfigDirectoryName, MongoDBDataDirectoryName, MongoDBInitialConfigDirectoryName]"
    by (simp add: volume_name_defs)
  moreover have "vol_name ` set (wo_volumes opts) \<subseteq> option_volumes"
    using assms by (auto simp: tidy_volumes_def tidy_volume_def)
  ultimately have "x \<notin> vol_name ` set (wo_volumes opts)" "distinct [MongoDBConfigDirectoryName, MongoDBDataDirectoryName, MongoDBInitialConfigDirectoryName]"
    if "x \<in> {MongoDBConfigDirectoryName, MongoDBDataDirectoryName, MongoDBInitialConfigDirectoryName}" for x
    using that by auto
  then show "distinct (map vol_name (pod_volumes db opts))"
    using assms by (auto simp: pod_volumes_def tidy_volumes_def ephemeral_volume_def split: option.split)
  show "list_all (\<lambda>x. wf_raw (vol_source x)) (pod_volumes db opts)"
    using assms by (auto simp: pod_volumes_def tidy_volumes_def tidy_volume_def list_all_iff
        ephemeral_volume_def empty_dir_def EmptyDirVolumeSource_def split: option.split)
qed

lemma tidy_podI:
  assumes db: "tidy_db db pt" and "tidy_container c" "c_name c = MongoDBInitInstallContainerName"
    and "wo_initContainers opts = [c]" "tidy_volumes (wo_volumes opts)" "wo_pvcSpec opts = mg_storage db"
    and env: "map default_field_ref (wo_envList opts) = wo_envList opts"
  shows "tidy_pod E db v pt opts"
  using pod_containers_tidy [OF db env] assms
  by (auto simp: tidy_pod_def pod_volumes_tidy tidy_db_def split: option.split)

section \<open>The options of an unsharded database\<close>

text \<open>What \<open>ensureNonTopology\<close> hands to \<open>ensureStatefulSet\<close>, if it gets that far.\<close>

definition workload_plan :: "op_env \<Rightarrow> mongodb \<Rightarrow> mongodb_version \<Rightarrow> bool \<Rightarrow> workload_options option" where
  "workload_plan E db v ipv6 =
     (case (mg_podTemplate db, getTLSArgs E db v, GoverningServiceName (OffshootName db)) of
        (Some pt, Inr args, Some service) \<Rightarrow>
          Option.bind (installInitContainer db v (Some pt) '''') (\<lambda>(c, vs).
            let alone = standalone_options db ipv6 args c vs pt service
            in if mg_replicaSet db = None then Some alone
               else map_option (\<lambda>secret. replica_options db secret service alone) (mg_authSecret db))
      | _ \<Rightarrow> None)"

definition planned_db :: "mongodb \<Rightarrow> workload_options \<Rightarrow> mongodb" where
  "planned_db db opts = db\<lparr>mg_podTemplate := wo_podTemplate opts\<rparr>"

lemma member_env_defaulted: "map default_field_ref (member_env db repSet secret) = member_env db repSet secret"
  by (simp add: member_env_def env_field_def env_value_def env_secret_def root_credentials_def
      default_field_ref_def)

lemma with_cert_mount_simps [simp]:
  "wo_initContainers (with_cert_mount db opts) = wo_initContainers opts"
  "wo_volumes (with_cert_mount db opts) = wo_volumes opts"
  "wo_pvcSpec (with_cert_mount db opts) = wo_pvcSpec opts"
  "wo_envList (with_cert_mount db opts) = wo_envList opts"
  "wo_labels (with_cert_mount db opts) = wo_labels opts"
  by (simp_all add: with_cert_mount_def)

lemma tidy_db_variants:
  "tidy_db db pt \<Longrightarrow> tidy_db db (pt\<lparr>pt_lifecycle := peer_finder script service\<rparr>)"
  "tidy_db (db\<lparr>mg_podTemplate := t\<rparr>) pt = tidy_db db pt"
  by (simp_all add: tidy_db_def init_script_def)

lemma plan_tidy:
  assumes plan: "workload_plan E db v ipv6 = Some opts" and pt: "mg_podTemplate db = Some pt"
    and tidy: "tidy_db db pt" and unsharded: "mg_shardTopology db = None"
  obtains pt' where "wo_podTemplate opts = Some pt'"
    "tidy_pod E (planned_db db opts) v pt' (with_cert_mount (planned_db db opts) opts)"
    "wo_labels opts = OffshootLabels db" "wo_isMongos opts = False" "wo_pvcSpec opts = mg_storage db"
proof -
  obtain args service c vs where init: "installInitContainer db v (Some pt) '''' = Some (c, vs)"
    and opts: "let alone = standalone_options db ipv6 args c vs pt service
      in (if mg_replicaSet db = None then Some alone
          else map_option (\<lambda>secret. replica_options db secret service alone) (mg_authSecret db)) = Some opts"
    using plan pt by (auto simp: workload_plan_def Let_def split: option.splits sum.splits bind_splits)
  have resources: "wf_raw (pt_resources pt)" and script: "\<And>s. init_script db = Some s \<Longrightarrow> wf_raw s"
    using tidy by (simp_all add: tidy_db_def)
  note c = installInitContainer_tidy [OF init resources] installInitContainer_backed(1) [OF init]
  have start: "tidy_volumes []" by (simp add: tidy_volumes_def)
  let ?alone = "standalone_options db ipv6 args c vs pt service"
  have env: "map default_field_ref (wo_envList ?alone) = wo_envList ?alone"
    by (simp add: standalone_options_def UpsertEnvVars_defaulted env_value_def default_field_ref_def)
  have volumes: "tidy_volumes (wo_volumes ?alone)"
    using c(2) start script
    by (simp add: standalone_options_def with_script_tidy UpsertVolume_tidy tidy_volumes_def [of vs])
  show thesis
  proof (cases "mg_replicaSet db")
    case None
    with opts have "opts = ?alone" by simp
    with c env volumes tidy that [of pt] show thesis
      by (simp add: standalone_options_def planned_db_def tidy_podI [of _ _ c] tidy_db_variants)
  next
    case (Some rs)
    with opts obtain secret where opts: "opts = replica_options db secret service ?alone" by auto
    have "tidy_volumes (wo_volumes opts)"
      using volumes script
      by (simp add: opts replica_options_def member_script_def unsharded with_script_tidy with_key_file_tidy)
    moreover have "map default_field_ref (wo_envList opts) = wo_envList opts"
      by (simp add: opts replica_options_def UpsertEnvVars_defaulted member_env_defaulted)
    ultimately show thesis
      using c tidy that [of "pt\<lparr>pt_lifecycle := peer_finder ''replicaset.sh'' service\<rparr>"]
      by (simp add: opts replica_options_def standalone_options_def planned_db_def tidy_podI [of _ _ c]
          tidy_db_variants)
  qed
qed

section \<open>A second pass\<close>

text \<open>
  \<open>keeps_workload\<close>: whenever it is asked, the API server answers the StatefulSet that a pass with
  these options has made of some other one, and the patch between equal StatefulSets is empty.
\<close>

definition keeps_workload :: "op_env \<Rightarrow> mongodb \<Rightarrow> mongodb_version \<Rightarrow> workload_options \<Rightarrow> bool" where
  "keeps_workload E db v opts \<longleftrightarrow>
     (\<forall>h. \<exists>x x' pt. distinct (map c_name (pd_containers (sts_template x))) \<and>
        wo_podTemplate opts = Some pt \<and>
        stateful_set_transform E db v pt (with_cert_mount db opts) x = Some x' \<and>
        api_get (o_statefulSets E) h (mg_namespace db, wo_stsName opts) = Inr x') \<and>
     (\<forall>x. api_same (o_statefulSets E) x x)"

lemma label_keys:
  "NameLabelKey \<noteq> InstanceLabelKey" "NameLabelKey \<noteq> ManagedByLabelKey" "NameLabelKey \<noteq> ComponentLabelKey"
  "InstanceLabelKey \<noteq> ManagedByLabelKey" "InstanceLabelKey \<noteq> ComponentLabelKey"
  by (simp_all add: label_key_defs)

lemma own_labels [simp]:
  "OffshootLabels db NameLabelKey = Some ResourceFQN" "OffshootLabels db InstanceLabelKey = Some (mg_name db)"
  using label_keys by (simp_all add: OffshootLabels_def FilterKeys_def OffshootSelectors_def map_add_def
      label_propagates_def ResourceFQN_def)

lemma kept_set:
  assumes "keeps_workload E db v opts" and "wo_podTemplate opts = Some pt"
    and tidy: "tidy_pod E db v pt (with_cert_mount db opts)"
  obtains x where "api_get (o_statefulSets E) h (mg_namespace db, wo_stsName opts) = Inr x"
    "om_labels (sts_meta x) = wo_labels opts"
    "stateful_set_transform E db v pt (with_cert_mount db opts) x = Some x"
    "api_same (o_statefulSets E) x x"
proof -
  let ?f = "stateful_set_transform E db v pt (with_cert_mount db opts)"
  obtain x0 x where x0: "distinct (map c_name (pd_containers (sts_template x0)))" and run: "?f x0 = Some x"
    and get: "api_get (o_statefulSets E) h (mg_namespace db, wo_stsName opts) = Inr x"
    using assms(1,2) unfolding keeps_workload_def by (metis option.inject)
  have "om_labels (sts_meta x) = wo_labels opts"
    by (rule transform_shaped [OF x0 run]) (simp add: shaped_def Let_def EnsureOwnerReference_labels)
  with get transform_settled [OF x0 tidy run] assms(1) that show thesis
    by (simp add: keeps_workload_def)
qed

text \<open>What a pass over a settled workload asks the API server.\<close>

definition workload_reads :: "mongodb \<Rightarrow> workload_options \<Rightarrow> op_call list" where
  "workload_reads db opts =
     (let key = (mg_namespace db, wo_stsName opts)
      in [OGet OStatefulSet key, OGetVersion (mg_version db), OGet OStatefulSet key])"

lemma ensureStatefulSet_settled:
  assumes kept: "keeps_workload E db v opts" and pt: "wo_podTemplate opts = Some pt"
    and tidy: "tidy_pod E db v pt (with_cert_mount db opts)"
    and labels: "wo_labels opts = OffshootLabels db"
    and version: "\<And>h. o_getVersion E h (mg_version db) = Inr v"
    and budget: "\<And>h x. o_createPDB E h x = Inr ()"
    and db: "odb s = db"
  shows "\<exists>x s1. ensureStatefulSet E setPvc opts s = (Done (Inr (x, VerbUnchanged)), s1) \<and>
    calls s1 = calls s @ workload_reads db opts @ [OCreatePDB (key_of (sts_meta x))] \<and>
    (odb s1 = db \<or> (\<exists>pvc. odb s1 = setPvc pvc db))"
proof -
  let ?h1 = "calls s" and ?h2 = "calls s @ [OGet OStatefulSet (mg_namespace db, wo_stsName opts), OGetVersion (mg_version db)]"
  obtain x1 where x1: "api_get (o_statefulSets E) ?h1 (mg_namespace db, wo_stsName opts) = Inr x1"
    "om_labels (sts_meta x1) = OffshootLabels db"
    using kept_set [OF kept pt tidy] labels by metis
  obtain x2 where x2: "api_get (o_statefulSets E) ?h2 (mg_namespace db, wo_stsName opts) = Inr x2"
    "stateful_set_transform E db v pt (with_cert_mount db opts) x2 = Some x2"
    "api_same (o_statefulSets E) x2 x2"
    using kept_set [OF kept pt tidy] by metis
  have check: "checkStatefulSet E (wo_stsName opts) s =
      (Done (Inr ()), s\<lparr>calls := calls s @ [OGet OStatefulSet (mg_namespace db, wo_stsName opts)]\<rparr>)"
    using x1 by (simp add: checkStatefulSet_def gets_def bnd_def perform_def ret_def db lookup_or_empty_def Let_def)
  show ?thesis
    using x2 by (simp add: ensureStatefulSet_def check getVersion_def createOrPatchPartial_def gets_def bnd_def
        bndE_def perform_def deref_def ret_def update_def db pt version budget workload_reads_def Let_def
        split: option.split) blast
qed

lemma storage_kept: "\<exists>p st. db\<lparr>mg_podTemplate := q\<rparr> = db\<lparr>mg_podTemplate := p, mg_storage := st\<rparr>"
  by (rule exI [of _ q], rule exI [of _ "mg_storage db"]) simp

lemma workload_rests:
  assumes "workload_plan E db v ipv6 = Some opts" and "mg_podTemplate db = Some pt" and "tidy_db db pt"
    and "mg_shardTopology db = None" and "keeps_workload E (planned_db db opts) v opts"
    and "\<forall>h. o_IPv6 E h = Inr ipv6 \<and> o_getVersion E h (mg_version db) = Inr v"
    and "\<forall>h x. o_createPDB E h x = Inr ()" and "odb s = db"
  shows "\<exists>key t. Reconciler_Reconcile E s = (Done (Inr VerbUnchanged), t) \<and>
    calls t = calls s @ OGetVersion (mg_version db) # workload_reads db opts @ [OCreatePDB key] \<and>
    (\<exists>p st. odb t = db\<lparr>mg_podTemplate := p, mg_storage := st\<rparr>)"
proof -
  obtain pt' where plan: "wo_podTemplate opts = Some pt'" "wo_labels opts = OffshootLabels db"
    "tidy_pod E (planned_db db opts) v pt' (with_cert_mount (planned_db db opts) opts)"
    using plan_tidy [OF assms(1-4)] by metis
  obtain args service c vs where parts: "getTLSArgs E db v = Inr args"
    "GoverningServiceName (OffshootName db) = Some service"
    "installInitContainer db v (Some pt) '''' = Some (c, vs)"
    and opts: "(if mg_replicaSet db = None then Some (standalone_options db ipv6 args c vs pt service)
      else map_option (\<lambda>secret. replica_options db secret service
        (standalone_options db ipv6 args c vs pt service)) (mg_authSecret db)) = Some opts"
    using assms(1,2) by (auto simp: workload_plan_def Let_def split: option.splits sum.splits bind_splits)
  let ?s = "s\<lparr>calls := calls s @ [OGetVersion (mg_version db)], odb := planned_db db opts\<rparr>"
  have "OffshootLabels (planned_db db opts) = OffshootLabels db" "mg_version (planned_db db opts) = mg_version db"
    "workload_reads (planned_db db opts) opts = workload_reads db opts"
    by (simp_all add: planned_db_def OffshootLabels_def OffshootSelectors_def workload_reads_def)
  then obtain x t where run: "ensureStatefulSet E set_storage opts ?s = (Done (Inr (x, VerbUnchanged)), t)"
    and reads: "calls t = calls ?s @ workload_reads db opts @ [OCreatePDB (key_of (sts_meta x))]"
    and kept: "odb t = planned_db db opts \<or> (\<exists>pvc. odb t = set_storage pvc (planned_db db opts))"
    using ensureStatefulSet_settled [OF assms(5) plan(1,3), of ?s set_storage] plan(2) assms(6,7) by auto
  have "\<exists>p st. odb t = db\<lparr>mg_podTemplate := p, mg_storage := st\<rparr>"
    using kept unfolding planned_db_def set_storage_def by (metis storage_kept)
  moreover have "Reconciler_Reconcile E s = (Done (Inr VerbUnchanged), t)"
    using opts assms(2,4,6,8) parts run
    by (cases "mg_replicaSet db") (auto simp: Reconciler_Reconcile_def ensureNonTopology_def getVersion_def
        gets_def bnd_def bndE_def perform_def deref_def ret_def update_def planned_db_def Let_def)
  ultimately show ?thesis
    using reads by (intro exI [of _ "key_of (sts_meta x)"] exI [of _ t]) simp
qed

text \<open>C24. The StatefulSet of an unsharded database settles: once the cluster holds what a pass has
  made of it, the next pass over the database, standalone or replica set, reports it unchanged,
  after reading the version and the StatefulSet twice each and asking for the disruption budget;
  it neither creates nor patches nor announces anything. No upsert of containers, init containers,
  variables, arguments, mounts, volumes or claims undoes or repeats what an earlier one did.\<close>
theorem workload_settles:
  assumes "workload_plan E db v ipv6 = Some opts" and "mg_podTemplate db = Some pt" and "tidy_db db pt"
    and "mg_shardTopology db = None" and "keeps_workload E (planned_db db opts) v opts"
    and "\<forall>h. o_IPv6 E h = Inr ipv6 \<and> o_getVersion E h (mg_version db) = Inr v"
    and "\<forall>h x. o_createPDB E h x = Inr ()" and "odb s = db"
  shows "\<exists>key t. Reconciler_Reconcile E s = (Done (Inr VerbUnchanged), t) \<and>
    calls t = calls s @ OGetVersion (mg_version db) # workload_reads db opts @ [OCreatePDB key]"
  using workload_rests [OF assms] by blast

text \<open>The example database: the first pass creates the StatefulSet, the second one only reads it.\<close>

lemma used_env:
  "o_parse E' = o_parse E \<Longrightarrow> getTLSArgs E' = getTLSArgs E"
  "o_isZero E' = o_isZero E \<Longrightarrow> o_loggerFlags E' = o_loggerFlags E \<Longrightarrow>
     stateful_set_transform E' = stateful_set_transform E"
proof -
  assume same: "o_isZero E' = o_isZero E" "o_loggerFlags E' = o_loggerFlags E"
  then have "set_probe E' = set_probe E" by (simp add: fun_eq_iff set_probe_def)
  then have "database_container E' = database_container E" "detector_container E' = detector_container E"
    using same(2) by (simp_all add: fun_eq_iff database_container_def detector_container_def)
  then have "pod_parts E' = pod_parts E" by (intro ext) (simp only: pod_parts_def)
  then show "stateful_set_transform E' = stateful_set_transform E"
    by (intro ext) (simp add: stateful_set_transform_def)
qed (simp add: fun_eq_iff getTLSArgs_def)

lemma other_sets [simp]:
  "getTLSArgs (E\<lparr>o_statefulSets := A\<rparr>) = getTLSArgs E"
  "stateful_set_transform (E\<lparr>o_statefulSets := A\<rparr>) = stateful_set_transform E"
  by (rule used_env; simp)+

theorem workload_settles_witness:
  "\<exists>x key t. OCreate ''demo'' (StatefulSetObj x) \<in>
       set (calls (snd (Reconciler_Reconcile demo_op_env (op_start stored_demo_db)))) \<and>
     Reconciler_Reconcile (demo_op_env\<lparr>o_statefulSets := kept_api StatefulSetObj (\<lambda>_. x)\<rparr>)
       (op_start stored_demo_db) = (Done (Inr VerbUnchanged), t) \<and>
     calls t = [OGetVersion ''4.2.3'', OGet OStatefulSet (''demo'', ''mg''), OGetVersion ''4.2.3'',
       OGet OStatefulSet (''demo'', ''mg''), OCreatePDB key]"
proof -
  obtain c vs args service x where parts: "getTLSArgs demo_op_env stored_demo_db demo_op_version = Inr args"
    "GoverningServiceName (OffshootName stored_demo_db) = Some service"
    "installInitContainer stored_demo_db demo_op_version (Some empty_template) '''' = Some (c, vs)"
    and made: "let db = stored_demo_db\<lparr>mg_podTemplate := Some empty_template\<rparr>;
         opts = standalone_options stored_demo_db False args c vs empty_template service
     in stateful_set_transform demo_op_env db demo_op_version empty_template (with_cert_mount db opts)
          (new_stateful_set (''demo'', wo_stsName opts)) = Some x"
    and first: "OCreate ''demo'' (StatefulSetObj x) \<in>
       set (calls (snd (Reconciler_Reconcile demo_op_env (op_start stored_demo_db))))"
    by (rule stored_demo_parts)
  let ?opts = "standalone_options stored_demo_db False args c vs empty_template service"
    and ?E = "demo_op_env\<lparr>o_statefulSets := kept_api StatefulSetObj (\<lambda>_. x)\<rparr>"
  have db: "mg_podTemplate stored_demo_db = Some empty_template" "mg_replicaSet stored_demo_db = None"
    "mg_shardTopology stored_demo_db = None" "mg_version stored_demo_db = ''4.2.3''"
    "mg_namespace stored_demo_db = ''demo''" "OffshootName stored_demo_db = ''mg''"
    by (simp_all add: stored_demo_db_def demo_op_defs OffshootName_def)
  have plan: "workload_plan ?E stored_demo_db demo_op_version False = Some ?opts"
    by (simp add: workload_plan_def parts db(1,2))
  have tidy: "tidy_db stored_demo_db empty_template"
    by (simp add: tidy_db_def empty_template_def stored_demo_db_def demo_op_defs init_script_def)
  have "wo_podTemplate ?opts = Some empty_template" "wo_stsName ?opts = ''mg''"
    by (simp_all add: standalone_options_def db)
  then have kept: "keeps_workload ?E (planned_db stored_demo_db ?opts) demo_op_version ?opts"
    using made by (auto simp: keeps_workload_def kept_api_def planned_db_def Let_def
        intro!: exI [of _ "new_stateful_set (''demo'', ''mg'')"] simp: new_stateful_set_def)
  have "workload_reads stored_demo_db ?opts =
      [OGet OStatefulSet (''demo'', ''mg''), OGetVersion ''4.2.3'', OGet OStatefulSet (''demo'', ''mg'')]"
    by (simp add: workload_reads_def standalone_options_def db Let_def)
  moreover have "odb (op_start stored_demo_db) = stored_demo_db" "calls (op_start stored_demo_db) = []"
    by (simp_all add: op_start_def)
  ultimately show ?thesis
    using workload_settles [OF plan db(1) tidy db(3) kept, of "op_start stored_demo_db"] first
    by (simp add: demo_sts_env db(4)) blast
qed

end
