(* ===== verification/OpQuietPass.thy ===== *)
theory OpQuietPass
  imports OpWorkloadPass
begin

text \<open>
  A whole pass at rest: over an unsharded database that is set up, \<open>create\<close> ends without an error
  after calls that read. The parts are those of \<open>OpSettles\<close> (services and permissions) and
  \<open>OpWorkloadPass\<close> (the StatefulSet), and here the secrets, the application binding and the end.
\<close>

section \<open>Calls that change nothing\<close>

text \<open>Beside the reads: the disruption budget is handed to the library, which creates or patches it
  as it finds it, and a patch of the database between equal objects is empty.\<close>

definition reads_only :: "op_call \<Rightarrow> bool" where
  "reads_only c \<longleftrightarrow>
     (case c of
        OGet k key \<Rightarrow> True
      | OGetVersion v \<Rightarrow> True
      | OValidate key \<Rightarrow> True
      | OCreatePDB key \<Rightarrow> True
      | OPatchDB old new \<Rightarrow> old = new
      | _ \<Rightarrow> False)"

lemma reads_only_simps [simp]:
  "reads_only (OGet k key)" "reads_only (OGetVersion ver)" "reads_only (OValidate key)"
  "reads_only (OCreatePDB key)" "reads_only (OPatchDB db db)"
  by (simp_all add: reads_only_def)

text \<open>\<open>quietly s db t\<close>: from \<open>s\<close> to \<open>t\<close> only such calls were made, and the database is now \<open>db\<close>.\<close>

definition quietly :: "op_state \<Rightarrow> mongodb \<Rightarrow> op_state \<Rightarrow> bool" where
  "quietly s db t \<longleftrightarrow> odb t = db \<and> (\<exists>cs. calls t = calls s @ cs \<and> (\<forall>c \<in> set cs. reads_only c))"

lemma quietly_refl [simp]: "odb s = db \<Longrightarrow> quietly s db s"
  by (simp add: quietly_def)

lemma quietly_call: "quietly s db t \<Longrightarrow> reads_only c \<Longrightarrow> quietly s db (t\<lparr>calls := calls t @ [c]\<rparr>)"
  unfolding quietly_def by (auto intro: exI [of _ "_ @ [c]"])


section \<open>A database at rest\<close>











section \<open>The parts of the pass\<close>




section \<open>The whole pass\<close>













end
