(* ===== verification/OpStartup.thy ===== *)
theory OpStartup
  imports OpEnv
begin

text \<open>
  How the operator starts (\<open>controller.go\<close>, \<open>config.go\<close>, \<open>initWatcher\<close> of \<open>workqueue.go\<close>): the
  controller is put together, its resource definitions, webhooks and event handlers are
  registered, and its workers start when the informer caches are filled.

  Informers, queues, webhooks, the audit library and Stash are outside the repository: each use
  of them is a call, with an arbitrary answer. The state holds the three fields of the
  controller that are nil until \<open>initWatcher\<close> has run.
\<close>

section \<open>Calls and state\<close>

datatype webhook = MutatingWebhook | ValidatingWebhook

datatype factory = KubeInformerFactory | KubedbInformerFactory

text \<open>What the event handlers of an informer are.\<close>

datatype handler = ChangeHandler | AuditHandler | SecretHandler | StatefulSetHandler

datatype worker = StatefulSetWorker | MongoDBWorker

datatype routine = StashController | HealthChecker

datatype start_call =
    SVersionSupported
  | SNewMetadataClient
  | SDetectTopology
  | SNewResourceMapper
  | SNewEventPublisher
  | SRegisterCRDs "string list"
  | SUpdateWebhook webhook string
  | SSetupSiteInfo
  | SInformer factory string
  | SNewQueue string int int
  | SAddHandler string handler
  | SStart factory
  | SWaitForCacheSync factory
  | SRun worker
  | SGo routine
  | SSyncWebhook webhook string
  | SCancel webhook
  | SWaitForStop

type_synonym shist = "start_call list"

text \<open>
  \<open>n_synced\<close>: the informers of a factory in the order the map is gone through, and whether
  each is filled; \<open>n_syncWebhook\<close>: is the cancel function that is answered not nil.
\<close>

record start_env =
  n_versionSupported :: "shist \<Rightarrow> gerr + unit"
  n_metadataClient :: "shist \<Rightarrow> gerr + unit"
  n_detectTopology :: "shist \<Rightarrow> gerr + raw"
  n_resourceMapper :: "shist \<Rightarrow> gerr + raw"
  n_registerCRDs :: "shist \<Rightarrow> string list \<Rightarrow> gerr + unit"
  n_updateWebhook :: "shist \<Rightarrow> webhook \<Rightarrow> gerr + unit"
  n_setupSiteInfo :: "shist \<Rightarrow> gerr + unit"
  n_synced :: "shist \<Rightarrow> factory \<Rightarrow> (string \<times> bool) list"
  n_syncWebhook :: "shist \<Rightarrow> webhook \<Rightarrow> bool"
  n_licenseFile :: string
  n_enableAnalytics :: bool
  n_enableMutatingWebhook :: bool
  n_enableValidatingWebhook :: bool
  n_maxNumRequeues :: int
  n_numThreads :: int

record controller =
  ct_topology :: raw
  ct_mapper :: raw
  ct_auditor :: bool
  ct_selector :: selector

record start_state = "start_call trace" +
  mgQueue :: "string option"
  mgInformer :: "string option"
  mgStsInformer :: "string option"

type_synonym 'a start_prog = "(start_state, 'a) prog"

definition at_start :: start_state where
  "at_start = \<lparr>calls = [], mgQueue = None, mgInformer = None, mgStsInformer = None\<rparr>"

definition do_call :: "start_call \<Rightarrow> unit start_prog" where
  "do_call c = perform (\<lambda>h. ()) c"

section \<open>The controller\<close>

text \<open>\<open>New\<close> of \<open>controller.go\<close>, as far as its arguments are made here.\<close>

definition New :: "raw \<Rightarrow> raw \<Rightarrow> bool \<Rightarrow> controller" where
  "New topology mapper auditor =
     \<lparr>ct_topology = topology, ct_mapper = mapper, ct_auditor = auditor,
      ct_selector = [NameLabelKey \<mapsto> ''mongodbs.kubedb.com'', ManagedByLabelKey \<mapsto> GroupName]\<rparr>"

definition MutatorGroupName :: string where "MutatorGroupName = ''mutators.'' @ GroupName"
definition ValidatorGroupName :: string where "ValidatorGroupName = ''validators.'' @ GroupName"

definition EnsureCustomResourceDefinitions :: "start_env \<Rightarrow> (gerr + unit) start_prog" where
  "EnsureCustomResourceDefinitions N =
     (let crds = [''MongoDB'', ''MongoDBVersion'', ''AppBinding'']
      in perform (\<lambda>h. n_registerCRDs N h crds) (SRegisterCRDs crds))"

definition initWatcher :: "start_env \<Rightarrow> controller \<Rightarrow> unit start_prog" where
  "initWatcher N c =
     bnd (do_call (SInformer KubedbInformerFactory ''MongoDB'')) (\<lambda>_.
     bnd (update (\<lambda>s. s\<lparr>mgInformer := Some ''MongoDB''\<rparr>)) (\<lambda>_.
     bnd (do_call (SNewQueue ResourceKindMongoDB (n_maxNumRequeues N) (n_numThreads N))) (\<lambda>_.
     bnd (update (\<lambda>s. s\<lparr>mgQueue := Some ResourceKindMongoDB\<rparr>)) (\<lambda>_.
     bnd (do_call (SAddHandler ''MongoDB'' ChangeHandler)) (\<lambda>_.
     bnd (if ct_auditor c then do_call (SAddHandler ''MongoDB'' AuditHandler) else ret ()) (\<lambda>_.
     bnd (do_call (SInformer KubeInformerFactory ''StatefulSet'')) (\<lambda>_.
       update (\<lambda>s. s\<lparr>mgStsInformer := Some ''StatefulSet''\<rparr>))))))))"

definition initSecretWatcher :: "unit start_prog" where
  "initSecretWatcher = do_call (SAddHandler ''Secret'' SecretHandler)"

text \<open>The method of a nil informer panics.\<close>

definition stsWatcher :: "unit start_prog" where
  "stsWatcher = bnd (gets mgStsInformer) (\<lambda>i.
     bnd (deref i) (\<lambda>informer. do_call (SAddHandler informer StatefulSetHandler)))"

definition Init :: "start_env \<Rightarrow> controller \<Rightarrow> (gerr + unit) start_prog" where
  "Init N c =
     bnd (initWatcher N c) (\<lambda>_. bnd initSecretWatcher (\<lambda>_. bnd stsWatcher (\<lambda>_. ret (Inr ()))))"

section \<open>The configuration\<close>

definition update_webhook :: "start_env \<Rightarrow> webhook \<Rightarrow> string \<Rightarrow> (gerr + unit) start_prog" where
  "update_webhook N w grp = perform (\<lambda>h. n_updateWebhook N h w) (SUpdateWebhook w grp)"

text \<open>\<open>OperatorConfig.New\<close>. \<open>NewForConfigOrDie\<close> panics on an error.\<close>

definition OperatorConfig_New :: "start_env \<Rightarrow> (gerr + controller) start_prog" where
  "OperatorConfig_New N =
     bndE (perform (n_versionSupported N) SVersionSupported) (\<lambda>_.
     bnd (perform (n_metadataClient N) SNewMetadataClient) (\<lambda>m.
       case m of
         Inl e \<Rightarrow> panic (error_text e)
       | Inr _ \<Rightarrow>
     bndE (perform (n_detectTopology N) SDetectTopology) (\<lambda>topology.
     bndE (perform (n_resourceMapper N) SNewResourceMapper) (\<lambda>mapper.
     let auditor = (n_licenseFile N \<noteq> '''' \<and> n_enableAnalytics N)
     in bnd (if auditor then do_call SNewEventPublisher else ret ()) (\<lambda>_.
     let ctrl = New topology mapper auditor
     in bndE (EnsureCustomResourceDefinitions N) (\<lambda>_.
     bndE (if n_enableMutatingWebhook N then update_webhook N MutatingWebhook MutatorGroupName
           else ret (Inr ())) (\<lambda>_.
     bndE (if n_enableValidatingWebhook N then update_webhook N ValidatingWebhook ValidatorGroupName
           else ret (Inr ())) (\<lambda>_.
     bndE (Init N ctrl) (\<lambda>_.
     bndE (if auditor then perform (n_setupSiteInfo N) SSetupSiteInfo else ret (Inr ())) (\<lambda>_.
       ret (Inr ctrl)))))))))))"

section \<open>Running\<close>

definition RunHealthChecker :: "unit start_prog" where
  "RunHealthChecker = do_call (SGo HealthChecker)"

definition RunControllers :: "unit start_prog" where
  "RunControllers =
     bnd (gets mgQueue) (\<lambda>q. bnd (deref q) (\<lambda>_.
     bnd (do_call (SRun MongoDBWorker)) (\<lambda>_. RunHealthChecker)))"

text \<open>The first informer that is not filled ends the process.\<close>

fun all_synced :: "(string \<times> bool) list \<Rightarrow> unit start_prog" where
  "all_synced [] = ret ()"
| "all_synced ((t, v) # rest) =
     (if v then all_synced rest else fatal (t @ '' timed out waiting for caches to sync''))"

definition wait_synced :: "start_env \<Rightarrow> factory \<Rightarrow> unit start_prog" where
  "wait_synced N f = bnd (perform (\<lambda>h. n_synced N h f) (SWaitForCacheSync f)) all_synced"

text \<open>The bundle of a webhook is kept up to date until the function returns; \<open>defer\<close> calls the
  cancel function then, and calling a nil function panics.\<close>

definition with_webhook :: "start_env \<Rightarrow> bool \<Rightarrow> webhook \<Rightarrow> string \<Rightarrow> unit start_prog \<Rightarrow> unit start_prog" where
  "with_webhook N enabled w grp rest =
     (if enabled
      then bnd (perform (\<lambda>h. n_syncWebhook N h w) (SSyncWebhook w grp)) (\<lambda>cancel.
        with_defer rest
          (if cancel then do_call (SCancel w) else panic ''nil pointer dereference''))
      else rest)"

text \<open>\<open>HandleCrash\<close> logs a panic and panics again; it changes nothing here.\<close>

definition StartAndRunControllers :: "start_env \<Rightarrow> unit start_prog" where
  "StartAndRunControllers N =
     bnd (do_call (SStart KubeInformerFactory)) (\<lambda>_.
     bnd (do_call (SStart KubedbInformerFactory)) (\<lambda>_.
     bnd (wait_synced N KubeInformerFactory) (\<lambda>_.
     bnd (wait_synced N KubedbInformerFactory) (\<lambda>_.
     bnd (do_call (SRun StatefulSetWorker)) (\<lambda>_.
     bnd (do_call (SGo StashController)) (\<lambda>_.
     bnd RunControllers (\<lambda>_.
       with_webhook N (n_enableMutatingWebhook N) MutatingWebhook MutatorGroupName
         (with_webhook N (n_enableValidatingWebhook N) ValidatingWebhook ValidatorGroupName
           (do_call SWaitForStop)))))))))"

text \<open>The operator: its configuration makes the controller, which then runs.\<close>

definition start_operator :: "start_env \<Rightarrow> (gerr + unit) start_prog" where
  "start_operator N =
     bndE (OperatorConfig_New N) (\<lambda>c. bnd (StartAndRunControllers N) (\<lambda>_. ret (Inr ())))"

section \<open>Starting up\<close>

text \<open>A factory is filled: its informers were waited for, and each of them was.\<close>

definition filled :: "start_env \<Rightarrow> factory \<Rightarrow> shist \<Rightarrow> bool" where
  "filled N f h \<longleftrightarrow> (\<exists>h1 h2. h = h1 @ SWaitForCacheSync f # h2 \<and> list_all snd (n_synced N h1 f))"

fun starts :: "start_call \<Rightarrow> bool" where
  "starts (SRun w) = True"
| "starts (SGo r) = True"
| "starts c = False"

definition handled :: "shist \<Rightarrow> bool" where
  "handled h \<longleftrightarrow> SAddHandler ''MongoDB'' ChangeHandler \<in> set h \<and>
     SAddHandler ''Secret'' SecretHandler \<in> set h \<and> SAddHandler ''StatefulSet'' StatefulSetHandler \<in> set h"

definition start_guard :: "start_env \<Rightarrow> shist \<Rightarrow> start_call \<Rightarrow> bool" where
  "start_guard N h c \<longleftrightarrow>
     (starts c \<longrightarrow> handled h \<and> filled N KubeInformerFactory h \<and> filled N KubedbInformerFactory h)"

lemma handled_append: "handled h \<Longrightarrow> handled (h @ cs)"
  by (auto simp: handled_def)

lemma filled_append: "filled N f h \<Longrightarrow> filled N f (h @ cs)"
  unfolding filled_def by fastforce

lemma filled_now: "list_all snd (n_synced N h f) \<Longrightarrow> filled N f (h @ [SWaitForCacheSync f])"
  unfolding filled_def by blast

lemma start_guard_other: "\<not> starts c \<Longrightarrow> start_guard N h c"
  by (simp add: start_guard_def)

text \<open>The constructor starts nothing, and the controller it answers has its handlers.\<close>

lemma emits_do_call [emits_intros]: "P c \<Longrightarrow> emits P (do_call c)"
  unfolding do_call_def by (rule emits_perform)

lemma New_starts_nothing: "emits (\<lambda>c. \<not> starts c) (OperatorConfig_New N)"
  unfolding OperatorConfig_New_def EnsureCustomResourceDefinitions_def update_webhook_def Init_def
    initWatcher_def initSecretWatcher_def stsWatcher_def Let_def
  by (intro emits_intros) simp_all

lemma Init_registers:
  "\<exists>cs t. Init N c s = (Done (Inr ()), t) \<and> calls t = calls s @ cs \<and> handled cs \<and> mgQueue t \<noteq> None"
  by (simp add: Init_def initWatcher_def initSecretWatcher_def stsWatcher_def do_call_def bnd_def
      perform_def update_def gets_def deref_def ret_def handled_def)

definition prepared :: "start_state \<Rightarrow> bool" where
  "prepared s \<longleftrightarrow> handled (calls s) \<and> mgQueue s \<noteq> None"

lemma prepared_call: "prepared s \<Longrightarrow> prepared (s\<lparr>calls := calls s @ [c]\<rparr>)"
  by (simp add: prepared_def handled_append)

lemma wp_Init: "(\<And>t. prepared t \<Longrightarrow> Q (Inr ()) t) \<Longrightarrow> wp (Init N c) Q C s"
  using Init_registers [of N c s]
  by (auto simp: wp_def prepared_def handled_def)

lemma New_prepared: "wp (OperatorConfig_New N) (\<lambda>r t. \<forall>c. r = Inr c \<longrightarrow> prepared t) (\<lambda>_ _. True) s"
  unfolding OperatorConfig_New_def EnsureCustomResourceDefinitions_def update_webhook_def do_call_def
  by (auto simp: wp_simps intro!: wp_Init prepared_call split: sum.split)

text \<open>Waiting for the caches.\<close>

lemma wp_all_synced: "(list_all snd r \<Longrightarrow> Q () s) \<Longrightarrow> (\<And>k. C k s) \<Longrightarrow> wp (all_synced r) Q C s"
  by (induction r rule: all_synced.induct) (simp_all add: wp_simps)

lemma wp_wait_synced:
  assumes "\<And>t. calls t = calls s @ [SWaitForCacheSync f] \<Longrightarrow> mgQueue t = mgQueue s \<Longrightarrow>
      filled N f (calls t) \<Longrightarrow> Q () t"
    and "\<And>k t. calls t = calls s @ [SWaitForCacheSync f] \<Longrightarrow> C k t"
  shows "wp (wait_synced N f) Q C s"
  unfolding wait_synced_def wp_simps
  by (rule wp_all_synced, rule assms(1), simp_all add: filled_now assms(2))

text \<open>From here on everything may be started.\<close>

definition open_for :: "start_env \<Rightarrow> start_state \<Rightarrow> bool" where
  "open_for N s \<longleftrightarrow> trace_ok (start_guard N) (calls s) \<and> handled (calls s) \<and>
     filled N KubeInformerFactory (calls s) \<and> filled N KubedbInformerFactory (calls s)"

lemma open_for_call: "open_for N s \<Longrightarrow> open_for N (s\<lparr>calls := calls s @ [c]\<rparr>)"
  by (simp add: open_for_def handled_append filled_append start_guard_def)

lemma keeps_do_call [keeps_intros]:
  "(\<And>s. I s \<Longrightarrow> I (s\<lparr>calls := calls s @ [c]\<rparr>)) \<Longrightarrow> keeps I (do_call c)"
  unfolding do_call_def by (rule keeps_perform)

lemma keeps_with_webhook:
  "keeps (open_for N) rest \<Longrightarrow> keeps (open_for N) (with_webhook N b w grp rest)"
  unfolding with_webhook_def by (intro keeps_intros open_for_call)

lemma keeps_RunControllers: "keeps (open_for N) RunControllers"
  unfolding RunControllers_def RunHealthChecker_def by (intro keeps_intros open_for_call)

lemma wp_StartAndRun:
  assumes "trace_ok (start_guard N) (calls s)" and "handled (calls s)"
  shows "wp (StartAndRunControllers N) (\<lambda>_ t. trace_ok (start_guard N) (calls t))
    (\<lambda>_ t. trace_ok (start_guard N) (calls t)) s"
proof -
  let ?run = "bnd (do_call (SRun StatefulSetWorker)) (\<lambda>_. bnd (do_call (SGo StashController)) (\<lambda>_.
    bnd RunControllers (\<lambda>_.
      with_webhook N (n_enableMutatingWebhook N) MutatingWebhook MutatorGroupName
        (with_webhook N (n_enableValidatingWebhook N) ValidatingWebhook ValidatorGroupName
          (do_call SWaitForStop)))))"
  have keeps: "keeps (open_for N) ?run"
    by (intro keeps_intros keeps_RunControllers keeps_with_webhook open_for_call)
  have run: "wp ?run (\<lambda>_ t. trace_ok (start_guard N) (calls t)) (\<lambda>_ t. trace_ok (start_guard N) (calls t)) t"
    if "open_for N t" for t
    by (rule wp_keeps [OF keeps that]) (auto simp: open_for_def)
  let ?h = "calls s @ [SStart KubeInformerFactory, SStart KubedbInformerFactory, SWaitForCacheSync KubeInformerFactory]"
  show ?thesis
    unfolding StartAndRunControllers_def do_call_def [of "SStart f" for f] wp_bnd wp_perform
    by (intro wp_wait_synced run [unfolded wp_bnd])
      (use assms filled_append [of N KubeInformerFactory ?h "[SWaitForCacheSync KubedbInformerFactory]"] in
        \<open>simp_all add: open_for_def handled_append filled_append start_guard_other trace_ok_snoc\<close>)
qed

section \<open>Properties\<close>

text \<open>C20. However the cluster answers, no worker, no Stash controller and no health checker is
  started before the handlers of databases, secrets and StatefulSets are registered and the
  caches of both informer factories were waited for and found filled.\<close>
theorem workers_start_after_sync:
  "trace_ok (start_guard N) (calls (snd (start_operator N at_start)))"
proof -
  let ?ok = "\<lambda>t. trace_ok (start_guard N) (calls t)"
  have start: "?ok at_start" by (simp add: at_start_def)
  have "keeps ?ok (OperatorConfig_New N)"
    by (rule keeps_trace_ok [OF New_starts_nothing]) (simp add: start_guard_other)
  then have "wp (OperatorConfig_New N) (\<lambda>_. ?ok) (\<lambda>_. ?ok) at_start"
    using start by (simp add: keeps_def)
  then have "wp (OperatorConfig_New N) (\<lambda>r t. ?ok t \<and> (\<forall>c. r = Inr c \<longrightarrow> prepared t)) (\<lambda>_. ?ok) at_start"
    using wp_conj [OF _ New_prepared] by (auto elim: wp_conseq)
  then have "wp (start_operator N) (\<lambda>_. ?ok) (\<lambda>_. ?ok) at_start"
    unfolding start_operator_def wp_bndE
    by (rule wp_conseq) (auto simp: wp_simps prepared_def intro!: wp_conseq [OF wp_StartAndRun] split: sum.split)
  then show ?thesis by (auto simp: wp_def split: prod.splits outcome.splits)
qed

end
